(* ===== verification/Prelude.thy ===== *)
theory Prelude
  imports Main "HOL-Library.Word" "HOL-Library.AList"
begin

text \<open>
  Shared vocabulary of the development: machine integer types, the exceptions of the C++ code as
  values, a state-and-exception action type with a weakest-precondition calculus, C++ decimal
  printing (\<open>std::to_string\<close>), and byte-array primitives with explicit bounds.
\<close>

unbundle bit_operations_syntax

section \<open>Collections of facts\<close>

named_theorems wp_simps "weakest-precondition equations of actions"
named_theorems mem_simps "reading and writing byte blocks"

section \<open>Machine types\<close>

type_synonym u8 = "8 word"
type_synonym u16 = "16 word"
type_synonym u32 = "32 word"
type_synonym i32 = "32 word"
type_synonym u64 = "64 word"
type_synonym bytes = "u8 list"
type_synonym ptr = nat

section \<open>Exceptions\<close>

text \<open>
  \<open>System_error code what\<close> is a \<open>std::system_error\<close>, the only class the handlers of the program
  catch. \<open>Logic_error\<close> is any other C++ exception (\<open>std::out_of_range\<close>,
  \<open>std::invalid_argument\<close>), \<open>Fatal\<close> is a process abort, \<open>Undefined\<close> marks undefined behaviour
  (an access outside an allocated block, a dangling iterator).
\<close>

datatype exn =
    System_error (err_code: int) (err_what: string)
  | Logic_error string
  | Fatal string
  | Undefined

fun is_system_error :: "exn \<Rightarrow> bool" where
  "is_system_error (System_error c w) = True"
| "is_system_error (Logic_error w) = False"
| "is_system_error (Fatal w) = False"
| "is_system_error Undefined = False"

section \<open>Decimal printing\<close>

fun show_nat :: "nat \<Rightarrow> string" where
  "show_nat n =
     (if n < 10 then [char_of (48 + n)] else show_nat (n div 10) @ [char_of (48 + n mod 10)])"

declare show_nat.simps [simp del]

definition show_int :: "int \<Rightarrow> string" where
  "show_int i = (if i < 0 then CHR ''-'' # show_nat (nat (- i)) else show_nat (nat i))"

fun read_digits :: "string \<Rightarrow> nat" where
  "read_digits [] = 0"
| "read_digits (c # cs) = (of_char c - 48) * 10 ^ length cs + read_digits cs"

lemma read_digits_append:
  "read_digits (xs @ ys) = read_digits xs * 10 ^ length ys + read_digits ys"
  by (induction xs) (auto simp: power_add algebra_simps)

lemma of_char_digit: "n < 10 \<Longrightarrow> of_char (char_of (48 + n) :: char) = (48 + n :: nat)"
  by (simp add: of_char_of)

lemma read_show_nat: "read_digits (show_nat n) = n"
proof (induction n rule: show_nat.induct)
  case (1 n)
  show ?case
  proof (cases "n < 10")
    case True
    then show ?thesis by (simp add: show_nat.simps [of n] of_char_digit)
  next
    case False
    have "of_char (char_of (48 + n mod 10) :: char) = (48 + n mod 10 :: nat)"
      by (rule of_char_digit) simp
    with False "1.IH" show ?thesis
      by (simp add: show_nat.simps [of n] read_digits_append)
  qed
qed

lemma show_nat_chars: "c \<in> set (show_nat n) \<Longrightarrow> 48 \<le> (of_char c :: nat) \<and> of_char c < (58 :: nat)"
proof (induction n rule: show_nat.induct)
  case (1 n)
  have d: "of_char (char_of (48 + n mod 10) :: char) = (48 + n mod 10 :: nat)"
    by (rule of_char_digit) simp
  show ?case
  proof (cases "n < 10")
    case True
    with "1.prems" show ?thesis by (simp add: show_nat.simps [of n] of_char_digit)
  next
    case False
    have m: "n mod 10 < 10" by simp
    from False "1.prems" have "c \<in> set (show_nat (n div 10)) \<or> c = char_of (48 + n mod 10)"
      by (auto simp: show_nat.simps [of n])
    then show ?thesis using "1.IH" [OF False] d m by auto
  qed
qed

lemma show_nat_nonempty [simp]: "show_nat n \<noteq> []"
  by (simp add: show_nat.simps [of n])

lemma show_nat_inj [simp]: "show_nat m = show_nat n \<longleftrightarrow> m = n"
  by (metis read_show_nat)

lemma show_nat_no_char:
  "(of_char c :: nat) < 48 \<or> 58 \<le> (of_char c :: nat) \<Longrightarrow> c \<notin> set (show_nat n)"
  using show_nat_chars [of c n] by auto

lemma show_int_inj [simp]: "show_int i = show_int j \<longleftrightarrow> i = j"
proof -
  have no: "CHR ''-'' # show_nat m \<noteq> show_nat n" for m n
  proof
    assume "CHR ''-'' # show_nat m = show_nat n"
    then have "CHR ''-'' \<in> set (show_nat n)" by (metis list.set_intros(1))
    then show False using show_nat_no_char [of "CHR ''-''" n] by simp
  qed
  show ?thesis using no [of _ _] no [of _ _, symmetric]
    by (auto simp: show_int_def)
qed

lemma show_int_no_underscore: "CHR ''_'' \<notin> set (show_int i)"
  by (auto simp: show_int_def show_nat_no_char)

lemma show_int_nonempty [simp]: "show_int i \<noteq> []"
  by (simp add: show_int_def)

text \<open>
  Every \<open>throw std::system_error(std::error_code(c, category), arg)\<close> of the program uses a code
  outside the range of the C library's error table, so \<open>what()\<close> is \<open>arg\<close> followed by the
  library's \<open>": Unknown error <c>"\<close>.
\<close>

definition sys_error :: "int \<Rightarrow> string \<Rightarrow> exn" where
  "sys_error c arg = System_error c (arg @ '': Unknown error '' @ show_int c)"

lemma sys_error_code [simp]: "err_code (sys_error c a) = c"
  by (simp add: sys_error_def)

lemma sys_error_is_system [simp]: "is_system_error (sys_error c a)"
  by (simp add: sys_error_def)

section \<open>Actions: state passing with exceptions\<close>

text \<open>An exception keeps the state changes made before it, as in the C++ code.\<close>

type_synonym ('s, 'a) act = "'s \<Rightarrow> (exn + 'a) \<times> 's"

definition ret :: "'a \<Rightarrow> ('s, 'a) act" where
  "ret a = (\<lambda>s. (Inr a, s))"

definition raise :: "exn \<Rightarrow> ('s, 'a) act" where
  "raise e = (\<lambda>s. (Inl e, s))"

definition act_bind :: "('s, 'a) act \<Rightarrow> ('a \<Rightarrow> ('s, 'b) act) \<Rightarrow> ('s, 'b) act" where
  "act_bind m f = (\<lambda>s. case m s of (Inl e, s') \<Rightarrow> (Inl e, s') | (Inr a, s') \<Rightarrow> f a s')"

definition act_seq :: "('s, unit) act \<Rightarrow> ('s, 'b) act \<Rightarrow> ('s, 'b) act" where
  "act_seq m k = act_bind m (\<lambda>_. k)"

definition gets :: "('s \<Rightarrow> 'a) \<Rightarrow> ('s, 'a) act" where
  "gets f = (\<lambda>s. (Inr (f s), s))"

definition modify :: "('s \<Rightarrow> 's) \<Rightarrow> ('s, unit) act" where
  "modify f = (\<lambda>s. (Inr (), f s))"

definition lift_exn :: "exn + 'a \<Rightarrow> ('s, 'a) act" where
  "lift_exn r = (\<lambda>s. (r, s))"

text \<open>\<open>try { m } catch (std::system_error & e) { h e }\<close>: other exceptions pass through.\<close>

definition catch_system_error :: "('s, 'a) act \<Rightarrow> (exn \<Rightarrow> ('s, 'a) act) \<Rightarrow> ('s, 'a) act" where
  "catch_system_error m h =
     (\<lambda>s. case m s of
            (Inr a, s') \<Rightarrow> (Inr a, s')
          | (Inl e, s') \<Rightarrow> (if is_system_error e then h e s' else (Inl e, s')))"

fun foreach :: "'a list \<Rightarrow> ('a \<Rightarrow> ('s, unit) act) \<Rightarrow> ('s, unit) act" where
  "foreach [] f = ret ()"
| "foreach (x # xs) f = act_seq (f x) (foreach xs f)"

subsection \<open>Weakest preconditions\<close>

definition wp :: "('s, 'a) act \<Rightarrow> ('a \<Rightarrow> 's \<Rightarrow> bool) \<Rightarrow> (exn \<Rightarrow> 's \<Rightarrow> bool) \<Rightarrow> 's \<Rightarrow> bool" where
  "wp m Q E s = (case m s of (Inr a, s') \<Rightarrow> Q a s' | (Inl e, s') \<Rightarrow> E e s')"

lemma wp_ret [wp_simps]: "wp (ret a) Q E = Q a"
  by (simp add: fun_eq_iff wp_def ret_def)

lemma wp_raise [wp_simps]: "wp (raise e) Q E = E e"
  by (simp add: fun_eq_iff wp_def raise_def)

lemma wp_bind [wp_simps]: "wp (act_bind m f) Q E = wp m (\<lambda>a. wp (f a) Q E) E"
  by (simp add: fun_eq_iff wp_def act_bind_def split: prod.splits sum.splits)

lemma wp_seq [wp_simps]: "wp (act_seq m k) Q E = wp m (\<lambda>_. wp k Q E) E"
  by (simp add: act_seq_def wp_bind)

lemma wp_gets [wp_simps]: "wp (gets f) Q E = (\<lambda>s. Q (f s) s)"
  by (simp add: fun_eq_iff wp_def gets_def)

lemma wp_modify [wp_simps]: "wp (modify f) Q E = (\<lambda>s. Q () (f s))"
  by (simp add: fun_eq_iff wp_def modify_def)

lemma wp_lift_exn [wp_simps]:
  "wp (lift_exn r) Q E = (\<lambda>s. case r of Inl e \<Rightarrow> E e s | Inr a \<Rightarrow> Q a s)"
  by (simp add: fun_eq_iff wp_def lift_exn_def split: sum.splits)

lemma wp_catch [wp_simps]:
  "wp (catch_system_error m h) Q E =
     wp m Q (\<lambda>e s'. if is_system_error e then wp (h e) Q E s' else E e s')"
  by (simp add: fun_eq_iff wp_def catch_system_error_def split: prod.splits sum.splits)

lemma wp_if [wp_simps]: "wp (if b then m else k) Q E = (if b then wp m Q E else wp k Q E)"
  by simp

lemma wp_mono:
  assumes "wp m Q E s"
    and "\<And>a s'. Q a s' \<Longrightarrow> Q' a s'" and "\<And>e s'. E e s' \<Longrightarrow> E' e s'"
  shows "wp m Q' E' s"
  using assms by (auto simp: wp_def split: prod.splits sum.splits)

lemma wp_foreach:
  assumes "I s" and "\<And>x s'. x \<in> set xs \<Longrightarrow> I s' \<Longrightarrow> wp (f x) (\<lambda>_. I) (\<lambda>_. I) s'"
  shows "wp (foreach xs f) (\<lambda>_. I) (\<lambda>_. I) s"
  using assms
proof (induction xs arbitrary: s)
  case Nil
  then show ?case by (simp add: wp_simps)
next
  case (Cons x xs)
  have step: "wp (f x) (\<lambda>_. I) (\<lambda>_. I) s" using Cons.prems by simp
  have rest: "\<And>s'. I s' \<Longrightarrow> wp (foreach xs f) (\<lambda>_. I) (\<lambda>_. I) s'"
    using Cons.IH Cons.prems(2) by simp
  show ?case by (simp add: wp_simps) (rule wp_mono [OF step], auto intro: rest)
qed

lemmas act_defs = ret_def raise_def act_bind_def act_seq_def gets_def modify_def lift_exn_def
  catch_system_error_def

subsection \<open>Results without a state\<close>

definition res_bind :: "exn + 'a \<Rightarrow> ('a \<Rightarrow> exn + 'b) \<Rightarrow> exn + 'b" where
  "res_bind r f = (case r of Inl e \<Rightarrow> Inl e | Inr a \<Rightarrow> f a)"

lemma res_bind_simps [simp]: "res_bind (Inl e) f = Inl e" "res_bind (Inr a) f = f a"
  by (simp_all add: res_bind_def)

fun map_res :: "('a \<Rightarrow> exn + 'b) \<Rightarrow> 'a list \<Rightarrow> exn + 'b list" where
  "map_res f [] = Inr []"
| "map_res f (x # xs) = res_bind (f x) (\<lambda>y. res_bind (map_res f xs) (\<lambda>ys. Inr (y # ys)))"

lemma map_res_Inr: "(\<And>x. x \<in> set xs \<Longrightarrow> f x = Inr (g x)) \<Longrightarrow> map_res f xs = Inr (map g xs)"
  by (induction xs) auto

subsection \<open>Only system errors\<close>

text \<open>
  \<open>sys_only m\<close>: whatever the state, the only exceptions of \<open>m\<close> are \<open>std::system_error\<close>s, those the
  handlers catch.
\<close>

definition sys_only :: "('s, 'a) act \<Rightarrow> bool" where
  "sys_only m \<longleftrightarrow> (\<forall>s. wp m (\<lambda>_ _. True) (\<lambda>e _. is_system_error e) s)"

lemma sys_onlyD: "sys_only m \<Longrightarrow> m s = (Inl e, s') \<Longrightarrow> is_system_error e"
  by (auto simp: sys_only_def wp_def dest!: spec [of _ s])

named_theorems sys_only_intros "actions whose only exceptions are system errors"

lemma sys_only_ret [sys_only_intros]: "sys_only (ret a)"
  by (simp add: sys_only_def wp_simps)

lemma sys_only_raise [sys_only_intros]: "is_system_error e \<Longrightarrow> sys_only (raise e)"
  by (simp add: sys_only_def wp_simps)

lemma sys_only_gets [sys_only_intros]: "sys_only (gets f)"
  by (simp add: sys_only_def wp_simps)

lemma sys_only_modify [sys_only_intros]: "sys_only (modify f)"
  by (simp add: sys_only_def wp_simps)

lemma sys_only_bind [sys_only_intros]:
  "sys_only m \<Longrightarrow> (\<And>a. sys_only (f a)) \<Longrightarrow> sys_only (act_bind m f)"
  by (auto simp: sys_only_def wp_simps intro: wp_mono)

lemma sys_only_seq [sys_only_intros]: "sys_only m \<Longrightarrow> sys_only k \<Longrightarrow> sys_only (act_seq m k)"
  by (simp add: act_seq_def sys_only_bind)

lemma sys_only_if [sys_only_intros]: "sys_only m \<Longrightarrow> sys_only k \<Longrightarrow> sys_only (if b then m else k)"
  by simp

lemma sys_only_lift [sys_only_intros]:
  "(\<And>e. r = Inl e \<Longrightarrow> is_system_error e) \<Longrightarrow> sys_only (lift_exn r)"
  by (cases r) (simp_all add: sys_only_def wp_simps)

lemma sys_only_catch [sys_only_intros]:
  "sys_only m \<Longrightarrow> (\<And>e. sys_only (h e)) \<Longrightarrow> sys_only (catch_system_error m h)"
  by (auto simp: sys_only_def wp_simps intro: wp_mono)

lemma sys_only_foreach [sys_only_intros]: "(\<And>x. sys_only (f x)) \<Longrightarrow> sys_only (foreach xs f)"
  by (induction xs) (auto intro: sys_only_intros)

lemma sys_only_option [sys_only_intros]:
  "sys_only m \<Longrightarrow> (\<And>a. sys_only (f a)) \<Longrightarrow> sys_only (case r of None \<Rightarrow> m | Some a \<Rightarrow> f a)"
  by (cases r) auto

text \<open>\<open>try { m } catch (std::system_error &) { throw std::system_error(code, msg) }\<close>\<close>

definition rethrow :: "int \<Rightarrow> string \<Rightarrow> ('s, 'a) act \<Rightarrow> ('s, 'a) act" where
  "rethrow code msg m = catch_system_error m (\<lambda>e. raise (sys_error code msg))"

lemma sys_only_rethrow [sys_only_intros]: "sys_only m \<Longrightarrow> sys_only (rethrow code msg m)"
  by (simp add: rethrow_def sys_only_catch sys_only_raise)

section \<open>Byte blocks\<close>

text \<open>
  A heap block is the list of its bytes. A read or a write outside it is \<open>Undefined\<close>.
\<close>

definition peek :: "bytes \<Rightarrow> nat \<Rightarrow> exn + u8" where
  "peek mem i = (if i < length mem then Inr (mem ! i) else Inl Undefined)"

definition poke :: "bytes \<Rightarrow> nat \<Rightarrow> bytes \<Rightarrow> exn + bytes" where
  "poke mem i bs =
     (if i + length bs \<le> length mem
      then Inr (take i mem @ bs @ drop (i + length bs) mem) else Inl Undefined)"

lemma poke_ok [mem_simps]:
  "i + length bs \<le> length mem \<Longrightarrow> poke mem i bs = Inr (take i mem @ bs @ drop (i + length bs) mem)"
  by (simp add: poke_def)

lemma poke_length: "poke mem i bs = Inr mem' \<Longrightarrow> length mem' = length mem"
  by (auto simp: poke_def split: if_splits)

lemma poke_at_end [mem_simps]:
  "length pre = i \<Longrightarrow> length bs \<le> length post \<Longrightarrow>
   poke (pre @ post) i bs = Inr ((pre @ bs) @ drop (length bs) post)"
  by (simp add: poke_def)

definition slice :: "bytes \<Rightarrow> nat \<Rightarrow> nat \<Rightarrow> bytes" where
  "slice mem i n = take n (drop i mem)"

lemma slice_middle [mem_simps]:
  "length pre = i \<Longrightarrow> length mid = n \<Longrightarrow> slice (pre @ mid @ post) i n = mid"
  by (simp add: slice_def)

section \<open>Lists\<close>

lemma take_drop_split: "take n xs @ drop n xs = xs"
  by simp

lemma split_at_last_sep:
  assumes eq: "xs @ [c] @ us = ys @ [c] @ vs" and "c \<notin> set us" and "c \<notin> set vs"
  shows "xs = ys \<and> us = vs"
proof -
  have tw: "takeWhile (\<lambda>x. x \<noteq> c) (rev (zs @ [c] @ ws)) = rev ws" if "c \<notin> set ws" for zs ws
    using that by (auto simp: takeWhile_append)
  have "takeWhile (\<lambda>x. x \<noteq> c) (rev (xs @ [c] @ us)) = takeWhile (\<lambda>x. x \<noteq> c) (rev (ys @ [c] @ vs))"
    by (simp only: eq)
  then have "rev us = rev vs"
    by (simp only: tw [OF assms(2)] tw [OF assms(3)])
  then have "us = vs" by simp
  with eq show ?thesis by simp
qed

section \<open>Transition systems\<close>

text \<open>
  The contract between the steps of a component and its invariant, and what it gives: the invariant
  of every state of a run. A system whose steps also lower a rank has only finite runs.
\<close>

locale transition_system =
  fixes step :: "'s \<Rightarrow> 's \<Rightarrow> bool"
    and start :: "'s \<Rightarrow> bool"
    and inv :: "'s \<Rightarrow> bool"
  assumes start_inv: "start s \<Longrightarrow> inv s"
    and step_inv: "inv s \<Longrightarrow> step s t \<Longrightarrow> inv t"
begin

lemma run_inv: "step\<^sup>*\<^sup>* s t \<Longrightarrow> inv s \<Longrightarrow> inv t"
  by (induction rule: rtranclp_induct) (auto intro: step_inv)

lemma reachable_inv: "start s \<Longrightarrow> step\<^sup>*\<^sup>* s t \<Longrightarrow> inv t"
  by (rule run_inv [OF _ start_inv])

lemma power_inv: "(step ^^ n) s t \<Longrightarrow> inv s \<Longrightarrow> inv t"
  by (rule run_inv [OF relpowp_imp_rtranclp])

end

locale ranked_system = transition_system +
  fixes rank :: "'a \<Rightarrow> nat"
  assumes step_rank: "inv s \<Longrightarrow> step s t \<Longrightarrow> rank t < rank s"
begin

lemma power_rank: "(step ^^ n) s t \<Longrightarrow> inv s \<Longrightarrow> rank t + n \<le> rank s"
proof (induction n arbitrary: t)
  case (Suc n)
  then obtain u where u: "(step ^^ n) s u" "step u t" by auto
  then show ?case using Suc.IH [OF u(1) Suc.prems(2)] step_rank [OF power_inv [OF u(1) Suc.prems(2)] u(2)] by simp
qed simp

lemma runs_bounded: "start s \<Longrightarrow> (step ^^ n) s t \<Longrightarrow> n \<le> rank s"
  using power_rank [OF _ start_inv] by fastforce

end

end
