(* ===== verification/ChatTypes.thy ===== *)
theory ChatTypes
  imports Prelude
begin

text \<open>
  The message type table (\<open>yijian/typemap.h\<close>, \<open>yijian/typemap.cxx\<close>): the enumeration
  \<open>ChatType : uint8_t\<close>, its wire codes, and the table of request types that must carry a checked
  session id.
\<close>

section \<open>ChatType\<close>

datatype ChatType =
    CT_error
  | CT_registor | CT_registorres
  | CT_login | CT_loginres | CT_loginnoti
  | CT_clientconnect | CT_clientconnectres
  | CT_clientdisconnect | CT_clientdisconnectres
  | CT_logout | CT_logoutres
  | CT_queryuser | CT_queryuserres
  | CT_queryuserversion | CT_queryuserversionres
  | CT_querynode | CT_querynoderes
  | CT_querynodeversion | CT_querynodeversionres
  | CT_addfriend | CT_addfriendres | CT_addfriendnoti
  | CT_addfriendauthorize | CT_addfriendauthorizeres | CT_addfriendauthorizenoti
  | CT_creategroup | CT_creategroupres
  | CT_groupaddmember | CT_groupaddmemberres
  | CT_nodemessage | CT_nodemessageres | CT_nodemessagenoti
  | CT_querymessage | CT_querymessageres | CT_queryonemessage
  | CT_media | CT_mediares | CT_querymedia | CT_querymediares
  | CT_serverconnect | CT_serverdisconnect
  | CT_queryaddfriendinfo | CT_queryaddfriendinfores
  | CT_ping | CT_pong
  | CT_setuserproterty | CT_setuserprotertyres

fun chat_code :: "ChatType \<Rightarrow> u8" where
  "chat_code CT_error = 0"
| "chat_code CT_registor = 1"
| "chat_code CT_registorres = 2"
| "chat_code CT_login = 3"
| "chat_code CT_loginres = 4"
| "chat_code CT_loginnoti = 5"
| "chat_code CT_clientconnect = 6"
| "chat_code CT_clientconnectres = 7"
| "chat_code CT_clientdisconnect = 8"
| "chat_code CT_clientdisconnectres = 9"
| "chat_code CT_logout = 10"
| "chat_code CT_logoutres = 11"
| "chat_code CT_queryuser = 12"
| "chat_code CT_queryuserres = 13"
| "chat_code CT_queryuserversion = 14"
| "chat_code CT_queryuserversionres = 15"
| "chat_code CT_querynode = 16"
| "chat_code CT_querynoderes = 17"
| "chat_code CT_querynodeversion = 18"
| "chat_code CT_querynodeversionres = 19"
| "chat_code CT_addfriend = 20"
| "chat_code CT_addfriendres = 21"
| "chat_code CT_addfriendnoti = 22"
| "chat_code CT_addfriendauthorize = 23"
| "chat_code CT_addfriendauthorizeres = 24"
| "chat_code CT_addfriendauthorizenoti = 25"
| "chat_code CT_creategroup = 26"
| "chat_code CT_creategroupres = 27"
| "chat_code CT_groupaddmember = 28"
| "chat_code CT_groupaddmemberres = 29"
| "chat_code CT_nodemessage = 30"
| "chat_code CT_nodemessageres = 31"
| "chat_code CT_nodemessagenoti = 32"
| "chat_code CT_querymessage = 33"
| "chat_code CT_querymessageres = 34"
| "chat_code CT_queryonemessage = 35"
| "chat_code CT_media = 36"
| "chat_code CT_mediares = 37"
| "chat_code CT_querymedia = 38"
| "chat_code CT_querymediares = 39"
| "chat_code CT_serverconnect = 42"
| "chat_code CT_serverdisconnect = 43"
| "chat_code CT_queryaddfriendinfo = 44"
| "chat_code CT_queryaddfriendinfores = 45"
| "chat_code CT_ping = 46"
| "chat_code CT_pong = 47"
| "chat_code CT_setuserproterty = 48"
| "chat_code CT_setuserprotertyres = 49"

definition all_types :: "ChatType list" where
  "all_types = [CT_error, CT_registor, CT_registorres, CT_login, CT_loginres, CT_loginnoti,
     CT_clientconnect, CT_clientconnectres, CT_clientdisconnect, CT_clientdisconnectres,
     CT_logout, CT_logoutres, CT_queryuser, CT_queryuserres, CT_queryuserversion,
     CT_queryuserversionres, CT_querynode, CT_querynoderes, CT_querynodeversion,
     CT_querynodeversionres, CT_addfriend, CT_addfriendres, CT_addfriendnoti,
     CT_addfriendauthorize, CT_addfriendauthorizeres, CT_addfriendauthorizenoti,
     CT_creategroup, CT_creategroupres, CT_groupaddmember, CT_groupaddmemberres,
     CT_nodemessage, CT_nodemessageres, CT_nodemessagenoti, CT_querymessage,
     CT_querymessageres, CT_queryonemessage, CT_media, CT_mediares, CT_querymedia,
     CT_querymediares, CT_serverconnect, CT_serverdisconnect, CT_queryaddfriendinfo,
     CT_queryaddfriendinfores, CT_ping, CT_pong, CT_setuserproterty, CT_setuserprotertyres]"

lemma all_types_UNIV: "t \<in> set all_types"
  by (cases t) (simp_all add: all_types_def)

lemma chat_code_inj: "chat_code s = chat_code t \<longleftrightarrow> s = t"
proof -
  have "distinct (map chat_code all_types)"
    by (simp add: all_types_def)
  then have "inj_on chat_code (set all_types)"
    by (simp add: distinct_map)
  then show ?thesis
    using all_types_UNIV by (auto dest: inj_onD)
qed

text \<open>
  The table \<open>check_map_\<close> and \<open>missing_check\<close>: the argument is the \<open>int32_t\<close> to which the
  callers promote the \<open>uint8_t\<close> type of a frame.
\<close>

definition check_map :: "(int \<times> bool) list" where
  "check_map = map (\<lambda>t. (uint (chat_code t), True))
     [CT_clientdisconnect, CT_logout, CT_queryuser, CT_queryuserversion, CT_querynode,
      CT_addfriend, CT_addfriendauthorize, CT_creategroup, CT_groupaddmember, CT_nodemessage,
      CT_querymessage, CT_queryonemessage, CT_media, CT_querymedia, CT_setuserproterty]"

definition missing_check :: "int \<Rightarrow> bool" where
  "missing_check type = (map_of check_map type \<noteq> None)"

text \<open>\<open>missing_check\<close> as its callers apply it, to the type byte of a frame.\<close>

abbreviation missing_check8 :: "u8 \<Rightarrow> bool" where
  "missing_check8 t \<equiv> missing_check (uint t)"

lemma missing_check_iff:
  "missing_check type \<longleftrightarrow>
     type \<in> {8, 10, 12, 14, 16, 20, 23, 26, 28, 30, 33, 35, 36, 38, 48}"
  by (auto simp: missing_check_def check_map_def)

end
