(* ===== verification/Buffer.thy ===== *)
theory Buffer
  imports Prelude
begin

text \<open>
  \<open>yijian/buffer_yi.h\<close> and \<open>yijian/buffer_yi.cxx\<close>: the transfer buffer. One buffer holds one
  frame: two bytes of session id (big endian, the top bit marks the last frame of a message), one
  type byte, a base-128 length of one or two bytes, the payload. Pointers into the block are
  offsets from \<open>header_pos_\<close>; \<open>size_t\<close> counts that can wrap are words. The OpenSSL calls
  are parameters.
\<close>

section \<open>Constants and data\<close>

definition MinSessionID :: u16 where "MinSessionID = 100"
definition MaxSessionID :: u16 where "MaxSessionID = 32767"
definition MSG_TYPE_LENGTH :: nat where "MSG_TYPE_LENGTH = 1"
definition VAR_LENGTH :: nat where "VAR_LENGTH = 2"
definition SESSIONID_LENGTH :: nat where "SESSIONID_LENGTH = 2"
definition PADDING_LENGTH :: nat where
  "PADDING_LENGTH = SESSIONID_LENGTH + MSG_TYPE_LENGTH + VAR_LENGTH"
definition BufferLastFlag :: u16 where "BufferLastFlag = 32768"

lemmas buffer_consts = MinSessionID_def MaxSessionID_def MSG_TYPE_LENGTH_def VAR_LENGTH_def
  SESSIONID_LENGTH_def PADDING_LENGTH_def BufferLastFlag_def

datatype Message_Type = MT_message | MT_multimedia

fun type_size :: "Message_Type \<Rightarrow> nat" where
  "type_size MT_message = 1024"
| "type_size MT_multimedia = 1024 * 4"

record buffer =
  b_isParseMsgReaded :: bool
  b_isParseFinish :: bool
  b_isFinish :: bool
  b_isLastBuf :: bool
  b_data_type :: u8
  b_data_encode_length :: nat
  b_data_length :: nat
  b_buffer_type :: Message_Type
  b_mem :: bytes
  b_end_pos :: nat
  b_data_pos :: nat
  b_current_pos :: nat
  b_session_id :: u16
  b_parse_length :: u8
  b_remain_data_length :: u64
  b_noread_count :: int

text \<open>
  \<open>reset\<close> and the constructor. The block comes from \<open>malloc\<close> and the scalar members without
  an initialiser are indeterminate: \<open>raw\<close> supplies them all.
\<close>

definition reset :: "buffer \<Rightarrow> buffer" where
  "reset b = b\<lparr>b_data_pos := 0, b_end_pos := 0, b_current_pos := 0,
     b_isFinish := False, b_isParseFinish := False\<rparr>"

definition buffer_ctor :: "buffer \<Rightarrow> Message_Type \<Rightarrow> buffer" where
  "buffer_ctor raw ty = reset (raw
     \<lparr>b_isParseMsgReaded := False, b_isLastBuf := False, b_buffer_type := ty,
      b_mem := take (type_size ty) (b_mem raw @ replicate (type_size ty) 0),
      b_parse_length := of_nat PADDING_LENGTH, b_noread_count := 0\<rparr>)"

definition buffer_size :: "buffer \<Rightarrow> nat" where
  "buffer_size b = b_end_pos b"

definition remain_size :: "buffer \<Rightarrow> u64" where
  "remain_size b = of_nat (type_size (b_buffer_type b)) - of_nat (buffer_size b)"

definition buffer_data :: "buffer \<Rightarrow> bytes" where
  "buffer_data b = slice (b_mem b) (b_data_pos b) (b_data_length b)"

section \<open>Variable length\<close>

text \<open>
  The decoding loop of \<open>decoding_var_length\<close>; its \<open>int multiplier\<close> is a power of 128, so the
  loop carries the exponent \<open>k\<close>.
\<close>

lemma decode_exponent:
  assumes "\<not> (128 :: nat) ^ Suc k > 128 * 128"
  shows "3 - Suc k < 3 - k"
proof -
  have "k < 2"
  proof (rule ccontr)
    assume "\<not> k < 2"
    then have "(128 :: nat) ^ 3 \<le> 128 ^ Suc k" by (intro power_increasing) auto
    with assms show False by simp
  qed
  then show ?thesis by simp
qed

function decode_loop :: "bytes \<Rightarrow> nat \<Rightarrow> nat \<Rightarrow> u32 \<Rightarrow> exn + u32 \<times> nat" where
  "decode_loop mem pos k value =
     (case peek mem pos of
        Inl e \<Rightarrow> Inl e
      | Inr encodeByte \<Rightarrow>
          let value' = value + ucast (encodeByte AND 127) * 128 ^ k in
          if (128 :: nat) ^ Suc k > 128 * 128
          then Inl (sys_error 20001 ''Malformed Remaining Length'')
          else if encodeByte AND 128 \<noteq> 0 then decode_loop mem (Suc pos) (Suc k) value'
          else Inr (value', Suc pos))"
  by pat_completeness auto
termination
proof (relation "measure (\<lambda>(mem, pos, k, value). 3 - k)", goal_cases)
  case 1
  show ?case by (rule wf_measure)
next
  case (2 mem pos k v b x)
  from 2(3) show ?case by (simp only: in_measure case_prod_conv) (rule decode_exponent)
qed

declare decode_loop.simps [simp del]

definition decoding_var_length :: "bytes \<Rightarrow> nat \<Rightarrow> exn + u32 \<times> nat" where
  "decoding_var_length mem pos = decode_loop mem pos 0 0"

fun var_length_bytes :: "nat \<Rightarrow> bytes" where
  "var_length_bytes len =
     (let encodeByte = (of_nat (len mod 128) :: u8); len' = len div 128 in
      if len' > 0 then (encodeByte OR 128) # var_length_bytes len' else [encodeByte])"

declare var_length_bytes.simps [simp del]

definition encoding_var_length :: "bytes \<Rightarrow> nat \<Rightarrow> u32 \<Rightarrow> exn + bytes \<times> nat" where
  "encoding_var_length mem pos len =
     (let bs = var_length_bytes (unat len) in
      case poke mem pos bs of Inl e \<Rightarrow> Inl e | Inr mem' \<Rightarrow> Inr (mem', pos + length bs))"

section \<open>Building a frame\<close>

definition encoding :: "u8 \<Rightarrow> bytes \<Rightarrow> (buffer, unit) act" where
  "encoding type data =
    act_seq (modify (\<lambda>b. b\<lparr>b_data_length := length data\<rparr>))
    (if length data > 1024 - PADDING_LENGTH
     then raise (sys_error 20011 ''Malformed Length'')
     else
       act_seq (modify (\<lambda>b. b\<lparr>b_current_pos := b_current_pos b + SESSIONID_LENGTH\<rparr>))
       (act_bind (gets id) (\<lambda>b.
        act_bind (lift_exn (poke (b_mem b) (b_current_pos b) [type])) (\<lambda>mem1.
        act_bind (lift_exn (encoding_var_length mem1 (Suc (b_current_pos b)) (of_nat (length data))))
          (\<lambda>(mem2, current_end).
        act_bind (lift_exn (poke mem2 current_end data)) (\<lambda>mem3.
        modify (\<lambda>b'. b'
          \<lparr>b_mem := mem3,
           b_data_encode_length := current_end - Suc (b_current_pos b),
           b_data_pos := current_end,
           b_remain_data_length :=
             of_nat (SESSIONID_LENGTH + 1 + (current_end - Suc (b_current_pos b)) + length data),
           b_end_pos := current_end + length data,
           b_current_pos := 0,
           b_data_type := type\<rparr>)))))))"

text \<open>\<open>buffer::Buffer\<close>: allocate (with indeterminate contents \<open>raw\<close>) and encode.\<close>

definition Buffer_new :: "buffer \<Rightarrow> u8 \<Rightarrow> bytes \<Rightarrow> exn + buffer" where
  "Buffer_new raw type data =
     (case encoding type data (buffer_ctor raw MT_message) of
        (Inl e, _) \<Rightarrow> Inl e
      | (Inr _, b) \<Rightarrow> Inr b)"

definition makeReWrite :: "buffer \<Rightarrow> buffer" where
  "makeReWrite b = b\<lparr>b_current_pos := 0,
     b_remain_data_length := of_nat (SESSIONID_LENGTH + 1 + b_data_encode_length b + b_data_length b)\<rparr>"

text \<open>\<open>htons\<close> followed by a two-byte copy stores the most significant byte first.\<close>

definition u16_bytes :: "u16 \<Rightarrow> bytes" where
  "u16_bytes w = [ucast (drop_bit 8 w), ucast w]"

definition bytes_u16 :: "u8 \<Rightarrow> u8 \<Rightarrow> u16" where
  "bytes_u16 hi lo = push_bit 8 (ucast hi) OR ucast lo"

text \<open>An id above \<open>MaxSessionID\<close> is only logged.\<close>

definition set_sessionid :: "u16 \<Rightarrow> bool \<Rightarrow> (buffer, unit) act" where
  "set_sessionid sessionid isLast =
     act_bind (gets id) (\<lambda>b.
     let loc_sessionid = (if isLast then sessionid + BufferLastFlag else sessionid) in
     act_bind (lift_exn (poke (b_mem b) 0 (u16_bytes loc_sessionid))) (\<lambda>mem'.
     modify (\<lambda>b'. b'\<lparr>b_isLastBuf := isLast, b_mem := mem', b_session_id := sessionid\<rparr>)))"

section \<open>Socket input\<close>

datatype ssl_error =
    SSL_ERROR_ZERO_RETURN | SSL_ERROR_WANT_READ | SSL_ERROR_WANT_WRITE
  | SSL_ERROR_WANT_CONNECT | SSL_ERROR_WANT_ACCEPT | SSL_ERROR_WANT_X509_LOOKUP
  | SSL_ERROR_SYSCALL int | SSL_ERROR_other int

text \<open>
  \<open>SSL_read(ssl, pos, num)\<close> with \<open>SSL_get_error\<close> is a parameter \<open>R\<close>: from the connection and
  \<open>num\<close> (a C \<open>int\<close>) it yields the bytes read or the error; \<open>SSL_ERROR_SYSCALL\<close> comes with \<open>errno\<close>. \<open>SSL_write\<close> is a parameter \<open>W\<close>
  which is given the bytes to send.
\<close>

datatype ssl_read_result = Ssl_data bytes | Ssl_read_error ssl_error
datatype ssl_write_result = Ssl_written nat | Ssl_write_error ssl_error

type_synonym 'c ssl_reader = "'c \<Rightarrow> int \<Rightarrow> ssl_read_result \<times> 'c"
type_synonym 'c ssl_writer = "'c \<Rightarrow> bytes \<Rightarrow> ssl_write_result \<times> 'c"

definition size_as_int :: "u64 \<Rightarrow> int" where
  "size_as_int n = sint (ucast n :: 32 word)"

definition upd :: "(buffer \<Rightarrow> buffer) \<Rightarrow> (buffer \<times> 'c, unit) act" where
  "upd f = modify (apfst f)"

definition getb :: "(buffer \<Rightarrow> 'a) \<Rightarrow> (buffer \<times> 'c, 'a) act" where
  "getb f = gets (\<lambda>s. f (fst s))"

lemma wp_upd [wp_simps]: "wp (upd f) Q E = (\<lambda>s. Q () (f (fst s), snd s))"
  by (simp add: fun_eq_iff upd_def wp_simps)

lemma wp_getb [wp_simps]: "wp (getb f) Q E = (\<lambda>s. Q (f (fst s)) s)"
  by (simp add: getb_def wp_simps)

fun ssl_read_failure :: "ssl_error \<Rightarrow> exn option" where
  "ssl_read_failure SSL_ERROR_ZERO_RETURN = Some (sys_error 20005 ''connection has been closed'')"
| "ssl_read_failure SSL_ERROR_WANT_READ = Some (sys_error 20012 ''read later'')"
| "ssl_read_failure SSL_ERROR_WANT_CONNECT = None"
| "ssl_read_failure SSL_ERROR_WANT_ACCEPT = None"
| "ssl_read_failure SSL_ERROR_WANT_X509_LOOKUP = Some (sys_error 20006 ''SSL_ERROR_WANT_X509_LOOKUP'')"
| "ssl_read_failure (SSL_ERROR_SYSCALL en) = Some (sys_error 20007 ''SSL_ERROR_SYSCALL'')"
| "ssl_read_failure SSL_ERROR_WANT_WRITE = Some (sys_error 20008 ''unknow error'')"
| "ssl_read_failure (SSL_ERROR_other n) = Some (sys_error 20008 ''unknow error'')"

definition ssl_socket_read :: "'c ssl_reader \<Rightarrow> nat \<Rightarrow> u64 \<Rightarrow> (buffer \<times> 'c, nat) act" where
  "ssl_socket_read R pos count = (\<lambda>(b, c).
     case R c (size_as_int count) of
       (Ssl_data bs, c') \<Rightarrow>
         (case poke (b_mem b) pos bs of
            Inl e \<Rightarrow> (Inl e, (b, c'))
          | Inr mem' \<Rightarrow> (Inr (length bs), (b\<lparr>b_mem := mem', b_noread_count := 0\<rparr>, c')))
     | (Ssl_read_error er, c') \<Rightarrow>
         (case ssl_read_failure er of
            Some e \<Rightarrow> (Inl e, (b, c'))
          | None \<Rightarrow> (Inr 0, (b, c'))))"

text \<open>The scan for a byte without continuation bit: \<open>for (i = 0; i < loopCount; ++i)\<close>.\<close>

fun check_bits :: "bytes \<Rightarrow> nat list \<Rightarrow> exn + bool" where
  "check_bits mem [] = Inr False"
| "check_bits mem (i # is) =
     (case peek mem (SESSIONID_LENGTH + VAR_LENGTH + i) of
        Inl e \<Rightarrow> Inl e
      | Inr checkbit \<Rightarrow> if drop_bit 7 checkbit = 0 then Inr True else check_bits mem is)"

definition read_header :: "'c ssl_reader \<Rightarrow> (buffer \<times> 'c, unit) act" where
  "read_header R =
     act_bind (getb id) (\<lambda>b.
     act_bind (ssl_socket_read R (b_current_pos b) (ucast (b_parse_length b))) (\<lambda>readed.
     act_seq (upd (\<lambda>b. b\<lparr>b_current_pos := b_current_pos b + readed,
                        b_parse_length := b_parse_length b - of_nat readed\<rparr>))
     (act_bind (getb id) (\<lambda>b.
      let loopCount = b_current_pos b - SESSIONID_LENGTH - MSG_TYPE_LENGTH in
      act_bind (lift_exn (check_bits (b_mem b) [0..<loopCount])) (\<lambda>found.
      if found then upd (\<lambda>b. b\<lparr>b_isParseMsgReaded := True\<rparr>) else ret ())))))"

definition parse_header :: "(buffer \<times> 'c, unit) act" where
  "parse_header =
     act_bind (getb id) (\<lambda>b.
     act_bind (lift_exn (peek (b_mem b) 0)) (\<lambda>hi.
     act_bind (lift_exn (peek (b_mem b) 1)) (\<lambda>lo.
     let sessionid = bytes_u16 hi lo in
     act_seq
       (if sessionid \<ge> BufferLastFlag
        then upd (\<lambda>b. b\<lparr>b_isLastBuf := True, b_session_id := sessionid - BufferLastFlag\<rparr>)
        else upd (\<lambda>b. b\<lparr>b_isLastBuf := False, b_session_id := sessionid\<rparr>))
     (act_bind (lift_exn (peek (b_mem b) SESSIONID_LENGTH)) (\<lambda>ty.
      act_seq (upd (\<lambda>b. b\<lparr>b_data_type := ty\<rparr>))
      (act_bind (lift_exn (decoding_var_length (b_mem b) (SESSIONID_LENGTH + MSG_TYPE_LENGTH)))
        (\<lambda>(len, pos).
       act_seq (upd (\<lambda>b. b\<lparr>b_data_length := unat len,
                          b_data_encode_length := pos - b_data_pos b,
                          b_data_pos := pos,
                          b_remain_data_length :=
                            ucast len - (of_nat (b_current_pos b) - of_nat pos),
                          b_isParseFinish := True\<rparr>))
       (act_bind (getb id) (\<lambda>b.
        if b_remain_data_length b + of_nat PADDING_LENGTH > of_nat (type_size (b_buffer_type b))
        then raise (sys_error 20000 ''transfer data over buffer size'')
        else ret ())))))))))"

definition read_payload :: "'c ssl_reader \<Rightarrow> (buffer \<times> 'c, unit) act" where
  "read_payload R =
     act_bind (getb id) (\<lambda>b.
     act_bind (ssl_socket_read R (b_current_pos b) (b_remain_data_length b)) (\<lambda>readed.
     upd (\<lambda>b. let remain = b_remain_data_length b - of_nat readed in
       b\<lparr>b_current_pos := b_current_pos b + readed,
         b_end_pos := b_current_pos b + readed,
         b_remain_data_length := remain,
         b_isFinish := (if remain = 0 then True else b_isFinish b)\<rparr>)))"

text \<open>One turn of the \<open>do \<dots> while(isContine && !isFinish_)\<close> loop; the result is \<open>isContine\<close>.\<close>

definition read_step :: "'c ssl_reader \<Rightarrow> (buffer \<times> 'c, bool) act" where
  "read_step R =
     act_bind (getb id) (\<lambda>b.
     if \<not> b_isParseFinish b then
       act_seq (if \<not> b_isParseMsgReaded b then read_header R else ret ())
       (act_bind (getb id) (\<lambda>b.
        if b_isParseMsgReaded b then act_seq parse_header (ret True) else ret False))
     else if \<not> b_isFinish b then act_seq (read_payload R) (ret False)
     else ret False)"

primrec read_loop :: "nat \<Rightarrow> 'c ssl_reader \<Rightarrow> (buffer \<times> 'c, bool) act" where
  "read_loop 0 R = raise (Fatal ''out of fuel'')"
| "read_loop (Suc n) R =
     act_bind (read_step R) (\<lambda>isContine.
     act_bind (getb id) (\<lambda>b.
     if isContine \<and> \<not> b_isFinish b then read_loop n R else ret (b_isFinish b)))"

text \<open>\<open>bool buffer::socket_read(SSL *)\<close>: two turns are always enough (\<open>read_loop_fuel\<close>).\<close>

definition socket_read :: "'c ssl_reader \<Rightarrow> (buffer \<times> 'c, bool) act" where
  "socket_read R = read_loop 2 R"

section \<open>Socket output\<close>

fun ssl_write_failure :: "ssl_error \<Rightarrow> exn option" where
  "ssl_write_failure SSL_ERROR_ZERO_RETURN = Some (sys_error 20009 ''connection has been closed'')"
| "ssl_write_failure SSL_ERROR_WANT_WRITE = Some (sys_error 20024 ''write again now'')"
| "ssl_write_failure SSL_ERROR_WANT_CONNECT = None"
| "ssl_write_failure SSL_ERROR_WANT_ACCEPT = None"
| "ssl_write_failure SSL_ERROR_WANT_X509_LOOKUP = Some (sys_error 20020 ''SSL_ERROR_WANT_X509_LOOKUP'')"
| "ssl_write_failure (SSL_ERROR_SYSCALL en) =
     Some (sys_error 20022 (''SSL_ERROR_SYSCALL no: '' @ show_int en))"
| "ssl_write_failure SSL_ERROR_WANT_READ = Some (sys_error 20023 (''other error no: '' @ show_int 2))"
| "ssl_write_failure (SSL_ERROR_other n) = Some (sys_error 20023 (''other error no: '' @ show_int n))"

definition ssl_socket_write :: "'c ssl_writer \<Rightarrow> nat \<Rightarrow> u64 \<Rightarrow> (buffer \<times> 'c, nat) act" where
  "ssl_socket_write W pos count = (\<lambda>(b, c).
     if pos + unat count > length (b_mem b) then (Inl Undefined, (b, c))
     else case W c (slice (b_mem b) pos (unat count)) of
       (Ssl_written n, c') \<Rightarrow> (Inr n, (b, c'))
     | (Ssl_write_error er, c') \<Rightarrow>
         (case ssl_write_failure er of
            Some e \<Rightarrow> (Inl e, (b, c'))
          | None \<Rightarrow> (Inr 0, (b, c'))))"

text \<open>\<open>bool buffer::socket_write(SSL *)\<close>: \<open>current_pos_\<close> is not moved.\<close>

definition socket_write :: "'c ssl_writer \<Rightarrow> (buffer \<times> 'c, bool) act" where
  "socket_write W =
     act_bind (getb id) (\<lambda>b.
     act_bind (ssl_socket_write W (b_current_pos b) (b_remain_data_length b)) (\<lambda>n.
     act_seq (upd (\<lambda>b. b\<lparr>b_remain_data_length := b_remain_data_length b - of_nat n\<rparr>))
     (act_seq (upd (\<lambda>b. b\<lparr>b_isFinish := (b_remain_data_length b = 0 \<or> b_isFinish b)\<rparr>))
      (getb b_isFinish))))"

end
