(* ===== verification/Framing.thy ===== *)
theory Framing
  imports Buffer
begin

text \<open>
  Frames on the wire: what \<open>encoding\<close> and \<open>set_sessionid\<close> put into the block, what
  \<open>socket_read\<close> makes of those bytes, and the cutting of one serialised message into frames
  (\<open>yijianBuffer\<close> of \<open>yijian/buffer_yi_util.hpp\<close>).
\<close>

section \<open>Variable length: the interface and its laws\<close>

locale length_codec =
  fixes enc :: "nat \<Rightarrow> bytes" and dec :: "bytes \<Rightarrow> nat \<Rightarrow> exn + u32 \<times> nat" and bound :: nat
  assumes bound_u32: "bound \<le> 2 ^ 32"
    and dec_enc: "n < bound \<Longrightarrow>
      dec (pre @ enc n @ post) (length pre) = Inr (of_nat n, length pre + length (enc n))"
    and enc_length: "n < bound \<Longrightarrow> 1 \<le> length (enc n) \<and> length (enc n) \<le> 2"
begin

lemma enc_prefix_free:
  assumes "m < bound" and "n < bound" and eq: "enc m @ xs = enc n @ ys"
  shows "m = n \<and> xs = ys"
proof -
  have "dec (enc m @ xs) 0 = Inr (of_nat m, length (enc m))"
    using dec_enc [OF assms(1), of "[]"] by simp
  moreover have "dec (enc n @ ys) 0 = Inr (of_nat n, length (enc n))"
    using dec_enc [OF assms(2), of "[]"] by simp
  ultimately have "(of_nat m :: u32) = of_nat n" using eq by simp
  then have "m = n"
    using assms(1,2) bound_u32 by (simp add: of_nat_inverse word_of_nat_eq_iff take_bit_nat_eq_self)
  with eq show ?thesis by simp
qed

lemma dec_value: "n < bound \<Longrightarrow> unat (of_nat n :: u32) = n"
  using bound_u32 by (simp add: unsigned_of_nat take_bit_nat_eq_self)

end

lemma seven_bit_table:
  "list_all (\<lambda>m. (of_nat m :: u8) AND 127 = of_nat m \<and> (of_nat m :: u8) AND 128 = 0
      \<and> ((of_nat m :: u8) OR 128) AND 127 = of_nat m \<and> ((of_nat m :: u8) OR 128) AND 128 = 128)
     [0..<128]"
  by code_simp

lemma seven_bits:
  assumes "m < 128"
  shows "(of_nat m :: u8) AND 127 = of_nat m" and "(of_nat m :: u8) AND 128 = 0"
    and "((of_nat m :: u8) OR 128) AND 127 = of_nat m" and "((of_nat m :: u8) OR 128) AND 128 = 128"
  using assms seven_bit_table by (auto simp: list_all_iff)

lemma var_length_short: "n < 128 \<Longrightarrow> var_length_bytes n = [of_nat n]"
  by (simp add: var_length_bytes.simps [of n])

lemma var_length_long:
  "128 \<le> n \<Longrightarrow> n < 16384 \<Longrightarrow>
   var_length_bytes n = [of_nat (n mod 128) OR 128, of_nat (n div 128)]"
  by (simp add: var_length_bytes.simps [of n] var_length_short div_greater_zero_iff)

lemma peek_append: "peek (pre @ b # post) (length pre) = Inr b"
  by (simp add: peek_def)

lemma peek_append_Suc: "peek (pre @ b # b' # post) (Suc (length pre)) = Inr b'"
  by (simp add: peek_def nth_append)

lemma decode_encode:
  assumes "n < 16384"
  shows "decoding_var_length (pre @ var_length_bytes n @ post) (length pre)
      = Inr (of_nat n, length pre + length (var_length_bytes n))"
proof (cases "n < 128")
  case True
  have "ucast (of_nat n :: u8) = (of_nat n :: u32)"
    using True by (simp add: unsigned_of_nat take_bit_nat_eq_self)
  with True show ?thesis
    by (simp add: decoding_var_length_def decode_loop.simps [of _ "length pre"] var_length_short
        peek_append seven_bits Let_def)
next
  case False
  then have v: "var_length_bytes n = [of_nat (n mod 128) OR 128, of_nat (n div 128)]"
    using assms by (simp add: var_length_long)
  have d: "n div 128 < 128" using assms by auto
  have lo: "ucast (of_nat (n mod 128) :: u8) = (of_nat (n mod 128) :: u32)"
    by (simp add: unsigned_of_nat take_bit_nat_eq_self)
  have hi: "ucast (of_nat (n div 128) :: u8) = (of_nat (n div 128) :: u32)"
    using d by (simp add: unsigned_of_nat take_bit_nat_eq_self)
  have "(of_nat (n mod 128) + of_nat (n div 128) * 128 :: u32) = of_nat (n mod 128 + n div 128 * 128)"
    by (simp only: of_nat_add of_nat_mult of_nat_numeral)
  then have sum: "(of_nat (n mod 128) + of_nat (n div 128) * 128 :: u32) = of_nat n"
    by (simp only: mod_div_mult_eq)
  have p1: "peek (pre @ (of_nat (n mod 128) OR 128) # of_nat (n div 128) # post) (length pre)
      = Inr (of_nat (n mod 128) OR 128)" by (rule peek_append)
  have p2: "peek (pre @ (of_nat (n mod 128) OR 128) # of_nat (n div 128) # post) (Suc (length pre))
      = Inr (of_nat (n div 128))" by (rule peek_append_Suc)
  show ?thesis
    using p1 p2 d
    by (simp add: decoding_var_length_def v decode_loop.simps [of _ "length pre"]
        decode_loop.simps [of _ "Suc (length pre)"] seven_bits lo hi sum Let_def)
qed

lemma var_length_bound: "n < 16384 \<Longrightarrow> 1 \<le> length (var_length_bytes n) \<and> length (var_length_bytes n) \<le> 2"
  by (cases "n < 128") (auto simp: var_length_short var_length_long)

interpretation vl: length_codec var_length_bytes decoding_var_length 16384
proof unfold_locales
  show "(16384 :: nat) \<le> 2 ^ 32" by simp
qed (simp_all only: decode_encode var_length_bound)

section \<open>The bytes of a frame\<close>

definition wire_sessionid :: "u16 \<Rightarrow> bool \<Rightarrow> u16" where
  "wire_sessionid sid isLast = (if isLast then sid + BufferLastFlag else sid)"

definition frame_bytes :: "u16 \<Rightarrow> bool \<Rightarrow> u8 \<Rightarrow> bytes \<Rightarrow> bytes" where
  "frame_bytes sid isLast type data =
     u16_bytes (wire_sessionid sid isLast) @ [type] @ var_length_bytes (length data) @ data"

lemma bytes_u16_bytes: "bytes_u16 (ucast (drop_bit 8 w)) (ucast w) = w"
  by (rule bit_word_eqI) (auto simp: bytes_u16_def bit_simps)

lemma u16_bytes_length [simp]: "length (u16_bytes w) = 2"
  by (simp add: u16_bytes_def)

lemma length_frame:
  "length (frame_bytes sid isLast type data) = 3 + length (var_length_bytes (length data)) + length data"
  by (simp add: frame_bytes_def)

definition fresh :: "buffer \<Rightarrow> bool" where
  "fresh b \<longleftrightarrow> length (b_mem b) = type_size (b_buffer_type b) \<and> b_current_pos b = 0
     \<and> b_data_pos b = 0 \<and> b_end_pos b = 0 \<and> b_parse_length b = of_nat PADDING_LENGTH
     \<and> \<not> b_isFinish b \<and> \<not> b_isParseFinish b \<and> \<not> b_isParseMsgReaded b"

lemma buffer_ctor_fresh: "fresh (buffer_ctor raw ty)"
  by (simp add: fresh_def buffer_ctor_def reset_def)

lemma buffer_ctor_type [simp]: "b_buffer_type (buffer_ctor raw ty) = ty"
  by (simp add: buffer_ctor_def reset_def)

text \<open>What \<open>encoding\<close> leaves in a new buffer, field by field.\<close>

definition encoded :: "buffer \<Rightarrow> u8 \<Rightarrow> bytes \<Rightarrow> buffer \<Rightarrow> bool" where
  "encoded b type data b' \<longleftrightarrow>
     (let v = var_length_bytes (length data); n = 3 + length v in
      b' = b\<lparr>b_mem := take 2 (b_mem b) @ [type] @ v @ data @ drop (n + length data) (b_mem b),
             b_data_length := length data, b_data_encode_length := length v, b_data_pos := n,
             b_remain_data_length := of_nat (n + length data), b_end_pos := n + length data,
             b_current_pos := 0, b_data_type := type\<rparr>)"

lemma encoding_ok:
  assumes f: "fresh b" and mt: "b_buffer_type b = MT_message" and len: "length data \<le> 1019"
  shows "\<exists>b'. encoding type data b = (Inr (), b') \<and> encoded b type data b'"
proof -
  define v where "v = var_length_bytes (length data)"
  have v2: "1 \<le> length v \<and> length v \<le> 2"
    using len vl.enc_length [of "length data"] by (simp add: v_def)
  have m: "length (b_mem b) = 1024" using f mt by (simp add: fresh_def)
  define m1 where "m1 = take 2 (b_mem b) @ [type] @ drop 3 (b_mem b)"
  have p1: "poke (b_mem b) 2 [type] = Inr m1"
    using m by (simp add: poke_def m1_def)
  define m2 where "m2 = take 2 (b_mem b) @ [type] @ v @ drop (3 + length v) (b_mem b)"
  have lv: "unat (of_nat (length data) :: u32) = length data"
    using len by (simp add: unsigned_of_nat take_bit_nat_eq_self)
  have p2: "encoding_var_length m1 3 (of_nat (length data)) = Inr (m2, 3 + length v)"
    using m v2 by (simp add: encoding_var_length_def lv Let_def v_def [symmetric] poke_def m1_def m2_def
        add.commute)
  have p3: "poke m2 (3 + length v) data
      = Inr (take 2 (b_mem b) @ [type] @ v @ data @ drop (3 + length v + length data) (b_mem b))"
    using m v2 len by (simp add: poke_def m2_def ac_simps)
  have "encoding type data b = (Inr (),
     b\<lparr>b_mem := take 2 (b_mem b) @ [type] @ v @ data @ drop (3 + length v + length data) (b_mem b),
       b_data_length := length data, b_data_encode_length := length v, b_data_pos := 3 + length v,
       b_remain_data_length := of_nat (3 + length v + length data),
       b_end_pos := 3 + length v + length data, b_current_pos := 0, b_data_type := type\<rparr>)"
    using len f p1 p2 p3
    by (simp add: encoding_def act_defs buffer_consts fresh_def eval_nat_numeral)
  then show ?thesis by (simp add: encoded_def v_def Let_def)
qed

lemma set_sessionid_ok:
  assumes "2 \<le> length (b_mem b)"
  shows "set_sessionid sid isLast b = (Inr (), b\<lparr>b_isLastBuf := isLast,
      b_mem := u16_bytes (wire_sessionid sid isLast) @ drop 2 (b_mem b), b_session_id := sid\<rparr>)"
  using assms
  by (simp add: set_sessionid_def act_defs poke_def wire_sessionid_def Let_def numeral_2_eq_2)

text \<open>A buffer holding a frame ready to be sent from its first byte.\<close>

definition holds_frame :: "buffer \<Rightarrow> u16 \<Rightarrow> bool \<Rightarrow> u8 \<Rightarrow> bytes \<Rightarrow> bool" where
  "holds_frame b sid isLast type data \<longleftrightarrow>
     take (length (frame_bytes sid isLast type data)) (b_mem b) = frame_bytes sid isLast type data
     \<and> length (b_mem b) = 1024 \<and> b_current_pos b = 0
     \<and> b_remain_data_length b = of_nat (length (frame_bytes sid isLast type data))
     \<and> buffer_data b = data \<and> b_data_type b = type \<and> b_session_id b = sid \<and> b_isLastBuf b = isLast
     \<and> b_isFinish b = False"

lemma Buffer_new_holds_frame:
  assumes len: "length data \<le> 1019"
  shows "\<exists>b b'. Buffer_new raw type data = Inr b \<and> set_sessionid sid isLast b = (Inr (), b')
      \<and> holds_frame b' sid isLast type data"
proof -
  let ?b0 = "buffer_ctor raw MT_message"
  let ?v = "var_length_bytes (length data)"
  have fr: "fresh ?b0" by (rule buffer_ctor_fresh)
  obtain b where e: "encoding type data ?b0 = (Inr (), b)" and enc: "encoded ?b0 type data b"
    using encoding_ok [OF fr _ len] by auto
  have v2: "length ?v \<le> 2" using len vl.enc_length [of "length data"] by simp
  have m0: "length (b_mem ?b0) = 1024" using fr by (simp add: fresh_def)
  define rest where "rest = drop (3 + length ?v + length data) (b_mem ?b0)"
  have mem: "b_mem b = take 2 (b_mem ?b0) @ [type] @ ?v @ data @ rest"
    using enc by (simp add: encoded_def Let_def rest_def)
  have len_mem: "length (b_mem b) = 1024"
    using m0 v2 len by (simp add: mem rest_def)
  have t2: "drop 2 (b_mem b) = [type] @ ?v @ data @ rest"
    using m0 by (simp add: mem)
  let ?b' = "b\<lparr>b_isLastBuf := isLast,
      b_mem := u16_bytes (wire_sessionid sid isLast) @ drop 2 (b_mem b), b_session_id := sid\<rparr>"
  have s: "set_sessionid sid isLast b = (Inr (), ?b')"
    using len_mem by (intro set_sessionid_ok) simp
  have mem': "b_mem ?b' = frame_bytes sid isLast type data @ rest"
    by (simp add: t2 frame_bytes_def)
  have dp: "b_data_pos b = 3 + length ?v" "b_data_length b = length data" "b_current_pos b = 0"
      "b_data_type b = type" "b_remain_data_length b = of_nat (3 + length ?v + length data)"
      "b_isFinish b = False"
    using enc fr by (simp_all add: encoded_def Let_def fresh_def)
  have "length (drop 2 (b_mem b)) = 1022" using len_mem by simp
  then have rest1021: "length ?v + (length data + length rest) = 1021" by (simp add: t2)
  have "holds_frame ?b' sid isLast type data"
    using dp len_mem t2 mem' rest1021
    by (simp add: holds_frame_def length_frame buffer_data_def slice_def frame_bytes_def)
  moreover have "Buffer_new raw type data = Inr b"
    by (simp add: Buffer_new_def e)
  ultimately show ?thesis using s by blast
qed

section \<open>Sending\<close>

lemma frame_length_1024: "length data \<le> 1019 \<Longrightarrow> length (frame_bytes sid isLast type data) \<le> 1024"
  using vl.enc_length [of "length data"] by (simp add: length_frame)

lemma unat_frame_length:
  "length data \<le> 1019 \<Longrightarrow>
   unat (of_nat (length (frame_bytes sid isLast type data)) :: u64) = length (frame_bytes sid isLast type data)"
  using frame_length_1024 [of data sid isLast type]
  by (simp add: unsigned_of_nat take_bit_nat_eq_self)

text \<open>A write that takes the whole frame sends exactly the frame and finishes the buffer.\<close>

lemma socket_write_whole:
  assumes h: "holds_frame b sid isLast type data" and len: "length data \<le> 1019"
    and w: "W c (frame_bytes sid isLast type data)
        = (Ssl_written (length (frame_bytes sid isLast type data)), c')"
  shows "\<exists>b'. socket_write W (b, c) = (Inr True, (b', c')) \<and> b_remain_data_length b' = 0
      \<and> b_current_pos b' = 0"
proof -
  let ?f = "frame_bytes sid isLast type data"
  have u: "unat (b_remain_data_length b) = length ?f"
    using h unat_frame_length [OF len] by (simp add: holds_frame_def)
  have cur: "b_current_pos b = 0" and room: "length ?f \<le> length (b_mem b)"
    and sl: "slice (b_mem b) 0 (length ?f) = ?f"
    using h frame_length_1024 [OF len] by (simp_all add: holds_frame_def slice_def)
  have z: "b_remain_data_length b - of_nat (length ?f) = 0"
    using h by (simp add: holds_frame_def)
  show ?thesis
    using u cur room sl w z
    by (simp add: socket_write_def act_defs getb_def upd_def ssl_socket_write_def)
qed

section \<open>Receiving\<close>

text \<open>The loop of \<open>socket_read\<close> never needs a third turn.\<close>

lemma read_step_continue:
  "read_step R s = (Inr True, s') \<Longrightarrow> \<not> b_isParseFinish (fst s)"
  by (auto simp: read_step_def act_defs getb_def split: if_splits prod.splits sum.splits)

lemma parse_header_finishes:
  "parse_header s = (Inr (), s') \<Longrightarrow> b_isParseFinish (fst s')"
  by (auto simp: parse_header_def act_defs getb_def upd_def Let_def
      split: if_splits prod.splits sum.splits)

lemma read_step_parsed:
  "read_step R s = (Inr True, s') \<Longrightarrow> b_isParseFinish (fst s')"
  by (auto simp: read_step_def act_defs getb_def parse_header_finishes
      split: if_splits prod.splits sum.splits)

lemma read_loop_parsed:
  "b_isParseFinish (fst s) \<Longrightarrow> read_loop (Suc (Suc n)) R s = read_loop (Suc 0) R s"
  using read_step_continue [of R s]
  by (auto simp: act_defs getb_def split: prod.splits sum.splits)

lemma read_loop_fuel: "read_loop (Suc (Suc (Suc n))) R s = read_loop 2 R s"
proof -
  have "read_loop (Suc (Suc n)) R s' = read_loop (Suc 0) R s'" if "read_step R s = (Inr True, s')" for s'
    by (rule read_loop_parsed) (rule read_step_parsed [OF that])
  then show ?thesis
    by (auto simp: numeral_2_eq_2 act_bind_def getb_def gets_def simp del: read_loop.simps(2)
        simp: read_loop.simps(2) [of "Suc (Suc n)" R] read_loop.simps(2) [of "Suc 0" R]
        split: prod.splits sum.splits)
qed

text \<open>
  \<open>delivers R c n cs\<close>: asked for \<open>n\<close> bytes and then, each time, for what is missing, the
  connection hands over the chunks \<open>cs\<close>; \<open>after\<close> is the connection then.
\<close>

fun delivers :: "'c ssl_reader \<Rightarrow> 'c \<Rightarrow> nat \<Rightarrow> bytes list \<Rightarrow> bool" where
  "delivers R c n [] \<longleftrightarrow> True"
| "delivers R c n (bs # cs) \<longleftrightarrow> fst (R c (int n)) = Ssl_data bs
     \<and> delivers R (snd (R c (int n))) (n - length bs) cs"

fun after :: "'c ssl_reader \<Rightarrow> 'c \<Rightarrow> nat \<Rightarrow> bytes list \<Rightarrow> 'c" where
  "after R c n [] = c"
| "after R c n (bs # cs) = after R (snd (R c (int n))) (n - length bs) cs"

text \<open>Successive calls of \<open>socket_read\<close>, one per readiness event, and their results.\<close>

primrec reads :: "nat \<Rightarrow> 'c ssl_reader \<Rightarrow> (buffer \<times> 'c, bool list) act" where
  "reads 0 R = ret []"
| "reads (Suc n) R =
     act_bind (socket_read R) (\<lambda>r. act_bind (reads n R) (\<lambda>rs. ret (r # rs)))"

text \<open>The buffer has parsed the header of frame \<open>f\<close> and holds its first \<open>k\<close> bytes.\<close>

definition receiving :: "buffer \<Rightarrow> u16 \<Rightarrow> bool \<Rightarrow> u8 \<Rightarrow> bytes \<Rightarrow> nat \<Rightarrow> bool" where
  "receiving b sid isLast type data k \<longleftrightarrow>
     (let f = frame_bytes sid isLast type data in
      length (b_mem b) = 1024 \<and> k \<le> length f \<and> take k (b_mem b) = take k f \<and> b_current_pos b = k
      \<and> b_remain_data_length b = of_nat (length f - k)
      \<and> b_data_pos b = length f - length data \<and> b_data_length b = length data
      \<and> b_data_type b = type \<and> b_session_id b = sid \<and> b_isLastBuf b = isLast
      \<and> b_isParseFinish b)"

lemma receiving_complete:
  assumes "receiving b sid isLast type data (length (frame_bytes sid isLast type data))"
    and len: "length data \<le> 1019"
  shows "buffer_data b = data"
proof -
  let ?f = "frame_bytes sid isLast type data"
  have t: "take (length ?f) (b_mem b) = ?f" and p: "b_data_pos b = length ?f - length data"
    and n: "b_data_length b = length data"
    using assms(1) by (simp_all add: receiving_def Let_def)
  have "b_mem b = ?f @ drop (length ?f) (b_mem b)"
    using t by (metis append_take_drop_id)
  moreover have "drop (length ?f - length data) ?f = data"
    by (simp add: frame_bytes_def)
  ultimately have "take (length data) (drop (length ?f - length data) (b_mem b)) = data"
    by (metis append_eq_conv_conj drop_append)
  then show ?thesis by (simp add: buffer_data_def slice_def p n)
qed

lemma size_as_int_small: "n \<le> 1024 \<Longrightarrow> size_as_int (of_nat n) = int n"
proof -
  assume n: "n \<le> 1024"
  have "ucast (of_nat n :: u64) = (of_nat n :: u32)"
    using n by (simp add: unsigned_of_nat take_bit_nat_eq_self)
  moreover have "sint (of_nat n :: u32) = int n"
    using n by (simp add: signed_of_nat signed_take_bit_int_eq_self)
  ultimately show ?thesis by (simp add: size_as_int_def)
qed

lemma u64_small_zero: "n \<le> 1024 \<Longrightarrow> (of_nat n :: u64) = 0 \<longleftrightarrow> n = 0"
proof -
  assume "n \<le> 1024"
  then have u: "unat (of_nat n :: u64) = n"
    by (simp add: unsigned_of_nat take_bit_nat_eq_self)
  show ?thesis
  proof
    assume "(of_nat n :: u64) = 0"
    then have "unat (of_nat n :: u64) = 0" by (simp only: unat_0)
    with u show "n = 0" by simp
  qed simp
qed

lemma socket_read_payload:
  assumes r: "receiving b sid isLast type data k" and nf: "\<not> b_isFinish b"
    and len: "length data \<le> 1019"
    and d: "R c (int (length (frame_bytes sid isLast type data) - k)) = (Ssl_data bs, c')"
    and fit: "k + length bs \<le> length (frame_bytes sid isLast type data)"
    and bs: "bs = take (length bs) (drop k (frame_bytes sid isLast type data))"
  shows "\<exists>b'. socket_read R (b, c)
        = (Inr (k + length bs = length (frame_bytes sid isLast type data)), (b', c'))
      \<and> receiving b' sid isLast type data (k + length bs)
      \<and> b_isFinish b' = (k + length bs = length (frame_bytes sid isLast type data))"
proof -
  let ?f = "frame_bytes sid isLast type data"
  have f1024: "length ?f \<le> 1024" by (rule frame_length_1024 [OF len])
  have si: "size_as_int (b_remain_data_length b) = int (length ?f - k)"
    using r f1024 size_as_int_small [of "length ?f - k"]
    by (simp add: receiving_def Let_def del: of_nat_diff)
  have cur: "b_current_pos b = k" and m: "length (b_mem b) = 1024" and tk: "take k (b_mem b) = take k ?f"
    and pf: "b_isParseFinish b"
    using r by (simp_all add: receiving_def Let_def)
  define mem' where "mem' = take k (b_mem b) @ bs @ drop (k + length bs) (b_mem b)"
  have pk: "poke (b_mem b) k bs = Inr mem'"
    using fit f1024 m by (simp add: poke_def mem'_def)
  have z: "b_remain_data_length b - of_nat (length bs) = of_nat (length ?f - (k + length bs))"
    using r fit by (simp add: receiving_def Let_def of_nat_diff)
  have z0: "(of_nat (length ?f - (k + length bs)) :: u64) = 0 \<longleftrightarrow> k + length bs = length ?f"
    using fit f1024 u64_small_zero [of "length ?f - (k + length bs)"] by (auto simp del: of_nat_diff)
  have z1: "(b_remain_data_length b = of_nat (length bs)) = (k + length bs = length ?f)"
    using z z0 by (metis right_minus_eq)
  have t': "take (k + length bs) mem' = take (k + length bs) ?f"
    using bs tk m fit f1024 by (simp add: mem'_def take_add)
  let ?b' = "b\<lparr>b_mem := mem', b_noread_count := 0, b_current_pos := k + length bs,
      b_end_pos := k + length bs,
      b_remain_data_length := of_nat (length ?f - (k + length bs)),
      b_isFinish := (k + length bs = length ?f)\<rparr>"
  have "socket_read R (b, c) = (Inr (k + length bs = length ?f), (?b', c'))"
    using nf pf cur si d pk z z1
    by (simp add: socket_read_def numeral_2_eq_2 read_step_def read_payload_def act_defs getb_def
        upd_def ssl_socket_read_def Let_def)
  moreover have "length mem' = 1024" using pk m poke_length by metis
  then have "receiving ?b' sid isLast type data (k + length bs)"
    using r fit t' by (simp add: receiving_def Let_def)
  ultimately show ?thesis by (intro exI [of _ ?b']) simp
qed

text \<open>
  The first call: five header bytes arrive in one piece. \<open>check\<close> is the byte the scan of the
  code looks at first; it lies at offset 4, one past the first length byte.
\<close>

lemma frame_split5:
  assumes "2 \<le> length data" and "length data \<le> 1019"
  obtains x where "take 5 (frame_bytes sid isLast type data)
      = [ucast (drop_bit 8 (wire_sessionid sid isLast)), ucast (wire_sessionid sid isLast), type]
        @ var_length_bytes (length data) @ x"
    and "x = take (2 - length (var_length_bytes (length data))) data"
proof -
  have "1 \<le> length (var_length_bytes (length data)) \<and> length (var_length_bytes (length data)) \<le> 2"
    using assms by (simp only: vl.enc_length)
  then show ?thesis
    by (intro that [of "take (2 - length (var_length_bytes (length data))) data"])
      (auto simp: frame_bytes_def u16_bytes_def take_Cons' numeral_eq_Suc)
qed

lemma wire_sessionid_flag:
  assumes "sid \<le> MaxSessionID"
  shows "(BufferLastFlag \<le> wire_sessionid sid isLast) = isLast"
    and "isLast \<Longrightarrow> wire_sessionid sid isLast - BufferLastFlag = sid"
    and "\<not> isLast \<Longrightarrow> wire_sessionid sid isLast = sid"
proof -
  have s: "unat sid \<le> 32767"
    using assms by (simp add: MaxSessionID_def word_le_nat_alt)
  have "unat (sid + 32768) = unat sid + 32768"
    using s by (subst unat_add_lem [THEN iffD1]) auto
  then show "(BufferLastFlag \<le> wire_sessionid sid isLast) = isLast"
    using s by (auto simp: wire_sessionid_def BufferLastFlag_def word_le_nat_alt)
qed (simp_all add: wire_sessionid_def)

lemma socket_read_header:
  assumes f: "fresh b" and mt: "b_buffer_type b = MT_message"
    and len2: "2 \<le> length data" and len: "length data \<le> 1019" and sid: "sid \<le> MaxSessionID"
    and check: "drop_bit 7 (frame_bytes sid isLast type data ! 4) = 0"
    and d: "R c 5 = (Ssl_data (take 5 (frame_bytes sid isLast type data)), c')"
  shows "\<exists>b'. read_step R (b, c) = (Inr True, (b', c'))
      \<and> receiving b' sid isLast type data 5 \<and> \<not> b_isFinish b'"
proof -
  let ?f = "frame_bytes sid isLast type data"
  let ?w = "wire_sessionid sid isLast"
  let ?v = "var_length_bytes (length data)"
  obtain x where t5: "take 5 ?f = [ucast (drop_bit 8 ?w), ucast ?w, type] @ ?v @ x"
    using frame_split5 [OF len2 len, of sid isLast type] by blast
  have v2: "1 \<le> length ?v \<and> length ?v \<le> 2"
    using len by (intro vl.enc_length) simp
  have lf: "5 \<le> length ?f" using len2 v2 by (simp add: length_frame)
  have m: "length (b_mem b) = 1024" using f mt by (simp add: fresh_def)
  define mem' where "mem' = take 5 ?f @ drop 5 (b_mem b)"
  have pk: "poke (b_mem b) 0 (take 5 ?f) = Inr mem'"
    using m lf by (simp add: poke_def mem'_def)
  have m': "length mem' = 1024" using pk m poke_length by metis
  have n4: "mem' ! 4 = ?f ! 4" using lf by (simp add: mem'_def nth_append)
  have p4: "peek mem' 4 = Inr (?f ! 4)"
    using m' n4 by (simp add: peek_def)
  have mem3: "mem' = [ucast (drop_bit 8 ?w), ucast ?w, type] @ ?v @ (x @ drop 5 (b_mem b))"
    by (simp add: mem'_def t5)
  have dv: "decoding_var_length mem' 3 = Inr (of_nat (length data), 3 + length ?v)"
    using len vl.dec_enc [of "length data" "[ucast (drop_bit 8 ?w), ucast ?w, type]"
        "x @ drop 5 (b_mem b)"] by (simp add: mem3 numeral_3_eq_3)
  have p0: "peek mem' 0 = Inr (ucast (drop_bit 8 ?w))" "peek mem' (Suc 0) = Inr (ucast ?w)"
    "peek mem' 2 = Inr type"
    by (simp_all add: mem3 peek_def)
  have u: "unat (of_nat (length data) :: u32) = length data"
    and uc: "ucast (of_nat (length data) :: u32) = (of_nat (length data) :: u64)"
    using len by (simp_all add: unsigned_of_nat take_bit_nat_eq_self)
  have rem: "(of_nat (length data) - (5 - of_nat (3 + length ?v)) :: u64) = of_nat (length ?f - 5)"
    using lf by (simp add: length_frame algebra_simps of_nat_diff)
  have small: "\<not> (1024 :: u64) < 3 + (of_nat (length data) + of_nat (length ?v))"
  proof -
    have "unat (of_nat (length ?f) :: u64) = length ?f" by (rule unat_frame_length [OF len])
    moreover have "(of_nat (length ?f) :: u64) = 3 + (of_nat (length data) + of_nat (length ?v))"
      by (simp add: length_frame)
    ultimately show ?thesis
      using frame_length_1024 [OF len, of sid isLast type] by (simp add: word_less_nat_alt)
  qed
  let ?b1 = "b\<lparr>b_mem := mem', b_noread_count := 0, b_current_pos := 5, b_parse_length := 0,
      b_isParseMsgReaded := True\<rparr>"
  have start: "b_current_pos b = 0" "b_parse_length b = 5" "b_data_pos b = 0"
      "\<not> b_isParseFinish b" "\<not> b_isParseMsgReaded b" "\<not> b_isFinish b"
    using f by (simp_all add: fresh_def buffer_consts)
  have lt5: "length (take 5 ?f) = 5" using lf by simp
  have si: "size_as_int (ucast (5 :: u8)) = 5" by (simp add: size_as_int_def)
  have sr: "ssl_socket_read R 0 (ucast (5 :: u8)) (b, c)
      = (Inr 5, (b\<lparr>b_mem := mem', b_noread_count := 0\<rparr>, c'))"
    using pk lt5 by (simp only: ssl_socket_read_def case_prod_conv si d prod.case
        ssl_read_result.case sum.case)
  have rh: "read_header R (b, c) = (Inr (), (?b1, c'))"
    using start sr p4 check
    by (simp add: read_header_def act_defs getb_def upd_def buffer_consts upt_rec)
  let ?b2 = "?b1\<lparr>b_isLastBuf := isLast, b_session_id := sid, b_data_type := type,
      b_data_length := length data, b_data_encode_length := 3 + length ?v,
      b_data_pos := 3 + length ?v, b_remain_data_length := of_nat (length ?f - 5),
      b_isParseFinish := True\<rparr>"
  have ph: "parse_header (?b1, c') = (Inr (), (?b2, c'))"
    using p0 dv u uc rem small start mt wire_sessionid_flag [OF sid, of isLast]
    by (cases isLast)
      (simp_all add: parse_header_def act_defs getb_def upd_def buffer_consts Let_def
        bytes_u16_bytes del: of_nat_diff)
  have "read_step R (b, c) = (Inr True, (?b2, c'))"
    using rh ph start by (simp add: read_step_def act_defs getb_def)
  moreover have "receiving ?b2 sid isLast type data 5"
    using m' lf v2 by (simp add: receiving_def Let_def length_frame mem'_def)
  ultimately show ?thesis using start by (intro exI [of _ ?b2]) simp
qed

lemma socket_read_first:
  assumes "read_step R s = (Inr True, s')" and "\<not> b_isFinish (fst s')"
  shows "socket_read R s = socket_read R s'"
proof -
  have pf: "b_isParseFinish (fst s')" by (rule read_step_parsed [OF assms(1)])
  have "socket_read R s = read_loop 1 R s'"
    using assms by (simp add: socket_read_def numeral_2_eq_2 act_defs getb_def)
  also have "\<dots> = socket_read R s'"
    using read_loop_parsed [OF pf, of 0 R] by (simp only: socket_read_def numeral_2_eq_2 One_nat_def)
  finally show ?thesis .
qed

lemma reads_payload:
  assumes "receiving b sid isLast type data k" and "\<not> b_isFinish b" and len: "length data \<le> 1019"
    and "cs \<noteq> []" and "k + length (concat cs) = length (frame_bytes sid isLast type data)"
    and "concat cs = drop k (frame_bytes sid isLast type data)" and "[] \<notin> set cs"
    and "delivers R c (length (frame_bytes sid isLast type data) - k) cs"
  shows "\<exists>b'. reads (length cs) R (b, c)
      = (Inr (replicate (length cs - 1) False @ [True]),
         (b', after R c (length (frame_bytes sid isLast type data) - k) cs))
      \<and> receiving b' sid isLast type data (length (frame_bytes sid isLast type data))
      \<and> b_isFinish b'"
  using assms
proof (induction cs arbitrary: b c k)
  case Nil
  then show ?case by simp
next
  case (Cons bs cs)
  let ?f = "frame_bytes sid isLast type data"
  let ?c' = "snd (R c (int (length ?f - k)))"
  have d: "R c (int (length ?f - k)) = (Ssl_data bs, ?c')"
    using Cons.prems(8) by (simp add: prod_eq_iff)
  have fit: "k + length bs \<le> length ?f" using Cons.prems(5) by simp
  have bs: "bs = take (length bs) (drop k ?f)"
    using Cons.prems(6) by (metis append_eq_conv_conj concat.simps(2))
  obtain b' where sr: "socket_read R (b, c) = (Inr (k + length bs = length ?f), (b', ?c'))"
    and rc: "receiving b' sid isLast type data (k + length bs)"
    and fin: "b_isFinish b' = (k + length bs = length ?f)"
    using socket_read_payload [where R = R and c = c and c' = ?c', OF Cons.prems(1,2,3) d fit bs]
    by blast
  show ?case
  proof (cases "cs = []")
    case True
    then have "k + length bs = length ?f" using Cons.prems(5) by simp
    with True sr rc fin show ?thesis by (simp add: act_defs)
  next
    case False
    have "concat cs \<noteq> []" using False Cons.prems(7) by (cases cs) auto
    then have ne: "k + length bs \<noteq> length ?f"
      using Cons.prems(5) by (metis add.assoc add_cancel_right_right concat.simps(2) length_0_conv
          length_append)
    have cc: "concat cs = drop (k + length bs) ?f"
      using Cons.prems(6) by (metis append_eq_conv_conj concat.simps(2) drop_drop add.commute)
    have dl: "delivers R ?c' (length ?f - (k + length bs)) cs"
      using Cons.prems(8) by simp
    obtain b'' where "reads (length cs) R (b', ?c')
        = (Inr (replicate (length cs - 1) False @ [True]),
           (b'', after R ?c' (length ?f - (k + length bs)) cs))"
      and "receiving b'' sid isLast type data (length ?f) \<and> b_isFinish b''"
      using Cons.IH [OF rc _ len False _ cc _ dl] fin ne Cons.prems(5,7) by auto
    moreover have "replicate (length cs) False = False # replicate (length cs - 1) False"
      using False by (cases cs) auto
    ultimately show ?thesis
      using sr ne by (simp add: act_defs)
  qed
qed

lemma frame_received_lemma:
  assumes f: "fresh b" and mt: "b_buffer_type b = MT_message"
    and len2: "2 \<le> length data" and len: "length data \<le> 1019" and sid: "sid \<le> MaxSessionID"
    and check: "drop_bit 7 (frame_bytes sid isLast type data ! 4) = 0"
    and h: "fst (R c 5) = Ssl_data (take 5 (frame_bytes sid isLast type data))"
    and cs: "cs \<noteq> []" "concat cs = drop 5 (frame_bytes sid isLast type data)" "[] \<notin> set cs"
    and d: "delivers R (snd (R c 5)) (length (frame_bytes sid isLast type data) - 5) cs"
  shows "\<exists>b' c'. reads (length cs) R (b, c) = (Inr (replicate (length cs - 1) False @ [True]), (b', c'))
      \<and> buffer_data b' = data \<and> b_data_type b' = type \<and> b_session_id b' = sid
      \<and> b_isLastBuf b' = isLast"
proof -
  let ?f = "frame_bytes sid isLast type data"
  have R5: "R c 5 = (Ssl_data (take 5 ?f), snd (R c 5))" using h by (simp add: prod_eq_iff)
  obtain b1 where st: "read_step R (b, c) = (Inr True, (b1, snd (R c 5)))"
    and rc: "receiving b1 sid isLast type data 5" and nf: "\<not> b_isFinish b1"
    using socket_read_header [where R = R and c = c and c' = "snd (R c 5)",
        OF f mt len2 len sid check R5] by blast
  have "5 \<le> length ?f" using rc by (simp add: receiving_def Let_def)
  then have tot: "5 + length (concat cs) = length ?f" using cs(2) by simp
  obtain b' where r: "reads (length cs) R (b1, snd (R c 5))
      = (Inr (replicate (length cs - 1) False @ [True]),
         (b', after R (snd (R c 5)) (length ?f - 5) cs))"
    and rc': "receiving b' sid isLast type data (length ?f)"
    using reads_payload [OF rc nf len cs(1) tot cs(2,3) d] by blast
  have "socket_read R (b, c) = socket_read R (b1, snd (R c 5))"
    using nf by (intro socket_read_first [OF st]) simp
  then have "reads (length cs) R (b, c) = reads (length cs) R (b1, snd (R c 5))"
    using cs(1) by (cases cs) (simp_all add: act_bind_def)
  moreover have "b_data_type b' = type \<and> b_session_id b' = sid \<and> b_isLastBuf b' = isLast"
    using rc' by (simp add: receiving_def Let_def)
  ultimately show ?thesis using r receiving_complete [OF rc' len] by simp
qed

section \<open>Memory safety of the reader\<close>

text \<open>The documented contract of \<open>SSL_read\<close>: at most \<open>num\<close> bytes, and data only for \<open>num > 0\<close>.\<close>

definition ssl_reader_ok :: "'c ssl_reader \<Rightarrow> bool" where
  "ssl_reader_ok R \<longleftrightarrow> (\<forall>c n bs c'. R c n = (Ssl_data bs, c') \<longrightarrow> 0 < n \<and> int (length bs) \<le> n)"

definition buf_inv :: "buffer \<Rightarrow> bool" where
  "buf_inv b \<longleftrightarrow> b_buffer_type b = MT_message \<and> length (b_mem b) = 1024 \<and>
     (if b_isParseFinish b
      then b_isFinish b \<or> b_current_pos b + unat (b_remain_data_length b) \<le> 1024
           \<or> size_as_int (b_remain_data_length b) < 0
      else b_current_pos b + unat (b_parse_length b) = 5 \<and> \<not> b_isFinish b)"

lemma fresh_buf_inv: "buf_inv (buffer_ctor raw MT_message)"
  by (simp add: buf_inv_def buffer_ctor_def reset_def buffer_consts)

lemma check_bits_safe: "\<forall>i \<in> set js. 4 + i < length mem \<Longrightarrow> \<exists>r. check_bits mem js = Inr r"
  by (induction js) (auto simp: buffer_consts peek_def)

lemma decode_loop_safe:
  assumes "k \<le> 2" and "pos + 3 \<le> length mem + k"
  shows "(\<forall>e. decode_loop mem pos k v = Inl e \<longrightarrow> is_system_error e)
     \<and> (\<forall>len p. decode_loop mem pos k v = Inr (len, p) \<longrightarrow> pos < p \<and> p + k \<le> pos + 2)"
  using assms
proof (induction mem pos k v rule: decode_loop.induct)
  case (1 mem pos k v)
  have lt: "pos < length mem" using 1(2,3) by simp
  show ?case
  proof (cases "k = 2")
    case True
    then show ?thesis using lt by (simp add: decode_loop.simps [of mem pos] peek_def)
  next
    case False
    then have k: "k \<le> 1" using 1(2) by simp
    then have "(128 :: nat) ^ Suc k \<le> 128 ^ 2" by (intro power_increasing) auto
    then have nthrow: "\<not> (128 :: nat) ^ Suc k > 128 * 128" by (simp add: power2_eq_square)
    let ?v' = "v + ucast (mem ! pos AND 127) * 128 ^ k"
    show ?thesis
    proof (cases "mem ! pos AND 128 = 0")
      case True
      then have "decode_loop mem pos k v = Inr (?v', Suc pos)"
        using lt nthrow by (simp only: decode_loop.simps [of mem pos] peek_def if_True sum.case
            Let_def if_False simp_thms)
      then show ?thesis using k by simp
    next
      case cont: False
      then have rec: "decode_loop mem pos k v = decode_loop mem (Suc pos) (Suc k) ?v'"
        using lt nthrow by (simp only: decode_loop.simps [of mem pos k] peek_def if_True sum.case
            Let_def if_False simp_thms)
      have "(\<forall>e. decode_loop mem (Suc pos) (Suc k) ?v' = Inl e \<longrightarrow> is_system_error e)
        \<and> (\<forall>len p. decode_loop mem (Suc pos) (Suc k) ?v' = Inr (len, p) \<longrightarrow>
              Suc pos < p \<and> p + Suc k \<le> Suc pos + 2)"
        using 1(3) k by (intro "1.IH" [OF _ refl nthrow cont]) (simp_all add: peek_def lt)
      then show ?thesis unfolding rec by fastforce
    qed
  qed
qed

lemma ssl_socket_read_wp:
  assumes "\<And>bs c'. R c (size_as_int count) = (Ssl_data bs, c') \<Longrightarrow>
      pos + length bs \<le> length (b_mem b) \<and>
      Q (length bs) (b\<lparr>b_mem := take pos (b_mem b) @ bs @ drop (pos + length bs) (b_mem b),
                      b_noread_count := 0\<rparr>, c')"
    and "\<And>c'. Q 0 (b, c')" and "\<And>er e c'. ssl_read_failure er = Some e \<Longrightarrow> E e (b, c')"
  shows "wp (ssl_socket_read R pos count) Q E (b, c)"
proof (cases "R c (size_as_int count)")
  case (Pair r c')
  show ?thesis
  proof (cases r)
    case (Ssl_data bs)
    with Pair assms(1) [of bs c'] show ?thesis
      by (simp add: wp_def ssl_socket_read_def poke_ok)
  next
    case (Ssl_read_error er)
    with Pair assms(2,3) show ?thesis
      by (auto simp: wp_def ssl_socket_read_def split: option.splits)
  qed
qed

lemma ssl_read_failure_defined: "ssl_read_failure er = Some e \<Longrightarrow> is_system_error e"
  by (cases er) auto

lemma u8_less: "unat (w :: u8) < 256"
proof -
  have "unat w < 2 ^ LENGTH(8)" by (rule unsigned_less)
  then show ?thesis by simp
qed

lemma size_as_int_u8: "size_as_int (ucast (w :: u8)) = int (unat w)"
proof -
  have "unat w < 256" by (rule u8_less)
  moreover have "(ucast w :: u64) = of_nat (unat w)" by simp
  ultimately show ?thesis using size_as_int_small [of "unat w"] by simp
qed

lemma read_header_safe:
  assumes R: "ssl_reader_ok R" and i: "buf_inv b" and np: "\<not> b_isParseFinish b"
  shows "wp (read_header R) (\<lambda>_ s. buf_inv (fst s) \<and> \<not> b_isParseFinish (fst s))
     (\<lambda>e s. is_system_error e \<and> buf_inv (fst s)) (b, c)"
proof -
  have m: "length (b_mem b) = 1024" and cur: "b_current_pos b + unat (b_parse_length b) = 5"
    and ty: "b_buffer_type b = MT_message" and nf: "\<not> b_isFinish b"
    using i np by (simp_all add: buf_inv_def)
  have scan: "wp (act_bind (lift_exn (check_bits (b_mem b')
          [0..<b_current_pos b' - SESSIONID_LENGTH - MSG_TYPE_LENGTH]))
        (\<lambda>found. if found then upd (\<lambda>b. b\<lparr>b_isParseMsgReaded := True\<rparr>) else ret ()))
      (\<lambda>_ s. buf_inv (fst s) \<and> \<not> b_isParseFinish (fst s))
      (\<lambda>e s. is_system_error e \<and> buf_inv (fst s)) (b', c')"
    if "buf_inv b'" and "\<not> b_isParseFinish b'" for b' c'
  proof -
    have "b_current_pos b' \<le> 5" and "length (b_mem b') = 1024"
      using that by (simp_all add: buf_inv_def)
    then have "\<forall>i \<in> set [0..<b_current_pos b' - SESSIONID_LENGTH - MSG_TYPE_LENGTH].
        4 + i < length (b_mem b')"
      by (auto simp: buffer_consts)
    then obtain r where "check_bits (b_mem b') [0..<b_current_pos b' - SESSIONID_LENGTH - MSG_TYPE_LENGTH] = Inr r"
      using check_bits_safe by blast
    then show ?thesis using that by (cases r) (simp_all add: wp_simps buf_inv_def)
  qed
  note norm = wp_bind wp_seq wp_upd wp_getb Let_def fst_conv snd_conv id_apply
  show ?thesis
    unfolding read_header_def
  proof (simp only: norm, rule ssl_socket_read_wp, goal_cases)
    case (1 bs c')
    then have "int (length bs) \<le> size_as_int (ucast (b_parse_length b))"
      using R unfolding ssl_reader_ok_def by blast
    then have l: "length bs \<le> unat (b_parse_length b)"
      by (simp only: size_as_int_u8 of_nat_le_iff)
    have "length bs < 256" using l u8_less [of "b_parse_length b"] by simp
    then have "unat (of_nat (length bs) :: u8) = length bs"
      by (simp add: unsigned_of_nat take_bit_nat_eq_self)
    then have u: "unat (b_parse_length b - of_nat (length bs)) = unat (b_parse_length b) - length bs"
      using l by (simp add: unat_sub word_le_nat_alt)
    show ?case
    proof (rule conjI)
      show "b_current_pos b + length bs \<le> length (b_mem b)" using l m cur by simp
    qed (simp only: norm, rule scan [unfolded norm], insert l u m cur ty nf np, simp_all add: buf_inv_def)
  next
    case (2 c')
    show ?case using i np by (simp only: norm, intro scan [unfolded norm]) (simp_all add: buf_inv_def)
  next
    case (3 er e c')
    then show ?case using ssl_read_failure_defined i by simp
  qed
qed

lemma size_check:
  assumes "\<not> (1024 :: u64) < r + 5"
  shows "unat r + 5 \<le> 1024 \<or> size_as_int r < 0"
proof (cases "unat (r + 5) < 5")
  case True
  then have "unat (r + 5) \<in> {0, 1, 2, 3, 4}" by auto
  moreover have "r = of_nat (unat (r + 5)) - 5" by simp
  ultimately have "r = of_nat 0 - 5 \<or> r = of_nat 1 - 5 \<or> r = of_nat 2 - 5 \<or> r = of_nat 3 - 5 \<or> r = of_nat 4 - 5"
    by (metis empty_iff insert_iff)
  then have "size_as_int r < 0"
    by (elim disjE; simp only:; code_simp)
  then show ?thesis ..
next
  case False
  have "unat (r + 5 - 5) = unat (r + 5) - unat (5 :: u64)"
    using False by (intro unat_sub) (simp add: word_le_nat_alt)
  then have "unat r = unat (r + 5) - 5" by simp
  with False assms show ?thesis by (simp add: word_less_nat_alt)
qed

lemma parse_header_safe:
  assumes i: "buf_inv b" and np: "\<not> b_isParseFinish b"
  shows "wp parse_header (\<lambda>_ s. buf_inv (fst s) \<and> b_isParseFinish (fst s))
     (\<lambda>e s. is_system_error e \<and> (err_code e \<noteq> 20000 \<longrightarrow> buf_inv (fst s))) (b, c)"
proof -
  have m: "length (b_mem b) = 1024" and cur: "b_current_pos b \<le> 5"
    and cur': "b_current_pos b + unat (b_parse_length b) = 5" and ty: "b_buffer_type b = MT_message" and nf: "\<not> b_isFinish b"
    using i np by (simp_all add: buf_inv_def)
  have pk: "peek (b_mem b) k = Inr (b_mem b ! k)" if "k \<le> 2" for k
    using m that by (simp add: peek_def)
  have dec: "(\<forall>e. decoding_var_length (b_mem b) 3 = Inl e \<longrightarrow> is_system_error e)
      \<and> (\<forall>len p. decoding_var_length (b_mem b) 3 = Inr (len, p) \<longrightarrow> p \<le> 5)"
    using decode_loop_safe [of 0 3 "b_mem b" 0] m by (auto simp: decoding_var_length_def)
  have dec': "(case decoding_var_length (b_mem b) 3 of Inl e \<Rightarrow> is_system_error e | Inr (len, p) \<Rightarrow> p \<le> 5)"
    using dec by (auto split: sum.splits)
  show ?thesis
    using dec' m ty nf cur np cur'
    by (auto simp: parse_header_def wp_simps buffer_consts pk Let_def buf_inv_def
        dest!: size_check split: sum.splits)
qed

lemma read_payload_safe:
  assumes R: "ssl_reader_ok R" and i: "buf_inv b" and pf: "b_isParseFinish b" and nf: "\<not> b_isFinish b"
  shows "wp (read_payload R) (\<lambda>_ s. buf_inv (fst s)) (\<lambda>e s. is_system_error e \<and> buf_inv (fst s)) (b, c)"
proof -
  have m: "length (b_mem b) = 1024" and ty: "b_buffer_type b = MT_message"
    and rem: "b_current_pos b + unat (b_remain_data_length b) \<le> 1024
      \<or> size_as_int (b_remain_data_length b) < 0"
    using i pf nf by (simp_all add: buf_inv_def)
  note norm = wp_bind wp_seq wp_upd wp_getb Let_def fst_conv snd_conv id_apply
  show ?thesis
    unfolding read_payload_def
  proof (simp only: norm, rule ssl_socket_read_wp, goal_cases)
    case (1 bs c')
    then have n: "0 < size_as_int (b_remain_data_length b)"
        "int (length bs) \<le> size_as_int (b_remain_data_length b)"
      using R unfolding ssl_reader_ok_def by blast+
    then have fit: "b_current_pos b + unat (b_remain_data_length b) \<le> 1024" using rem by simp
    then have "unat (b_remain_data_length b) \<le> 1024" by simp
    then have "size_as_int (of_nat (unat (b_remain_data_length b))) = int (unat (b_remain_data_length b))"
      by (rule size_as_int_small)
    then have "size_as_int (b_remain_data_length b) = int (unat (b_remain_data_length b))"
      by (simp only: of_nat_unat ucast_id)
    then have l: "length bs \<le> unat (b_remain_data_length b)"
      using n(2) by linarith
    then have "unat (of_nat (length bs) :: u64) = length bs"
      using fit by (simp add: unsigned_of_nat take_bit_nat_eq_self)
    then have u: "unat (b_remain_data_length b - of_nat (length bs)) = unat (b_remain_data_length b) - length bs"
      using l by (simp add: unat_sub word_le_nat_alt)
    show ?case using l u m fit ty pf by (simp add: buf_inv_def)
  next
    case (2 c')
    show ?case using i pf nf by (simp add: buf_inv_def)
  next
    case (3 er e c')
    then show ?case using ssl_read_failure_defined i by simp
  qed
qed

lemma read_step_safe:
  assumes R: "ssl_reader_ok R" and i: "buf_inv (fst s)"
  shows "wp (read_step R)
     (\<lambda>k s'. buf_inv (fst s') \<and> (k \<longrightarrow> b_isParseFinish (fst s') \<and> \<not> b_isParseFinish (fst s)))
     (\<lambda>e s. is_system_error e \<and> (err_code e \<noteq> 20000 \<longrightarrow> buf_inv (fst s))) s"
proof (cases s)
  case [simp]: (Pair b c)
  show ?thesis
  proof (cases "b_isParseFinish b")
    case False
    have ph: "wp parse_header (\<lambda>_ s. buf_inv (fst s) \<and> b_isParseFinish (fst s))
        (\<lambda>e s. is_system_error e \<and> (err_code e \<noteq> 20000 \<longrightarrow> buf_inv (fst s))) s'"
      if "buf_inv (fst s') \<and> \<not> b_isParseFinish (fst s')" for s' :: "buffer \<times> 'a"
      using that by (cases s') (auto intro: wp_mono [OF parse_header_safe])
    show ?thesis
    proof (cases "b_isParseMsgReaded b")
      case True
      then show ?thesis using False i ph [of "(b, c)"]
        by (auto simp: read_step_def wp_simps elim!: wp_mono)
    next
      case nr: False
      have "buf_inv b" using i by simp
      then show ?thesis using False nr
        by (simp add: read_step_def wp_simps)
          (auto intro!: wp_mono [OF read_header_safe [OF R]] intro: ph)
    qed
  next
    case True
    show ?thesis
    proof (cases "b_isFinish b")
      case False
      then show ?thesis using True i
        by (simp add: read_step_def wp_simps) (rule wp_mono [OF read_payload_safe [OF R]], auto)
    qed (use True i in \<open>simp add: read_step_def wp_simps\<close>)
  qed
qed

lemma socket_read_safe_lemma:
  assumes R: "ssl_reader_ok R" and i: "buf_inv (fst s)"
  shows "wp (socket_read R) (\<lambda>_ s. buf_inv (fst s))
     (\<lambda>e s. is_system_error e \<and> (err_code e \<noteq> 20000 \<longrightarrow> buf_inv (fst s))) s"
proof -
  have one: "wp (read_loop 1 R) (\<lambda>_ s. buf_inv (fst s))
     (\<lambda>e s. is_system_error e \<and> (err_code e \<noteq> 20000 \<longrightarrow> buf_inv (fst s))) s'"
    if "buf_inv (fst s')" and "b_isParseFinish (fst s')" for s'
    using that(2) by (simp add: wp_simps) (rule wp_mono [OF read_step_safe [OF R that(1)]], auto)
  show ?thesis
    unfolding socket_read_def numeral_2_eq_2 read_loop.simps(2) [of "Suc 0"]
    by (simp only: wp_simps) (rule wp_mono [OF read_step_safe [OF R i]],
        auto intro: one [unfolded One_nat_def] simp del: read_loop.simps simp: wp_simps)
qed

section \<open>After an oversized header\<close>

text \<open>
  The callback only logs error 20000 and keeps the buffer, whose count of missing bytes is then the
  announced one: the next event reads up to that many bytes into the block.
\<close>

lemma oversize_overflow_lemma:
  assumes "b_isParseFinish b" and "\<not> b_isFinish b" and "length (b_mem b) = 1024"
    and "b_current_pos b \<le> 5"
    and "R c (size_as_int (b_remain_data_length b)) = (Ssl_data bs, c')"
    and "1024 < b_current_pos b + length bs"
  shows "fst (socket_read R (b, c)) = Inl Undefined"
  using assms
  by (simp add: socket_read_def numeral_2_eq_2 read_step_def act_defs getb_def read_payload_def
      ssl_socket_read_def poke_def)

section \<open>Cutting a message into frames\<close>

definition maxlength :: nat where
  "maxlength = type_size MT_message - PADDING_LENGTH"

text \<open>The loop of \<open>yijianBuffer\<close>: \<open>i\<close> counts the frames, \<open>pos\<close> is the start of the next.\<close>

function chunk_loop :: "bytes \<Rightarrow> nat \<Rightarrow> nat \<Rightarrow> bytes list" where
  "chunk_loop data_string i pos =
     (let len = (if maxlength * (i + 1) > length data_string then length data_string else maxlength);
          subContent = take len (drop pos data_string);
          pos' = pos + len in
      if pos' < length data_string then subContent # chunk_loop data_string (i + 1) pos'
      else [subContent])"
  by pat_completeness auto
termination
  by (relation "measure (\<lambda>(d, i, pos). length d - pos)")
    (auto simp: maxlength_def buffer_consts split: if_splits)

declare chunk_loop.simps [simp del]

definition chunks :: "bytes \<Rightarrow> bytes list" where
  "chunks data_string = chunk_loop data_string 0 0"

lemma maxlength_value [simp]: "maxlength = 1019"
  by (simp add: maxlength_def buffer_consts)

lemma chunk_loop_ok:
  assumes "pos = 1019 * i"
  shows "concat (chunk_loop d i pos) = drop pos d
    \<and> (\<forall>x \<in> set (chunk_loop d i pos). length x \<le> 1019) \<and> chunk_loop d i pos \<noteq> []
    \<and> (\<forall>x \<in> set (butlast (chunk_loop d i pos)). length x = 1019)"
  using assms
proof (induction d i pos rule: chunk_loop.induct)
  case (1 d i pos)
  show ?case
  proof (cases "1019 * (i + 1) < length d")
    case True
    then have e: "chunk_loop d i pos = take 1019 (drop pos d) # chunk_loop d (i + 1) (pos + 1019)"
      using 1(2) by (simp add: chunk_loop.simps [of d i])
    have ih: "concat (chunk_loop d (i + 1) (pos + 1019)) = drop (pos + 1019) d
      \<and> (\<forall>x \<in> set (chunk_loop d (i + 1) (pos + 1019)). length x \<le> 1019)
      \<and> chunk_loop d (i + 1) (pos + 1019) \<noteq> []
      \<and> (\<forall>x \<in> set (butlast (chunk_loop d (i + 1) (pos + 1019))). length x = 1019)"
      using True 1(2) by (intro "1.IH") (auto simp: Let_def)
    have "length (take 1019 (drop pos d)) = 1019" using True 1(2) by simp
    moreover have "take 1019 (drop pos d) @ drop (pos + 1019) d = drop pos d"
      by (metis add.commute append_take_drop_id drop_drop)
    ultimately show ?thesis using ih by (simp add: e)
  next
    case False
    then have "chunk_loop d i pos = [drop pos d]"
      using 1(2) by (auto simp: chunk_loop.simps [of d i] Let_def)
    then show ?thesis using False 1(2) by auto
  qed
qed

text \<open>\<open>yijianBuffer\<close>: one buffer per chunk, with the type byte of the message; \<open>raws\<close> are the
  indeterminate contents of the blocks.\<close>

fun new_buffers :: "buffer list \<Rightarrow> u8 \<Rightarrow> bytes list \<Rightarrow> exn + buffer list" where
  "new_buffers raws type [] = Inr []"
| "new_buffers [] type (c # cs) = Inl (Fatal ''bad_alloc'')"
| "new_buffers (raw # raws) type (c # cs) =
     (case Buffer_new raw type c of
        Inl e \<Rightarrow> Inl e
      | Inr b \<Rightarrow> (case new_buffers raws type cs of Inl e \<Rightarrow> Inl e | Inr bs \<Rightarrow> Inr (b # bs)))"

definition yijianBuffer :: "buffer list \<Rightarrow> u8 \<Rightarrow> bytes \<Rightarrow> exn + buffer list" where
  "yijianBuffer raws type data_string = new_buffers raws type (chunks data_string)"

text \<open>Every sender numbers the frames of a message this way, \<open>true\<close> for the last one.\<close>

fun stamp :: "u16 \<Rightarrow> buffer list \<Rightarrow> exn + buffer list" where
  "stamp sid [] = Inr []"
| "stamp sid (b # bs) =
     (case set_sessionid sid (bs = []) b of
        (Inl e, _) \<Rightarrow> Inl e
      | (Inr _, b') \<Rightarrow> (case stamp sid bs of Inl e \<Rightarrow> Inl e | Inr bs' \<Rightarrow> Inr (b' # bs')))"

lemma new_buffers_frames:
  assumes "\<forall>x \<in> set cs. length x \<le> 1019" and "length cs \<le> length raws"
  shows "\<exists>bs bs'. new_buffers raws type cs = Inr bs \<and> stamp sid bs = Inr bs' \<and> length bs = length cs
    \<and> length bs' = length cs
    \<and> (\<forall>k < length cs. holds_frame (bs' ! k) sid (Suc k = length cs) type (cs ! k))"
  using assms
proof (induction cs arbitrary: raws)
  case Nil
  then show ?case by simp
next
  case (Cons x cs)
  then obtain raw raws' where [simp]: "raws = raw # raws'" by (cases raws) auto
  obtain bs bs' where ih: "new_buffers raws' type cs = Inr bs" "stamp sid bs = Inr bs'"
      "length bs = length cs" "length bs' = length cs"
      "\<forall>k < length cs. holds_frame (bs' ! k) sid (Suc k = length cs) type (cs ! k)"
    using Cons.IH [of raws'] Cons.prems by auto
  obtain b b' where b: "Buffer_new raw type x = Inr b" "set_sessionid sid (cs = []) b = (Inr (), b')"
      "holds_frame b' sid (cs = []) type x"
    using Buffer_new_holds_frame [of x raw type sid "cs = []"] Cons.prems by auto
  have e: "(bs = []) = (cs = [])" using ih(3) by (cases bs; cases cs) auto
  have "\<forall>k < Suc (length cs). holds_frame ((b' # bs') ! k) sid (k = length cs) type ((x # cs) ! k)"
    using ih(5) b(3) by (auto simp: less_Suc_eq_0_disj)
  then show ?case using ih b e by auto
qed

end
