(* ===== verification/Messages.thy ===== *)
theory Messages
  imports ChatTypes
begin

text \<open>
  The protocol messages (\<open>yijian/protofiles/chat_message.proto\<close>) as records, with the value
  protobuf's constructor gives each (\<open>X_new\<close>), and \<open>dispatchType\<close> of \<open>yijian/typemapre.h\<close>, the
  type byte under which a message travels. Enum fields are integers, as proto3 enums are open;
  the \<open>map<string, int32>\<close> of \<open>ConnectInfo\<close> is an association list with distinct keys.
\<close>

section \<open>Messages\<close>

record Ping =
  Ping_msg :: string

definition Ping_new :: Ping where
  "Ping_new = \<lparr>Ping_msg = []\<rparr>"

record Pong =
  Pong_msg :: string

definition Pong_new :: Pong where
  "Pong_new = \<lparr>Pong_msg = []\<rparr>"

record NodeSpecifiy =
  NodeSpecifiy_toNodeID :: string

definition NodeSpecifiy_new :: NodeSpecifiy where
  "NodeSpecifiy_new = \<lparr>NodeSpecifiy_toNodeID = []\<rparr>"

record NodeUser =
  NodeUser_toUserID :: string

definition NodeUser_new :: NodeUser where
  "NodeUser_new = \<lparr>NodeUser_toUserID = []\<rparr>"

record Error =
  Error_errnum :: int
  Error_errmsg :: string

definition Error_new :: Error where
  "Error_new = \<lparr>Error_errnum = 0, Error_errmsg = []\<rparr>"

record Device =
  Device_OS :: int
  Device_deviceModel :: string
  Device_deviceNickname :: string
  Device_UUID :: string

definition Device_new :: Device where
  "Device_new = \<lparr>Device_OS = 0, Device_deviceModel = [], Device_deviceNickname = [],
     Device_UUID = []\<rparr>"

record MessageNode =
  MessageNode_id :: string
  MessageNode_authorize :: int
  MessageNode_creatorID :: string
  MessageNode_nickname :: string
  MessageNode_version :: int
  MessageNode_managerIDs :: "string list"
  MessageNode_members :: "string list"

definition MessageNode_new :: MessageNode where
  "MessageNode_new = \<lparr>MessageNode_id = [], MessageNode_authorize = 0,
     MessageNode_creatorID = [], MessageNode_nickname = [], MessageNode_version = 0,
     MessageNode_managerIDs = [], MessageNode_members = []\<rparr>"

record UserInfo =
  UserInfo_toNodeID :: string
  UserInfo_userID :: string

definition UserInfo_new :: UserInfo where
  "UserInfo_new = \<lparr>UserInfo_toNodeID = [], UserInfo_userID = []\<rparr>"

record User =
  User_id :: string
  User_realname :: string
  User_nickname :: string
  User_icon :: string
  User_description :: string
  User_isMale :: bool
  User_phoneNo :: string
  User_countryCode :: string
  User_password :: string
  User_birthday :: int
  User_version :: int
  User_friends :: "UserInfo list"
  User_blacklist :: "string list"
  User_groupNodeIDs :: "string list"
  User_devices :: "Device list"

definition User_new :: User where
  "User_new = \<lparr>User_id = [], User_realname = [], User_nickname = [], User_icon = [],
     User_description = [], User_isMale = False, User_phoneNo = [], User_countryCode = [],
     User_password = [], User_birthday = 0, User_version = 0, User_friends = [],
     User_blacklist = [], User_groupNodeIDs = [], User_devices = []\<rparr>"

record SetUserProperty =
  SetUserProperty_property :: int
  SetUserProperty_value :: string

definition SetUserProperty_new :: SetUserProperty where
  "SetUserProperty_new = \<lparr>SetUserProperty_property = 0, SetUserProperty_value = []\<rparr>"

record SetUserPropertyRes =
  SetUserPropertyRes_property :: int
  SetUserPropertyRes_value :: string

definition SetUserPropertyRes_new :: SetUserPropertyRes where
  "SetUserPropertyRes_new = \<lparr>SetUserPropertyRes_property = 0,
     SetUserPropertyRes_value = []\<rparr>"

record QueryUser =
  QueryUser_userID :: string
  QueryUser_countryCode :: string
  QueryUser_phoneNo :: string

definition QueryUser_new :: QueryUser where
  "QueryUser_new = \<lparr>QueryUser_userID = [], QueryUser_countryCode = [],
     QueryUser_phoneNo = []\<rparr>"

record QueryUserRes =
  QueryUserRes_toUserID_outer :: string
  QueryUserRes_user :: User

definition QueryUserRes_new :: QueryUserRes where
  "QueryUserRes_new = \<lparr>QueryUserRes_toUserID_outer = [],
     QueryUserRes_user = User_new\<rparr>"

record QueryUserVersion =
  QueryUserVersion_userID :: string

definition QueryUserVersion_new :: QueryUserVersion where
  "QueryUserVersion_new = \<lparr>QueryUserVersion_userID = []\<rparr>"

record QueryUserVersionRes =
  QueryUserVersionRes_userID :: string
  QueryUserVersionRes_version :: int

definition QueryUserVersionRes_new :: QueryUserVersionRes where
  "QueryUserVersionRes_new = \<lparr>QueryUserVersionRes_userID = [],
     QueryUserVersionRes_version = 0\<rparr>"

record QueryNode =
  QueryNode_toNodeID :: string

definition QueryNode_new :: QueryNode where
  "QueryNode_new = \<lparr>QueryNode_toNodeID = []\<rparr>"

record QueryNodeRes =
  QueryNodeRes_toUserID_outer :: string
  QueryNodeRes_node :: MessageNode

definition QueryNodeRes_new :: QueryNodeRes where
  "QueryNodeRes_new = \<lparr>QueryNodeRes_toUserID_outer = [],
     QueryNodeRes_node = MessageNode_new\<rparr>"

record QueryNodeVersion =
  QueryNodeVersion_toNodeID :: string

definition QueryNodeVersion_new :: QueryNodeVersion where
  "QueryNodeVersion_new = \<lparr>QueryNodeVersion_toNodeID = []\<rparr>"

record QueryNodeVersionRes =
  QueryNodeVersionRes_toNodeID :: string
  QueryNodeVersionRes_version :: int

definition QueryNodeVersionRes_new :: QueryNodeVersionRes where
  "QueryNodeVersionRes_new = \<lparr>QueryNodeVersionRes_toNodeID = [],
     QueryNodeVersionRes_version = 0\<rparr>"

record Register =
  Register_phoneNo :: string
  Register_countryCode :: string
  Register_password :: string
  Register_nickname :: string
  Register_verifycode :: string

definition Register_new :: Register where
  "Register_new = \<lparr>Register_phoneNo = [], Register_countryCode = [],
     Register_password = [], Register_nickname = [], Register_verifycode = []\<rparr>"

record RegisterRes =
  RegisterRes_userID :: string
  RegisterRes_isSuccess :: bool
  RegisterRes_e_msg :: string
  RegisterRes_e_no :: int

definition RegisterRes_new :: RegisterRes where
  "RegisterRes_new = \<lparr>RegisterRes_userID = [], RegisterRes_isSuccess = False,
     RegisterRes_e_msg = [], RegisterRes_e_no = 0\<rparr>"

record Login =
  Login_phoneNo :: string
  Login_countryCode :: string
  Login_password :: string
  Login_device :: Device

definition Login_new :: Login where
  "Login_new = \<lparr>Login_phoneNo = [], Login_countryCode = [], Login_password = [],
     Login_device = Device_new\<rparr>"

record LoginRes =
  LoginRes_isSuccess :: bool
  LoginRes_userID :: string
  LoginRes_uuid :: string
  LoginRes_e_no :: int
  LoginRes_e_msg :: string

definition LoginRes_new :: LoginRes where
  "LoginRes_new = \<lparr>LoginRes_isSuccess = False, LoginRes_userID = [], LoginRes_uuid = [],
     LoginRes_e_no = 0, LoginRes_e_msg = []\<rparr>"

record LoginNoti =
  LoginNoti_toUserID_outer :: string
  LoginNoti_UUID :: string

definition LoginNoti_new :: LoginNoti where
  "LoginNoti_new = \<lparr>LoginNoti_toUserID_outer = [], LoginNoti_UUID = []\<rparr>"

record ClientConnect =
  ClientConnect_userID :: string
  ClientConnect_UUID :: string
  ClientConnect_isReciveNoti :: bool
  ClientConnect_OSVersion :: string
  ClientConnect_appVersion :: string
  ClientConnect_clientVersion :: string

definition ClientConnect_new :: ClientConnect where
  "ClientConnect_new = \<lparr>ClientConnect_userID = [], ClientConnect_UUID = [],
     ClientConnect_isReciveNoti = False, ClientConnect_OSVersion = [],
     ClientConnect_appVersion = [], ClientConnect_clientVersion = []\<rparr>"

record ClientConnectRes =
  ClientConnectRes_UUID :: string
  ClientConnectRes_userID :: string
  ClientConnectRes_sessionid :: int
  ClientConnectRes_isSuccess :: bool
  ClientConnectRes_e_msg :: string
  ClientConnectRes_e_no :: int

definition ClientConnectRes_new :: ClientConnectRes where
  "ClientConnectRes_new = \<lparr>ClientConnectRes_UUID = [], ClientConnectRes_userID = [],
     ClientConnectRes_sessionid = 0, ClientConnectRes_isSuccess = False,
     ClientConnectRes_e_msg = [], ClientConnectRes_e_no = 0\<rparr>"

record ClientDisConnect =
  ClientDisConnect_userID :: string
  ClientDisConnect_UUID :: string

definition ClientDisConnect_new :: ClientDisConnect where
  "ClientDisConnect_new = \<lparr>ClientDisConnect_userID = [],
     ClientDisConnect_UUID = []\<rparr>"

record ClientDisConnectRes =
  ClientDisConnectRes_UUID :: string
  ClientDisConnectRes_userID :: string

definition ClientDisConnectRes_new :: ClientDisConnectRes where
  "ClientDisConnectRes_new = \<lparr>ClientDisConnectRes_UUID = [],
     ClientDisConnectRes_userID = []\<rparr>"

record Logout =
  Logout_userID :: string
  Logout_UUID :: string

definition Logout_new :: Logout where
  "Logout_new = \<lparr>Logout_userID = [], Logout_UUID = []\<rparr>"

record LogoutRes =
  LogoutRes_UUID :: string
  LogoutRes_userID :: string

definition LogoutRes_new :: LogoutRes where
  "LogoutRes_new = \<lparr>LogoutRes_UUID = [], LogoutRes_userID = []\<rparr>"

record AddFriendInfo =
  AddFriendInfo_inviter :: string
  AddFriendInfo_invitee :: string
  AddFriendInfo_toNodeID :: string

definition AddFriendInfo_new :: AddFriendInfo where
  "AddFriendInfo_new = \<lparr>AddFriendInfo_inviter = [], AddFriendInfo_invitee = [],
     AddFriendInfo_toNodeID = []\<rparr>"

record AddFriend =
  AddFriend_inviteeID :: string
  AddFriend_inviterID :: string
  AddFriend_msg :: string

definition AddFriend_new :: AddFriend where
  "AddFriend_new = \<lparr>AddFriend_inviteeID = [], AddFriend_inviterID = [],
     AddFriend_msg = []\<rparr>"

record AddFriendRes =
  AddFriendRes_inviterID :: string
  AddFriendRes_inviteeID :: string
  AddFriendRes_toNodeID :: string

definition AddFriendRes_new :: AddFriendRes where
  "AddFriendRes_new = \<lparr>AddFriendRes_inviterID = [], AddFriendRes_inviteeID = [],
     AddFriendRes_toNodeID = []\<rparr>"

record AddFriendNoti =
  AddFriendNoti_response :: AddFriendRes

definition AddFriendNoti_new :: AddFriendNoti where
  "AddFriendNoti_new = \<lparr>AddFriendNoti_response = AddFriendRes_new\<rparr>"

record AddFriendAuthorize =
  AddFriendAuthorize_inviterID :: string
  AddFriendAuthorize_inviteeID :: string
  AddFriendAuthorize_isAgree :: int

definition AddFriendAuthorize_new :: AddFriendAuthorize where
  "AddFriendAuthorize_new = \<lparr>AddFriendAuthorize_inviterID = [],
     AddFriendAuthorize_inviteeID = [], AddFriendAuthorize_isAgree = 0\<rparr>"

record AddFriendAuthorizeRes =
  AddFriendAuthorizeRes_inviterID :: string
  AddFriendAuthorizeRes_inviteeID :: string
  AddFriendAuthorizeRes_isAgree :: int

definition AddFriendAuthorizeRes_new :: AddFriendAuthorizeRes where
  "AddFriendAuthorizeRes_new = \<lparr>AddFriendAuthorizeRes_inviterID = [],
     AddFriendAuthorizeRes_inviteeID = [], AddFriendAuthorizeRes_isAgree = 0\<rparr>"

record AddFriendAuthorizeNoti =
  AddFriendAuthorizeNoti_response :: AddFriendAuthorizeRes

definition AddFriendAuthorizeNoti_new :: AddFriendAuthorizeNoti where
  "AddFriendAuthorizeNoti_new = \<lparr>
     AddFriendAuthorizeNoti_response = AddFriendAuthorizeRes_new\<rparr>"

record QueryAddfriendInfo =
  QueryAddfriendInfo_count :: int

definition QueryAddfriendInfo_new :: QueryAddfriendInfo where
  "QueryAddfriendInfo_new = \<lparr>QueryAddfriendInfo_count = 0\<rparr>"

record QueryAddfriendInfoRes =
  QueryAddfriendInfoRes_info :: "AddFriendInfo list"

definition QueryAddfriendInfoRes_new :: QueryAddfriendInfoRes where
  "QueryAddfriendInfoRes_new = \<lparr>QueryAddfriendInfoRes_info = []\<rparr>"

record CreateGroup =
  CreateGroup_userID :: string
  CreateGroup_nickname :: string
  CreateGroup_membersID :: "string list"

definition CreateGroup_new :: CreateGroup where
  "CreateGroup_new = \<lparr>CreateGroup_userID = [], CreateGroup_nickname = [],
     CreateGroup_membersID = []\<rparr>"

record CreateGroupRes =
  CreateGroupRes_toUserID_outer :: string
  CreateGroupRes_nickname :: string
  CreateGroupRes_toNodeID :: string

definition CreateGroupRes_new :: CreateGroupRes where
  "CreateGroupRes_new = \<lparr>CreateGroupRes_toUserID_outer = [], CreateGroupRes_nickname = [],
     CreateGroupRes_toNodeID = []\<rparr>"

record GroupAddMember =
  GroupAddMember_toNodeID :: string
  GroupAddMember_membersID :: "string list"

definition GroupAddMember_new :: GroupAddMember where
  "GroupAddMember_new = \<lparr>GroupAddMember_toNodeID = [],
     GroupAddMember_membersID = []\<rparr>"

record GroupAddMemberRes =
  GroupAddMemberRes_toUserID_outer :: string
  GroupAddMemberRes_toNodeID :: string

definition GroupAddMemberRes_new :: GroupAddMemberRes where
  "GroupAddMemberRes_new = \<lparr>GroupAddMemberRes_toUserID_outer = [],
     GroupAddMemberRes_toNodeID = []\<rparr>"

record NodeMessage =
  NodeMessage_id :: string
  NodeMessage_fromUserID :: string
  NodeMessage_toNodeID :: string
  NodeMessage_incrementID :: int
  NodeMessage_type :: int
  NodeMessage_content :: string
  NodeMessage_toUserID_outer :: string
  NodeMessage_timestamp :: int

definition NodeMessage_new :: NodeMessage where
  "NodeMessage_new = \<lparr>NodeMessage_id = [], NodeMessage_fromUserID = [],
     NodeMessage_toNodeID = [], NodeMessage_incrementID = 0, NodeMessage_type = 0,
     NodeMessage_content = [], NodeMessage_toUserID_outer = [], NodeMessage_timestamp = 0\<rparr>"

record NodeMessageRes =
  NodeMessageRes_id :: string
  NodeMessageRes_incrementID :: int
  NodeMessageRes_fromUserID :: string
  NodeMessageRes_toUserID_outer :: string
  NodeMessageRes_toNodeID :: string
  NodeMessageRes_timestamp :: int

definition NodeMessageRes_new :: NodeMessageRes where
  "NodeMessageRes_new = \<lparr>NodeMessageRes_id = [], NodeMessageRes_incrementID = 0,
     NodeMessageRes_fromUserID = [], NodeMessageRes_toUserID_outer = [],
     NodeMessageRes_toNodeID = [], NodeMessageRes_timestamp = 0\<rparr>"

record NodeMessageNoti =
  NodeMessageNoti_fromUserID :: string
  NodeMessageNoti_toUserID_outer :: string
  NodeMessageNoti_toNodeID :: string
  NodeMessageNoti_readedIncrement :: int
  NodeMessageNoti_unreadIncrement :: int

definition NodeMessageNoti_new :: NodeMessageNoti where
  "NodeMessageNoti_new = \<lparr>NodeMessageNoti_fromUserID = [],
     NodeMessageNoti_toUserID_outer = [], NodeMessageNoti_toNodeID = [],
     NodeMessageNoti_readedIncrement = 0, NodeMessageNoti_unreadIncrement = 0\<rparr>"

record QueryMessage =
  QueryMessage_toNodeID :: string
  QueryMessage_fromIncrementID :: int
  QueryMessage_toIncrementID :: int

definition QueryMessage_new :: QueryMessage where
  "QueryMessage_new = \<lparr>QueryMessage_toNodeID = [], QueryMessage_fromIncrementID = 0,
     QueryMessage_toIncrementID = 0\<rparr>"

record QueryOneMessage =
  QueryOneMessage_toNodeID :: string
  QueryOneMessage_incrementID :: int

definition QueryOneMessage_new :: QueryOneMessage where
  "QueryOneMessage_new = \<lparr>QueryOneMessage_toNodeID = [],
     QueryOneMessage_incrementID = 0\<rparr>"

record QueryMessageRes =
  QueryMessageRes_messages :: "NodeMessage list"

definition QueryMessageRes_new :: QueryMessageRes where
  "QueryMessageRes_new = \<lparr>QueryMessageRes_messages = []\<rparr>"

record ConnectInfo =
  ConnectInfo_UUID :: string
  ConnectInfo_userID :: string
  ConnectInfo_isLogin :: bool
  ConnectInfo_isConnected :: bool
  ConnectInfo_isReciveNoti :: bool
  ConnectInfo_serverName :: string
  ConnectInfo_users :: "(string \<times> int) list"
  ConnectInfo_clientVersion :: string
  ConnectInfo_OSVersion :: string
  ConnectInfo_appVersion :: string
  ConnectInfo_timestamp :: string

definition ConnectInfo_new :: ConnectInfo where
  "ConnectInfo_new = \<lparr>ConnectInfo_UUID = [], ConnectInfo_userID = [],
     ConnectInfo_isLogin = False, ConnectInfo_isConnected = False,
     ConnectInfo_isReciveNoti = False, ConnectInfo_serverName = [], ConnectInfo_users = [],
     ConnectInfo_clientVersion = [], ConnectInfo_OSVersion = [], ConnectInfo_appVersion = [],
     ConnectInfo_timestamp = []\<rparr>"

record ConnectInfoLittle =
  ConnectInfoLittle_UUID :: string
  ConnectInfoLittle_isConnected :: bool
  ConnectInfoLittle_isReciveNoti :: bool
  ConnectInfoLittle_nodepointor :: int

definition ConnectInfoLittle_new :: ConnectInfoLittle where
  "ConnectInfoLittle_new = \<lparr>ConnectInfoLittle_UUID = [],
     ConnectInfoLittle_isConnected = False, ConnectInfoLittle_isReciveNoti = False,
     ConnectInfoLittle_nodepointor = 0\<rparr>"

record Media =
  Media_md5 :: string
  Media_path :: string
  Media_type :: int

definition Media_new :: Media where
  "Media_new = \<lparr>Media_md5 = [], Media_path = [], Media_type = 0\<rparr>"

record MediaRes =
  MediaRes_isSuccess :: bool

definition MediaRes_new :: MediaRes where
  "MediaRes_new = \<lparr>MediaRes_isSuccess = False\<rparr>"

record QueryMedia =
  QueryMedia_md5 :: string

definition QueryMedia_new :: QueryMedia where
  "QueryMedia_new = \<lparr>QueryMedia_md5 = []\<rparr>"

record QueryMediaRes =
  QueryMediaRes_media :: Media

definition QueryMediaRes_new :: QueryMediaRes where
  "QueryMediaRes_new = \<lparr>QueryMediaRes_media = Media_new\<rparr>"

section \<open>Enumerators\<close>

definition MessageNode_peer :: int where "MessageNode_peer = 3"
definition IsAgree_agree :: int where "IsAgree_agree = 1"
definition MediaType_TEXT :: int where "MediaType_TEXT = 1"
definition UserProperty_realname :: int where "UserProperty_realname = 0"
definition UserProperty_nickname :: int where "UserProperty_nickname = 1"
definition UserProperty_icon :: int where "UserProperty_icon = 2"
definition UserProperty_description :: int where "UserProperty_description = 3"
definition UserProperty_isMale :: int where "UserProperty_isMale = 4"
definition UserProperty_birthday :: int where "UserProperty_birthday = 5"

lemmas enum_defs = MessageNode_peer_def IsAgree_agree_def MediaType_TEXT_def
  UserProperty_realname_def UserProperty_nickname_def UserProperty_icon_def
  UserProperty_description_def UserProperty_isMale_def UserProperty_birthday_def

section \<open>Any message\<close>

datatype (plugins only: code) chat_msg =
    M_Error Error
  | M_Register Register
  | M_RegisterRes RegisterRes
  | M_Login Login
  | M_LoginRes LoginRes
  | M_LoginNoti LoginNoti
  | M_Logout Logout
  | M_LogoutRes LogoutRes
  | M_ClientConnect ClientConnect
  | M_ClientConnectRes ClientConnectRes
  | M_ClientDisConnect ClientDisConnect
  | M_ClientDisConnectRes ClientDisConnectRes
  | M_QueryUser QueryUser
  | M_QueryUserRes QueryUserRes
  | M_QueryUserVersion QueryUserVersion
  | M_QueryUserVersionRes QueryUserVersionRes
  | M_QueryNode QueryNode
  | M_QueryNodeRes QueryNodeRes
  | M_QueryNodeVersion QueryNodeVersion
  | M_QueryNodeVersionRes QueryNodeVersionRes
  | M_AddFriend AddFriend
  | M_AddFriendRes AddFriendRes
  | M_AddFriendNoti AddFriendNoti
  | M_AddFriendAuthorize AddFriendAuthorize
  | M_AddFriendAuthorizeRes AddFriendAuthorizeRes
  | M_AddFriendAuthorizeNoti AddFriendAuthorizeNoti
  | M_CreateGroup CreateGroup
  | M_CreateGroupRes CreateGroupRes
  | M_GroupAddMember GroupAddMember
  | M_GroupAddMemberRes GroupAddMemberRes
  | M_NodeMessage NodeMessage
  | M_NodeMessageRes NodeMessageRes
  | M_NodeMessageNoti NodeMessageNoti
  | M_QueryMessage QueryMessage
  | M_QueryOneMessage QueryOneMessage
  | M_QueryMessageRes QueryMessageRes
  | M_Media Media
  | M_MediaRes MediaRes
  | M_QueryMedia QueryMedia
  | M_QueryMediaRes QueryMediaRes
  | M_QueryAddfriendInfo QueryAddfriendInfo
  | M_QueryAddfriendInfoRes QueryAddfriendInfoRes
  | M_Ping Ping
  | M_Pong Pong
  | M_SetUserProperty SetUserProperty
  | M_SetUserPropertyRes SetUserPropertyRes

fun dispatchType :: "chat_msg \<Rightarrow> ChatType" where
  "dispatchType (M_Error m) = CT_error"
| "dispatchType (M_Register m) = CT_registor"
| "dispatchType (M_RegisterRes m) = CT_registorres"
| "dispatchType (M_Login m) = CT_login"
| "dispatchType (M_LoginRes m) = CT_loginres"
| "dispatchType (M_LoginNoti m) = CT_loginnoti"
| "dispatchType (M_Logout m) = CT_logout"
| "dispatchType (M_LogoutRes m) = CT_logoutres"
| "dispatchType (M_ClientConnect m) = CT_clientconnect"
| "dispatchType (M_ClientConnectRes m) = CT_clientconnectres"
| "dispatchType (M_ClientDisConnect m) = CT_clientdisconnect"
| "dispatchType (M_ClientDisConnectRes m) = CT_clientdisconnectres"
| "dispatchType (M_QueryUser m) = CT_queryuser"
| "dispatchType (M_QueryUserRes m) = CT_queryuserres"
| "dispatchType (M_QueryUserVersion m) = CT_queryuserversion"
| "dispatchType (M_QueryUserVersionRes m) = CT_queryuserversionres"
| "dispatchType (M_QueryNode m) = CT_querynode"
| "dispatchType (M_QueryNodeRes m) = CT_querynoderes"
| "dispatchType (M_QueryNodeVersion m) = CT_querynodeversion"
| "dispatchType (M_QueryNodeVersionRes m) = CT_querynodeversionres"
| "dispatchType (M_AddFriend m) = CT_addfriend"
| "dispatchType (M_AddFriendRes m) = CT_addfriendres"
| "dispatchType (M_AddFriendNoti m) = CT_addfriendnoti"
| "dispatchType (M_AddFriendAuthorize m) = CT_addfriendauthorize"
| "dispatchType (M_AddFriendAuthorizeRes m) = CT_addfriendauthorizeres"
| "dispatchType (M_AddFriendAuthorizeNoti m) = CT_addfriendauthorizenoti"
| "dispatchType (M_CreateGroup m) = CT_creategroup"
| "dispatchType (M_CreateGroupRes m) = CT_creategroupres"
| "dispatchType (M_GroupAddMember m) = CT_groupaddmember"
| "dispatchType (M_GroupAddMemberRes m) = CT_groupaddmemberres"
| "dispatchType (M_NodeMessage m) = CT_nodemessage"
| "dispatchType (M_NodeMessageRes m) = CT_nodemessageres"
| "dispatchType (M_NodeMessageNoti m) = CT_nodemessagenoti"
| "dispatchType (M_QueryMessage m) = CT_querymessage"
| "dispatchType (M_QueryOneMessage m) = CT_queryonemessage"
| "dispatchType (M_QueryMessageRes m) = CT_querymessageres"
| "dispatchType (M_Media m) = CT_media"
| "dispatchType (M_MediaRes m) = CT_mediares"
| "dispatchType (M_QueryMedia m) = CT_querymedia"
| "dispatchType (M_QueryMediaRes m) = CT_querymediares"
| "dispatchType (M_QueryAddfriendInfo m) = CT_queryaddfriendinfo"
| "dispatchType (M_QueryAddfriendInfoRes m) = CT_queryaddfriendinfores"
| "dispatchType (M_Ping m) = CT_ping"
| "dispatchType (M_Pong m) = CT_pong"
| "dispatchType (M_SetUserProperty m) = CT_setuserproterty"
| "dispatchType (M_SetUserPropertyRes m) = CT_setuserprotertyres"

text \<open>
  The protobuf runtime is a parameter: \<open>SerializeAsString\<close> of any message, and for each type the
  server dispatches on, the message \<open>ParseFromArray\<close> leaves (its result is ignored, so on malformed
  input it is whatever was parsed so far).
\<close>

record codec =
  ser :: "chat_msg \<Rightarrow> bytes"
  parse_Error :: "bytes \<Rightarrow> Error"
  parse_Register :: "bytes \<Rightarrow> Register"
  parse_Login :: "bytes \<Rightarrow> Login"
  parse_LoginRes :: "bytes \<Rightarrow> LoginRes"
  parse_Logout :: "bytes \<Rightarrow> Logout"
  parse_ClientConnect :: "bytes \<Rightarrow> ClientConnect"
  parse_ClientDisConnect :: "bytes \<Rightarrow> ClientDisConnect"
  parse_QueryUser :: "bytes \<Rightarrow> QueryUser"
  parse_QueryUserVersion :: "bytes \<Rightarrow> QueryUserVersion"
  parse_AddFriend :: "bytes \<Rightarrow> AddFriend"
  parse_AddFriendRes :: "bytes \<Rightarrow> AddFriendRes"
  parse_AddFriendAuthorize :: "bytes \<Rightarrow> AddFriendAuthorize"
  parse_AddFriendAuthorizeRes :: "bytes \<Rightarrow> AddFriendAuthorizeRes"
  parse_CreateGroup :: "bytes \<Rightarrow> CreateGroup"
  parse_GroupAddMember :: "bytes \<Rightarrow> GroupAddMember"
  parse_QueryNodeVersion :: "bytes \<Rightarrow> QueryNodeVersion"
  parse_QueryNode :: "bytes \<Rightarrow> QueryNode"
  parse_NodeMessage :: "bytes \<Rightarrow> NodeMessage"
  parse_QueryMessage :: "bytes \<Rightarrow> QueryMessage"
  parse_QueryOneMessage :: "bytes \<Rightarrow> QueryOneMessage"
  parse_NodeMessageRes :: "bytes \<Rightarrow> NodeMessageRes"
  parse_Media :: "bytes \<Rightarrow> Media"
  parse_QueryMedia :: "bytes \<Rightarrow> QueryMedia"
  parse_QueryAddfriendInfo :: "bytes \<Rightarrow> QueryAddfriendInfo"
  parse_Ping :: "bytes \<Rightarrow> Ping"
  parse_SetUserProperty :: "bytes \<Rightarrow> SetUserProperty"

end
