(* ===== verification/Bson.thy ===== *)
theory Bson
  imports Messages "HOL-Library.Char_ord" "HOL-Library.List_Lexorder"
begin

text \<open>
  BSON documents as \<open>yijian/mongo.cxx\<close> builds and reads them, the operations of the MongoDB driver
  it calls (parameters of the model), and the functions that turn documents into messages.
\<close>

section \<open>Documents\<close>

datatype bson =
    BStr string | BInt32 int | BInt64 int | BBool bool | BOid string
  | BArr "bson list" | BDoc "(string \<times> bson) list"

type_synonym doc = "(string \<times> bson) list"

text \<open>
  The driver and the server behind it: \<open>oid\<close> is \<open>bsoncxx::oid(string)\<close> followed by \<open>to_string\<close>,
  \<open>oid_time\<close> is \<open>get_time_t\<close>, \<open>bad_get\<close> the exception of an accessor applied to a missing element
  or one of another type, \<open>clock\<close> the system clock in seconds. \<open>db_find\<close> yields the documents the
  cursor delivers and the exception, if any, that ends the iteration early. \<open>db_insert_one\<close> returns
  the id of the new document. \<open>stale_views\<close> is what the driver reads through views of documents
  that have been destroyed.
\<close>

record 'db mongo =
  oid :: "string \<Rightarrow> exn + string"
  oid_time :: "string \<Rightarrow> int"
  bad_get :: "bson option \<Rightarrow> exn"
  clock :: "'db \<Rightarrow> int"
  db_find_one :: "string \<Rightarrow> doc \<Rightarrow> ('db, doc option) act"
  db_find :: "string \<Rightarrow> doc \<Rightarrow> doc \<Rightarrow> ('db, doc list \<times> exn option) act"
  db_insert_one :: "string \<Rightarrow> doc \<Rightarrow> ('db, string) act"
  db_update_one :: "string \<Rightarrow> doc \<Rightarrow> doc \<Rightarrow> ('db, unit) act"
  db_update_many :: "string \<Rightarrow> doc \<Rightarrow> doc \<Rightarrow> ('db, unit) act"
  db_find_one_and_update :: "string \<Rightarrow> doc \<Rightarrow> doc \<Rightarrow> ('db, doc option) act"
  db_bulk_insert :: "string \<Rightarrow> doc list \<Rightarrow> ('db, unit) act"
  stale_views :: "doc list \<Rightarrow> doc list"

text \<open>The documented contract of the driver: its exceptions derive from \<open>std::system_error\<close>.\<close>

definition mongo_ok :: "'db mongo \<Rightarrow> bool" where
  "mongo_ok M \<longleftrightarrow>
     (\<forall>s e. oid M s = Inl e \<longrightarrow> is_system_error e) \<and> (\<forall>b. is_system_error (bad_get M b))
     \<and> (\<forall>c f. sys_only (db_find_one M c f))
     \<and> (\<forall>c f d. sys_only (db_find M c f d))
     \<and> (\<forall>c f d s docs e. fst (db_find M c f d s) = Inr (docs, Some e) \<longrightarrow> is_system_error e)
     \<and> (\<forall>c d. sys_only (db_insert_one M c d))
     \<and> (\<forall>c f u. sys_only (db_update_one M c f u)) \<and> (\<forall>c f u. sys_only (db_update_many M c f u))
     \<and> (\<forall>c f u. sys_only (db_find_one_and_update M c f u)) \<and> (\<forall>c ds. sys_only (db_bulk_insert M c ds))"

section \<open>Element access\<close>

definition get_utf8 :: "'db mongo \<Rightarrow> bson option \<Rightarrow> exn + string" where
  "get_utf8 M b = (case b of Some (BStr s) \<Rightarrow> Inr s | _ \<Rightarrow> Inl (bad_get M b))"

definition get_int32 :: "'db mongo \<Rightarrow> bson option \<Rightarrow> exn + int" where
  "get_int32 M b = (case b of Some (BInt32 i) \<Rightarrow> Inr i | _ \<Rightarrow> Inl (bad_get M b))"

definition get_bool :: "'db mongo \<Rightarrow> bson option \<Rightarrow> exn + bool" where
  "get_bool M b = (case b of Some (BBool x) \<Rightarrow> Inr x | _ \<Rightarrow> Inl (bad_get M b))"

definition get_oid :: "'db mongo \<Rightarrow> bson option \<Rightarrow> exn + string" where
  "get_oid M b = (case b of Some (BOid s) \<Rightarrow> Inr s | _ \<Rightarrow> Inl (bad_get M b))"

definition get_array :: "'db mongo \<Rightarrow> bson option \<Rightarrow> exn + bson list" where
  "get_array M b = (case b of Some (BArr xs) \<Rightarrow> Inr xs | _ \<Rightarrow> Inl (bad_get M b))"

definition get_document :: "'db mongo \<Rightarrow> bson option \<Rightarrow> exn + doc" where
  "get_document M b = (case b of Some (BDoc d) \<Rightarrow> Inr d | _ \<Rightarrow> Inl (bad_get M b))"

lemmas get_defs = get_utf8_def get_int32_def get_bool_def get_oid_def get_array_def get_document_def

lemma get_sys:
  assumes "mongo_ok M"
  shows "get_utf8 M b = Inl e \<Longrightarrow> is_system_error e" "get_int32 M b = Inl e \<Longrightarrow> is_system_error e"
    "get_bool M b = Inl e \<Longrightarrow> is_system_error e" "get_oid M b = Inl e \<Longrightarrow> is_system_error e"
    "get_array M b = Inl e \<Longrightarrow> is_system_error e" "get_document M b = Inl e \<Longrightarrow> is_system_error e"
  using assms by (auto simp: get_defs mongo_ok_def split: option.splits bson.splits)

section \<open>Documents to messages\<close>

definition utf8 :: "'db mongo \<Rightarrow> doc \<Rightarrow> string \<Rightarrow> exn + string" where
  "utf8 M d k = get_utf8 M (map_of d k)"
definition int32 :: "'db mongo \<Rightarrow> doc \<Rightarrow> string \<Rightarrow> exn + int" where
  "int32 M d k = get_int32 M (map_of d k)"
definition boolean :: "'db mongo \<Rightarrow> doc \<Rightarrow> string \<Rightarrow> exn + bool" where
  "boolean M d k = get_bool M (map_of d k)"

lemmas field_defs = utf8_def int32_def boolean_def

definition userNodocNoarr :: "'db mongo \<Rightarrow> User \<Rightarrow> doc \<Rightarrow> exn + User" where
  "userNodocNoarr M user view =
     res_bind (get_oid M (map_of view ''_id'')) (\<lambda>id.
     res_bind (utf8 M view ''realname'') (\<lambda>realname.
     res_bind (utf8 M view ''nickname'') (\<lambda>nickname.
     res_bind (utf8 M view ''icon'') (\<lambda>icon.
     res_bind (utf8 M view ''description'') (\<lambda>description.
     res_bind (boolean M view ''isMale'') (\<lambda>isMale.
     res_bind (utf8 M view ''countryCode'') (\<lambda>countryCode.
     res_bind (utf8 M view ''phoneNo'') (\<lambda>phoneNo.
     res_bind (utf8 M view ''password'') (\<lambda>password.
     res_bind (int32 M view ''birthday'') (\<lambda>birthday.
     res_bind (int32 M view ''version'') (\<lambda>version.
     Inr (user\<lparr>User_id := id, User_realname := realname, User_nickname := nickname,
       User_icon := icon, User_description := description, User_isMale := isMale,
       User_countryCode := countryCode, User_phoneNo := phoneNo, User_password := password,
       User_birthday := birthday, User_version := version\<rparr>))))))))))))"

definition userinfoDocument :: "'db mongo \<Rightarrow> doc \<Rightarrow> exn + UserInfo" where
  "userinfoDocument M view =
     res_bind (utf8 M view ''toNodeID'') (\<lambda>toNodeID.
     res_bind (utf8 M view ''userID'') (\<lambda>userID.
     Inr \<lparr>UserInfo_toNodeID = toNodeID, UserInfo_userID = userID\<rparr>))"

definition deviceDocument :: "'db mongo \<Rightarrow> doc \<Rightarrow> exn + Device" where
  "deviceDocument M view =
     res_bind (int32 M view ''OS'') (\<lambda>os.
     res_bind (utf8 M view ''deviceModel'') (\<lambda>deviceModel.
     res_bind (case map_of view ''deviceNickname'' of
                 None \<Rightarrow> Inr [] | Some b \<Rightarrow> get_utf8 M (Some b)) (\<lambda>deviceNickname.
     res_bind (utf8 M view ''UUID'') (\<lambda>uuid.
     Inr \<lparr>Device_OS = os, Device_deviceModel = deviceModel,
          Device_deviceNickname = deviceNickname, Device_UUID = uuid\<rparr>))))"

definition utf8_array :: "'db mongo \<Rightarrow> doc \<Rightarrow> string \<Rightarrow> exn + string list" where
  "utf8_array M d k =
     res_bind (get_array M (map_of d k)) (\<lambda>xs. map_res (\<lambda>b. get_utf8 M (Some b)) xs)"

definition doc_array :: "'db mongo \<Rightarrow> doc \<Rightarrow> string \<Rightarrow> (doc \<Rightarrow> exn + 'a) \<Rightarrow> exn + 'a list" where
  "doc_array M d k f =
     res_bind (get_array M (map_of d k)) (\<lambda>xs.
       map_res (\<lambda>b. res_bind (get_document M (Some b)) f) xs)"

definition messagenodeDocument :: "'db mongo \<Rightarrow> doc \<Rightarrow> exn + MessageNode" where
  "messagenodeDocument M view =
     res_bind (get_oid M (map_of view ''_id'')) (\<lambda>id.
     res_bind (int32 M view ''authorize'') (\<lambda>authorize.
     res_bind (utf8 M view ''creatorID'') (\<lambda>creatorID.
     res_bind (utf8 M view ''nickname'') (\<lambda>nickname.
     res_bind (int32 M view ''version'') (\<lambda>version.
     res_bind (utf8_array M view ''managerIDs'') (\<lambda>managerIDs.
     res_bind (utf8_array M view ''members'') (\<lambda>members.
     Inr \<lparr>MessageNode_id = id, MessageNode_authorize = authorize,
          MessageNode_creatorID = creatorID, MessageNode_nickname = nickname,
          MessageNode_version = version, MessageNode_managerIDs = managerIDs,
          MessageNode_members = members\<rparr>)))))))"

definition nodemessageDocument :: "'db mongo \<Rightarrow> doc \<Rightarrow> exn + NodeMessage" where
  "nodemessageDocument M view =
     res_bind (get_oid M (map_of view ''_id'')) (\<lambda>id.
     res_bind (utf8 M view ''fromUserID'') (\<lambda>fromUserID.
     res_bind (utf8 M view ''toNodeID'') (\<lambda>toNodeID.
     res_bind (int32 M view ''incrementID'') (\<lambda>incrementID.
     res_bind (int32 M view ''type'') (\<lambda>type.
     res_bind (utf8 M view ''content'') (\<lambda>content.
     Inr (NodeMessage_new\<lparr>NodeMessage_id := id, NodeMessage_fromUserID := fromUserID,
       NodeMessage_toNodeID := toNodeID, NodeMessage_incrementID := incrementID,
       NodeMessage_type := type, NodeMessage_content := content,
       NodeMessage_timestamp := oid_time M id\<rparr>)))))))"

definition userDocoument :: "'db mongo \<Rightarrow> doc \<Rightarrow> exn + User" where
  "userDocoument M user_view =
     res_bind (userNodocNoarr M User_new user_view) (\<lambda>user.
     res_bind (doc_array M user_view ''friends'' (userinfoDocument M)) (\<lambda>friends.
     res_bind (utf8_array M user_view ''blacklist'') (\<lambda>blacklist.
     res_bind (utf8_array M user_view ''groupNodeIDs'') (\<lambda>groupNodeIDs.
     res_bind (doc_array M user_view ''devices'' (deviceDocument M)) (\<lambda>devices.
     Inr (user\<lparr>User_friends := friends, User_blacklist := blacklist,
       User_groupNodeIDs := groupNodeIDs, User_devices := devices\<rparr>))))))"

section \<open>Which exceptions\<close>

text \<open>\<open>res_sys r\<close>: if \<open>r\<close> is an exception, it is a \<open>std::system_error\<close>.\<close>

definition res_sys :: "exn + 'a \<Rightarrow> bool" where
  "res_sys r \<longleftrightarrow> (\<forall>e. r = Inl e \<longrightarrow> is_system_error e)"

lemma res_sys_bind: "res_sys r \<Longrightarrow> (\<And>a. res_sys (f a)) \<Longrightarrow> res_sys (res_bind r f)"
  by (cases r) (auto simp: res_sys_def)

lemma res_sys_Inr: "res_sys (Inr a)"
  by (simp add: res_sys_def)

lemma res_sys_map: "(\<And>x. res_sys (f x)) \<Longrightarrow> res_sys (map_res f xs)"
  by (induction xs) (auto intro: res_sys_bind res_sys_Inr)

lemma res_sys_get:
  assumes "mongo_ok M"
  shows "res_sys (get_utf8 M b)" "res_sys (get_int32 M b)" "res_sys (get_bool M b)"
    "res_sys (get_oid M b)" "res_sys (get_array M b)" "res_sys (get_document M b)"
    "res_sys (oid M s)"
  using get_sys [OF assms] assms by (auto simp: res_sys_def mongo_ok_def)

lemmas res_sys_rules = res_sys_bind res_sys_Inr res_sys_map

lemma res_sys_documents:
  assumes "mongo_ok M"
  shows "res_sys (userinfoDocument M d)" "res_sys (deviceDocument M d)"
    "res_sys (messagenodeDocument M d)" "res_sys (nodemessageDocument M d)"
    "res_sys (userDocoument M d)"
  by (auto simp: userinfoDocument_def deviceDocument_def messagenodeDocument_def
      nodemessageDocument_def userDocoument_def userNodocNoarr_def utf8_array_def doc_array_def
      field_defs intro!: res_sys_rules res_sys_get [OF assms] split: option.split)

end
