(* ===== verification/Mongo.thy ===== *)
theory Mongo
  imports Bson
begin

text \<open>
  \<open>mongo_client\<close> (\<open>yijian/mongo.h\<close>, \<open>yijian/mongo.cxx\<close>): each member function as an action on
  the database \<open>'db\<close> behind the driver. Filters, updates and documents are the BSON that the source
  builds, field by field and in its order. Write concerns and log lines are left out.
\<close>

definition SERVER_NAME :: string where "SERVER_NAME = ''yijian_1''"

text \<open>\<open>try { m } catch (std::system_error &) { log }\<close>\<close>

definition swallow :: "('s, unit) act \<Rightarrow> ('s, unit) act" where
  "swallow m = catch_system_error m (\<lambda>e. ret ())"

lemma sys_only_swallow [sys_only_intros]: "sys_only m \<Longrightarrow> sys_only (swallow m)"
  by (simp add: swallow_def sys_only_catch sys_only_ret)

text \<open>A loop over a cursor: read the document, then run the body on what was read.\<close>

definition cursor_foreach ::
  "doc list \<times> exn option \<Rightarrow> (doc \<Rightarrow> exn + 'b) \<Rightarrow> ('b \<Rightarrow> ('s, unit) act) \<Rightarrow> ('s, unit) act" where
  "cursor_foreach cur read func =
     act_seq (foreach (fst cur) (\<lambda>d. act_bind (lift_exn (read d)) func))
       (case snd cur of None \<Rightarrow> ret () | Some e \<Rightarrow> raise e)"

text \<open>The same loop where the body only appends what was read to a message.\<close>

definition cursor_collect ::
  "doc list \<times> exn option \<Rightarrow> (doc \<Rightarrow> exn + 'b) \<Rightarrow> ('s, 'b list) act" where
  "cursor_collect cur read =
     act_bind (lift_exn (map_res read (fst cur))) (\<lambda>bs.
       case snd cur of None \<Rightarrow> ret bs | Some e \<Rightarrow> raise e)"

section \<open>Users\<close>

definition user_document :: "Register \<Rightarrow> doc" where
  "user_document enroll =
     [(''realname'', BStr []), (''nickname'', BStr (Register_nickname enroll)), (''icon'', BStr []),
      (''description'', BStr []), (''isMale'', BBool True),
      (''countryCode'', BStr (Register_countryCode enroll)),
      (''phoneNo'', BStr (Register_phoneNo enroll)),
      (''password'', BStr (Register_password enroll)), (''birthday'', BInt32 0),
      (''version'', BInt32 1), (''friends'', BArr []), (''blacklist'', BArr []),
      (''groupNodeIDs'', BArr []), (''devices'', BArr [])]"

definition insertUser :: "'db mongo \<Rightarrow> Register \<Rightarrow> ('db, string) act" where
  "insertUser M enroll = rethrow 40011 ''insert user failure''
     (db_insert_one M ''user'' (user_document enroll))"

definition device_document :: "Device \<Rightarrow> doc" where
  "device_document device =
     [(''OS'', BInt32 (Device_OS device)), (''deviceModel'', BStr (Device_deviceModel device)),
      (''deviceNickname'', BStr (Device_deviceNickname device)), (''UUID'', BStr (Device_UUID device))]"

definition new_device_document :: "Device \<Rightarrow> doc" where
  "new_device_document device =
     [(''OS'', BInt32 (Device_OS device)), (''deviceModel'', BStr (Device_deviceModel device)),
      (''UUID'', BStr (Device_UUID device))]"

definition updateDevice :: "'db mongo \<Rightarrow> string \<Rightarrow> Device \<Rightarrow> ('db, unit) act" where
  "updateDevice M userID device = rethrow 40000 ''update user device failure''
     (act_bind (lift_exn (oid M userID)) (\<lambda>id.
      db_update_one M ''user''
       [(''_id'', BOid id), (''devices.UUID'', BStr (Device_UUID device))]
       [(''$set'', BDoc [(''devices.$'', BDoc (device_document device))])]))"

definition insertDevice :: "'db mongo \<Rightarrow> string \<Rightarrow> Device \<Rightarrow> ('db, unit) act" where
  "insertDevice M userID device = rethrow 40001 ''insert user device failure''
     (act_bind (lift_exn (oid M userID)) (\<lambda>id.
      db_update_one M ''user'' [(''_id'', BOid id)]
       [(''$push'', BDoc [(''devices'', BDoc (new_device_document device))])]))"

definition queryUser_phone :: "'db mongo \<Rightarrow> string \<Rightarrow> string \<Rightarrow> ('db, User) act" where
  "queryUser_phone M phoneNo countryCode =
     act_bind (db_find_one M ''user'' [(''countryCode'', BStr countryCode), (''phoneNo'', BStr phoneNo)])
      (\<lambda>maybe_result. case maybe_result of
         None \<Rightarrow> raise (sys_error 40002 ''no this user'')
       | Some user_view \<Rightarrow> lift_exn (userDocoument M user_view))"

definition queryUser :: "'db mongo \<Rightarrow> string \<Rightarrow> ('db, User) act" where
  "queryUser M userID =
     act_bind (lift_exn (oid M userID)) (\<lambda>id.
     act_bind (db_find_one M ''user'' [(''_id'', BOid id)])
      (\<lambda>maybe_result. case maybe_result of
         None \<Rightarrow> raise (sys_error 40003 ''no this user'')
       | Some user_view \<Rightarrow> lift_exn (userDocoument M user_view)))"

text \<open>\<open>std::stoi\<close> in base 10.\<close>

definition is_space :: "char \<Rightarrow> bool" where
  "is_space c \<longleftrightarrow> (let n = of_char c :: nat in n = 32 \<or> (9 \<le> n \<and> n \<le> 13))"

definition is_digit :: "char \<Rightarrow> bool" where
  "is_digit c \<longleftrightarrow> (let n = of_char c :: nat in 48 \<le> n \<and> n < 58)"

definition stoi :: "string \<Rightarrow> exn + int" where
  "stoi str =
     (let s = dropWhile is_space str;
          neg = (s \<noteq> [] \<and> hd s = CHR ''-'');
          s' = (if s \<noteq> [] \<and> (hd s = CHR ''-'' \<or> hd s = CHR ''+'') then tl s else s);
          ds = takeWhile is_digit s';
          v = (if neg then - int (read_digits ds) else int (read_digits ds)) in
      if ds = [] then Inl (Logic_error ''stoi'')
      else if v < - (2 ^ 31) \<or> 2 ^ 31 \<le> v then Inl (Logic_error ''stoi'')
      else Inr v)"

definition property_string :: "int \<Rightarrow> string option" where
  "property_string p =
     (if p = UserProperty_realname then Some ''realname''
      else if p = UserProperty_nickname then Some ''nickname''
      else if p = UserProperty_icon then Some ''icon''
      else if p = UserProperty_description then Some ''description''
      else if p = UserProperty_birthday then Some ''birthday''
      else if p = UserProperty_isMale then Some ''isMale''
      else None)"

text \<open>\<open>front()\<close> of an empty string is undefined.\<close>

definition setUserProperty :: "'db mongo \<Rightarrow> string \<Rightarrow> SetUserProperty \<Rightarrow> ('db, unit) act" where
  "setUserProperty M userID property =
     (case property_string (SetUserProperty_property property) of
        None \<Rightarrow> raise (sys_error 40012 ''no this property'')
      | Some name \<Rightarrow>
          act_bind
            (if take 2 name = ''is''
             then (case SetUserProperty_value property of
                     [] \<Rightarrow> raise Undefined
                   | c # cs \<Rightarrow> ret (BBool (c = CHR ''t'')))
             else if name = ''birthday''
             then act_bind (lift_exn (stoi (SetUserProperty_value property)))
                    (\<lambda>birthday_ts. ret (BInt32 birthday_ts))
             else ret (BStr (SetUserProperty_value property)))
          (\<lambda>value.
           act_bind (lift_exn (oid M userID)) (\<lambda>id.
           db_update_one M ''user'' [(''_id'', BOid id)]
             [(''$set'', BDoc [(name, value)]), (''$inc'', BDoc [(''version'', BInt32 1)])])))"

section \<open>Unread counters\<close>

definition insertUnreadNode :: "'db mongo \<Rightarrow> string \<Rightarrow> string \<Rightarrow> ('db, unit) act" where
  "insertUnreadNode M userid tonodeid = swallow
     (act_bind (db_insert_one M ''userUnread''
        [(''userID'', BStr userid), (''toNodeID'', BStr tonodeid),
         (''unreadIncrement'', BInt32 1), (''readedIncrement'', BInt32 1)]) (\<lambda>_. ret ()))"

definition updateReadedIncrement :: "'db mongo \<Rightarrow> string \<Rightarrow> string \<Rightarrow> int \<Rightarrow> ('db, unit) act" where
  "updateReadedIncrement M userid tonodeid readedIncrement = swallow
     (db_update_one M ''userUnread''
        [(''userID'', BStr userid), (''toNodeID'', BStr tonodeid),
         (''readedIncrement'', BDoc [(''$lt'', BInt32 readedIncrement)])]
        [(''$set'', BDoc [(''readedIncrement'', BInt32 readedIncrement)])])"

definition updateUnreadIncrement :: "'db mongo \<Rightarrow> string \<Rightarrow> string \<Rightarrow> int \<Rightarrow> ('db, unit) act" where
  "updateUnreadIncrement M userid tonodeid unreadIncrement = swallow
     (db_update_one M ''userUnread''
        [(''userID'', BStr userid), (''toNodeID'', BStr tonodeid),
         (''unreadIncrement'', BDoc [(''$lt'', BInt32 unreadIncrement)])]
        [(''$set'', BDoc [(''unreadIncrement'', BInt32 unreadIncrement)])])"

definition member_array :: "string list \<Rightarrow> string \<Rightarrow> bson" where
  "member_array membersid currentUserid = BArr (map BStr (filter (\<lambda>m. m \<noteq> currentUserid) membersid))"

definition updateUnreadIncrement_members ::
  "'db mongo \<Rightarrow> string list \<Rightarrow> string \<Rightarrow> string \<Rightarrow> int \<Rightarrow> ('db, unit) act" where
  "updateUnreadIncrement_members M userids currentUserid tonodeid unreadIncrement = swallow
     (db_update_many M ''userUnread''
        [(''userID'', BDoc [(''$in'', member_array userids currentUserid)])]
        [(''$set'', BDoc [(''unreadIncrement'', BInt32 unreadIncrement)])])"

definition unreadNodes ::
  "'db mongo \<Rightarrow> (('db, doc list \<times> exn option) act \<Rightarrow> ('s, doc list \<times> exn option) act) \<Rightarrow> string
   \<Rightarrow> (string \<times> int \<times> int \<Rightarrow> ('s, unit) act) \<Rightarrow> ('s, unit) act" where
  "unreadNodes M lift userid func =
     act_bind (lift (db_find M ''userUnread'' [(''userID'', BStr userid)] [])) (\<lambda>cursor.
     cursor_foreach cursor
       (\<lambda>d. res_bind (utf8 M d ''toNodeID'') (\<lambda>tonodeid.
            res_bind (int32 M d ''unreadIncrement'') (\<lambda>unreadIncrement.
            res_bind (int32 M d ''readedIncrement'') (\<lambda>readedIncrement.
            Inr (tonodeid, unreadIncrement, readedIncrement)))))
       func)"

section \<open>Messages and nodes\<close>

definition queryNode :: "'db mongo \<Rightarrow> string \<Rightarrow> ('db, MessageNode) act" where
  "queryNode M nodeID =
     act_bind (lift_exn (oid M nodeID)) (\<lambda>id.
     act_bind (db_find_one M ''messageNode'' [(''_id'', BOid id)])
      (\<lambda>messagenode_result. case messagenode_result of
         None \<Rightarrow> raise (sys_error 40023 ''query message node failure'')
       | Some messagenode_view \<Rightarrow> lift_exn (messagenodeDocument M messagenode_view)))"

definition queryMessage_one :: "'db mongo \<Rightarrow> string \<Rightarrow> int \<Rightarrow> ('db, NodeMessage) act" where
  "queryMessage_one M tonodeid incrementid =
     act_bind (db_find_one M ''nodeMessage''
        [(''toNodeID'', BStr tonodeid), (''incrementID'', BInt32 incrementid)])
      (\<lambda>maybe_result. case maybe_result of
         Some view \<Rightarrow> lift_exn (nodemessageDocument M view)
       | None \<Rightarrow> raise (sys_error 40052 ''missing message''))"

definition message_document :: "NodeMessage \<Rightarrow> int \<Rightarrow> doc" where
  "message_document message incrementid =
     [(''fromUserID'', BStr (NodeMessage_fromUserID message)),
      (''toNodeID'', BStr (NodeMessage_toNodeID message)), (''incrementID'', BInt32 incrementid),
      (''type'', BInt32 (NodeMessage_type message)), (''content'', BStr (NodeMessage_content message))]"

definition insertMessage :: "'db mongo \<Rightarrow> NodeMessage \<Rightarrow> ('db, NodeMessageRes) act" where
  "insertMessage M message = rethrow 40051 ''insert message failure''
     (act_bind (db_find_one_and_update M ''messageNodeCount''
        [(''nodeID'', BStr (NodeMessage_toNodeID message))]
        [(''$inc'', BDoc [(''count'', BInt32 1)])]) (\<lambda>node_count.
      act_bind (case node_count of
          Some view \<Rightarrow> lift_exn (int32 M view ''count'')
        | None \<Rightarrow> raise (sys_error 40050 ''not find tonodeid'')) (\<lambda>incrementid.
      act_bind (db_insert_one M ''nodeMessage'' (message_document message incrementid)) (\<lambda>id.
      ret (NodeMessageRes_new\<lparr>NodeMessageRes_id := id, NodeMessageRes_incrementID := incrementid,
             NodeMessageRes_timestamp := oid_time M id\<rparr>)))))"

text \<open>Both callers of \<open>queryMessage\<close> and \<open>queryAddfriendInfo\<close> append what the callback is given.\<close>

definition queryMessage :: "'db mongo \<Rightarrow> QueryMessage \<Rightarrow> ('db, NodeMessage list) act" where
  "queryMessage M query =
     act_bind (db_find M ''nodeMessage''
       ((''toNodeID'', BStr (QueryMessage_toNodeID query)) #
        (if QueryMessage_toIncrementID query = 0
         then [(''incrementID'', BDoc [(''$gte'', BInt32 (QueryMessage_fromIncrementID query))])]
         else [(''$and'', BArr
           [BDoc [(''incrementID'', BDoc [(''$gte'', BInt32 (QueryMessage_fromIncrementID query))])],
            BDoc [(''incrementID'', BDoc [(''$lt'', BInt32 (QueryMessage_toIncrementID query))])]])]))
       [(''incrementID'', BInt32 (- 1))]) (\<lambda>cursor.
     cursor_collect cursor (nodemessageDocument M))"

section \<open>Friends\<close>

definition littleIDBigID :: "string \<Rightarrow> string \<Rightarrow> string" where
  "littleIDBigID inviter invitee =
     (if inviter < invitee then inviter @ ''_'' @ invitee else invitee @ ''_'' @ inviter)"

definition track :: "'db mongo \<Rightarrow> string \<Rightarrow> doc \<Rightarrow> ('db, unit) act" where
  "track M key set_fields =
     db_update_one M ''addFriend'' [(''littleIDBigID'', BStr key)] [(''$set'', BDoc set_fields)]"

definition peer_node_document :: "string \<Rightarrow> string \<Rightarrow> doc" where
  "peer_node_document inviter invitee =
     [(''authorize'', BInt32 MessageNode_peer), (''creatorID'', BStr inviter), (''nickname'', BStr []),
      (''managerIDs'', BArr []), (''memebers'', BArr [BStr inviter, BStr invitee])]"

definition addFriend :: "'db mongo \<Rightarrow> AddFriend \<Rightarrow> ('db, AddFriendRes) act" where
  "addFriend M addfrd =
    (let inviter = AddFriend_inviterID addfrd; invitee = AddFriend_inviteeID addfrd;
         key = littleIDBigID inviter invitee in
     rethrow 40004 ''add friend failure''
     (act_bind (gets (clock M)) (\<lambda>ts.
      act_bind (db_insert_one M ''addFriend''
        [(''littleIDBigID'', BStr key), (''inviter'', BStr inviter), (''invitee'', BStr invitee),
         (''toNodeID'', BStr []), (''status'', BStr ''request''), (''timestamp'', BInt64 ts)]) (\<lambda>_.
      act_bind (db_insert_one M ''messageNode'' (peer_node_document inviter invitee)) (\<lambda>msgNodeid.
      act_seq (track M key [(''toNodeID'', BStr msgNodeid), (''status'', BStr ''createNode'')])
      (act_bind (db_insert_one M ''messageNodeCount''
        [(''nodeID'', BStr msgNodeid), (''count'', BInt32 0)]) (\<lambda>_.
      act_seq (track M key [(''status'', BStr ''createNodeCount'')])
      (act_bind (insertMessage M (NodeMessage_new\<lparr>NodeMessage_fromUserID := inviter,
         NodeMessage_toNodeID := msgNodeid, NodeMessage_toUserID_outer := invitee,
         NodeMessage_type := MediaType_TEXT, NodeMessage_content := AddFriend_msg addfrd\<rparr>)) (\<lambda>_.
      ret \<lparr>AddFriendRes_inviterID = inviter, AddFriendRes_inviteeID = invitee,
           AddFriendRes_toNodeID = msgNodeid\<rparr>)))))))))"

definition add_to_friends :: "'db mongo \<Rightarrow> string \<Rightarrow> string \<Rightarrow> string \<Rightarrow> ('db, unit) act" where
  "add_to_friends M user tonodeid other =
     act_bind (lift_exn (oid M user)) (\<lambda>id.
     db_update_one M ''user'' [(''_id'', BOid id)]
       [(''$addToSet'', BDoc [(''friends'', BDoc [(''toNodeID'', BStr tonodeid), (''userID'', BStr other)])]),
        (''$inc'', BDoc [(''version'', BInt32 1)])])"

definition addFriendAuthorize :: "'db mongo \<Rightarrow> string \<Rightarrow> string \<Rightarrow> ('db, unit) act" where
  "addFriendAuthorize M inviter invitee =
    (let key = littleIDBigID inviter invitee in
     act_bind (db_find_one M ''addFriend'' [(''littleIDBigID'', BStr key)]) (\<lambda>maybe_result.
     case maybe_result of
       None \<Rightarrow> raise (sys_error 40008 ''not find add friend request'')
     | Some view \<Rightarrow>
         act_bind (lift_exn (utf8 M view ''status'')) (\<lambda>status.
         if status \<noteq> ''createNodeCount''
         then raise (sys_error 40009 ''add friend authorize info not consistently'')
         else
           act_bind (lift_exn (utf8 M view ''toNodeID'')) (\<lambda>tonodeid.
           rethrow 40005 ''add friend authorize failre''
            (act_seq (track M key [(''status'', BStr ''agree'')])
            (act_seq (add_to_friends M inviter tonodeid invitee)
            (act_seq (track M key [(''status'', BStr ''inviter'')])
            (act_seq (insertUnreadNode M inviter tonodeid)
            (act_seq (track M key [(''status'', BStr ''userUnreadInviter'')])
            (act_seq (add_to_friends M invitee tonodeid inviter)
            (act_seq (track M key [(''status'', BStr ''invitee'')])
            (act_seq (insertUnreadNode M invitee tonodeid)
            (track M key [(''status'', BStr ''finish'')]))))))))))))) "

text \<open>The options object with the limit, the sort and the hint is built but not passed to \<open>find\<close>.\<close>

definition queryAddfriendInfo :: "'db mongo \<Rightarrow> string \<Rightarrow> int \<Rightarrow> ('db, AddFriendInfo list) act" where
  "queryAddfriendInfo M userid limit = rethrow 40010 ''query addfriend authorize info failre''
     (act_bind (db_find M ''addFriend''
        [(''$and'', BArr
          [BDoc [(''$or'', BArr [BDoc [(''inviter'', BStr userid)], BDoc [(''invitee'', BStr userid)]])],
           BDoc [(''status'', BDoc [(''$not'', BDoc [(''$eq'', BStr ''finish'')])])]])]
        []) (\<lambda>cursor.
      cursor_collect cursor (\<lambda>d.
        res_bind (utf8 M d ''inviter'') (\<lambda>inviter.
        res_bind (utf8 M d ''invitee'') (\<lambda>invitee.
        res_bind (utf8 M d ''toNodeID'') (\<lambda>toNodeID.
        Inr \<lparr>AddFriendInfo_inviter = inviter, AddFriendInfo_invitee = invitee,
             AddFriendInfo_toNodeID = toNodeID\<rparr>))))))"

section \<open>Groups\<close>

definition unread_writes :: "string list \<Rightarrow> (string \<Rightarrow> string) \<Rightarrow> doc list" where
  "unread_writes membersid tonode = map (\<lambda>memberid.
     [(''insertOne'', BDoc [(''userID'', BStr memberid), (''toNodeID'', BStr (tonode memberid)),
        (''unreadIncrement'', BInt32 1), (''readedIncrement'', BInt32 1)])]) membersid"

definition group_node_document :: "CreateGroup \<Rightarrow> doc" where
  "group_node_document cGroup =
     [(''authorize'', BInt32 MessageNode_peer), (''creatorID'', BStr (CreateGroup_userID cGroup)),
      (''nickname'', BStr (CreateGroup_nickname cGroup)), (''version'', BInt32 1),
      (''managerIDs'', BArr []), (''memebers'', BArr (map BStr (CreateGroup_membersID cGroup)))]"

definition createGroup :: "'db mongo \<Rightarrow> CreateGroup \<Rightarrow> ('db, CreateGroupRes) act" where
  "createGroup M cGroup = rethrow 40021 ''create message node for group error''
     (act_bind (db_insert_one M ''messageNode'' (group_node_document cGroup)) (\<lambda>obj_id.
      act_bind (db_insert_one M ''messageNodeCount''
        [(''nodeID'', BStr obj_id), (''count'', BInt32 0)]) (\<lambda>_.
      act_seq (db_bulk_insert M ''userUnread''
        (stale_views M (unread_writes (CreateGroup_membersID cGroup) (\<lambda>memberid. obj_id))))
      (ret (CreateGroupRes_new\<lparr>CreateGroupRes_toNodeID := obj_id,
              CreateGroupRes_nickname := CreateGroup_nickname cGroup\<rparr>)))))"

definition addMembers2Group :: "'db mongo \<Rightarrow> GroupAddMember \<Rightarrow> ('db, GroupAddMemberRes) act" where
  "addMembers2Group M groupMember = rethrow 40022 ''add group member failure''
     (act_bind (lift_exn (oid M (GroupAddMember_toNodeID groupMember))) (\<lambda>id.
      act_seq (db_update_one M ''messageNode'' [(''_id'', BOid id)]
        [(''$addToSet'', BDoc [(''membersid'', BDoc
            [(''$each'', BArr (map BStr (GroupAddMember_membersID groupMember)))])]),
         (''$inc'', BDoc [(''version'', BInt32 1)])])
      (act_seq (db_bulk_insert M ''userUnread''
        (stale_views M (unread_writes (GroupAddMember_membersID groupMember) (\<lambda>memberid. memberid))))
      (ret (GroupAddMemberRes_new\<lparr>GroupAddMemberRes_toNodeID := GroupAddMember_toNodeID groupMember\<rparr>)))))"

section \<open>Media\<close>

definition insertMedia :: "'db mongo \<Rightarrow> Media \<Rightarrow> ('db, unit) act" where
  "insertMedia M media = rethrow 40061 ''media insert failure''
     (act_bind (db_insert_one M ''media''
        [(''md5'', BStr (Media_md5 media)), (''path'', BStr (Media_path media))]) (\<lambda>_. ret ()))"

definition queryMedia :: "'db mongo \<Rightarrow> string \<Rightarrow> ('db, Media) act" where
  "queryMedia M md5 =
     act_bind (db_find_one M ''media'' [(''md5'', BStr md5)]) (\<lambda>maybe_result.
     case maybe_result of
       None \<Rightarrow> raise (sys_error 40062 ''media not find'')
     | Some d \<Rightarrow>
         act_bind (lift_exn (int32 M d ''type'')) (\<lambda>type.
         act_bind (lift_exn (utf8 M d ''md5'')) (\<lambda>md5'.
         act_bind (lift_exn (utf8 M d ''path'')) (\<lambda>path.
         ret \<lparr>Media_md5 = md5', Media_path = path, Media_type = type\<rparr>))))"

section \<open>Connection records\<close>

definition infolittleDocument :: "'db mongo \<Rightarrow> doc \<Rightarrow> exn + ConnectInfoLittle" where
  "infolittleDocument M d =
     res_bind (utf8 M d ''UUID'') (\<lambda>uuid.
     res_bind (boolean M d ''isConnected'') (\<lambda>isConnected.
     res_bind (boolean M d ''isReciveNoti'') (\<lambda>isReciveNoti.
     Inr (ConnectInfoLittle_new\<lparr>ConnectInfoLittle_UUID := uuid,
       ConnectInfoLittle_isConnected := isConnected,
       ConnectInfoLittle_isReciveNoti := isReciveNoti\<rparr>))))"

definition devices_user ::
  "'db mongo \<Rightarrow> (('db, doc list \<times> exn option) act \<Rightarrow> ('s, doc list \<times> exn option) act) \<Rightarrow> NodeUser
   \<Rightarrow> (ConnectInfoLittle \<Rightarrow> ('s, unit) act) \<Rightarrow> ('s, unit) act" where
  "devices_user M lift node_user func =
     act_bind (lift (db_find M ''connectInfo''
       [(''userID'', BStr (NodeUser_toUserID node_user)), (''serverName'', BStr SERVER_NAME),
        (''isLogin'', BBool True)] [])) (\<lambda>cursor.
     cursor_foreach cursor (infolittleDocument M) func)"

definition devices_members ::
  "'db mongo \<Rightarrow> (('db, doc list \<times> exn option) act \<Rightarrow> ('s, doc list \<times> exn option) act)
   \<Rightarrow> string list \<Rightarrow> string \<Rightarrow> (ConnectInfoLittle \<Rightarrow> ('s, unit) act) \<Rightarrow> ('s, unit) act" where
  "devices_members M lift membersid currentUserid func =
     act_bind (lift (db_find M ''connectInfo''
       [(''userID'', BDoc [(''$in'', member_array membersid currentUserid)]),
        (''serverName'', BStr SERVER_NAME), (''isLogin'', BBool True)] [])) (\<lambda>cursor.
     cursor_foreach cursor (infolittleDocument M) func)"

definition users_array :: "(string \<times> int) list \<Rightarrow> bson" where
  "users_array users = BArr (map (\<lambda>(userid, sessionid).
     BDoc [(''userID'', BStr userid), (''sessionID'', BInt32 sessionid)]) users)"

definition connectInfo_fields :: "ConnectInfo \<Rightarrow> int \<Rightarrow> doc" where
  "connectInfo_fields connectInfo ts =
     [(''userID'', BStr (ConnectInfo_userID connectInfo)),
      (''isLogin'', BBool (ConnectInfo_isLogin connectInfo)),
      (''isConnected'', BBool (ConnectInfo_isConnected connectInfo)),
      (''isReciveNoti'', BBool (ConnectInfo_isReciveNoti connectInfo)),
      (''serverName'', BStr SERVER_NAME), (''users'', users_array (ConnectInfo_users connectInfo)),
      (''clientVersion'', BStr (ConnectInfo_clientVersion connectInfo)),
      (''OSVersion'', BStr (ConnectInfo_OSVersion connectInfo)),
      (''appVersion'', BStr (ConnectInfo_appVersion connectInfo)), (''timestamp'', BInt64 ts)]"

definition insertUUID :: "'db mongo \<Rightarrow> ConnectInfo \<Rightarrow> ('db, unit) act" where
  "insertUUID M connectInfo = rethrow 40030 ''connection insert failure''
     (act_bind (gets (clock M)) (\<lambda>ts.
      act_bind (db_insert_one M ''connectInfo''
        ((''UUID'', BStr (ConnectInfo_UUID connectInfo)) # connectInfo_fields connectInfo ts))
      (\<lambda>_. ret ())))"

definition updateUUID :: "'db mongo \<Rightarrow> ConnectInfo \<Rightarrow> ('db, unit) act" where
  "updateUUID M connectInfo = rethrow 40031 ''connection update failure''
     (act_bind (gets (clock M)) (\<lambda>ts.
      db_update_one M ''connectInfo'' [(''UUID'', BStr (ConnectInfo_UUID connectInfo))]
        [(''$set'', BDoc (connectInfo_fields connectInfo ts))]))"

definition updateSessionID :: "'db mongo \<Rightarrow> string \<Rightarrow> string \<Rightarrow> u16 \<Rightarrow> ('db, unit) act" where
  "updateSessionID M uuid userid sessionid = swallow
     (db_update_one M ''connectInfo'' [(''UUID'', BStr uuid), (''users.userID'', BStr userid)]
        [(''$set'', BDoc [(''users.$.sessionID'', BInt32 (uint sessionid))])])"

text \<open>
  \<open>findUUID\<close> fills its \<open>ConnectInfo\<close> argument field by field: what was set before an exception
  stays. Its second argument is that object, threaded as state.
\<close>

fun fill_users :: "'db mongo \<Rightarrow> bson list \<Rightarrow> (ConnectInfo, unit) act" where
  "fill_users M [] = ret ()"
| "fill_users M (b # bs) =
     act_bind (lift_exn (get_document M (Some b))) (\<lambda>doc.
     act_bind (lift_exn (int32 M doc ''sessionID'')) (\<lambda>sessionid.
     act_bind (lift_exn (utf8 M doc ''userID'')) (\<lambda>userid.
     act_seq (modify (ConnectInfo_users_update (AList.update userid sessionid)))
     (fill_users M bs))))"

definition fill_connectInfo :: "'db mongo \<Rightarrow> string \<Rightarrow> doc \<Rightarrow> (ConnectInfo, unit) act" where
  "fill_connectInfo M uuid connectinfo =
     act_seq (modify (\<lambda>c. c\<lparr>ConnectInfo_UUID := uuid\<rparr>))
     (act_bind (lift_exn (utf8 M connectinfo ''userID'')) (\<lambda>userid.
      act_seq (modify (\<lambda>c. c\<lparr>ConnectInfo_userID := userid\<rparr>))
     (act_bind (lift_exn (boolean M connectinfo ''isLogin'')) (\<lambda>islogin.
      act_seq (modify (\<lambda>c. c\<lparr>ConnectInfo_isLogin := islogin\<rparr>))
     (act_bind (lift_exn (boolean M connectinfo ''isConnected'')) (\<lambda>isconnected.
      act_seq (modify (\<lambda>c. c\<lparr>ConnectInfo_isConnected := isconnected\<rparr>))
     (act_bind (lift_exn (boolean M connectinfo ''isReciveNoti'')) (\<lambda>isrecivenoti.
      act_seq (modify (\<lambda>c. c\<lparr>ConnectInfo_isReciveNoti := isrecivenoti,
                               ConnectInfo_serverName := SERVER_NAME\<rparr>))
     (act_bind (lift_exn (get_array M (map_of connectinfo ''users''))) (\<lambda>users.
      act_seq (modify (\<lambda>c. c\<lparr>ConnectInfo_users := []\<rparr>))
     (fill_users M users)))))))))))"

definition findUUID :: "'db mongo \<Rightarrow> string \<Rightarrow> ConnectInfo \<Rightarrow> 'db \<Rightarrow> (exn + bool) \<times> ConnectInfo \<times> 'db" where
  "findUUID M uuid connectInfo db =
     (case db_find_one M ''connectInfo'' [(''UUID'', BStr uuid)] db of
        (Inl e, db') \<Rightarrow> (Inl e, connectInfo, db')
      | (Inr None, db') \<Rightarrow> (Inr False, connectInfo, db')
      | (Inr (Some connectinfo), db') \<Rightarrow>
          (case fill_connectInfo M uuid connectinfo connectInfo of
             (Inl e, connectInfo') \<Rightarrow> (Inl e, connectInfo', db')
           | (Inr _, connectInfo') \<Rightarrow> (Inr True, connectInfo', db')))"

end
