(* ===== verification/MongoFacts.thy ===== *)
theory MongoFacts
  imports Mongo
begin

text \<open>
  Facts on \<open>mongo_client\<close>: its operations fail only by \<open>std::system_error\<close>, what they write can
  be read back, and where it cannot.
\<close>

section \<open>Exceptions\<close>

lemma sys_only_lift_res [sys_only_intros]: "res_sys r \<Longrightarrow> sys_only (lift_exn r)"
  by (rule sys_only_lift) (simp add: res_sys_def)

lemma mongo_sys:
  assumes "mongo_ok M"
  shows "sys_only (db_find_one M c f)" "sys_only (db_insert_one M c d)"
    "sys_only (db_update_one M c f u)" "sys_only (db_update_many M c f u)"
    "sys_only (db_find_one_and_update M c f u)" "sys_only (db_bulk_insert M c ds)"
    "sys_only (db_find M c f d)"
  using assms by (simp_all add: mongo_ok_def)

lemma field_sys:
  assumes "mongo_ok M"
  shows "res_sys (utf8 M d k)" "res_sys (int32 M d k)" "res_sys (boolean M d k)"
  by (simp_all add: field_defs res_sys_get [OF assms])

lemmas mongo_rules = sys_only_ret sys_only_raise sys_only_gets sys_only_bind sys_only_seq sys_only_if
  sys_only_lift_res sys_only_option sys_only_rethrow sys_only_swallow

lemma mongo_client_sys:
  assumes M: "mongo_ok M"
  shows "sys_only (insertUser M enroll)" "sys_only (updateDevice M u dev)"
    "sys_only (insertDevice M u dev)" "sys_only (queryUser_phone M ph cc)" "sys_only (queryUser M u)"
    "sys_only (insertUnreadNode M u t)" "sys_only (updateReadedIncrement M u t i)"
    "sys_only (updateUnreadIncrement M u t i)" "sys_only (updateUnreadIncrement_members M us u t i)"
    "sys_only (queryNode M t)" "sys_only (queryMessage_one M t i)"
  unfolding insertUser_def updateDevice_def insertDevice_def queryUser_phone_def queryUser_def
    insertUnreadNode_def updateReadedIncrement_def updateUnreadIncrement_def
    updateUnreadIncrement_members_def queryNode_def queryMessage_one_def
  by (intro mongo_rules mongo_sys [OF M] res_sys_get [OF M] res_sys_documents [OF M] sys_error_is_system)+

lemma insertMessage_sys:
  assumes M: "mongo_ok M"
  shows "sys_only (insertMessage M message)"
  unfolding insertMessage_def
  by (intro mongo_rules mongo_sys [OF M] field_sys [OF M] sys_error_is_system)+

lemma sys_only_collect:
  assumes "\<And>d. res_sys (read d)" and "\<And>e. snd cur = Some e \<Longrightarrow> is_system_error e"
  shows "sys_only (cursor_collect cur read)"
  unfolding cursor_collect_def using assms
  by (cases "snd cur") (auto intro!: mongo_rules res_sys_map)

lemma sys_only_find:
  assumes M: "mongo_ok M" and "\<And>cur. (\<And>e. snd cur = Some e \<Longrightarrow> is_system_error e) \<Longrightarrow> sys_only (f cur)"
  shows "sys_only (act_bind (db_find M c flt srt) f)"
proof -
  have "wp (act_bind (db_find M c flt srt) f) (\<lambda>_ _. True) (\<lambda>e _. is_system_error e) s" for s
  proof (cases "db_find M c flt srt s")
    case (Pair r d)
    show ?thesis
    proof (cases r)
      case (Inl e)
      then show ?thesis using Pair sys_onlyD [OF mongo_sys(7) [OF M]] by (fastforce simp: wp_bind wp_def)
    next
      case (Inr cur)
      have "is_system_error e" if "snd cur = Some e" for e
        using M Pair Inr that unfolding mongo_ok_def by (metis fst_conv prod.collapse)
      then have "sys_only (f cur)" by (rule assms(2))
      then show ?thesis using Pair Inr by (simp add: sys_only_def wp_bind) (simp add: wp_def)
    qed
  qed
  then show ?thesis by (simp add: sys_only_def)
qed

lemma mongo_client_sys2:
  assumes M: "mongo_ok M"
  shows "sys_only (queryMessage M query)" "sys_only (queryAddfriendInfo M u l)"
    "sys_only (createGroup M cGroup)" "sys_only (addMembers2Group M groupMember)"
    "sys_only (insertMedia M media)" "sys_only (queryMedia M md5)"
    "sys_only (insertUUID M ci)" "sys_only (updateUUID M ci)" "sys_only (updateSessionID M u v sid)"
  unfolding queryMessage_def queryAddfriendInfo_def createGroup_def addMembers2Group_def
    insertMedia_def queryMedia_def insertUUID_def updateUUID_def updateSessionID_def
  by (intro sys_only_find [OF M] sys_only_collect mongo_rules mongo_sys [OF M] field_sys [OF M]
      res_sys_get [OF M] res_sys_documents [OF M] res_sys_bind res_sys_Inr sys_error_is_system
      | assumption)+

lemma addFriend_sys:
  assumes M: "mongo_ok M"
  shows "sys_only (addFriend M addfrd)" "sys_only (addFriendAuthorize M inviter invitee)"
  unfolding addFriend_def addFriendAuthorize_def track_def add_to_friends_def Let_def
  by (intro mongo_rules mongo_sys [OF M] field_sys [OF M] res_sys_get [OF M] insertMessage_sys [OF M]
      mongo_client_sys [OF M] sys_error_is_system)+

lemma infolittle_sys:
  assumes "mongo_ok M"
  shows "res_sys (infolittleDocument M d)"
  unfolding infolittleDocument_def by (intro res_sys_bind field_sys [OF assms] res_sys_Inr)

text \<open>
  \<open>setUserProperty\<close> alone can fail otherwise: \<open>std::stoi\<close> throws a logic error, and \<open>front()\<close> of
  an empty value is undefined.
\<close>

lemma setUserProperty_wp:
  assumes M: "mongo_ok M"
  shows "wp (setUserProperty M u property) (\<lambda>_ _. True)
     (\<lambda>e _. is_system_error e \<or> e = Logic_error ''stoi'' \<or> e = Undefined) s"
proof -
  have fin: "wp (act_bind (lift_exn (oid M u)) (\<lambda>id. db_update_one M ''user'' (flt id) upds)) (\<lambda>_ _. True)
      (\<lambda>e _. is_system_error e \<or> e = Logic_error ''stoi'' \<or> e = Undefined) s" for s flt upds
  proof -
    have "sys_only (act_bind (lift_exn (oid M u)) (\<lambda>id. db_update_one M ''user'' (flt id) upds))"
      by (intro mongo_rules mongo_sys [OF M] res_sys_get [OF M])
    then show ?thesis by (auto simp: sys_only_def elim!: wp_mono allE)
  qed
  have st: "stoi str = Inl e \<Longrightarrow> e = Logic_error ''stoi''" for str e
    by (auto simp: stoi_def Let_def split: if_splits)
  show ?thesis
    using fin [unfolded wp_bind]
    by (auto simp: setUserProperty_def wp_simps split: option.split list.split sum.split dest: st)
qed

section \<open>Reading back what was written\<close>

lemma user_document_read:
  "userDocoument M ((''_id'', BOid key) # user_document enroll) =
     Inr (User_new\<lparr>User_id := key, User_nickname := Register_nickname enroll, User_isMale := True,
       User_countryCode := Register_countryCode enroll, User_phoneNo := Register_phoneNo enroll,
       User_password := Register_password enroll, User_version := 1\<rparr>)"
  by (simp add: userDocoument_def userNodocNoarr_def user_document_def field_defs get_defs
      utf8_array_def doc_array_def User_new_def)

lemma device_document_read: "deviceDocument M (device_document device) = Inr device"
  by (simp add: deviceDocument_def device_document_def field_defs get_defs)

lemma new_device_document_read:
  "deviceDocument M (new_device_document device) = Inr (device\<lparr>Device_deviceNickname := []\<rparr>)"
  by (simp add: deviceDocument_def new_device_document_def field_defs get_defs)

lemma message_document_read:
  "nodemessageDocument M ((''_id'', BOid key) # message_document message incrementid) =
     Inr (NodeMessage_new\<lparr>NodeMessage_id := key, NodeMessage_fromUserID := NodeMessage_fromUserID message,
       NodeMessage_toNodeID := NodeMessage_toNodeID message, NodeMessage_incrementID := incrementid,
       NodeMessage_type := NodeMessage_type message, NodeMessage_content := NodeMessage_content message,
       NodeMessage_timestamp := oid_time M key\<rparr>)"
  by (simp add: nodemessageDocument_def message_document_def field_defs get_defs)

text \<open>The nodes the program creates carry their members under another key than the one it reads.\<close>

lemma group_node_unreadable:
  "messagenodeDocument M ((''_id'', BOid key) # group_node_document cGroup) = Inl (bad_get M None)"
  by (simp add: messagenodeDocument_def group_node_document_def field_defs get_defs utf8_array_def)

lemma peer_node_unreadable:
  "messagenodeDocument M ((''_id'', BOid key) # peer_node_document u v) = Inl (bad_get M None)"
  by (simp add: messagenodeDocument_def peer_node_document_def field_defs get_defs utf8_array_def)

lemma AList_update_new: "k \<notin> fst ` set al \<Longrightarrow> AList.update k v al = al @ [(k, v)]"
  by (induction al) auto

lemma fill_users_read:
  assumes "distinct (map fst us)" and "fst ` set us \<inter> fst ` set (ConnectInfo_users c) = {}"
  shows "fill_users M (map (\<lambda>(u, i). BDoc [(''userID'', BStr u), (''sessionID'', BInt32 i)]) us) c
     = (Inr (), c\<lparr>ConnectInfo_users := ConnectInfo_users c @ us\<rparr>)"
  using assms
proof (induction us arbitrary: c)
  case Nil
  then show ?case by (simp add: act_defs)
next
  case (Cons x us)
  obtain u i where x: "x = (u, i)" by (cases x)
  have up: "AList.update u i (ConnectInfo_users c) = ConnectInfo_users c @ [(u, i)]"
    using Cons.prems(2) x by (intro AList_update_new) auto
  let ?c = "c\<lparr>ConnectInfo_users := ConnectInfo_users c @ [(u, i)]\<rparr>"
  have "fill_users M (map (\<lambda>(u, i). BDoc [(''userID'', BStr u), (''sessionID'', BInt32 i)]) us) ?c
     = (Inr (), ?c\<lparr>ConnectInfo_users := ConnectInfo_users ?c @ us\<rparr>)"
    using Cons.prems x by (intro Cons.IH) auto
  moreover have "ConnectInfo_users_update (AList.update u i) c = ?c"
    using up by (cases c) simp
  ultimately show ?case
    by (simp add: x act_defs get_document_def field_defs get_int32_def get_utf8_def)
qed

text \<open>
  Reading back a connection record: the fields written are those read, but for the versions, which
  keep the value the reader's object had.
\<close>

lemma connectInfo_read:
  assumes "distinct (map fst (ConnectInfo_users ci))"
  shows "fill_connectInfo M uuid ((''_id'', key) # (''UUID'', u) # connectInfo_fields ci ts) c
     = (Inr (), c\<lparr>ConnectInfo_UUID := uuid, ConnectInfo_userID := ConnectInfo_userID ci,
          ConnectInfo_isLogin := ConnectInfo_isLogin ci,
          ConnectInfo_isConnected := ConnectInfo_isConnected ci,
          ConnectInfo_isReciveNoti := ConnectInfo_isReciveNoti ci,
          ConnectInfo_serverName := SERVER_NAME, ConnectInfo_users := ConnectInfo_users ci\<rparr>)"
proof -
  have f: "fill_users M (map (\<lambda>(u, i). BDoc [(''userID'', BStr u), (''sessionID'', BInt32 i)])
        (ConnectInfo_users ci)) (d\<lparr>ConnectInfo_users := []\<rparr>)
      = (Inr (), d\<lparr>ConnectInfo_users := ConnectInfo_users ci\<rparr>)" for d
    using fill_users_read [OF assms, of "d\<lparr>ConnectInfo_users := []\<rparr>"] by simp
  show ?thesis
    by (simp add: fill_connectInfo_def connectInfo_fields_def users_array_def field_defs get_defs
        act_defs) (simp add: f [unfolded act_defs] act_defs)
qed

end
