(* ===== verification/ServerState.thy ===== *)
theory ServerState
  imports Mongo Framing
begin

text \<open>
  The state of the server process (\<open>yijian/libev_server.h\<close>, the static data of
  \<open>yijian/libev_server.cxx\<close>, the thread-local data of \<open>yijian/server_msg_typemap.h\<close>) and the tables
  it keeps: ping list, uuid map, list of peer servers. Objects held by \<open>std::shared_ptr\<close> live in
  lists indexed by their address, so two queues can hold the same buffer.
\<close>

section \<open>State\<close>

text \<open>
  \<open>r_iter\<close> is \<open>iter_sp\<close>: the list cell it designates. A \<open>std::list\<close> is the list of its cells, each
  with an identity of its own and the \<open>Read_IO\<close> it holds; an iterator is valid for the list that
  holds its cell.
\<close>

record read_io =
  r_ping_time :: u64
  r_iter :: "nat option"
  r_writeio :: ptr
  r_buffer_sp_v :: "ptr list"
  r_isConnect :: bool
  r_sessionid :: u16
  r_userid :: string
  r_uuid :: string
  r_appVersion :: string
  r_clientVersion :: string
  r_active :: bool

record write_io =
  w_readio :: ptr
  w_buffers_p :: "ptr list"
  w_active :: bool

type_synonym imp_list = "(nat \<times> ptr) list"

text \<open>
  \<open>raw\<close> supplies the indeterminate contents of new buffers, \<open>conns\<close> are the TLS connections by
  \<open>Read_IO\<close>, \<open>pingnodes\<close> the worker's list \<open>v_pingnode_sp_\<close>, \<open>workq\<close> its queue of dispatch jobs
  (the pool has one worker).
\<close>

record ('db, 'c) world =
  bufs :: "buffer list"
  raw :: "nat \<Rightarrow> buffer"
  rios :: "read_io list"
  wios :: "write_io list"
  conns :: "'c list"
  pinglist :: imp_list
  peer_list :: imp_list
  next_cell :: nat
  uuidnode_map :: "string \<rightharpoonup> ptr"
  currentNode :: "ptr option"
  connectInfo :: ConnectInfo
  node_user :: NodeUser
  node_specifiy :: NodeSpecifiy
  session_id :: u16
  pingnodes :: "ptr list"
  workq :: "(ptr \<times> ptr list \<times> u16) list"
  wdb :: 'db
  now :: u64

type_synonym ('db, 'c, 'a) srv = "(('db, 'c) world, 'a) act"

section \<open>Access to objects\<close>

definition fetch :: "('s \<Rightarrow> 'a list) \<Rightarrow> ptr \<Rightarrow> ('s, 'a) act" where
  "fetch sel p = (\<lambda>s. if p < length (sel s) then (Inr (sel s ! p), s) else (Inl Undefined, s))"

lemma wp_fetch [wp_simps]:
  "wp (fetch sel p) Q E = (\<lambda>s. if p < length (sel s) then Q (sel s ! p) s else E Undefined s)"
  by (simp add: fun_eq_iff wp_def fetch_def)

definition change :: "ptr \<Rightarrow> ('a \<Rightarrow> 'a) \<Rightarrow> 'a list \<Rightarrow> 'a list" where
  "change p f xs = (if p < length xs then xs[p := f (xs ! p)] else xs)"

lemma change_length [simp]: "length (change p f xs) = length xs"
  by (simp add: change_def)

lemma change_nth: "q < length xs \<Longrightarrow> change p f xs ! q = (if q = p then f (xs ! q) else xs ! q)"
  by (simp add: change_def)

lemma map_change: "(\<And>x. g (f x) = g x) \<Longrightarrow> map g (change p f xs) = map g xs"
  by (simp add: change_def map_update list_update_same_conv)

definition set_rio :: "ptr \<Rightarrow> (read_io \<Rightarrow> read_io) \<Rightarrow> ('db, 'c, unit) srv" where
  "set_rio p f = modify (rios_update (change p f))"

definition set_wio :: "ptr \<Rightarrow> (write_io \<Rightarrow> write_io) \<Rightarrow> ('db, 'c, unit) srv" where
  "set_wio p f = modify (wios_update (change p f))"

lemma wp_set_rio [wp_simps]: "wp (set_rio p f) Q E = (\<lambda>s. Q () (rios_update (change p f) s))"
  by (simp add: set_rio_def wp_simps)

lemma wp_set_wio [wp_simps]: "wp (set_wio p f) Q E = (\<lambda>s. Q () (wios_update (change p f) s))"
  by (simp add: set_wio_def wp_simps)

text \<open>An action on one part of the state.\<close>

definition zoom :: "('s \<Rightarrow> 't) \<Rightarrow> (('t \<Rightarrow> 't) \<Rightarrow> 's \<Rightarrow> 's) \<Rightarrow> ('t, 'a) act \<Rightarrow> ('s, 'a) act" where
  "zoom sel put m = (\<lambda>s. case m (sel s) of (r, t) \<Rightarrow> (r, put (\<lambda>_. t) s))"

definition liftdb :: "('db, 'a) act \<Rightarrow> ('db, 'c, 'a) srv" where
  "liftdb = zoom wdb wdb_update"

lemma wp_liftdb [wp_simps]:
  "wp (liftdb m) Q E = (\<lambda>s. wp m (\<lambda>a d. Q a (s\<lparr>wdb := d\<rparr>)) (\<lambda>e d. E e (s\<lparr>wdb := d\<rparr>)) (wdb s))"
  by (simp add: fun_eq_iff wp_def liftdb_def zoom_def split: prod.splits sum.splits)

section \<open>Ping list\<close>

definition PINGPONGTIMEOUT :: u64 where "PINGPONGTIMEOUT = 120"

definition list_erase :: "nat \<Rightarrow> imp_list \<Rightarrow> imp_list" where
  "list_erase cell l = filter (\<lambda>x. fst x \<noteq> cell) l"

text \<open>\<open>erase\<close> with an iterator that is not one of this list is undefined.\<close>

definition ping_erase :: "ptr \<Rightarrow> ('db, 'c, bool) srv" where
  "ping_erase sp =
     act_bind (fetch rios sp) (\<lambda>io.
     case r_iter io of
       Some cell \<Rightarrow>
         act_bind (gets pinglist) (\<lambda>l.
         if cell \<in> set (map fst l)
         then act_seq (modify (\<lambda>s. s\<lparr>pinglist := list_erase cell l\<rparr>))
              (act_seq (set_rio sp (\<lambda>io. io\<lparr>r_iter := None\<rparr>)) (ret True))
         else raise Undefined)
     | None \<Rightarrow> ret False)"

definition ping_append :: "ptr \<Rightarrow> ('db, 'c, unit) srv" where
  "ping_append sp =
     act_bind (gets next_cell) (\<lambda>cell.
     act_bind (gets now) (\<lambda>t.
     act_seq (modify (\<lambda>s. s\<lparr>pinglist := pinglist s @ [(cell, sp)], next_cell := Suc cell\<rparr>))
     (set_rio sp (\<lambda>io. io\<lparr>r_iter := Some cell, r_ping_time := t\<rparr>))))"

definition ping_move2back :: "ptr \<Rightarrow> ('db, 'c, unit) srv" where
  "ping_move2back sp =
     act_bind (ping_erase sp) (\<lambda>erased. if erased then ping_append sp else ret ())"

section \<open>Devices by uuid\<close>

definition uuidnode_put :: "string \<Rightarrow> ptr \<Rightarrow> ('db, 'c, unit) srv" where
  "uuidnode_put uuid io = modify (\<lambda>s. s\<lparr>uuidnode_map := (uuidnode_map s)(uuid \<mapsto> io)\<rparr>)"

definition uuidnode_delete :: "string \<Rightarrow> ('db, 'c, unit) srv" where
  "uuidnode_delete uuid = modify (\<lambda>s. s\<lparr>uuidnode_map := (uuidnode_map s)(uuid := None)\<rparr>)"

definition uuidnode_get :: "string \<Rightarrow> ('db, 'c, ptr) srv" where
  "uuidnode_get uuid =
     act_bind (gets uuidnode_map) (\<lambda>m. case m uuid of
       Some io \<Rightarrow> ret io | None \<Rightarrow> raise (Logic_error ''out_of_range''))"

definition mountBuffer2Device :: "string \<Rightarrow> (ptr \<Rightarrow> ('db, 'c, unit) srv) \<Rightarrow> ('db, 'c, unit) srv" where
  "mountBuffer2Device uuid func =
     act_bind (gets uuidnode_map) (\<lambda>m. case m uuid of Some io \<Rightarrow> func io | None \<Rightarrow> ret ())"

section \<open>The ping timer\<close>

text \<open>The \<open>while\<close> loop of \<open>pingtime_callback\<close>; its list is the rest of \<open>pinglist_\<close> from the iterator.\<close>

fun pingtime_loop :: "u64 \<Rightarrow> imp_list \<Rightarrow> ('db, 'c, unit) srv" where
  "pingtime_loop t [] = ret ()"
| "pingtime_loop t ((cell, sp) # rest) =
     act_bind (fetch rios sp) (\<lambda>io.
     if t - r_ping_time io > PINGPONGTIMEOUT
     then act_seq (uuidnode_delete (r_uuid io))
          (act_seq (modify (\<lambda>s. s\<lparr>pinglist := rest\<rparr>))
          (act_seq (set_rio sp (\<lambda>io. io\<lparr>r_iter := None\<rparr>))
          (pingtime_loop t rest)))
     else ret ())"

definition pingtime_callback :: "('db, 'c, unit) srv" where
  "pingtime_callback =
     act_bind (gets now) (\<lambda>t. act_bind (gets pinglist) (\<lambda>l. pingtime_loop t l))"

section \<open>Peer servers\<close>

text \<open>
  The list is copied before it is changed when a \<open>peer_server_foreach\<close> of the worker still holds
  it (\<open>shared\<close>); the copy has cells of its own.
\<close>

definition peer_unshare :: "bool \<Rightarrow> ('db, 'c, unit) srv" where
  "peer_unshare shared =
     modify (\<lambda>s. if shared
       then s\<lparr>peer_list := zip [next_cell s ..< next_cell s + length (peer_list s)] (map snd (peer_list s)),
              next_cell := next_cell s + length (peer_list s)\<rparr>
       else s)"

definition peer_servers_push :: "bool \<Rightarrow> ptr \<Rightarrow> ('db, 'c, unit) srv" where
  "peer_servers_push shared io =
     act_seq (peer_unshare shared)
     (act_bind (gets next_cell) (\<lambda>cell.
      act_seq (modify (\<lambda>s. s\<lparr>peer_list := peer_list s @ [(cell, io)], next_cell := Suc cell\<rparr>))
      (set_rio io (\<lambda>r. r\<lparr>r_iter := Some cell\<rparr>))))"

definition peer_servers_erase :: "bool \<Rightarrow> ptr \<Rightarrow> ('db, 'c, unit) srv" where
  "peer_servers_erase shared io =
     act_seq (peer_unshare shared)
     (act_bind (fetch rios io) (\<lambda>r.
      case r_iter r of
        None \<Rightarrow> ret ()
      | Some cell \<Rightarrow>
          act_bind (gets peer_list) (\<lambda>l.
          if cell \<in> set (map fst l)
          then modify (\<lambda>s. s\<lparr>peer_list := list_erase cell l\<rparr>)
          else raise Undefined)))"

definition peer_server_foreach :: "(ptr \<Rightarrow> ('db, 'c, unit) srv) \<Rightarrow> ('db, 'c, unit) srv" where
  "peer_server_foreach func = act_bind (gets peer_list) (\<lambda>l. foreach (map snd l) func)"

end
