(* ===== verification/Mount.thy ===== *)
theory Mount
  imports ServerState
begin

text \<open>
  Putting the frames of a reply or a notification into write queues: \<open>yijianBuffer\<close> on the shared
  heap, \<open>pushPingnode\<close> of \<open>yijian/threads_work.cxx\<close>, and the four \<open>mountBuffer2Node\<close> with
  \<open>traverseDevices\<close> of \<open>yijian/server_msg_typemap.cxx\<close>. The protobuf runtime \<open>K\<close> and the driver
  \<open>M\<close> are arguments.
\<close>

section \<open>Frames on the heap\<close>

fun alloc_buffers :: "u8 \<Rightarrow> bytes list \<Rightarrow> ('db, 'c, ptr list) srv" where
  "alloc_buffers type [] = ret []"
| "alloc_buffers type (c # cs) =
     act_bind (gets (\<lambda>s. length (bufs s))) (\<lambda>p.
     act_bind (gets (\<lambda>s. Buffer_new (raw s p) type c)) (\<lambda>r.
     act_bind (lift_exn r) (\<lambda>b.
     act_seq (modify (\<lambda>s. s\<lparr>bufs := bufs s @ [b]\<rparr>))
     (act_bind (alloc_buffers type cs) (\<lambda>ps. ret (p # ps))))))"

definition yijianBuffer_sp :: "codec \<Rightarrow> chat_msg \<Rightarrow> ('db, 'c, ptr list) srv" where
  "yijianBuffer_sp K any = alloc_buffers (chat_code (dispatchType any)) (chunks (ser K any))"

definition sp_set_sessionid :: "ptr \<Rightarrow> u16 \<Rightarrow> bool \<Rightarrow> ('db, 'c, unit) srv" where
  "sp_set_sessionid sp sessionid isLast =
     act_bind (fetch bufs sp) (\<lambda>b.
     case set_sessionid sessionid isLast b of
       (Inl e, b') \<Rightarrow> raise e
     | (Inr _, b') \<Rightarrow> modify (bufs_update (change sp (\<lambda>_. b'))))"

section \<open>Queues\<close>

definition current :: "('db, 'c, ptr) srv" where
  "current = act_bind (gets currentNode) (\<lambda>c. case c of Some p \<Rightarrow> ret p | None \<Rightarrow> raise Undefined)"

definition pushPingnode :: "ptr \<Rightarrow> ('db, 'c, unit) srv" where
  "pushPingnode node = modify (\<lambda>s. s\<lparr>pingnodes := pingnodes s @ [node]\<rparr>)"

text \<open>
  The body shared by the four functions: stamp each buffer as not the last, push it, then stamp the
  last one; \<open>back()\<close> of an empty vector is undefined.
\<close>

definition push_frame :: "ptr \<Rightarrow> u16 \<Rightarrow> ptr \<Rightarrow> ('db, 'c, unit) srv" where
  "push_frame w sid sp =
     act_seq (sp_set_sessionid sp sid False)
     (act_bind (fetch wios w) (\<lambda>_. set_wio w (\<lambda>x. x\<lparr>w_buffers_p := w_buffers_p x @ [sp]\<rparr>)))"

definition push_frames :: "ptr \<Rightarrow> ptr list \<Rightarrow> ('db, 'c, unit) srv" where
  "push_frames node buf_sp_v =
     act_bind (fetch rios node) (\<lambda>io.
     act_bind (gets session_id) (\<lambda>sid.
     act_seq (foreach buf_sp_v (push_frame (r_writeio io) sid))
     (if buf_sp_v = [] then raise Undefined else sp_set_sessionid (last buf_sp_v) sid True)))"

definition mountBuffer2Node_self :: "ptr list \<Rightarrow> ('db, 'c, unit) srv" where
  "mountBuffer2Node_self buf_sp_v =
     act_bind current (\<lambda>node.
     act_seq (push_frames node buf_sp_v) (pushPingnode node))"

definition mountBuffer2Node_peer :: "ptr list \<Rightarrow> ('db, 'c, unit) srv" where
  "mountBuffer2Node_peer buf_sp_v =
     peer_server_foreach (\<lambda>lnode.
       act_seq (push_frames lnode buf_sp_v)
       (act_seq (pushPingnode lnode) (pushPingnode lnode)))"

definition traverseDevices :: "ptr list \<Rightarrow> ConnectInfoLittle \<Rightarrow> ('db, 'c, unit) srv" where
  "traverseDevices buf_sp_v infolittle =
     (if ConnectInfoLittle_isConnected infolittle then
        let luuid = ConnectInfoLittle_UUID infolittle in
        act_bind current (\<lambda>node.
        act_bind (fetch rios node) (\<lambda>io.
        if r_uuid io = luuid then ret ()
        else mountBuffer2Device luuid (\<lambda>io_sp.
               act_seq (push_frames io_sp buf_sp_v) (pushPingnode io_sp))))
      else ret ())"

definition mountBuffer2Node_specifiy ::
  "'db mongo \<Rightarrow> ptr list \<Rightarrow> NodeSpecifiy \<Rightarrow> ('db, 'c, unit) srv" where
  "mountBuffer2Node_specifiy M buf_sp_v specifiy =
     act_bind (liftdb (queryNode M (NodeSpecifiy_toNodeID specifiy))) (\<lambda>node.
     act_bind current (\<lambda>cur.
     act_bind (fetch rios cur) (\<lambda>io.
     devices_members M liftdb (MessageNode_members node) (r_userid io) (traverseDevices buf_sp_v))))"

definition mountBuffer2Node_user :: "'db mongo \<Rightarrow> ptr list \<Rightarrow> NodeUser \<Rightarrow> ('db, 'c, unit) srv" where
  "mountBuffer2Node_user M buf_sp_v user =
     devices_user M liftdb user (traverseDevices buf_sp_v)"

text \<open>\<open>mountBuffer2Node(yijianBuffer(any), node)\<close> for the four kinds of node.\<close>

definition send_self :: "codec \<Rightarrow> chat_msg \<Rightarrow> ('db, 'c, unit) srv" where
  "send_self K any = act_bind (yijianBuffer_sp K any) mountBuffer2Node_self"

definition send_peer :: "codec \<Rightarrow> chat_msg \<Rightarrow> ('db, 'c, unit) srv" where
  "send_peer K any = act_bind (yijianBuffer_sp K any) mountBuffer2Node_peer"

definition send_user :: "codec \<Rightarrow> 'db mongo \<Rightarrow> chat_msg \<Rightarrow> ('db, 'c, unit) srv" where
  "send_user K M any =
     act_bind (yijianBuffer_sp K any) (\<lambda>v.
     act_bind (gets node_user) (mountBuffer2Node_user M v))"

definition send_specifiy :: "codec \<Rightarrow> 'db mongo \<Rightarrow> chat_msg \<Rightarrow> ('db, 'c, unit) srv" where
  "send_specifiy K M any =
     act_bind (yijianBuffer_sp K any) (\<lambda>v.
     act_bind (gets node_specifiy) (mountBuffer2Node_specifiy M v))"

text \<open>\<open>errorBuffer\<close> sent to the requesting device.\<close>

definition send_error :: "codec \<Rightarrow> int \<Rightarrow> string \<Rightarrow> ('db, 'c, unit) srv" where
  "send_error K err_num err_msg =
     send_self K (M_Error \<lparr>Error_errnum = err_num, Error_errmsg = err_msg\<rparr>)"

definition set_touserid :: "string \<Rightarrow> ('db, 'c, unit) srv" where
  "set_touserid userid = modify (node_user_update (\<lambda>n. n\<lparr>NodeUser_toUserID := userid\<rparr>))"

definition current_userid :: "('db, 'c, string) srv" where
  "current_userid = act_bind current (\<lambda>node. act_bind (fetch rios node) (\<lambda>io. ret (r_userid io)))"

end
