(* ===== verification/Delivery.thy ===== *)
theory Delivery
  imports Mount "HOL-Library.Sublist"
begin

text \<open>
  What handlers may do to the server state. \<open>runs n ps P q m\<close> is the contract of an action: from a
  consistent state it ends in a consistent one, write queues have only been appended to, the first
  \<open>n\<close> buffers are untouched, an exception satisfies \<open>P\<close>, and, if \<open>q\<close>, a normal return has queued
  at least one frame for the requesting device. The buffers \<open>ps\<close> are those being mounted.
\<close>

section \<open>Consistent states\<close>

definition srv_inv :: "('db, 'c) world \<Rightarrow> bool" where
  "srv_inv s \<longleftrightarrow>
     (\<exists>c. currentNode s = Some c \<and> c < length (rios s))
     \<and> (\<forall>io \<in> set (rios s). r_writeio io < length (wios s))
     \<and> (\<forall>u p. uuidnode_map s u = Some p \<longrightarrow> p < length (rios s))
     \<and> (\<forall>p \<in> set (map snd (peer_list s)). p < length (rios s))
     \<and> (\<forall>b \<in> set (bufs s). length (b_mem b) = 1024)"

text \<open>The part of a \<open>Read_IO\<close> that handlers leave alone.\<close>

definition io_static :: "read_io \<Rightarrow> ptr \<times> nat option \<times> u64 \<times> ptr list \<times> bool \<times> bool" where
  "io_static r = (r_writeio r, r_iter r, r_ping_time r, r_buffer_sp_v r, r_active r, r_isConnect r)"

definition grows :: "nat \<Rightarrow> ('db, 'c) world \<Rightarrow> ('db, 'c) world \<Rightarrow> bool" where
  "grows n s s' \<longleftrightarrow>
     currentNode s' = currentNode s \<and> map io_static (rios s') = map io_static (rios s)
     \<and> next_cell s' = next_cell s \<and> now s' = now s \<and> workq s' = workq s \<and> conns s' = conns s
     \<and> raw s' = raw s
     \<and> length (wios s') = length (wios s) \<and> map w_readio (wios s') = map w_readio (wios s)
     \<and> (\<forall>w < length (wios s). prefix (w_buffers_p (wios s ! w)) (w_buffers_p (wios s' ! w)))
     \<and> uuidnode_map s' = uuidnode_map s \<and> pinglist s' = pinglist s \<and> peer_list s' = peer_list s
     \<and> length (bufs s) \<le> length (bufs s') \<and> take n (bufs s') = take n (bufs s)"

lemma grows_refl: "grows n s s"
  by (simp add: grows_def)

lemma grows_trans: "grows n s t \<Longrightarrow> grows n t u \<Longrightarrow> grows n s u"
  by (auto simp: grows_def intro: prefix_order.trans)

lemma grows_length_rios: "grows n s t \<Longrightarrow> length (rios t) = length (rios s)"
  unfolding grows_def by (metis length_map)

lemma grows_static:
  assumes g: "grows n s t" and p: "p < length (rios s)"
  shows "io_static (rios t ! p) = io_static (rios s ! p)"
proof -
  have "map io_static (rios t) ! p = map io_static (rios s) ! p" using g by (simp add: grows_def)
  then show ?thesis using p grows_length_rios [OF g] by simp
qed

lemma grows_writeio:
  "grows n s t \<Longrightarrow> p < length (rios s) \<Longrightarrow> r_writeio (rios t ! p) = r_writeio (rios s ! p)"
  using grows_static [of n s t p] by (simp add: io_static_def)

definition cur_queue :: "('db, 'c) world \<Rightarrow> ptr list" where
  "cur_queue s = w_buffers_p (wios s ! r_writeio (rios s ! the (currentNode s)))"

lemma grows_cur_queue:
  assumes i: "srv_inv s" and g: "grows n s t"
  shows "prefix (cur_queue s) (cur_queue t)"
proof -
  obtain c where c: "currentNode s = Some c" "c < length (rios s)" using i by (auto simp: srv_inv_def)
  have w: "r_writeio (rios t ! c) = r_writeio (rios s ! c)" by (rule grows_writeio [OF g c(2)])
  have "r_writeio (rios s ! c) < length (wios s)" using i c by (simp add: srv_inv_def)
  then show ?thesis using g c w by (simp add: cur_queue_def grows_def)
qed

section \<open>The contract\<close>

definition runs :: "nat \<Rightarrow> ptr list \<Rightarrow> (exn \<Rightarrow> bool) \<Rightarrow> bool \<Rightarrow> ('db, 'c, 'a) srv \<Rightarrow> bool" where
  "runs n ps P q m \<longleftrightarrow>
     (\<forall>s. srv_inv s \<and> n \<le> length (bufs s) \<and> (\<forall>p \<in> set ps. n \<le> p \<and> p < length (bufs s)) \<longrightarrow>
        wp m (\<lambda>_ s'. srv_inv s' \<and> grows n s s' \<and> (q \<longrightarrow> length (cur_queue s) < length (cur_queue s')))
           (\<lambda>e s'. P e \<and> srv_inv s' \<and> grows n s s') s)"

lemma runsI:
  assumes "\<And>s. srv_inv s \<Longrightarrow> n \<le> length (bufs s) \<Longrightarrow>
      \<forall>p \<in> set ps. n \<le> p \<and> p < length (bufs s) \<Longrightarrow>
      wp m (\<lambda>_ s'. srv_inv s' \<and> grows n s s' \<and> (q \<longrightarrow> length (cur_queue s) < length (cur_queue s')))
         (\<lambda>e s'. P e \<and> srv_inv s' \<and> grows n s s') s"
  shows "runs n ps P q m"
  using assms by (simp add: runs_def)

lemma runsD:
  assumes "runs n ps P q m" and "srv_inv s" and "n \<le> length (bufs s)"
    and "\<forall>p \<in> set ps. n \<le> p \<and> p < length (bufs s)"
  shows "wp m (\<lambda>_ s'. srv_inv s' \<and> grows n s s' \<and> (q \<longrightarrow> length (cur_queue s) < length (cur_queue s')))
     (\<lambda>e s'. P e \<and> srv_inv s' \<and> grows n s s') s"
  using assms by (simp add: runs_def)

named_theorems safe_intros "contracts without a reply"

lemma runs_bind:
  fixes m :: "('db, 'c, 'a) srv"
  assumes m: "runs n ps P q1 m" and f: "\<And>a. runs n ps P q2 (f a)"
  shows "runs n ps P (q1 \<or> q2) (act_bind m f)"
proof (rule runsI)
  fix s :: "('db, 'c) world"
  assume i: "srv_inv s" and n: "n \<le> length (bufs s)"
    and ps: "\<forall>p \<in> set ps. n \<le> p \<and> p < length (bufs s)"
  have "wp (f a)
      (\<lambda>_ u. srv_inv u \<and> grows n s u \<and> (q1 \<or> q2 \<longrightarrow> length (cur_queue s) < length (cur_queue u)))
      (\<lambda>e u. P e \<and> srv_inv u \<and> grows n s u) t"
    if t: "srv_inv t" "grows n s t" "q1 \<longrightarrow> length (cur_queue s) < length (cur_queue t)" for a t
  proof -
    have l: "length (bufs s) \<le> length (bufs t)" using t by (simp add: grows_def)
    have q: "length (cur_queue s) \<le> length (cur_queue t)"
      using grows_cur_queue [OF i t(2)] by (simp add: prefix_length_le)
    have "wp (f a) (\<lambda>_ u. srv_inv u \<and> grows n t u \<and> (q2 \<longrightarrow> length (cur_queue t) < length (cur_queue u)))
        (\<lambda>e u. P e \<and> srv_inv u \<and> grows n t u) t"
      using l n ps t(1) by (intro runsD [OF f]) auto
    then show ?thesis
    proof (rule wp_mono, goal_cases)
      case (1 b u)
      then have "length (cur_queue t) \<le> length (cur_queue u)"
        using grows_cur_queue [OF t(1), of n u] by (simp add: prefix_length_le)
      with 1 t(3) q grows_trans [OF t(2)] show ?case by auto
    next
      case (2 e u)
      with grows_trans [OF t(2)] show ?case by simp
    qed
  qed
  then show "wp (act_bind m f)
      (\<lambda>_ u. srv_inv u \<and> grows n s u \<and> (q1 \<or> q2 \<longrightarrow> length (cur_queue s) < length (cur_queue u)))
      (\<lambda>e u. P e \<and> srv_inv u \<and> grows n s u) s"
    unfolding wp_bind by (intro wp_mono [OF runsD [OF m i n ps]]) auto
qed

lemma safe_bind [safe_intros]:
  "runs n ps P False m \<Longrightarrow> (\<And>a. runs n ps P False (f a)) \<Longrightarrow> runs n ps P False (act_bind m f)"
  using runs_bind [of n ps P False m False f] by simp

lemma reply_bindL:
  "runs n ps P True m \<Longrightarrow> (\<And>a. runs n ps P False (f a)) \<Longrightarrow> runs n ps P True (act_bind m f)"
  using runs_bind [of n ps P True m False f] by simp

lemma reply_bindR:
  "runs n ps P False m \<Longrightarrow> (\<And>a. runs n ps P True (f a)) \<Longrightarrow> runs n ps P True (act_bind m f)"
  using runs_bind [of n ps P False m True f] by simp

lemma safe_seq [safe_intros]:
  "runs n ps P False m \<Longrightarrow> runs n ps P False k \<Longrightarrow> runs n ps P False (act_seq m k)"
  by (simp add: act_seq_def safe_bind)

lemma reply_seqL: "runs n ps P True m \<Longrightarrow> runs n ps P False k \<Longrightarrow> runs n ps P True (act_seq m k)"
  by (simp add: act_seq_def reply_bindL)

lemma reply_seqR: "runs n ps P False m \<Longrightarrow> runs n ps P True k \<Longrightarrow> runs n ps P True (act_seq m k)"
  by (simp add: act_seq_def reply_bindR)

lemma safe_ret [safe_intros]: "runs n ps P False (ret a)"
  by (simp add: runs_def wp_simps grows_refl)

lemma runs_raise: "P e \<Longrightarrow> runs n ps P q (raise e)"
  by (simp add: runs_def wp_simps grows_refl)

lemma safe_gets [safe_intros]: "runs n ps P False (gets f)"
  by (simp add: runs_def wp_simps grows_refl)

lemma safe_lift: "(\<And>e. r = Inl e \<Longrightarrow> P e) \<Longrightarrow> runs n ps P False (lift_exn r)"
  by (cases r) (simp_all add: runs_def wp_simps grows_refl)

lemma runs_if [safe_intros]: "runs n ps P q m \<Longrightarrow> runs n ps P q k \<Longrightarrow> runs n ps P q (if b then m else k)"
  by simp

lemma runs_option [safe_intros]:
  "runs n ps P q m \<Longrightarrow> (\<And>a. runs n ps P q (f a)) \<Longrightarrow>
   runs n ps P q (case r of None \<Rightarrow> m | Some a \<Rightarrow> f a)"
  by (cases r) auto

lemma runs_mono:
  assumes "runs n ps P' q m" and "\<And>e. P' e \<Longrightarrow> P e"
  shows "runs n ps P q m"
  by (rule runsI, rule wp_mono [OF runsD [OF assms(1)]]) (auto intro: assms(2))

lemma runs_catch:
  fixes m :: "('db, 'c, 'a) srv"
  assumes m: "runs n ps P' q m"
    and h: "\<And>e. P' e \<Longrightarrow> is_system_error e \<Longrightarrow> runs n ps P q (h e)"
    and o: "\<And>e. P' e \<Longrightarrow> \<not> is_system_error e \<Longrightarrow> P e"
  shows "runs n ps P q (catch_system_error m h)"
proof (rule runsI)
  fix s :: "('db, 'c) world"
  assume i: "srv_inv s" and n: "n \<le> length (bufs s)"
    and ps: "\<forall>p \<in> set ps. n \<le> p \<and> p < length (bufs s)"
  have "wp (h e)
      (\<lambda>_ u. srv_inv u \<and> grows n s u \<and> (q \<longrightarrow> length (cur_queue s) < length (cur_queue u)))
      (\<lambda>e u. P e \<and> srv_inv u \<and> grows n s u) t"
    if e: "P' e" "is_system_error e" and t: "srv_inv t" "grows n s t" for e t
  proof -
    have l: "length (bufs s) \<le> length (bufs t)" using t by (simp add: grows_def)
    have ql: "length (cur_queue s) \<le> length (cur_queue t)"
      using grows_cur_queue [OF i t(2)] by (simp add: prefix_length_le)
    have "wp (h e) (\<lambda>_ u. srv_inv u \<and> grows n t u \<and> (q \<longrightarrow> length (cur_queue t) < length (cur_queue u)))
        (\<lambda>e u. P e \<and> srv_inv u \<and> grows n t u) t"
      using l n ps t(1) by (intro runsD [OF h [OF e]]) auto
    then show ?thesis
      using ql grows_trans [OF t(2)] by (elim wp_mono) auto
  qed
  then show "wp (catch_system_error m h)
      (\<lambda>_ u. srv_inv u \<and> grows n s u \<and> (q \<longrightarrow> length (cur_queue s) < length (cur_queue u)))
      (\<lambda>e u. P e \<and> srv_inv u \<and> grows n s u) s"
    unfolding wp_catch using o by (intro wp_mono [OF runsD [OF m i n ps]]) auto
qed

lemma safe_foreach [safe_intros]:
  "(\<And>x. x \<in> set xs \<Longrightarrow> runs n ps P False (f x)) \<Longrightarrow> runs n ps P False (foreach xs f)"
  by (induction xs) (auto intro: safe_intros)

section \<open>Single steps\<close>

text \<open>A change of the state that touches neither nodes' queues nor tables nor buffers.\<close>

lemma safe_modify:
  assumes "\<And>s. srv_inv s \<Longrightarrow> srv_inv (f s)" and "\<And>s. srv_inv s \<Longrightarrow> grows n s (f s)"
  shows "runs n ps P False (modify f)"
  using assms by (simp add: runs_def wp_simps)

lemma safe_pushPingnode [safe_intros]: "runs n ps P False (pushPingnode node)"
  unfolding pushPingnode_def by (rule safe_modify) (auto simp: srv_inv_def grows_def)

lemma safe_set_touserid [safe_intros]: "runs n ps P False (set_touserid u)"
  unfolding set_touserid_def by (rule safe_modify) (auto simp: srv_inv_def grows_def)

lemma safe_liftdb:
  assumes "sys_only m"
  shows "runs n ps is_system_error False (liftdb m :: ('db, 'c, 'a) srv)"
proof (rule runsI)
  fix s :: "('db, 'c) world"
  assume i: "srv_inv s"
  have "srv_inv (s\<lparr>wdb := d\<rparr>)" and "grows n s (s\<lparr>wdb := d\<rparr>)" for d
    using i by (simp_all add: srv_inv_def grows_def)
  then show "wp (liftdb m)
      (\<lambda>_ s'. srv_inv s' \<and> grows n s s' \<and> (False \<longrightarrow> length (cur_queue s) < length (cur_queue s')))
      (\<lambda>e s'. is_system_error e \<and> srv_inv s' \<and> grows n s s') s"
    using assms by (auto simp: wp_simps sys_only_def intro: wp_mono)
qed

lemma safe_current [safe_intros]: "runs n ps P False current"
  by (auto simp: runs_def current_def wp_simps srv_inv_def grows_refl)

lemma srv_inv_current:
  assumes "srv_inv s"
  obtains c where "currentNode s = Some c" and "c < length (rios s)"
    and "r_writeio (rios s ! c) < length (wios s)"
  using assms by (auto simp: srv_inv_def)

lemma safe_set_rio:
  assumes "\<And>r. io_static (f r) = io_static r"
  shows "runs n ps P False (set_rio p f)"
proof -
  have st: "map io_static (change p f l) = map io_static l" for l :: "read_io list"
    by (rule map_change) (rule assms)
  have "r_writeio (f r) = r_writeio r" for r using assms [of r] by (simp add: io_static_def)
  then have w: "map r_writeio (change p f l) = map r_writeio l" for l :: "read_io list"
    by (rule map_change)
  have b: "(\<forall>x \<in> set (change p f l). r_writeio x < k) \<longleftrightarrow> (\<forall>x \<in> set l. r_writeio x < k)"
    for l :: "read_io list" and k
    using arg_cong [OF w [of l], of "\<lambda>xs. \<forall>y \<in> set xs. y < k"] by simp
  show ?thesis
    unfolding set_rio_def by (rule safe_modify) (auto simp: srv_inv_def grows_def st b)
qed

text \<open>Acting on the requesting device's \<open>Read_IO\<close>.\<close>

lemma runs_current_fetch:
  fixes f :: "ptr \<Rightarrow> read_io \<Rightarrow> ('db, 'c, 'a) srv"
  assumes "\<And>c io. runs n ps P q (f c io)"
  shows "runs n ps P q (act_bind current (\<lambda>c. act_bind (fetch rios c) (f c)))"
proof (rule runsI)
  fix s :: "('db, 'c) world"
  assume i: "srv_inv s" and n: "n \<le> length (bufs s)"
    and ps: "\<forall>p \<in> set ps. n \<le> p \<and> p < length (bufs s)"
  obtain c where "currentNode s = Some c" "c < length (rios s)" using srv_inv_current [OF i] .
  then show "wp (act_bind current (\<lambda>c. act_bind (fetch rios c) (f c)))
      (\<lambda>_ s'. srv_inv s' \<and> grows n s s' \<and> (q \<longrightarrow> length (cur_queue s) < length (cur_queue s')))
      (\<lambda>e s'. P e \<and> srv_inv s' \<and> grows n s s') s"
    using runsD [OF assms i n ps] by (simp add: current_def wp_simps)
qed

lemma safe_current_userid [safe_intros]: "runs n ps P False current_userid"
  unfolding current_userid_def by (rule runs_current_fetch) (rule safe_ret)

section \<open>Frames\<close>

lemma set_sessionid_1024:
  assumes "length (b_mem b) = 1024"
  shows "\<exists>b'. set_sessionid sid l b = (Inr (), b') \<and> length (b_mem b') = 1024"
  using set_sessionid_ok [of b sid l] assms by auto

definition valid_bufs :: "nat \<Rightarrow> ptr list \<Rightarrow> ('db, 'c) world \<Rightarrow> bool" where
  "valid_bufs n ps s \<longleftrightarrow> n \<le> length (bufs s) \<and> (\<forall>p \<in> set ps. n \<le> p \<and> p < length (bufs s))"

lemma valid_bufs_grows: "valid_bufs n ps s \<Longrightarrow> grows n s t \<Longrightarrow> valid_bufs n ps t"
  by (auto simp: valid_bufs_def grows_def)

lemma sp_set_sessionid_wp:
  assumes i: "srv_inv s" and v: "valid_bufs n ps s" and sp: "sp \<in> set ps"
  shows "wp (sp_set_sessionid sp sid l)
     (\<lambda>_ s'. srv_inv s' \<and> grows n s s' \<and> wios s' = wios s) (\<lambda>_ _. False) s"
proof -
  have sp: "n \<le> sp" "sp < length (bufs s)" using v sp by (auto simp: valid_bufs_def)
  have b: "length (b_mem (bufs s ! sp)) = 1024" using i sp by (simp add: srv_inv_def)
  obtain b' where b': "set_sessionid sid l (bufs s ! sp) = (Inr (), b')" "length (b_mem b') = 1024"
    using set_sessionid_1024 [OF b] by blast
  have "srv_inv (bufs_update (change sp (\<lambda>_. b')) s)"
    using i b' by (auto simp: srv_inv_def change_def dest!: set_update_subset_insert [THEN subsetD])
  moreover have "grows n s (bufs_update (change sp (\<lambda>_. b')) s)"
    using sp by (simp add: grows_def change_def)
  ultimately show ?thesis
    using sp b' by (simp add: sp_set_sessionid_def wp_simps)
qed

lemma push_one:
  assumes i: "srv_inv s" and w: "w < length (wios s)"
  shows "srv_inv (wios_update (change w (\<lambda>x. x\<lparr>w_buffers_p := w_buffers_p x @ [sp]\<rparr>)) s)"
    and "grows n s (wios_update (change w (\<lambda>x. x\<lparr>w_buffers_p := w_buffers_p x @ [sp]\<rparr>)) s)"
  using i w by (auto simp: srv_inv_def grows_def change_nth map_change)

lemma push_loop:
  assumes "set xs \<subseteq> set ps" and "srv_inv s" and "valid_bufs n ps s" and "w < length (wios s)"
  shows "wp (foreach xs (push_frame w sid))
     (\<lambda>_ s'. srv_inv s' \<and> grows n s s' \<and> w_buffers_p (wios s' ! w) = w_buffers_p (wios s ! w) @ xs)
     (\<lambda>_ _. False) s"
  using assms
proof (induction xs arbitrary: s)
  case Nil
  then show ?case by (simp add: wp_simps grows_refl)
next
  case (Cons sp xs)
  let ?up = "wios_update (change w (\<lambda>x. x\<lparr>w_buffers_p := w_buffers_p x @ [sp]\<rparr>))"
  have sp: "sp \<in> set ps" using Cons.prems(1) by simp
  have rest: "wp (foreach xs (push_frame w sid))
     (\<lambda>_ s'. srv_inv s' \<and> grows n s s' \<and> w_buffers_p (wios s' ! w) = w_buffers_p (wios s ! w) @ sp # xs)
     (\<lambda>_ _. False) (?up t)"
    if t: "srv_inv t" "grows n s t" "wios t = wios s" for t
  proof -
    have w: "w < length (wios t)" using t(3) Cons.prems(4) by simp
    have g: "grows n s (?up t)" by (rule grows_trans [OF t(2) push_one(2) [OF t(1) w]])
    have q: "w_buffers_p (wios (?up t) ! w) = w_buffers_p (wios s ! w) @ [sp]"
      using w t(3) by (simp add: change_nth)
    have "wp (foreach xs (push_frame w sid))
       (\<lambda>_ s'. srv_inv s' \<and> grows n (?up t) s'
          \<and> w_buffers_p (wios s' ! w) = w_buffers_p (wios (?up t) ! w) @ xs) (\<lambda>_ _. False) (?up t)"
      using w Cons.prems(1) valid_bufs_grows [OF Cons.prems(3) g]
      by (intro Cons.IH push_one(1) [OF t(1)]) simp_all
    then show ?thesis using q by (elim wp_mono) (auto intro: grows_trans [OF g])
  qed
  show ?case
    using Cons.prems(4) rest
    by (auto simp: wp_simps push_frame_def [of w sid sp] intro!: wp_mono [OF sp_set_sessionid_wp [OF Cons.prems(2,3) sp]])
qed

lemma push_frames_wp:
  assumes i: "srv_inv s" and v: "valid_bufs n ps s" and node: "node < length (rios s)" and ne: "ps \<noteq> []"
  shows "wp (push_frames node ps)
     (\<lambda>_ s'. srv_inv s' \<and> grows n s s' \<and> w_buffers_p (wios s' ! r_writeio (rios s ! node))
         = w_buffers_p (wios s ! r_writeio (rios s ! node)) @ ps) (\<lambda>_ _. False) s"
proof -
  let ?w = "r_writeio (rios s ! node)"
  have w: "?w < length (wios s)" using i node by (simp add: srv_inv_def)
  have l: "last ps \<in> set ps" using ne by simp
  have fin: "wp (sp_set_sessionid (last ps) (session_id s) True)
     (\<lambda>_ s'. srv_inv s' \<and> grows n s s' \<and> w_buffers_p (wios s' ! ?w) = w_buffers_p (wios s ! ?w) @ ps)
     (\<lambda>_ _. False) t"
    if t: "srv_inv t" "grows n s t" "w_buffers_p (wios t ! ?w) = w_buffers_p (wios s ! ?w) @ ps" for t
    using t(3) by (intro wp_mono [OF sp_set_sessionid_wp [OF t(1) valid_bufs_grows [OF v t(2)] l]])
      (auto intro: grows_trans [OF t(2)])
  show ?thesis
    using node ne fin
    by (auto simp: push_frames_def wp_simps
        intro!: wp_mono [OF push_loop [OF subset_refl i v w, of "session_id s"]])
qed

lemma safe_push_current:
  assumes "ps \<noteq> []"
  shows "runs n ps P True (mountBuffer2Node_self ps :: ('db, 'c, unit) srv)"
proof (rule runsI)
  fix s :: "('db, 'c) world"
  assume i: "srv_inv s" and n: "n \<le> length (bufs s)"
    and ps: "\<forall>p \<in> set ps. n \<le> p \<and> p < length (bufs s)"
  obtain c where c: "currentNode s = Some c" "c < length (rios s)" using srv_inv_current [OF i] .
  have v: "valid_bufs n ps s" using n ps by (simp add: valid_bufs_def)
  have q: "length (cur_queue s) < length (cur_queue t)"
    if t: "grows n s t" "w_buffers_p (wios t ! r_writeio (rios s ! c))
        = w_buffers_p (wios s ! r_writeio (rios s ! c)) @ ps" for t
  proof -
    have "r_writeio (rios t ! c) = r_writeio (rios s ! c)" by (rule grows_writeio [OF t(1) c(2)])
    moreover have "currentNode t = Some c" using t(1) c(1) by (simp add: grows_def)
    ultimately show ?thesis using t(2) c(1) assms by (simp add: cur_queue_def)
  qed
  have p: "srv_inv (t\<lparr>pingnodes := pingnodes t @ [c]\<rparr>) = srv_inv t"
      "grows n s (t\<lparr>pingnodes := pingnodes t @ [c]\<rparr>) = grows n s t"
      "cur_queue (t\<lparr>pingnodes := pingnodes t @ [c]\<rparr>) = cur_queue t" for t
    by (simp_all add: srv_inv_def grows_def cur_queue_def)
  show "wp (mountBuffer2Node_self ps)
      (\<lambda>_ s'. srv_inv s' \<and> grows n s s' \<and> (True \<longrightarrow> length (cur_queue s) < length (cur_queue s')))
      (\<lambda>e s'. P e \<and> srv_inv s' \<and> grows n s s') s"
    using c(1) q
    by (auto simp: mountBuffer2Node_self_def current_def wp_simps pushPingnode_def p
        intro!: wp_mono [OF push_frames_wp [OF i v c(2) assms]])
qed

lemma safe_mountBuffer2Device:
  assumes "ps \<noteq> []"
  shows "runs n ps P False (mountBuffer2Device uuid (\<lambda>io.
     act_seq (push_frames io ps) (pushPingnode io)) :: ('db, 'c, unit) srv)"
proof (rule runsI)
  fix s :: "('db, 'c) world"
  assume i: "srv_inv s" and n: "n \<le> length (bufs s)"
    and ps: "\<forall>p \<in> set ps. n \<le> p \<and> p < length (bufs s)"
  have p: "srv_inv (t\<lparr>pingnodes := pingnodes t @ [c]\<rparr>) = srv_inv t"
      "grows n s (t\<lparr>pingnodes := pingnodes t @ [c]\<rparr>) = grows n s t" for t c
    by (simp_all add: srv_inv_def grows_def)
  have v: "valid_bufs n ps s" using n ps by (simp add: valid_bufs_def)
  show "wp (mountBuffer2Device uuid (\<lambda>io. act_seq (push_frames io ps) (pushPingnode io)))
      (\<lambda>_ s'. srv_inv s' \<and> grows n s s' \<and> (False \<longrightarrow> length (cur_queue s) < length (cur_queue s')))
      (\<lambda>e s'. P e \<and> srv_inv s' \<and> grows n s s') s"
  proof (cases "uuidnode_map s uuid")
    case None
    then show ?thesis using i by (simp add: mountBuffer2Device_def wp_simps grows_refl)
  next
    case (Some io)
    then have "io < length (rios s)" using i by (simp add: srv_inv_def)
    then show ?thesis using Some
      by (auto simp: mountBuffer2Device_def wp_simps pushPingnode_def p
          intro!: wp_mono [OF push_frames_wp [OF i v _ assms]])
  qed
qed

lemma safe_traverseDevices [safe_intros]:
  assumes "ps \<noteq> []"
  shows "runs n ps P False (traverseDevices ps infolittle)"
  unfolding traverseDevices_def Let_def
  by (intro runs_if runs_current_fetch safe_ret safe_mountBuffer2Device assms)

lemma safe_peer [safe_intros]:
  assumes "ps \<noteq> []"
  shows "runs n ps P False (mountBuffer2Node_peer ps :: ('db, 'c, unit) srv)"
proof (rule runsI)
  fix s :: "('db, 'c) world"
  assume i: "srv_inv s" and n: "n \<le> length (bufs s)"
    and ps: "\<forall>p \<in> set ps. n \<le> p \<and> p < length (bufs s)"
  have p: "srv_inv (t\<lparr>pingnodes := ns\<rparr>) = srv_inv t"
      "grows n s (t\<lparr>pingnodes := ns\<rparr>) = grows n s t" for t ns
    by (simp_all add: srv_inv_def grows_def)
  have loop: "wp (foreach xs (\<lambda>lnode. act_seq (push_frames lnode ps)
        (act_seq (pushPingnode lnode) (pushPingnode lnode))))
      (\<lambda>_ s'. srv_inv s' \<and> grows n s s') (\<lambda>_ _. False) t"
    if "\<forall>x \<in> set xs. x < length (rios s)" and "srv_inv t" and "grows n s t" for xs t
    using that
  proof (induction xs arbitrary: t)
    case Nil
    then show ?case by (simp add: wp_simps)
  next
    case (Cons x xs)
    have v: "valid_bufs n ps t"
      by (rule valid_bufs_grows [OF _ Cons.prems(3)]) (use n ps in \<open>simp add: valid_bufs_def\<close>)
    have "x < length (rios s)" using Cons.prems(1) by simp
    then have x: "x < length (rios t)" by (simp only: grows_length_rios [OF Cons.prems(3)])
    have rest: "wp (foreach xs (\<lambda>lnode. act_seq (push_frames lnode ps)
          (act_seq (pushPingnode lnode) (pushPingnode lnode))))
        (\<lambda>_ s'. srv_inv s' \<and> grows n s s') (\<lambda>_ _. False) (u\<lparr>pingnodes := ns\<rparr>)"
      if u: "srv_inv u" "grows n t u" for u ns
      using Cons.prems(1) u grows_trans [OF Cons.prems(3) u(2)] by (intro Cons.IH) (simp_all add: p)
    have "wp (push_frames x ps) (\<lambda>_ u. wp (foreach xs (\<lambda>lnode. act_seq (push_frames lnode ps)
          (act_seq (pushPingnode lnode) (pushPingnode lnode))))
        (\<lambda>_ s'. srv_inv s' \<and> grows n s s') (\<lambda>_ _. False)
        (u\<lparr>pingnodes := (pingnodes u @ [x]) @ [x]\<rparr>)) (\<lambda>_ _. False) t"
      using rest by (intro wp_mono [OF push_frames_wp [OF Cons.prems(2) v x assms]]) blast+
    then show ?case by (simp add: wp_seq pushPingnode_def wp_modify)
  qed
  have "\<forall>x \<in> set (map snd (peer_list s)). x < length (rios s)" using i by (simp add: srv_inv_def)
  then show "wp (mountBuffer2Node_peer ps)
      (\<lambda>_ s'. srv_inv s' \<and> grows n s s' \<and> (False \<longrightarrow> length (cur_queue s) < length (cur_queue s')))
      (\<lambda>e s'. P e \<and> srv_inv s' \<and> grows n s s') s"
    using i by (auto simp: mountBuffer2Node_peer_def peer_server_foreach_def wp_simps
        intro!: wp_mono [OF loop] grows_refl simp del: foreach.simps)
qed

section \<open>Sending a message\<close>

lemma set_sessionid_length: "set_sessionid sid l b = (Inr (), b') \<Longrightarrow> length (b_mem b') = length (b_mem b)"
  by (auto simp: set_sessionid_def act_defs Let_def poke_length split: sum.splits)

lemma Buffer_new_ok:
  assumes "length c \<le> 1019"
  shows "\<exists>b. Buffer_new r type c = Inr b \<and> length (b_mem b) = 1024
     \<and> (\<forall>sid l. \<exists>b'. set_sessionid sid l b = (Inr (), b') \<and> holds_frame b' sid l type c)"
proof -
  obtain b where b: "Buffer_new r type c = Inr b"
    using Buffer_new_holds_frame [OF assms, of r type 0 False] by blast
  have st: "\<exists>b'. set_sessionid sid l b = (Inr (), b') \<and> holds_frame b' sid l type c" for sid l
    using Buffer_new_holds_frame [OF assms, of r type sid l] b by auto
  moreover have "length (b_mem b) = 1024"
    using st [of 0 False] set_sessionid_length by (fastforce simp: holds_frame_def)
  ultimately show ?thesis using b by blast
qed

lemma chunks_ok:
  "concat (chunks d) = d" "\<forall>x \<in> set (chunks d). length x \<le> 1019" "chunks d \<noteq> []"
  using chunk_loop_ok [of 0 0 d] by (simp_all add: chunks_def)

text \<open>Allocating the frames of a message: the new buffers, in order, behind the old ones.\<close>

lemma alloc_buffers_wp:
  assumes "\<forall>x \<in> set cs. length x \<le> 1019" and "srv_inv s"
  shows "wp (alloc_buffers type cs)
     (\<lambda>ps s'. srv_inv s' \<and> ps = [length (bufs s) ..< length (bufs s) + length cs]
        \<and> (\<exists>bs. s' = s\<lparr>bufs := bufs s @ bs\<rparr> \<and> length bs = length cs
             \<and> (\<forall>k < length cs. Buffer_new (raw s (length (bufs s) + k)) type (cs ! k) = Inr (bs ! k))))
     (\<lambda>_ _. False) s"
  using assms
proof (induction cs arbitrary: s)
  case Nil
  then show ?case by (auto simp: wp_simps intro!: exI [of _ "[]"])
next
  case (Cons c cs)
  obtain b where b: "Buffer_new (raw s (length (bufs s))) type c = Inr b" "length (b_mem b) = 1024"
    using Buffer_new_ok [of c "raw s (length (bufs s))" type] Cons.prems(1) by auto
  let ?t = "s\<lparr>bufs := bufs s @ [b]\<rparr>"
  have t: "srv_inv ?t" using Cons.prems(2) b(2) by (auto simp: srv_inv_def)
  have up: "[length (bufs s) ..< length (bufs s) + length (c # cs)]
      = length (bufs s) # [Suc (length (bufs s)) ..< Suc (length (bufs s)) + length cs]"
    by (simp add: upt_rec [of "length (bufs s)"] Suc_le_eq)
  have "wp (alloc_buffers type cs)
     (\<lambda>ps s'. srv_inv s' \<and> ps = [length (bufs ?t) ..< length (bufs ?t) + length cs]
        \<and> (\<exists>bs. s' = ?t\<lparr>bufs := bufs ?t @ bs\<rparr> \<and> length bs = length cs
             \<and> (\<forall>k < length cs. Buffer_new (raw ?t (length (bufs ?t) + k)) type (cs ! k) = Inr (bs ! k))))
     (\<lambda>_ _. False) ?t"
    using Cons.prems(1) by (intro Cons.IH t) simp
  then have "wp (alloc_buffers type cs)
     (\<lambda>ps s'. srv_inv s' \<and> length (bufs s) # ps = [length (bufs s) ..< length (bufs s) + length (c # cs)]
        \<and> (\<exists>bs. s' = s\<lparr>bufs := bufs s @ bs\<rparr> \<and> length bs = length (c # cs)
             \<and> (\<forall>k < length (c # cs). Buffer_new (raw s (length (bufs s) + k)) type ((c # cs) ! k) = Inr (bs ! k))))
     (\<lambda>_ _. False) ?t"
  proof (rule wp_mono, goal_cases)
    case (1 ps u)
    then obtain bs where u: "u = ?t\<lparr>bufs := bufs ?t @ bs\<rparr>" and l: "length bs = length cs"
      and n: "\<forall>k < length cs. Buffer_new (raw s (length (bufs s @ [b]) + k)) type (cs ! k) = Inr (bs ! k)"
      by auto
    have "\<forall>k < length (c # cs). Buffer_new (raw s (length (bufs s) + k)) type ((c # cs) ! k) = Inr ((b # bs) ! k)"
      using n b(1) by (auto simp: less_Suc_eq_0_disj)
    then have "\<exists>bs. u = s\<lparr>bufs := bufs s @ bs\<rparr> \<and> length bs = length (c # cs)
        \<and> (\<forall>k < length (c # cs). Buffer_new (raw s (length (bufs s) + k)) type ((c # cs) ! k) = Inr (bs ! k))"
      using u l by (intro exI [of _ "b # bs"]) simp
    moreover have "length (bufs s) # ps = [length (bufs s) ..< length (bufs s) + length (c # cs)]"
      unfolding up using 1 by simp
    ultimately show ?case using 1 by simp
  qed simp
  then show ?case by (simp add: wp_simps b(1) o_def)
qed

lemma runs_yijianBuffer:
  fixes f :: "ptr list \<Rightarrow> ('db, 'c, 'a) srv"
  assumes "\<And>ps. ps \<noteq> [] \<Longrightarrow> runs n ps P q (f ps)"
  shows "runs n [] P q (act_bind (yijianBuffer_sp K any) f)"
proof (rule runsI)
  fix s :: "('db, 'c) world"
  assume i: "srv_inv s" and n: "n \<le> length (bufs s)"
  let ?cs = "chunks (ser K any)"
  have "wp (f ps)
      (\<lambda>_ s'. srv_inv s' \<and> grows n s s' \<and> (q \<longrightarrow> length (cur_queue s) < length (cur_queue s')))
      (\<lambda>e s'. P e \<and> srv_inv s' \<and> grows n s s') (s\<lparr>bufs := bufs s @ bs\<rparr>)"
    if t: "srv_inv (s\<lparr>bufs := bufs s @ bs\<rparr>)"
      and ps: "ps = [length (bufs s) ..< length (bufs s) + length ?cs]" and l: "length bs = length ?cs"
    for ps bs
  proof -
    have g: "grows n s (s\<lparr>bufs := bufs s @ bs\<rparr>)" using n by (simp add: grows_def)
    have c: "cur_queue (s\<lparr>bufs := bufs s @ bs\<rparr>) = cur_queue s" by (simp add: cur_queue_def)
    have ne: "ps \<noteq> []" using chunks_ok(3) [of "ser K any"] by (simp add: ps)
    have "\<forall>p \<in> set ps. n \<le> p \<and> p < length (bufs (s\<lparr>bufs := bufs s @ bs\<rparr>))"
      using n l by (auto simp: ps)
    then show ?thesis using n c
      by (intro wp_mono [OF runsD [OF assms [OF ne] t]]) (auto intro: grows_trans [OF g])
  qed
  then show "wp (act_bind (yijianBuffer_sp K any) f)
      (\<lambda>_ s'. srv_inv s' \<and> grows n s s' \<and> (q \<longrightarrow> length (cur_queue s) < length (cur_queue s')))
      (\<lambda>e s'. P e \<and> srv_inv s' \<and> grows n s s') s"
    unfolding wp_bind yijianBuffer_sp_def
    by (intro wp_mono [OF alloc_buffers_wp [OF chunks_ok(2) i]]) auto
qed

lemma reply_send_self: "runs n [] P True (send_self K any)"
  unfolding send_self_def by (intro runs_yijianBuffer safe_push_current)

lemma reply_send_error: "runs n [] P True (send_error K code msg)"
  unfolding send_error_def by (rule reply_send_self)

lemma safe_weaken: "runs n ps P True m \<Longrightarrow> runs n ps P False m"
  by (rule runsI, rule wp_mono [OF runsD]) auto

lemma safe_send_self [safe_intros]: "runs n [] P False (send_self K any)"
  by (rule safe_weaken [OF reply_send_self])

lemma safe_send_peer [safe_intros]: "runs n [] P False (send_peer K any)"
  unfolding send_peer_def by (intro runs_yijianBuffer safe_peer)

lemma cursor_foreach_safe:
  assumes "\<And>d. res_sys (read d)" and "\<And>e. snd cur = Some e \<Longrightarrow> is_system_error e"
    and "\<And>b. runs n ps is_system_error False (func b)"
  shows "runs n ps is_system_error False (cursor_foreach cur read func)"
  using assms unfolding cursor_foreach_def
  by (cases "snd cur")
    (auto intro!: safe_intros safe_lift runs_raise simp: res_sys_def)

lemma safe_db_find:
  assumes M: "mongo_ok M" and f: "\<And>cur. (\<And>e. snd cur = Some e \<Longrightarrow> is_system_error e)
      \<Longrightarrow> runs n ps is_system_error False (f cur)"
  shows "runs n ps is_system_error False
     (act_bind (liftdb (db_find M c flt srt)) f :: ('db, 'c, 'a) srv)"
proof (rule runsI)
  fix s :: "('db, 'c) world"
  assume i: "srv_inv s" and n: "n \<le> length (bufs s)"
    and ps: "\<forall>p \<in> set ps. n \<le> p \<and> p < length (bufs s)"
  obtain r d where r: "db_find M c flt srt (wdb s) = (r, d)" by (cases "db_find M c flt srt (wdb s)")
  let ?t = "s\<lparr>wdb := d\<rparr>"
  have t: "srv_inv ?t" "grows n s ?t" using i by (simp_all add: srv_inv_def grows_def)
  have c: "cur_queue ?t = cur_queue s" by (simp add: cur_queue_def)
  have sf: "sys_only (db_find M c flt srt)" using M by (simp add: mongo_ok_def)
  have se: "is_system_error e" if "r = Inr (docs, Some e)" for docs e
    using M r that unfolding mongo_ok_def by (metis fst_conv)
  show "wp (act_bind (liftdb (db_find M c flt srt)) f)
      (\<lambda>_ s'. srv_inv s' \<and> grows n s s' \<and> (False \<longrightarrow> length (cur_queue s) < length (cur_queue s')))
      (\<lambda>e s'. is_system_error e \<and> srv_inv s' \<and> grows n s s') s"
  proof (cases r)
    case (Inl e)
    then have "is_system_error e" using sys_onlyD [OF sf] r by blast
    then show ?thesis using Inl r t by (simp add: wp_simps wp_def)
  next
    case (Inr cur)
    have "runs n ps is_system_error False (f cur)"
      using se Inr by (intro f) (cases cur, auto)
    then have "wp (f cur) (\<lambda>_ s'. srv_inv s' \<and> grows n s s') (\<lambda>e s'. is_system_error e \<and> srv_inv s' \<and> grows n s s') ?t"
      using n ps by (intro wp_mono [OF runsD [OF _ t(1)]]) (auto intro: grows_trans [OF t(2)])
    then show ?thesis using Inr r by (simp add: wp_bind wp_liftdb) (simp add: wp_def)
  qed
qed

end
