(* ===== verification/Handlers.thy ===== *)
theory Handlers
  imports Mount
begin

text \<open>
  The message handlers \<open>dispatch(chat::X &)\<close> of \<open>yijian/server_msg_typemap.cxx\<close>, one definition
  each, in the order of the source. Log lines are left out.
\<close>

section \<open>Common parts\<close>

text \<open>\<open>catch (std::system_error & e)\<close> answering with \<open>errorBuffer(e.code().value(), e.what())\<close>.\<close>

definition or_error :: "codec \<Rightarrow> ('db, 'c, unit) srv \<Rightarrow> ('db, 'c, unit) srv" where
  "or_error K m = catch_system_error m (\<lambda>e. send_error K (err_code e) (err_what e))"

text \<open>\<open>client->findUUID(uuid, connectInfo_)\<close> on the thread-local object.\<close>

definition find_uuid :: "'db mongo \<Rightarrow> string \<Rightarrow> ('db, 'c, bool) srv" where
  "find_uuid M uuid = (\<lambda>s. case findUUID M uuid (connectInfo s) (wdb s) of
     (r, ci, d) \<Rightarrow> (r, s\<lparr>connectInfo := ci, wdb := d\<rparr>))"

definition set_connectInfo :: "(ConnectInfo \<Rightarrow> ConnectInfo) \<Rightarrow> ('db, 'c, unit) srv" where
  "set_connectInfo f = modify (connectInfo_update f)"

definition update_uuid :: "'db mongo \<Rightarrow> ('db, 'c, unit) srv" where
  "update_uuid M = act_bind (gets connectInfo) (\<lambda>ci. liftdb (updateUUID M ci))"

definition find_device :: "User \<Rightarrow> string \<Rightarrow> Device option" where
  "find_device user uuid = find (\<lambda>device. Device_UUID device = uuid) (User_devices user)"

section \<open>Accounts and connections\<close>

definition dispatch_Error :: "Error \<Rightarrow> ('db, 'c, unit) srv" where
  "dispatch_Error error = ret ()"

definition dispatch_Register :: "codec \<Rightarrow> 'db mongo \<Rightarrow> Register \<Rightarrow> ('db, 'c, unit) srv" where
  "dispatch_Register K M enroll = catch_system_error
     (if Register_verifycode enroll = [] then
        act_bind (liftdb (queryUser_phone M (Register_phoneNo enroll) (Register_countryCode enroll)))
          (\<lambda>_. raise (sys_error 11007 ''user had signup''))
      else
        act_bind (liftdb (insertUser M enroll)) (\<lambda>userid.
        send_self K (M_RegisterRes (RegisterRes_new
          \<lparr>RegisterRes_userID := userid, RegisterRes_isSuccess := True\<rparr>))))
     (\<lambda>e. send_self K (M_RegisterRes
        (if err_code e = 40002
         then RegisterRes_new\<lparr>RegisterRes_isSuccess := True, RegisterRes_e_no := 0,
                RegisterRes_e_msg := ''not enroll''\<rparr>
         else RegisterRes_new\<lparr>RegisterRes_isSuccess := False, RegisterRes_e_no := err_code e,
                RegisterRes_e_msg := err_what e\<rparr>)))"

definition login_connectInfo :: "bool \<Rightarrow> string \<Rightarrow> string \<Rightarrow> ConnectInfo \<Rightarrow> ConnectInfo" where
  "login_connectInfo isFind uuid userid c =
     c\<lparr>ConnectInfo_users :=
         (if isFind
          then (case map_of (ConnectInfo_users c) userid of
                  None \<Rightarrow> AList.update userid (uint MinSessionID) (ConnectInfo_users c)
                | Some i \<Rightarrow> ConnectInfo_users c)
          else [(userid, uint MinSessionID)]),
       ConnectInfo_UUID := uuid, ConnectInfo_userID := userid, ConnectInfo_isLogin := True,
       ConnectInfo_isConnected := False, ConnectInfo_isReciveNoti := False,
       ConnectInfo_serverName := SERVER_NAME\<rparr>"

definition login_success :: "codec \<Rightarrow> 'db mongo \<Rightarrow> Login \<Rightarrow> User \<Rightarrow> ('db, 'c, unit) srv" where
  "login_success K M login user =
    (let device = Login_device login; uuid = Device_UUID device in
     act_seq (case find_device user uuid of
        Some d \<Rightarrow> liftdb (updateDevice M (User_id user) device)
      | None \<Rightarrow> liftdb (insertDevice M (User_id user) device))
     (act_bind (find_uuid M uuid) (\<lambda>isFind.
      act_seq (set_connectInfo (login_connectInfo isFind uuid (User_id user)))
     (act_seq (if isFind then update_uuid M
               else act_bind (gets connectInfo) (\<lambda>ci. liftdb (insertUUID M ci)))
     (act_bind current (\<lambda>node. act_bind (fetch rios node) (\<lambda>io.
      let res = LoginRes_new\<lparr>LoginRes_isSuccess := True, LoginRes_userID := User_id user,
                  LoginRes_uuid := r_uuid io\<rparr> in
      act_seq (send_self K (M_LoginRes res))
     (act_seq (set_touserid (r_userid io))
     (act_seq (send_user K M (M_LoginNoti (LoginNoti_new\<lparr>LoginNoti_UUID := uuid\<rparr>)))
      (send_peer K (M_LoginRes res)))))))))))"

definition dispatch_Login :: "codec \<Rightarrow> 'db mongo \<Rightarrow> Login \<Rightarrow> ('db, 'c, unit) srv" where
  "dispatch_Login K M login = catch_system_error
     (act_bind (liftdb (queryUser_phone M (Login_phoneNo login) (Login_countryCode login))) (\<lambda>user.
      if User_password user = Login_password login then login_success K M login user
      else raise (sys_error 11001 ''password or account error'')))
     (\<lambda>e. send_self K (M_LoginRes (LoginRes_new\<lparr>LoginRes_isSuccess := False,
        LoginRes_e_no := err_code e, LoginRes_e_msg := err_what e\<rparr>)))"

definition dispatch_LoginRes :: "codec \<Rightarrow> 'db mongo \<Rightarrow> LoginRes \<Rightarrow> ('db, 'c, unit) srv" where
  "dispatch_LoginRes K M res = or_error K
     (act_bind current_userid (\<lambda>userid.
      act_seq (set_touserid userid)
      (send_user K M (M_LoginNoti (LoginNoti_new\<lparr>LoginNoti_UUID := LoginRes_uuid res\<rparr>)))))"

definition dispatch_Logout :: "codec \<Rightarrow> 'db mongo \<Rightarrow> Logout \<Rightarrow> ('db, 'c, unit) srv" where
  "dispatch_Logout K M logout = or_error K
     (act_bind (liftdb (queryUser M (Logout_userID logout))) (\<lambda>user.
      case find_device user (Logout_UUID logout) of
        None \<Rightarrow> raise (sys_error 11002 ''device not find'')
      | Some device \<Rightarrow>
          act_bind (find_uuid M (Device_UUID device)) (\<lambda>isFind.
          act_bind (gets session_id) (\<lambda>sid.
          act_seq (set_connectInfo (\<lambda>c. c\<lparr>ConnectInfo_isConnected := False, ConnectInfo_isLogin := False,
             ConnectInfo_users := AList.update (Logout_UUID logout) (uint sid) (ConnectInfo_users c)\<rparr>))
         (act_seq (update_uuid M)
         (act_seq (send_self K (M_LogoutRes (LogoutRes_new\<lparr>LogoutRes_UUID := Device_UUID device\<rparr>)))
         (act_bind current_userid set_touserid)))))))"

definition connected_node :: "ClientConnect \<Rightarrow> int \<Rightarrow> read_io \<Rightarrow> read_io" where
  "connected_node connect stored io =
     io\<lparr>r_userid := ClientConnect_userID connect, r_uuid := ClientConnect_UUID connect,
        r_sessionid := of_int stored + 1,
        r_clientVersion := ClientConnect_clientVersion connect,
        r_appVersion := ClientConnect_appVersion connect\<rparr>"

text \<open>
  \<open>users().at(userid)\<close> of a protobuf map aborts the process when the key is missing. The fields set
  before the abort are not observable after it.
\<close>

definition connect_success :: "codec \<Rightarrow> 'db mongo \<Rightarrow> ClientConnect \<Rightarrow> ('db, 'c, unit) srv" where
  "connect_success K M connect =
     act_bind (find_uuid M (ClientConnect_UUID connect)) (\<lambda>isFind.
     act_bind current (\<lambda>node.
     act_bind (gets connectInfo) (\<lambda>ci.
     act_bind (case map_of (ConnectInfo_users ci) (ClientConnect_userID connect) of
                 None \<Rightarrow> raise (Fatal ''key not found'') | Some i \<Rightarrow> ret i) (\<lambda>stored.
     act_seq (set_rio node (connected_node connect stored))
    (act_seq (modify (\<lambda>s. s\<lparr>session_id := of_int stored + 1\<rparr>))
    (act_seq (set_connectInfo (\<lambda>c. c\<lparr>ConnectInfo_isConnected := True,
        ConnectInfo_isReciveNoti := ClientConnect_isReciveNoti connect,
        ConnectInfo_clientVersion := ClientConnect_clientVersion connect,
        ConnectInfo_appVersion := ClientConnect_appVersion connect,
        ConnectInfo_OSVersion := ClientConnect_OSVersion connect\<rparr>))
    (act_seq (update_uuid M)
    (act_bind (gets connectInfo) (\<lambda>ci.
     act_seq (send_self K (M_ClientConnectRes (ClientConnectRes_new
        \<lparr>ClientConnectRes_userID := ConnectInfo_userID ci, ClientConnectRes_isSuccess := True,
         ClientConnectRes_UUID := ConnectInfo_UUID ci,
         ClientConnectRes_sessionid := uint (of_int stored + 1 :: u16)\<rparr>)))
    (act_bind current_userid (\<lambda>userid.
     unreadNodes M liftdb userid (\<lambda>(tonodeid, unreadIncrement, readedIncrement).
       act_bind current_userid (\<lambda>userid.
       send_self K (M_NodeMessageNoti (NodeMessageNoti_new
         \<lparr>NodeMessageNoti_toUserID_outer := userid, NodeMessageNoti_toNodeID := tonodeid,
          NodeMessageNoti_readedIncrement := readedIncrement,
          NodeMessageNoti_unreadIncrement := unreadIncrement\<rparr>)))))))))))))))"

definition dispatch_ClientConnect :: "codec \<Rightarrow> 'db mongo \<Rightarrow> ClientConnect \<Rightarrow> ('db, 'c, unit) srv" where
  "dispatch_ClientConnect K M connect = catch_system_error
     (act_bind (liftdb (queryUser M (ClientConnect_userID connect))) (\<lambda>user.
      case find_device user (ClientConnect_UUID connect) of
        None \<Rightarrow> raise (sys_error 11003 ''device not find'')
      | Some device \<Rightarrow> connect_success K M connect))
     (\<lambda>e. send_self K (M_ClientConnectRes (ClientConnectRes_new\<lparr>ClientConnectRes_isSuccess := False,
        ClientConnectRes_e_no := err_code e, ClientConnectRes_e_msg := err_what e\<rparr>)))"

definition dispatch_ClientDisConnect ::
  "codec \<Rightarrow> 'db mongo \<Rightarrow> ClientDisConnect \<Rightarrow> ('db, 'c, unit) srv" where
  "dispatch_ClientDisConnect K M disconnect = or_error K
     (act_bind (liftdb (queryUser M (ClientDisConnect_userID disconnect))) (\<lambda>user.
      case find_device user (ClientDisConnect_UUID disconnect) of
        None \<Rightarrow> raise (sys_error 11004 ''device not find'')
      | Some device \<Rightarrow>
          act_bind (find_uuid M (ClientDisConnect_UUID disconnect)) (\<lambda>isFind.
          act_bind (gets session_id) (\<lambda>sid.
          act_seq (set_connectInfo (\<lambda>c. c\<lparr>ConnectInfo_isConnected := False,
             ConnectInfo_users := AList.update (ClientDisConnect_userID disconnect) (uint sid)
               (ConnectInfo_users c)\<rparr>))
         (act_seq (update_uuid M)
         (act_bind (gets connectInfo) (\<lambda>ci.
          send_self K (M_ClientDisConnectRes (ClientDisConnectRes_new
            \<lparr>ClientDisConnectRes_UUID := ConnectInfo_UUID ci\<rparr>)))))))))"

section \<open>Friends\<close>

text \<open>The checks in the order of the source; the blacklist test compares with the invitee's own id.\<close>

definition check_add_friend :: "AddFriend \<Rightarrow> User \<Rightarrow> User \<Rightarrow> exn + unit" where
  "check_add_friend frd peerUser user =
     (if AddFriend_inviteeID frd \<in> UserInfo_userID ` set (User_friends user)
      then Inl (sys_error 11020 ''is friend already'')
      else if AddFriend_inviterID frd \<in> UserInfo_userID ` set (User_friends peerUser)
      then Inl (sys_error 11022 ''is friend already'')
      else Inr ())"

definition dispatch_AddFriend :: "codec \<Rightarrow> 'db mongo \<Rightarrow> AddFriend \<Rightarrow> ('db, 'c, unit) srv" where
  "dispatch_AddFriend K M frd = or_error K
     (act_bind current_userid (\<lambda>userid.
      if AddFriend_inviterID frd = [] \<or> AddFriend_inviteeID frd = [] \<or> AddFriend_inviterID frd \<noteq> userid
      then raise (sys_error 11012 ''args error'')
      else
        act_bind (liftdb (queryUser M (AddFriend_inviteeID frd))) (\<lambda>peerUser.
        if AddFriend_inviteeID frd \<in> set (User_blacklist peerUser)
        then raise (sys_error 11005 ''blacklist'')
        else
          act_bind (liftdb (queryUser M (AddFriend_inviterID frd))) (\<lambda>user.
          act_seq (lift_exn (check_add_friend frd peerUser user))
         (act_bind (liftdb (addFriend M frd)) (\<lambda>res.
          act_seq (send_self K (M_AddFriendRes res))
         (act_seq (send_peer K (M_AddFriendRes res))
         (act_seq (set_touserid (AddFriendRes_inviteeID res))
         (act_seq (send_user K M (M_AddFriendNoti \<lparr>AddFriendNoti_response = res\<rparr>))
         (act_seq (set_touserid (AddFriendRes_inviterID res))
          (send_user K M (M_AddFriendNoti \<lparr>AddFriendNoti_response = res\<rparr>))))))))))))"

definition dispatch_AddFriendRes :: "codec \<Rightarrow> 'db mongo \<Rightarrow> AddFriendRes \<Rightarrow> ('db, 'c, unit) srv" where
  "dispatch_AddFriendRes K M res = or_error K
     (act_seq (set_touserid (AddFriendRes_inviteeID res))
     (act_seq (send_user K M (M_AddFriendNoti \<lparr>AddFriendNoti_response = res\<rparr>))
     (act_seq (set_touserid (AddFriendRes_inviterID res))
      (send_user K M (M_AddFriendNoti \<lparr>AddFriendNoti_response = res\<rparr>)))))"

definition dispatch_AddFriendAuthorize ::
  "codec \<Rightarrow> 'db mongo \<Rightarrow> AddFriendAuthorize \<Rightarrow> ('db, 'c, unit) srv" where
  "dispatch_AddFriendAuthorize K M addAuth = or_error K
    (let inviter = AddFriendAuthorize_inviterID addAuth; invitee = AddFriendAuthorize_inviteeID addAuth in
     act_bind current_userid (\<lambda>userid.
     if inviter = [] \<or> invitee = [] \<or> invitee \<noteq> userid
     then raise (sys_error 11023 ''authorize permission error'')
     else if AddFriendAuthorize_isAgree addAuth = IsAgree_agree then
       act_seq (liftdb (addFriendAuthorize M inviter invitee))
      (let authRes = \<lparr>AddFriendAuthorizeRes_inviterID = inviter,
             AddFriendAuthorizeRes_inviteeID = invitee, AddFriendAuthorizeRes_isAgree = IsAgree_agree\<rparr>;
           noti = \<lparr>AddFriendAuthorizeNoti_response = authRes\<rparr> in
       act_seq (send_self K (M_AddFriendAuthorizeRes authRes))
      (act_seq (set_touserid inviter)
      (act_seq (send_user K M (M_AddFriendAuthorizeNoti noti))
      (act_seq (set_touserid invitee)
      (act_seq (send_user K M (M_AddFriendAuthorizeNoti noti))
       (send_peer K (M_AddFriendAuthorizeRes authRes)))))))
     else ret ()))"

definition dispatch_AddFriendAuthorizeRes ::
  "codec \<Rightarrow> 'db mongo \<Rightarrow> AddFriendAuthorizeRes \<Rightarrow> ('db, 'c, unit) srv" where
  "dispatch_AddFriendAuthorizeRes K M res = or_error K
     (act_seq (set_touserid (AddFriendAuthorizeRes_inviterID res))
     (act_seq (send_user K M (M_AddFriendAuthorizeNoti \<lparr>AddFriendAuthorizeNoti_response = res\<rparr>))
     (act_seq (set_touserid (AddFriendAuthorizeRes_inviteeID res))
      (send_user K M (M_AddFriendAuthorizeNoti \<lparr>AddFriendAuthorizeNoti_response = res\<rparr>)))))"

definition dispatch_QueryAddfriendInfo ::
  "codec \<Rightarrow> 'db mongo \<Rightarrow> QueryAddfriendInfo \<Rightarrow> ('db, 'c, unit) srv" where
  "dispatch_QueryAddfriendInfo K M info = or_error K
     (let count = QueryAddfriendInfo_count info; limit = (if count > 0 \<and> count \<le> 50 then count else 10) in
      act_bind current_userid (\<lambda>userid.
      act_bind (liftdb (queryAddfriendInfo M userid limit)) (\<lambda>infos.
      send_self K (M_QueryAddfriendInfoRes \<lparr>QueryAddfriendInfoRes_info = infos\<rparr>))))"

section \<open>Groups\<close>

text \<open>The loop over the members: those whose own id is in their own blacklist are kept.\<close>

fun filtrate :: "'db mongo \<Rightarrow> string list \<Rightarrow> ('db, 'c, string list) srv" where
  "filtrate M [] = ret []"
| "filtrate M (m # ms) =
     act_bind (liftdb (queryUser M m)) (\<lambda>user.
     act_bind (filtrate M ms) (\<lambda>rest.
     ret (if m \<in> set (User_blacklist user) then m # rest else rest)))"

definition dispatch_CreateGroup :: "codec \<Rightarrow> 'db mongo \<Rightarrow> CreateGroup \<Rightarrow> ('db, 'c, unit) srv" where
  "dispatch_CreateGroup K M cGroup = or_error K
     (act_bind (filtrate M (CreateGroup_membersID cGroup)) (\<lambda>members.
      if length members \<le> 3 then raise (sys_error 11006 ''at least 3 people'')
      else
        act_bind (liftdb (createGroup M (cGroup\<lparr>CreateGroup_membersID := members\<rparr>))) (\<lambda>groupRes.
        send_self K (M_CreateGroupRes groupRes))))"

definition dispatch_GroupAddMember ::
  "codec \<Rightarrow> 'db mongo \<Rightarrow> GroupAddMember \<Rightarrow> ('db, 'c, unit) srv" where
  "dispatch_GroupAddMember K M groupMember = or_error K
     (act_bind (filtrate M (GroupAddMember_membersID groupMember)) (\<lambda>members.
      act_bind (liftdb (addMembers2Group M (groupMember\<lparr>GroupAddMember_membersID := members\<rparr>))) (\<lambda>addRes.
      send_self K (M_GroupAddMemberRes addRes))))"

end
