(* ===== verification/Dispatch.thy ===== *)
theory Dispatch
  imports Handlers
begin

text \<open>
  The remaining handlers of \<open>yijian/server_msg_typemap.cxx\<close> (queries, messages, media, ping,
  properties), the table from message types to handlers, and the entry point \<open>dispatch(node, spvec,
  session_id)\<close> with its session checks.
\<close>

section \<open>Queries\<close>

definition dispatch_QueryUserVersion ::
  "codec \<Rightarrow> 'db mongo \<Rightarrow> QueryUserVersion \<Rightarrow> ('db, 'c, unit) srv" where
  "dispatch_QueryUserVersion K M queryVersion = or_error K
     (act_bind (liftdb (queryUser M (QueryUserVersion_userID queryVersion))) (\<lambda>user.
      send_self K (M_QueryUserVersionRes \<lparr>QueryUserVersionRes_userID = QueryUserVersion_userID queryVersion,
        QueryUserVersionRes_version = User_version user\<rparr>)))"

definition visible_user :: "string \<Rightarrow> User \<Rightarrow> User" where
  "visible_user userid user =
     (let u = user\<lparr>User_password := []\<rparr> in
      if User_id user \<noteq> userid
      then u\<lparr>User_friends := [], User_blacklist := [], User_groupNodeIDs := [], User_devices := []\<rparr>
      else u)"

definition dispatch_QueryUser :: "codec \<Rightarrow> 'db mongo \<Rightarrow> QueryUser \<Rightarrow> ('db, 'c, unit) srv" where
  "dispatch_QueryUser K M query = or_error K
     (act_bind (if QueryUser_userID query \<noteq> [] then liftdb (queryUser M (QueryUser_userID query))
                else liftdb (queryUser_phone M (QueryUser_phoneNo query) (QueryUser_countryCode query)))
      (\<lambda>user.
      act_bind current_userid (\<lambda>userid.
      send_self K (M_QueryUserRes (QueryUserRes_new\<lparr>QueryUserRes_user := visible_user userid user\<rparr>)))))"

definition dispatch_QueryNodeVersion ::
  "codec \<Rightarrow> 'db mongo \<Rightarrow> QueryNodeVersion \<Rightarrow> ('db, 'c, unit) srv" where
  "dispatch_QueryNodeVersion K M querynodev = or_error K
     (act_bind (liftdb (queryNode M (QueryNodeVersion_toNodeID querynodev))) (\<lambda>node.
      send_self K (M_QueryNodeVersionRes (QueryNodeVersionRes_new
        \<lparr>QueryNodeVersionRes_version := MessageNode_version node\<rparr>))))"

definition dispatch_QueryNode :: "codec \<Rightarrow> 'db mongo \<Rightarrow> QueryNode \<Rightarrow> ('db, 'c, unit) srv" where
  "dispatch_QueryNode K M querynode = or_error K
     (act_bind (liftdb (queryNode M (QueryNode_toNodeID querynode))) (\<lambda>node.
      send_self K (M_QueryNodeRes (QueryNodeRes_new\<lparr>QueryNodeRes_node := node\<rparr>))))"

section \<open>Messages\<close>

definition dispatch_NodeMessage :: "codec \<Rightarrow> 'db mongo \<Rightarrow> NodeMessage \<Rightarrow> ('db, 'c, unit) srv" where
  "dispatch_NodeMessage K M message = or_error K
     (act_bind (liftdb (insertMessage M message)) (\<lambda>res.
      act_seq (send_self K (M_NodeMessageRes res))
     (act_bind current_userid (\<lambda>userid.
      let tonodeid = NodeMessage_toNodeID message; outer = NodeMessage_toUserID_outer message;
          noti = NodeMessageNoti_new\<lparr>NodeMessageNoti_fromUserID := userid,
            NodeMessageNoti_unreadIncrement := NodeMessageRes_incrementID res,
            NodeMessageNoti_toNodeID := tonodeid\<rparr>;
          res' = res\<lparr>NodeMessageRes_toNodeID := tonodeid, NodeMessageRes_fromUserID := userid\<rparr> in
      if outer = [] then
        act_bind (liftdb (queryNode M tonodeid)) (\<lambda>node.
        act_seq (liftdb (updateUnreadIncrement_members M (MessageNode_members node) userid tonodeid
                   (NodeMessageRes_incrementID res)))
       (act_seq (modify (node_specifiy_update (\<lambda>n. n\<lparr>NodeSpecifiy_toNodeID := tonodeid\<rparr>)))
       (act_seq (send_specifiy K M (M_NodeMessageNoti noti))
        (send_peer K (M_NodeMessageRes res')))))
      else
        let noti' = noti\<lparr>NodeMessageNoti_toUserID_outer := outer\<rparr>;
            res'' = res'\<lparr>NodeMessageRes_toUserID_outer := outer\<rparr> in
        act_seq (set_touserid userid)
       (act_seq (send_user K M (M_NodeMessageNoti noti'))
       (act_seq (send_peer K (M_NodeMessageRes res''))
       (act_seq (liftdb (updateUnreadIncrement M outer tonodeid (NodeMessageRes_incrementID res)))
       (act_seq (set_touserid outer)
       (act_seq (send_user K M (M_NodeMessageNoti noti'))
        (send_peer K (M_NodeMessageRes res'')))))))))))"

definition dispatch_NodeMessageRes ::
  "codec \<Rightarrow> 'db mongo \<Rightarrow> NodeMessageRes \<Rightarrow> ('db, 'c, unit) srv" where
  "dispatch_NodeMessageRes K M msgres = or_error K
     (let noti = NodeMessageNoti_new\<lparr>NodeMessageNoti_fromUserID := NodeMessageRes_fromUserID msgres,
            NodeMessageNoti_toUserID_outer := NodeMessageRes_toUserID_outer msgres,
            NodeMessageNoti_unreadIncrement := NodeMessageRes_incrementID msgres,
            NodeMessageNoti_toNodeID := NodeMessageRes_toNodeID msgres\<rparr> in
      if NodeMessageNoti_toUserID_outer noti = [] then
        act_seq (modify (node_specifiy_update (\<lambda>n. n\<lparr>NodeSpecifiy_toNodeID := NodeMessageNoti_toNodeID noti\<rparr>)))
        (send_specifiy K M (M_NodeMessageNoti noti))
      else
        act_seq (set_touserid (NodeMessageNoti_toUserID_outer noti))
        (send_user K M (M_NodeMessageNoti (noti\<lparr>NodeMessageNoti_toUserID_outer := []\<rparr>))))"

text \<open>Signed overflow of an \<open>int32\<close> subtraction is undefined.\<close>

definition int32_minus :: "int \<Rightarrow> int \<Rightarrow> exn + int" where
  "int32_minus a b = (if - (2 ^ 31) \<le> a - b \<and> a - b < 2 ^ 31 then Inr (a - b) else Inl Undefined)"

definition query_invalid :: "QueryMessage \<Rightarrow> exn + bool" where
  "query_invalid query =
     (let to = QueryMessage_toIncrementID query; frm = QueryMessage_fromIncrementID query in
      if to \<le> frm \<and> to \<noteq> 0 then Inr True
      else res_bind (int32_minus to frm) (\<lambda>d. Inr (d > 50)))"

definition dispatch_QueryMessage :: "codec \<Rightarrow> 'db mongo \<Rightarrow> QueryMessage \<Rightarrow> ('db, 'c, unit) srv" where
  "dispatch_QueryMessage K M query = or_error K
     (act_bind (lift_exn (query_invalid query)) (\<lambda>invalid.
      if invalid then raise (sys_error 11008 ''query is invalid'')
      else
        act_bind current_userid (\<lambda>userid.
        act_bind (lift_exn (int32_minus (QueryMessage_toIncrementID query) 1)) (\<lambda>readed.
        act_seq (liftdb (updateReadedIncrement M userid (QueryMessage_toNodeID query) readed))
       (act_bind (liftdb (queryMessage M query)) (\<lambda>messages.
        send_self K (M_QueryMessageRes \<lparr>QueryMessageRes_messages = messages\<rparr>)))))))"

definition dispatch_QueryOneMessage ::
  "codec \<Rightarrow> 'db mongo \<Rightarrow> QueryOneMessage \<Rightarrow> ('db, 'c, unit) srv" where
  "dispatch_QueryOneMessage K M query = or_error K
     (act_bind (liftdb (queryMessage_one M (QueryOneMessage_toNodeID query)
        (QueryOneMessage_incrementID query))) (\<lambda>message.
      send_self K (M_QueryMessageRes \<lparr>QueryMessageRes_messages = [message]\<rparr>)))"

section \<open>Media, ping, properties\<close>

definition dispatch_Media :: "codec \<Rightarrow> 'db mongo \<Rightarrow> Media \<Rightarrow> ('db, 'c, unit) srv" where
  "dispatch_Media K M media = catch_system_error
     (act_seq (liftdb (insertMedia M media))
      (send_self K (M_MediaRes \<lparr>MediaRes_isSuccess = True\<rparr>)))
     (\<lambda>e. if err_code e = 40061
          then send_self K (M_MediaRes \<lparr>MediaRes_isSuccess = True\<rparr>)
          else send_error K (err_code e) (err_what e))"

definition dispatch_QueryMedia :: "codec \<Rightarrow> 'db mongo \<Rightarrow> QueryMedia \<Rightarrow> ('db, 'c, unit) srv" where
  "dispatch_QueryMedia K M querymedia = or_error K
     (act_bind (liftdb (queryMedia M (QueryMedia_md5 querymedia))) (\<lambda>media.
      send_self K (M_QueryMediaRes \<lparr>QueryMediaRes_media = media\<rparr>)))"

definition dispatch_Ping :: "codec \<Rightarrow> Ping \<Rightarrow> ('db, 'c, unit) srv" where
  "dispatch_Ping K ping = send_self K (M_Pong \<lparr>Pong_msg = ''pong''\<rparr>)"

definition dispatch_SetUserProperty ::
  "codec \<Rightarrow> 'db mongo \<Rightarrow> SetUserProperty \<Rightarrow> ('db, 'c, unit) srv" where
  "dispatch_SetUserProperty K M property = or_error K
     (act_bind current_userid (\<lambda>userid.
      act_seq (liftdb (setUserProperty M userid property))
      (send_self K (M_SetUserPropertyRes
        \<lparr>SetUserPropertyRes_property = SetUserProperty_property property,
         SetUserPropertyRes_value = SetUserProperty_value property\<rparr>))))"

section \<open>The table of handlers\<close>

definition dispatch_map ::
  "codec \<Rightarrow> 'db mongo \<Rightarrow> bytes \<Rightarrow> (ChatType \<times> ('db, 'c, unit) srv) list" where
  "dispatch_map K M d =
    [(CT_error, dispatch_Error (parse_Error K d)),
     (CT_registor, dispatch_Register K M (parse_Register K d)),
     (CT_login, dispatch_Login K M (parse_Login K d)),
     (CT_loginres, dispatch_LoginRes K M (parse_LoginRes K d)),
     (CT_logout, dispatch_Logout K M (parse_Logout K d)),
     (CT_clientconnect, dispatch_ClientConnect K M (parse_ClientConnect K d)),
     (CT_clientdisconnect, dispatch_ClientDisConnect K M (parse_ClientDisConnect K d)),
     (CT_queryuser, dispatch_QueryUser K M (parse_QueryUser K d)),
     (CT_queryuserversion, dispatch_QueryUserVersion K M (parse_QueryUserVersion K d)),
     (CT_addfriend, dispatch_AddFriend K M (parse_AddFriend K d)),
     (CT_addfriendres, dispatch_AddFriendRes K M (parse_AddFriendRes K d)),
     (CT_addfriendauthorize, dispatch_AddFriendAuthorize K M (parse_AddFriendAuthorize K d)),
     (CT_addfriendauthorizeres, dispatch_AddFriendAuthorizeRes K M (parse_AddFriendAuthorizeRes K d)),
     (CT_creategroup, dispatch_CreateGroup K M (parse_CreateGroup K d)),
     (CT_groupaddmember, dispatch_GroupAddMember K M (parse_GroupAddMember K d)),
     (CT_querynodeversion, dispatch_QueryNodeVersion K M (parse_QueryNodeVersion K d)),
     (CT_querynode, dispatch_QueryNode K M (parse_QueryNode K d)),
     (CT_nodemessage, dispatch_NodeMessage K M (parse_NodeMessage K d)),
     (CT_querymessage, dispatch_QueryMessage K M (parse_QueryMessage K d)),
     (CT_queryonemessage, dispatch_QueryOneMessage K M (parse_QueryOneMessage K d)),
     (CT_nodemessageres, dispatch_NodeMessageRes K M (parse_NodeMessageRes K d)),
     (CT_media, dispatch_Media K M (parse_Media K d)),
     (CT_querymedia, dispatch_QueryMedia K M (parse_QueryMedia K d)),
     (CT_queryaddfriendinfo, dispatch_QueryAddfriendInfo K M (parse_QueryAddfriendInfo K d)),
     (CT_ping, dispatch_Ping K (parse_Ping K d)),
     (CT_setuserproterty, dispatch_SetUserProperty K M (parse_SetUserProperty K d))]"

text \<open>A type without an entry is only logged.\<close>

definition dispatch_data :: "codec \<Rightarrow> 'db mongo \<Rightarrow> u8 \<Rightarrow> bytes \<Rightarrow> ('db, 'c, unit) srv" where
  "dispatch_data K M type d =
     (case find (\<lambda>(t, h). chat_code t = type) (dispatch_map K M d) of
        Some (t, h) \<Rightarrow> h
      | None \<Rightarrow> ret ())"

section \<open>The entry point\<close>

fun gather :: "ptr list \<Rightarrow> ('db, 'c, bytes) srv" where
  "gather [] = ret []"
| "gather (sp # sps) =
     act_bind (fetch bufs sp) (\<lambda>b. act_bind (gather sps) (\<lambda>rest. ret (buffer_data b @ rest)))"

definition gate :: "codec \<Rightarrow> 'db mongo \<Rightarrow> ptr \<Rightarrow> u16 \<Rightarrow> u16 \<Rightarrow> u8 \<Rightarrow> bytes \<Rightarrow> ('db, 'c, unit) srv" where
  "gate K M node sid data_sessionid data_datatype data_string =
     (if sid = data_sessionid then
        if sid \<ge> MinSessionID then
          act_bind (fetch rios node) (\<lambda>io.
          if r_isConnect io \<and> missing_check8 data_datatype then
            act_seq (liftdb (updateSessionID M (r_uuid io) (r_userid io) sid))
            (dispatch_data K M data_datatype data_string)
          else send_error K 11011 ''need connect first or msg type can not pair the session id'')
        else if \<not> missing_check8 data_datatype then dispatch_data K M data_datatype data_string
        else send_error K 11013
               ''session need < MinSessionIDmsg type can not pair the session id''
      else send_error K 11010
             (''session id error, right id is '' @ show_nat (unat sid) @ '' .''))"

definition dispatch :: "codec \<Rightarrow> 'db mongo \<Rightarrow> ptr \<Rightarrow> ptr list \<Rightarrow> u16 \<Rightarrow> ('db, 'c, unit) srv" where
  "dispatch K M node spvec sid =
     act_seq (modify (\<lambda>s. s\<lparr>currentNode := Some node, session_id := sid\<rparr>))
    (act_bind (gather spvec) (\<lambda>data_string.
     act_bind (if spvec = [] then raise Undefined else fetch bufs (last spvec)) (\<lambda>back.
     act_seq (gate K M node sid (b_session_id back) (b_data_type back) data_string)
     (modify (\<lambda>s. s\<lparr>currentNode := None\<rparr>)))))"

end
