(* ===== verification/Containment.thy ===== *)
theory Containment
  imports Dispatch Delivery MongoFacts
begin

text \<open>
  Error containment and replies: every handler keeps the server state consistent, only appends to
  write queues, lets no \<open>std::system_error\<close> escape, and, for the request types, answers.
\<close>

section \<open>Rules for handlers\<close>

lemma runs_prod: "(\<And>a b. runs n ps P q (f a b)) \<Longrightarrow> runs n ps P q (case x of (a, b) \<Rightarrow> f a b)"
  by (cases x) simp

lemma reply_self_then: "runs n [] P False k \<Longrightarrow> runs n [] P True (act_seq (send_self K any) k)"
  by (rule reply_seqL [OF reply_send_self])

lemma safe_send_error: "runs n [] P False (send_error K code msg)"
  by (rule safe_weaken [OF reply_send_error])

lemma runs_or_error:
  assumes "runs n [] (\<lambda>e. is_system_error e \<or> P e) q m"
  shows "runs n [] P q (or_error K m)"
proof -
  have "runs n [] P q (send_error K (err_code e) (err_what e))" for e
    by (cases q) (simp_all add: reply_send_error safe_send_error)
  then show ?thesis unfolding or_error_def by (intro runs_catch [OF assms]) auto
qed

lemma or_error_sys:
  "runs n [] is_system_error q m \<Longrightarrow> runs n [] P q (or_error K m)"
  by (rule runs_or_error, erule runs_mono) simp

lemma reply_catch_self:
  "runs n [] is_system_error True m \<Longrightarrow>
   runs n [] P True (catch_system_error m (\<lambda>e. send_self K (f e)))"
  by (erule runs_catch) (simp_all add: reply_send_self)

lemma safe_lift_sys: "res_sys r \<Longrightarrow> runs n ps is_system_error False (lift_exn r)"
  by (rule safe_lift) (simp add: res_sys_def)

lemma safe_set_connectInfo: "runs n ps P False (set_connectInfo f)"
  unfolding set_connectInfo_def by (rule safe_modify) (auto simp: srv_inv_def grows_def)

lemma safe_set_specifiy: "runs n ps P False (modify (node_specifiy_update f))"
  by (rule safe_modify) (auto simp: srv_inv_def grows_def)

lemma fill_users_sys:
  assumes M: "mongo_ok M"
  shows "sys_only (fill_users M bs)"
  by (induction bs) (auto intro!: sys_only_intros sys_only_lift_res field_sys [OF M] res_sys_get [OF M])

lemma fill_connectInfo_sys:
  assumes M: "mongo_ok M"
  shows "sys_only (fill_connectInfo M uuid d)"
  unfolding fill_connectInfo_def
  by (intro sys_only_intros sys_only_lift_res field_sys [OF M] res_sys_get [OF M] fill_users_sys [OF M])

lemma findUUID_sys:
  assumes M: "mongo_ok M" and "fst (findUUID M uuid ci d) = Inl e"
  shows "is_system_error e"
  using assms(2) sys_onlyD [OF mongo_sys(1) [OF M]] sys_onlyD [OF fill_connectInfo_sys [OF M]]
  by (fastforce simp: findUUID_def split: prod.splits sum.splits option.splits)

lemma safe_find_uuid:
  assumes M: "mongo_ok M"
  shows "runs n ps is_system_error False (find_uuid M uuid :: ('db, 'c, bool) srv)"
proof (rule runsI)
  fix s :: "('db, 'c) world"
  assume i: "srv_inv s"
  obtain r ci d where f: "findUUID M uuid (connectInfo s) (wdb s) = (r, ci, d)" by (metis prod.exhaust)
  have "srv_inv (s\<lparr>connectInfo := ci, wdb := d\<rparr>)" and "grows n s (s\<lparr>connectInfo := ci, wdb := d\<rparr>)"
    using i by (simp_all add: srv_inv_def grows_def)
  moreover have "r = Inl e \<Longrightarrow> is_system_error e" for e
    using findUUID_sys [OF M, of uuid "connectInfo s" "wdb s" e] f by simp
  ultimately show "wp (find_uuid M uuid)
      (\<lambda>_ s'. srv_inv s' \<and> grows n s s' \<and> (False \<longrightarrow> length (cur_queue s) < length (cur_queue s')))
      (\<lambda>e s'. is_system_error e \<and> srv_inv s' \<and> grows n s s') s"
    using f by (simp add: find_uuid_def wp_def split: sum.split)
qed

lemma safe_update_uuid:
  "mongo_ok M \<Longrightarrow> runs n ps is_system_error False (update_uuid M)"
  unfolding update_uuid_def by (intro safe_bind safe_gets safe_liftdb mongo_client_sys2)

lemma safe_devices:
  assumes M: "mongo_ok M" and f: "\<And>b. runs n ps is_system_error False (func b)"
  shows "runs n ps is_system_error False (devices_user M liftdb user func)"
    "runs n ps is_system_error False (devices_members M liftdb us u func)"
  unfolding devices_user_def devices_members_def
  by (intro safe_db_find [OF M] cursor_foreach_safe infolittle_sys [OF M] f | assumption)+

lemma safe_send_user:
  assumes M: "mongo_ok M"
  shows "runs n [] is_system_error False (send_user K M any)"
  unfolding send_user_def mountBuffer2Node_user_def
  by (intro runs_yijianBuffer safe_bind safe_gets safe_devices [OF M] safe_traverseDevices)

lemma safe_send_specifiy:
  assumes M: "mongo_ok M"
  shows "runs n [] is_system_error False (send_specifiy K M any)"
  unfolding send_specifiy_def mountBuffer2Node_specifiy_def
  by (intro runs_yijianBuffer safe_bind [OF safe_gets] safe_bind [OF safe_liftdb]
      mongo_client_sys [OF M] runs_current_fetch safe_devices [OF M] safe_traverseDevices)

lemma safe_unreadNodes:
  assumes M: "mongo_ok M" and f: "\<And>b. runs n ps is_system_error False (func b)"
  shows "runs n ps is_system_error False (unreadNodes M liftdb u func)"
  unfolding unreadNodes_def
  by (intro safe_db_find [OF M] cursor_foreach_safe res_sys_bind field_sys [OF M] res_sys_Inr f | assumption)+

lemma safe_filtrate:
  assumes M: "mongo_ok M"
  shows "runs n ps is_system_error False (filtrate M ms)"
  by (induction ms) (auto intro!: safe_bind safe_ret safe_liftdb mongo_client_sys [OF M])

lemma find_device_case:
  "runs n ps P q a \<Longrightarrow> (\<And>d. runs n ps P q (b d)) \<Longrightarrow>
   runs n ps P q (case find_device u v of None \<Rightarrow> a | Some d \<Rightarrow> b d)"
  by (rule runs_option)

lemmas reply_rules = reply_send_self reply_send_error reply_self_then or_error_sys reply_catch_self
  runs_raise runs_if runs_option runs_prod sys_error_is_system

lemmas safe_rules = safe_send_self safe_send_peer safe_send_error safe_ret safe_gets
  safe_set_touserid safe_current_userid safe_set_connectInfo safe_set_specifiy safe_bind safe_seq

lemmas sys_rules = mongo_client_sys mongo_client_sys2 addFriend_sys insertMessage_sys

lemmas db_rules = safe_liftdb safe_find_uuid safe_update_uuid safe_send_user safe_send_specifiy
  safe_unreadNodes safe_filtrate

lemmas reply_steps = reply_bindR reply_seqR

section \<open>Handlers\<close>

text \<open>No exception leaves these handlers.\<close>

abbreviation contained :: "exn \<Rightarrow> bool" where "contained \<equiv> \<lambda>_. False"

lemma replies_accounts:
  assumes M: "mongo_ok M"
  shows "runs n [] P True (dispatch_Register K M enroll)"
    and "runs n [] P True (dispatch_Logout K M logout)"
    and "runs n [] P True (dispatch_ClientDisConnect K M disconnect)"
    and "runs n [] P False (dispatch_LoginRes K M res)"
  unfolding dispatch_Register_def dispatch_Logout_def dispatch_ClientDisConnect_def
    dispatch_LoginRes_def
  by (rule reply_rules safe_rules | rule db_rules sys_rules, (rule M)? | rule reply_steps | rule M)+

lemma replies_login:
  assumes M: "mongo_ok M"
  shows "runs n [] P True (dispatch_Login K M login)"
proof -
  have "runs n [] is_system_error True (login_success K M login user)" for user
    unfolding login_success_def Let_def
    by (rule reply_seqR reply_bindR,
        (rule runs_option safe_liftdb sys_rules safe_find_uuid M)+,
        rule reply_bindR, rule safe_find_uuid, rule M,
        rule reply_seqR, rule safe_set_connectInfo,
        rule reply_seqR, rule runs_if, rule safe_update_uuid, rule M,
        rule safe_bind, rule safe_gets, rule safe_liftdb, rule sys_rules, rule M,
        rule runs_current_fetch, rule reply_self_then,
        (rule safe_rules | rule safe_send_user, rule M)+)
  then show ?thesis
    unfolding dispatch_Login_def
    by (intro reply_catch_self reply_bindR [OF safe_liftdb] sys_rules M runs_if runs_raise
        sys_error_is_system)
qed

lemma replies_friends:
  assumes M: "mongo_ok M"
  shows "runs n [] P True (dispatch_AddFriend K M frd)"
    and "runs n [] P False (dispatch_AddFriendRes K M afres)"
    and "runs n [] P False (dispatch_AddFriendAuthorize K M addAuth)"
    and "runs n [] P False (dispatch_AddFriendAuthorizeRes K M aares)"
    and "runs n [] P True (dispatch_QueryAddfriendInfo K M info)"
proof -
  have c: "runs n [] is_system_error False (lift_exn (check_add_friend frd u v))" for u v
    by (rule safe_lift) (auto simp: check_add_friend_def split: if_splits)
  show "runs n [] P True (dispatch_AddFriend K M frd)"
    unfolding dispatch_AddFriend_def
    by (rule reply_rules safe_rules c | rule db_rules sys_rules, (rule M)? | rule reply_steps | rule M)+
qed (unfold dispatch_AddFriendRes_def dispatch_AddFriendAuthorize_def
      dispatch_AddFriendAuthorizeRes_def dispatch_QueryAddfriendInfo_def Let_def,
     (rule reply_rules safe_rules | rule db_rules sys_rules, (rule M)? | rule reply_steps | rule M)+)

lemma replies_groups:
  assumes M: "mongo_ok M"
  shows "runs n [] P True (dispatch_CreateGroup K M cg)"
    and "runs n [] P True (dispatch_GroupAddMember K M gm)"
  unfolding dispatch_CreateGroup_def dispatch_GroupAddMember_def
  by (rule reply_rules safe_rules | rule db_rules sys_rules, (rule M)? | rule reply_steps | rule M)+

lemma replies_queries:
  assumes M: "mongo_ok M"
  shows "runs n [] P True (dispatch_QueryUserVersion K M quv)"
    and "runs n [] P True (dispatch_QueryUser K M qu)"
    and "runs n [] P True (dispatch_QueryNodeVersion K M qnv)"
    and "runs n [] P True (dispatch_QueryNode K M qn)"
    and "runs n [] P True (dispatch_QueryOneMessage K M qom)"
    and "runs n [] P True (dispatch_QueryMedia K M qm)"
    and "runs n [] P True (dispatch_Ping K ping)"
  unfolding dispatch_QueryUserVersion_def dispatch_QueryUser_def dispatch_QueryNodeVersion_def
    dispatch_QueryNode_def dispatch_QueryOneMessage_def dispatch_QueryMedia_def dispatch_Ping_def
  by (rule reply_rules safe_rules | rule db_rules sys_rules, (rule M)? | rule reply_steps | rule M)+

lemma replies_messages:
  assumes M: "mongo_ok M"
  shows "runs n [] P True (dispatch_NodeMessage K M msg)"
    and "runs n [] P False (dispatch_NodeMessageRes K M msgres)"
  unfolding dispatch_NodeMessage_def dispatch_NodeMessageRes_def Let_def
  by (rule reply_rules safe_rules | rule db_rules sys_rules, (rule M)? | rule reply_steps | rule M)+

lemma replies_media:
  assumes M: "mongo_ok M"
  shows "runs n [] P True (dispatch_Media K M media)"
proof -
  have "runs n [] is_system_error True (act_seq (liftdb (insertMedia M media))
      (send_self K (M_MediaRes \<lparr>MediaRes_isSuccess = True\<rparr>)))"
    by (rule reply_rules safe_rules | rule db_rules sys_rules, (rule M)? | rule reply_steps | rule M)+
  then show ?thesis
    unfolding dispatch_Media_def
    by (rule runs_catch) (auto intro: reply_send_self reply_send_error)
qed

text \<open>The three handlers an exception can leave, and which.\<close>

lemma mono_sys: "runs n ps is_system_error q m \<Longrightarrow> runs n ps (\<lambda>e. is_system_error e \<or> X e) q m"
  by (erule runs_mono) simp

lemma set_connected_node: "runs n ps P False (set_rio node (connected_node connect i))"
  by (rule safe_set_rio) (simp add: connected_node_def io_static_def)

lemma replies_connect:
  assumes M: "mongo_ok M"
  shows "runs n [] (\<lambda>e. e = Fatal ''key not found'') True (dispatch_ClientConnect K M connect)"
proof -
  let ?E = "\<lambda>e. is_system_error e \<or> e = Fatal ''key not found''"
  have rest: "runs n [] is_system_error False (act_bind current_userid (\<lambda>userid.
       unreadNodes M liftdb userid (\<lambda>(tonodeid, unreadIncrement, readedIncrement).
         act_bind current_userid (\<lambda>userid.
         send_self K (f userid tonodeid unreadIncrement readedIncrement)))))" for f
    by (rule safe_rules runs_prod | rule safe_unreadNodes, rule M)+
  have sid: "runs n [] P False (modify (\<lambda>s. s\<lparr>session_id := v\<rparr>))" for P v
    by (rule safe_modify) (auto simp: srv_inv_def grows_def)
  have cs: "runs n [] ?E True (connect_success K M connect)"
    unfolding connect_success_def
    by (rule reply_bindR, rule mono_sys, rule safe_find_uuid, rule M, rule reply_bindR, rule safe_current,
        rule reply_bindR, rule safe_gets, rule reply_bindR, rule runs_option, rule runs_raise, simp,
        rule safe_ret, rule reply_seqR, rule set_connected_node, rule reply_seqR, rule sid,
        rule reply_seqR, rule safe_set_connectInfo, rule reply_seqR, rule mono_sys,
        rule safe_update_uuid, rule M, rule reply_bindR, rule safe_gets, rule reply_self_then,
        rule mono_sys, rule rest)
  have "runs n [] ?E True (act_bind (liftdb (queryUser M (ClientConnect_userID connect))) (\<lambda>user.
      case find_device user (ClientConnect_UUID connect) of
        None \<Rightarrow> raise (sys_error 11003 ''device not find'')
      | Some device \<Rightarrow> connect_success K M connect))"
    by (rule reply_bindR, rule mono_sys, rule safe_liftdb, rule sys_rules, rule M,
        rule runs_option, rule runs_raise, simp, rule cs)
  then show ?thesis
    unfolding dispatch_ClientConnect_def
    by (rule runs_catch) (auto intro: reply_send_self)
qed

lemma replies_queryMessage:
  assumes M: "mongo_ok M"
  shows "runs n [] (\<lambda>e. e = Undefined) True (dispatch_QueryMessage K M query)"
  unfolding dispatch_QueryMessage_def
  by (rule runs_or_error, rule reply_bindR, rule safe_lift, simp add: query_invalid_def int32_minus_def
      Let_def split: if_splits, rule runs_if, rule runs_raise, simp,
      rule reply_bindR, rule safe_current_userid, rule reply_bindR, rule safe_lift,
      simp add: int32_minus_def split: if_splits, rule mono_sys,
      (rule reply_rules safe_rules | rule db_rules sys_rules, (rule M)? | rule reply_steps | rule M)+)

lemma safe_setUserProperty:
  assumes M: "mongo_ok M"
  shows "runs n ps (\<lambda>e. is_system_error e \<or> e = Logic_error ''stoi'' \<or> e = Undefined) False
     (liftdb (setUserProperty M u property) :: ('db, 'c, unit) srv)"
proof (rule runsI)
  fix s :: "('db, 'c) world"
  assume i: "srv_inv s"
  have "srv_inv (s\<lparr>wdb := d\<rparr>)" and "grows n s (s\<lparr>wdb := d\<rparr>)" for d
    using i by (simp_all add: srv_inv_def grows_def)
  then show "wp (liftdb (setUserProperty M u property))
      (\<lambda>_ s'. srv_inv s' \<and> grows n s s' \<and> (False \<longrightarrow> length (cur_queue s) < length (cur_queue s')))
      (\<lambda>e s'. (is_system_error e \<or> e = Logic_error ''stoi'' \<or> e = Undefined) \<and> srv_inv s' \<and> grows n s s') s"
    by (auto simp: wp_liftdb intro!: wp_mono [OF setUserProperty_wp [OF M]])
qed

lemma replies_setUserProperty:
  assumes M: "mongo_ok M"
  shows "runs n [] (\<lambda>e. e = Logic_error ''stoi'' \<or> e = Undefined) True (dispatch_SetUserProperty K M property)"
  unfolding dispatch_SetUserProperty_def
  by (rule runs_or_error, rule reply_bindR, rule safe_current_userid, rule reply_seqR,
      rule safe_setUserProperty, rule M, rule reply_send_self)

section \<open>The table\<close>

text \<open>Which exceptions can escape the handler of a type, and which types always get an answer.\<close>

definition may_escape :: "u8 \<Rightarrow> exn \<Rightarrow> bool" where
  "may_escape type e \<longleftrightarrow>
     (type = chat_code CT_clientconnect \<and> e = Fatal ''key not found'')
     \<or> (type = chat_code CT_setuserproterty \<and> (e = Logic_error ''stoi'' \<or> e = Undefined))
     \<or> (type = chat_code CT_querymessage \<and> e = Undefined)"

definition answered_types :: "ChatType list" where
  "answered_types = [CT_registor, CT_login, CT_logout, CT_clientconnect, CT_clientdisconnect,
     CT_queryuser, CT_queryuserversion, CT_addfriend, CT_creategroup, CT_groupaddmember,
     CT_querynodeversion, CT_querynode, CT_nodemessage, CT_querymessage, CT_queryonemessage,
     CT_media, CT_querymedia, CT_queryaddfriendinfo, CT_ping, CT_setuserproterty]"

definition answered :: "u8 \<Rightarrow> bool" where
  "answered type \<longleftrightarrow> type \<in> set (map chat_code answered_types)"

lemma answered_iff: "answered (chat_code t) \<longleftrightarrow> t \<in> set answered_types"
  by (auto simp: answered_def chat_code_inj)

lemma dispatch_map_contract:
  assumes M: "mongo_ok M"
  shows "list_all (\<lambda>(t, h). runs n [] (may_escape (chat_code t)) (answered (chat_code t)) h)
     (dispatch_map K M d)"
proof -
  have e: "runs n [] P False (dispatch_Error error)" for P error
    by (simp add: dispatch_Error_def safe_ret)
  note contracts = e replies_accounts [OF M] replies_login [OF M] replies_friends [OF M]
    replies_groups [OF M] replies_queries [OF M] replies_messages [OF M] replies_media [OF M]
    runs_mono [OF replies_connect [OF M]] runs_mono [OF replies_queryMessage [OF M]]
    runs_mono [OF replies_setUserProperty [OF M]]
  show ?thesis
    unfolding dispatch_map_def
    by (simp only: list.pred_inject case_prod_conv answered_iff answered_types_def list.set insert_iff
        ChatType.distinct empty_iff simp_thms)
      (intro conjI; rule contracts; simp add: may_escape_def)
qed

lemma dispatch_data_contract:
  assumes M: "mongo_ok M"
  shows "runs n [] (may_escape type) (answered type) (dispatch_data K M type d)"
proof (cases "find (\<lambda>(t, h). chat_code t = type) (dispatch_map K M d :: (ChatType \<times> ('a, 'b, unit) srv) list)")
  case None
  have "\<not> answered type"
  proof
    assume "answered type"
    then obtain t where t: "t \<in> set answered_types" "type = chat_code t" by (auto simp: answered_def)
    have "t \<in> fst ` set (dispatch_map K M d :: (ChatType \<times> ('a, 'b, unit) srv) list)"
      using t(1) by (auto simp: answered_types_def dispatch_map_def)
    then show False using None t(2) by (auto simp: find_None_iff)
  qed
  then show ?thesis using None by (simp add: dispatch_data_def safe_ret)
next
  case (Some th)
  obtain t h where th: "th = (t, h)" by (cases th)
  have "chat_code t = type" and "(t, h) \<in> set (dispatch_map K M d)"
    using Some th by (auto simp: find_Some_iff in_set_conv_nth intro: exI)
  then show ?thesis
    using dispatch_map_contract [OF M, of n K d] Some th
    by (auto simp: list_all_iff dispatch_data_def)
qed

end
