(* ===== verification/Queued.thy ===== *)
theory Queued
  imports Delivery
begin

text \<open>
  Exactly what a reply leaves behind: the frames appended to the requesting device's queue, their
  contents, and nothing else.
\<close>

section \<open>Stamping\<close>

definition stamped :: "u16 \<Rightarrow> bool \<Rightarrow> buffer \<Rightarrow> buffer" where
  "stamped sid l b = snd (set_sessionid sid l b)"

lemma set_sessionid_stamped:
  "2 \<le> length (b_mem b) \<Longrightarrow> set_sessionid sid l b = (Inr (), stamped sid l b)"
  by (simp add: stamped_def set_sessionid_ok)

lemma stamped_length [simp]: "2 \<le> length (b_mem b) \<Longrightarrow> length (b_mem (stamped sid l b)) = length (b_mem b)"
  by (simp add: stamped_def set_sessionid_ok)

lemma stamped_again:
  "2 \<le> length (b_mem b) \<Longrightarrow> stamped sid l (stamped sid l' b) = stamped sid l b"
  by (simp add: stamped_def set_sessionid_ok)

lemma sp_set_sessionid_exec:
  assumes "p < length (bufs s)" and "2 \<le> length (b_mem (bufs s ! p))"
  shows "sp_set_sessionid p sid l s = (Inr (), bufs_update (change p (stamped sid l)) s)"
proof -
  have "change p (\<lambda>_. stamped sid l (bufs s ! p)) (bufs s) = change p (stamped sid l) (bufs s)"
    by (simp add: change_def)
  then show ?thesis
    using assms by (cases s) (simp add: sp_set_sessionid_def act_defs fetch_def set_sessionid_stamped)
qed

section \<open>The loop over the frames\<close>

lemma change_append: "change (length xs) f (xs @ y # ys) = xs @ f y # ys"
  by (simp add: change_def)

lemma change_twice: "change p f (change p g xs) = change p (f \<circ> g) xs"
  by (simp add: change_def)

lemma push_loop_exec:
  assumes "\<forall>b \<in> set bs2. 2 \<le> length (b_mem b)" and "w < length (wios s)"
    and "bufs s = old @ map (stamped sid False) bs1 @ bs2"
  shows "foreach [length old + length bs1 ..< length old + length bs1 + length bs2] (push_frame w sid) s
     = (Inr (), s\<lparr>bufs := old @ map (stamped sid False) (bs1 @ bs2),
         wios := change w (\<lambda>x. x\<lparr>w_buffers_p := w_buffers_p x
           @ [length old + length bs1 ..< length old + length bs1 + length bs2]\<rparr>) (wios s)\<rparr>)"
  using assms
proof (induction bs2 arbitrary: bs1 s)
  case Nil
  have "change w (\<lambda>x. x\<lparr>w_buffers_p := w_buffers_p x\<rparr>) (wios s) = wios s"
    by (simp add: change_def list_update_same_conv)
  then show ?case using Nil by (cases s) (simp add: act_defs)
next
  case (Cons b bs2)
  let ?p = "length old + length bs1"
  let ?n = "?p + length (b # bs2)"
  have up: "[?p ..< ?n] = ?p # [length old + length (bs1 @ [b]) ..< length old + length (bs1 @ [b]) + length bs2]"
    by (simp add: upt_rec [of "?p"] Suc_le_eq)
  have at: "bufs s ! ?p = b" "?p < length (bufs s)"
    using Cons.prems(3) by (simp_all add: nth_append)
  let ?s1 = "bufs_update (change ?p (stamped sid False)) s"
  have s1: "sp_set_sessionid ?p sid False s = (Inr (), ?s1)"
    using at Cons.prems(1) by (intro sp_set_sessionid_exec) simp_all
  let ?s2 = "wios_update (change w (\<lambda>x. x\<lparr>w_buffers_p := w_buffers_p x @ [?p]\<rparr>)) ?s1"
  have "change (length (old @ map (stamped sid False) bs1)) (stamped sid False)
      ((old @ map (stamped sid False) bs1) @ b # bs2)
      = (old @ map (stamped sid False) bs1) @ stamped sid False b # bs2"
    by (rule change_append)
  then have b2: "bufs ?s2 = old @ map (stamped sid False) (bs1 @ [b]) @ bs2"
    using Cons.prems(3) by simp
  have body: "push_frame w sid ?p s = (Inr (), ?s2)"
    using Cons.prems(2) s1 by (simp add: push_frame_def act_defs fetch_def set_wio_def)
  have ih: "foreach [length old + length (bs1 @ [b]) ..< length old + length (bs1 @ [b]) + length bs2]
      (push_frame w sid) ?s2
      = (Inr (), ?s2\<lparr>bufs := old @ map (stamped sid False) ((bs1 @ [b]) @ bs2),
         wios := change w (\<lambda>x. x\<lparr>w_buffers_p := w_buffers_p x
           @ [length old + length (bs1 @ [b]) ..< length old + length (bs1 @ [b]) + length bs2]\<rparr>) (wios ?s2)\<rparr>)"
    using Cons.prems(1,2) b2 by (intro Cons.IH) simp_all
  have cw: "change w (\<lambda>x. x\<lparr>w_buffers_p := w_buffers_p x @ us\<rparr>)
      (change w (\<lambda>x. x\<lparr>w_buffers_p := w_buffers_p x @ [p]\<rparr>) l)
      = change w (\<lambda>x. x\<lparr>w_buffers_p := w_buffers_p x @ p # us\<rparr>) l" for us p and l :: "write_io list"
    by (simp add: change_twice o_def)
  show ?case
    unfolding up foreach.simps act_seq_def act_bind_def body prod.case sum.case ih
    by (cases s) (simp add: cw)
qed

lemma push_frames_exec:
  assumes ne: "bs \<noteq> []" and len: "\<forall>b \<in> set bs. 2 \<le> length (b_mem b)"
    and node: "node < length (rios s)" and w: "r_writeio (rios s ! node) < length (wios s)"
    and b: "bufs s = old @ bs"
  shows "push_frames node [length old ..< length old + length bs] s
     = (Inr (), s\<lparr>bufs := old @ map (stamped (session_id s) False) (butlast bs) @ [stamped (session_id s) True (last bs)],
         wios := change (r_writeio (rios s ! node)) (\<lambda>x. x\<lparr>w_buffers_p := w_buffers_p x
           @ [length old ..< length old + length bs]\<rparr>) (wios s)\<rparr>)"
proof -
  let ?sid = "session_id s" and ?w = "r_writeio (rios s ! node)"
  let ?us = "[length old ..< length old + length bs]"
  let ?t = "s\<lparr>bufs := old @ map (stamped ?sid False) bs,
      wios := change ?w (\<lambda>x. x\<lparr>w_buffers_p := w_buffers_p x @ ?us\<rparr>) (wios s)\<rparr>"
  have loop: "foreach ?us (push_frame ?w ?sid) s = (Inr (), ?t)"
    using push_loop_exec [of bs ?w s old ?sid "[]"] len w b by simp
  have us: "?us \<noteq> []" "last ?us = length old + length bs - 1" using ne by (simp_all add: Suc_le_eq last_upt)
  let ?pre = "old @ map (stamped ?sid False) (butlast bs)"
  have bs: "bs = butlast bs @ [last bs]" using ne by simp
  have "map (stamped ?sid False) bs = map (stamped ?sid False) (butlast bs) @ [stamped ?sid False (last bs)]"
    by (subst bs) simp
  then have mb: "bufs ?t = ?pre @ [stamped ?sid False (last bs)]" by simp
  have lp: "length ?pre = length old + length bs - 1" using ne by (cases bs) auto
  have l2: "2 \<le> length (b_mem (last bs))" using len ne by simp
  have "bufs ?t ! length ?pre = stamped ?sid False (last bs)"
    unfolding mb by (rule nth_append_length)
  then have "2 \<le> length (b_mem (bufs ?t ! length ?pre))"
    using l2 by (simp only: stamped_length)
  moreover have "length ?pre < length (bufs ?t)" unfolding mb by simp
  ultimately have set_last: "sp_set_sessionid (length ?pre) ?sid True ?t
      = (Inr (), bufs_update (change (length ?pre) (stamped ?sid True)) ?t)"
    by (intro sp_set_sessionid_exec)
  have "change (length ?pre) (stamped ?sid True) (?pre @ [stamped ?sid False (last bs)])
      = ?pre @ [stamped ?sid True (stamped ?sid False (last bs))]"
    by (rule change_append)
  then have ch: "change (length ?pre) (stamped ?sid True) (bufs ?t) = ?pre @ [stamped ?sid True (last bs)]"
    using l2 by (simp only: mb stamped_again)
  show ?thesis
    using node loop us set_last [unfolded lp] ch [unfolded lp] ne
    by (simp add: push_frames_def act_bind_def act_seq_def gets_def fetch_def)
qed

section \<open>A reply\<close>

text \<open>The frames of a message, as they are in the queue.\<close>

definition frames_of :: "u16 \<Rightarrow> u8 \<Rightarrow> bytes \<Rightarrow> buffer list \<Rightarrow> bool" where
  "frames_of sid type d bs \<longleftrightarrow> length bs = length (chunks d)
     \<and> (\<forall>k < length bs. holds_frame (bs ! k) sid (Suc k = length bs) type (chunks d ! k))"

lemma send_self_exec:
  assumes i: "srv_inv s" and c: "currentNode s = Some c"
  shows "\<exists>bs. frames_of (session_id s) (chat_code (dispatchType any)) (ser K any) bs
     \<and> send_self K any s = (Inr (), s\<lparr>bufs := bufs s @ bs,
         wios := change (r_writeio (rios s ! c)) (\<lambda>x. x\<lparr>w_buffers_p := w_buffers_p x
           @ [length (bufs s) ..< length (bufs s) + length bs]\<rparr>) (wios s),
         pingnodes := pingnodes s @ [c]\<rparr>)"
proof -
  let ?cs = "chunks (ser K any)" and ?ty = "chat_code (dispatchType any)" and ?sid = "session_id s"
  have cl: "c < length (rios s)" and w: "r_writeio (rios s ! c) < length (wios s)"
    using i c by (auto simp: srv_inv_def)
  obtain bs where al: "yijianBuffer_sp K any s
      = (Inr [length (bufs s) ..< length (bufs s) + length ?cs], s\<lparr>bufs := bufs s @ bs\<rparr>)"
    and lb: "length bs = length ?cs"
    and nb: "\<forall>k < length ?cs. Buffer_new (raw s (length (bufs s) + k)) ?ty (?cs ! k) = Inr (bs ! k)"
    using alloc_buffers_wp [OF chunks_ok(2) [of "ser K any"] i, of ?ty]
    by (auto simp: wp_def yijianBuffer_sp_def split: prod.splits sum.splits)
  have ne: "bs \<noteq> []" using lb chunks_ok(3) [of "ser K any"] by auto
  have bk: "length (b_mem (bs ! k)) = 1024
      \<and> (\<forall>sid l. \<exists>b'. set_sessionid sid l (bs ! k) = (Inr (), b') \<and> holds_frame b' sid l ?ty (?cs ! k))"
    if "k < length bs" for k
  proof -
    have "length (?cs ! k) \<le> 1019" using chunks_ok(2) [of "ser K any"] that lb by simp
    then show ?thesis
      using Buffer_new_ok [of "?cs ! k" "raw s (length (bufs s) + k)" ?ty] nb that lb by auto
  qed
  then have hf: "holds_frame (stamped sid l (bs ! k)) sid l ?ty (?cs ! k)" if "k < length bs" for k sid l
    using that unfolding stamped_def by (metis snd_conv)
  have len: "\<forall>b \<in> set bs. 2 \<le> length (b_mem b)" using bk by (auto simp: in_set_conv_nth)
  let ?out = "map (stamped ?sid False) (butlast bs) @ [stamped ?sid True (last bs)]"
  have lo: "length ?out = length bs" using ne by (cases bs) auto
  have "holds_frame (?out ! k) ?sid (Suc k = length ?out) ?ty (?cs ! k)" if k: "k < length ?out" for k
  proof (cases "Suc k = length bs")
    case True
    then have "k = length (map (stamped ?sid False) (butlast bs))" using ne by simp
    then have "?out ! k = stamped ?sid True (last bs)" by (simp only: nth_append_length)
    moreover have "last bs = bs ! k" using ne True by (simp add: last_conv_nth flip: True)
    ultimately show ?thesis using True hf [of k ?sid True] k lo by simp
  next
    case False
    then have "k < length (butlast bs)" using k lo by simp
    then have "?out ! k = stamped ?sid False (bs ! k)" by (simp add: nth_append nth_butlast)
    then show ?thesis using False hf [of k ?sid False] k lo by simp
  qed
  then have fr: "frames_of ?sid ?ty (ser K any) ?out"
    unfolding frames_of_def by (simp only: lo lb simp_thms) blast
  have pf: "push_frames c [length (bufs s) ..< length (bufs s) + length bs] (s\<lparr>bufs := bufs s @ bs\<rparr>)
     = (Inr (), (s\<lparr>bufs := bufs s @ bs\<rparr>)\<lparr>bufs := bufs s @ ?out,
         wios := change (r_writeio (rios s ! c)) (\<lambda>x. x\<lparr>w_buffers_p := w_buffers_p x
           @ [length (bufs s) ..< length (bufs s) + length bs]\<rparr>) (wios s)\<rparr>)"
    using push_frames_exec [OF ne len, of c "s\<lparr>bufs := bufs s @ bs\<rparr>" "bufs s"] cl w by simp
  have "send_self K any s = (Inr (), s\<lparr>bufs := bufs s @ ?out,
         wios := change (r_writeio (rios s ! c)) (\<lambda>x. x\<lparr>w_buffers_p := w_buffers_p x
           @ [length (bufs s) ..< length (bufs s) + length ?out]\<rparr>) (wios s),
         pingnodes := pingnodes s @ [c]\<rparr>)"
    unfolding send_self_def mountBuffer2Node_self_def act_bind_def act_seq_def al prod.case sum.case
    using c pf lb lo
    by (simp add: current_def act_defs pushPingnode_def)
  with fr show ?thesis by blast
qed

end
