(* ===== verification/Session.thy ===== *)
theory Session
  imports Containment Queued
begin

text \<open>
  The entry point \<open>dispatch(node, spvec, session_id)\<close>: which requests reach a handler, what the
  others get, and that the whole call keeps the server consistent.
\<close>

definition world_ok :: "('db, 'c) world \<Rightarrow> bool" where
  "world_ok s \<longleftrightarrow>
     (\<forall>io \<in> set (rios s). r_writeio io < length (wios s))
     \<and> (\<forall>u p. uuidnode_map s u = Some p \<longrightarrow> p < length (rios s))
     \<and> (\<forall>p \<in> set (map snd (peer_list s)). p < length (rios s))
     \<and> (\<forall>b \<in> set (bufs s). length (b_mem b) = 1024)"

lemma srv_inv_iff:
  "srv_inv s \<longleftrightarrow> world_ok s \<and> (\<exists>c. currentNode s = Some c \<and> c < length (rios s))"
  by (auto simp: srv_inv_def world_ok_def)

lemma world_ok_current [simp]: "world_ok (s\<lparr>currentNode := c\<rparr>) = world_ok s"
  "world_ok (s\<lparr>session_id := i\<rparr>) = world_ok s"
  by (simp_all add: world_ok_def)

text \<open>A request reaches its handler under these conditions.\<close>

definition admitted :: "('db, 'c) world \<Rightarrow> ptr \<Rightarrow> u16 \<Rightarrow> buffer \<Rightarrow> bool" where
  "admitted s node sid back \<longleftrightarrow> sid = b_session_id back
     \<and> (if sid \<ge> MinSessionID then r_isConnect (rios s ! node) \<and> missing_check8 (b_data_type back)
        else \<not> missing_check8 (b_data_type back))"

definition refusal :: "('db, 'c) world \<Rightarrow> ptr \<Rightarrow> u16 \<Rightarrow> buffer \<Rightarrow> Error" where
  "refusal s node sid back =
     (if sid \<noteq> b_session_id back
      then \<lparr>Error_errnum = 11010,
             Error_errmsg = ''session id error, right id is '' @ show_nat (unat sid) @ '' .''\<rparr>
      else if sid \<ge> MinSessionID
      then \<lparr>Error_errnum = 11011,
             Error_errmsg = ''need connect first or msg type can not pair the session id''\<rparr>
      else \<lparr>Error_errnum = 11013,
             Error_errmsg = ''session need < MinSessionIDmsg type can not pair the session id''\<rparr>)"

lemma gate_cases:
  assumes "node < length (rios s)"
  shows "gate K M node sid (b_session_id back) (b_data_type back) d s =
     (if \<not> admitted s node sid back then send_self K (M_Error (refusal s node sid back)) s
      else if sid \<ge> MinSessionID
      then act_seq (liftdb (updateSessionID M (r_uuid (rios s ! node)) (r_userid (rios s ! node)) sid))
             (dispatch_data K M (b_data_type back) d) s
      else dispatch_data K M (b_data_type back) d s)"
  using assms
  by (auto simp: gate_def admitted_def refusal_def send_error_def act_bind_def fetch_def)

lemma safe_liftdb_total:
  assumes "\<And>d. wp m (\<lambda>_ _. True) (\<lambda>_ _. False) d"
  shows "runs n ps P False (liftdb m :: ('db, 'c, 'a) srv)"
proof (rule runsI)
  fix s :: "('db, 'c) world"
  assume i: "srv_inv s"
  have "srv_inv (s\<lparr>wdb := d\<rparr>)" and "grows n s (s\<lparr>wdb := d\<rparr>)" for d
    using i by (simp_all add: srv_inv_def grows_def)
  then show "wp (liftdb m)
      (\<lambda>_ s'. srv_inv s' \<and> grows n s s' \<and> (False \<longrightarrow> length (cur_queue s) < length (cur_queue s')))
      (\<lambda>e s'. P e \<and> srv_inv s' \<and> grows n s s') s"
    by (auto simp: wp_liftdb intro!: wp_mono [OF assms])
qed

lemma swallow_total: "sys_only m \<Longrightarrow> wp (swallow m) (\<lambda>_ _. True) (\<lambda>_ _. False) d"
  by (auto simp: swallow_def wp_simps sys_only_def elim!: allE wp_mono)

lemma updateSessionID_total:
  assumes M: "mongo_ok M"
  shows "wp (updateSessionID M u v sid) (\<lambda>_ _. True) (\<lambda>_ _. False) d"
  unfolding updateSessionID_def by (intro swallow_total mongo_sys [OF M])

lemma gate_wp:
  assumes M: "mongo_ok M" and i: "srv_inv s" and node: "node < length (rios s)"
  shows "wp (gate K M node sid (b_session_id back) (b_data_type back) d)
     (\<lambda>_ s'. srv_inv s' \<and> grows (length (bufs s)) s s'
        \<and> (\<not> admitted s node sid back \<or> answered (b_data_type back)
             \<longrightarrow> length (cur_queue s) < length (cur_queue s')))
     (\<lambda>e s'. may_escape (b_data_type back) e \<and> srv_inv s' \<and> grows (length (bufs s)) s s') s"
proof -
  let ?Q = "\<lambda>q _ s'. srv_inv s' \<and> grows (length (bufs s)) s s' \<and> (q \<longrightarrow> length (cur_queue s) < length (cur_queue s'))"
  let ?E = "\<lambda>e s'. may_escape (b_data_type back) e \<and> srv_inv s' \<and> grows (length (bufs s)) s s'"
  note dd = dispatch_data_contract [OF M, of "length (bufs s)" "b_data_type back" K d]
  have a: "wp (send_self K any) (?Q True) ?E s" for any
    using i by (intro runsD [OF reply_send_self]) simp_all
  have b: "wp (dispatch_data K M (b_data_type back) d) (?Q (answered (b_data_type back))) ?E s"
    using i by (intro runsD [OF dd]) simp_all
  have r: "runs (length (bufs s)) [] (may_escape (b_data_type back)) (False \<or> answered (b_data_type back))
      (act_bind (liftdb (updateSessionID M u v sid)) (\<lambda>_. dispatch_data K M (b_data_type back) d))" for u v
    by (rule runs_bind [OF safe_liftdb_total [OF updateSessionID_total [OF M]] dd])
  have c: "wp (act_seq (liftdb (updateSessionID M u v sid)) (dispatch_data K M (b_data_type back) d))
      (?Q (answered (b_data_type back))) ?E s" for u v
    unfolding act_seq_def using runsD [OF r i] by simp
  have w: "wp m (?Q q) ?E s \<Longrightarrow> q = (\<not> admitted s node sid back \<or> answered (b_data_type back)) \<Longrightarrow>
      gate K M node sid (b_session_id back) (b_data_type back) d s = m s \<Longrightarrow> ?thesis" for m q
    by (simp add: wp_def)
  show ?thesis
  proof (cases "admitted s node sid back")
    case False
    then show ?thesis by (intro w [OF a]) (simp_all add: gate_cases [OF node])
  next
    case True
    show ?thesis
    proof (cases "sid \<ge> MinSessionID")
      case True
      with \<open>admitted s node sid back\<close> show ?thesis
        by (intro w [OF c]) (simp_all add: gate_cases [OF node])
    next
      case False
      with \<open>admitted s node sid back\<close> show ?thesis
        by (intro w [OF b]) (simp_all add: gate_cases [OF node])
    qed
  qed
qed

lemma gather_wp:
  assumes "\<forall>p \<in> set sps. p < length (bufs s)"
  shows "gather sps s = (Inr (concat (map (\<lambda>p. buffer_data (bufs s ! p)) sps)), s)"
  using assms by (induction sps) (simp_all add: act_defs fetch_def)

text \<open>\<open>dispatch\<close> on a valid job, unfolded: set up, gate, tear down.\<close>

lemma dispatch_exec:
  assumes "spvec \<noteq> []" and "\<forall>p \<in> set spvec. p < length (bufs s)"
  shows "dispatch K M node spvec sid s =
     (case gate K M node sid (b_session_id (bufs s ! last spvec)) (b_data_type (bufs s ! last spvec))
        (concat (map (\<lambda>p. buffer_data (bufs s ! p)) spvec))
        (s\<lparr>currentNode := Some node, session_id := sid\<rparr>) of
        (Inl e, s') \<Rightarrow> (Inl e, s')
      | (Inr _, s') \<Rightarrow> (Inr (), s'\<lparr>currentNode := None\<rparr>))"
proof -
  let ?s = "s\<lparr>currentNode := Some node, session_id := sid\<rparr>"
  have "last spvec < length (bufs s)" using assms by simp
  moreover have "gather spvec ?s = (Inr (concat (map (\<lambda>p. buffer_data (bufs ?s ! p)) spvec)), ?s)"
    using assms(2) by (intro gather_wp) simp
  ultimately show ?thesis
    using assms(1) by (simp add: dispatch_def act_bind_def act_seq_def modify_def fetch_def
        split: prod.split sum.split)
qed

text \<open>The contract of a whole job.\<close>

lemma dispatch_contract_lemma:
  assumes M: "mongo_ok M" and w: "world_ok s" and node: "node < length (rios s)"
    and ne: "spvec \<noteq> []" and v: "\<forall>p \<in> set spvec. p < length (bufs s)"
    and bk: "back = bufs s ! last spvec"
  shows "wp (dispatch K M node spvec sid)
     (\<lambda>_ s'. world_ok s' \<and> currentNode s' = None \<and> grows (length (bufs s)) (s\<lparr>currentNode := None\<rparr>) s'
        \<and> (\<not> admitted s node sid back \<or> answered (b_data_type back) \<longrightarrow>
             length (w_buffers_p (wios s ! r_writeio (rios s ! node)))
             < length (w_buffers_p (wios s' ! r_writeio (rios s ! node)))))
     (\<lambda>e s'. may_escape (b_data_type back) e) s"
proof -
  let ?s = "s\<lparr>currentNode := Some node, session_id := sid\<rparr>"
  have i: "srv_inv ?s" using w node by (simp add: srv_inv_iff)
  have n: "node < length (rios ?s)" using node by simp
  have ad: "admitted ?s = admitted s" by (simp add: admitted_def fun_eq_iff)
  have cq: "cur_queue t = w_buffers_p (wios t ! r_writeio (rios s ! node))"
    if "grows (length (bufs s)) ?s t" for t
    using that grows_writeio [OF that n] by (simp add: cur_queue_def grows_def)
  have fin: "grows (length (bufs s)) (s\<lparr>currentNode := None\<rparr>) (t\<lparr>currentNode := None\<rparr>)"
    if "grows (length (bufs s)) ?s t" for t
    using that by (simp add: grows_def)
  show ?thesis
    using gate_wp [OF M i n, of K sid "bufs s ! last spvec" "concat (map (\<lambda>p. buffer_data (bufs s ! p)) spvec)"]
    unfolding wp_def bk dispatch_exec [OF ne v]
    using cq fin cq [OF grows_refl] by (auto simp: ad srv_inv_iff split: prod.splits sum.splits)
qed

end
