(* ===== verification/EventLoop.thy ===== *)
theory EventLoop
  imports Dispatch
begin

text \<open>
  The callbacks of the event loop (\<open>yijian/libev_server.cxx\<close>) and the steps the server makes:
  accepted connections, readable and writable sockets, the ping timer, the async notification from
  the worker, and the worker running one job. The reader \<open>R\<close> and the writer \<open>W\<close> stand for
  OpenSSL.
\<close>

section \<open>Buffers and connections\<close>

text \<open>Running a buffer method on the buffer at \<open>sp\<close> and the TLS connection of \<open>node\<close>.\<close>

definition on_socket :: "ptr \<Rightarrow> ptr \<Rightarrow> (buffer \<times> 'c, 'a) act \<Rightarrow> ('db, 'c, 'a) srv" where
  "on_socket node sp m = (\<lambda>s.
     if sp < length (bufs s) \<and> node < length (conns s) then
       (case m (bufs s ! sp, conns s ! node) of
          (r, (b, c)) \<Rightarrow> (r, s\<lparr>bufs := (bufs s)[sp := b], conns := (conns s)[node := c]\<rparr>))
     else (Inl Undefined, s))"

definition push_new_buffer :: "ptr \<Rightarrow> ('db, 'c, unit) srv" where
  "push_new_buffer node =
     act_bind (gets (\<lambda>s. length (bufs s))) (\<lambda>p.
     act_seq (modify (\<lambda>s. s\<lparr>bufs := bufs s @ [buffer_ctor (raw s p) MT_message]\<rparr>))
     (set_rio node (\<lambda>io. io\<lparr>r_buffer_sp_v := r_buffer_sp_v io @ [p]\<rparr>)))"

section \<open>Accepting\<close>

definition MAX_CONNECTIONS :: int where "MAX_CONNECTIONS = 100"

text \<open>
  \<open>fd\<close> is the result of \<open>accept\<close>; \<open>raw_io\<close> supplies the members a new \<open>Read_IO\<close> leaves
  indeterminate, \<open>c\<close> is the new TLS connection.
\<close>

definition socket_accept_callback :: "int \<Rightarrow> read_io \<Rightarrow> 'c \<Rightarrow> ('db, 'c, unit) srv" where
  "socket_accept_callback fd raw_io c =
     (if fd < 0 then ret ()
      else if fd > MAX_CONNECTIONS then ret ()
      else
        act_bind (gets (\<lambda>s. length (rios s))) (\<lambda>node.
        act_bind (gets (\<lambda>s. length (wios s))) (\<lambda>w.
        act_seq (modify (\<lambda>s. s
          \<lparr>rios := rios s @ [raw_io\<lparr>r_iter := None, r_writeio := w, r_buffer_sp_v := [],
             r_isConnect := False, r_userid := [], r_uuid := [], r_appVersion := [],
             r_clientVersion := [], r_active := True\<rparr>],
           wios := wios s @ [\<lparr>w_readio = node, w_buffers_p = [], w_active = False\<rparr>],
           conns := conns s @ [c]\<rparr>))
        (ping_append node))))"

section \<open>Reading\<close>

text \<open>The session id a request is checked against; \<open>io->sessionid++\<close> is a 16-bit increment.\<close>

definition take_sessionid :: "ptr \<Rightarrow> u8 \<Rightarrow> ('db, 'c, u16) srv" where
  "take_sessionid node type =
     act_bind (fetch rios node) (\<lambda>io.
     if missing_check8 type then
       if r_sessionid io = MaxSessionID
       then act_seq (set_rio node (\<lambda>io. io\<lparr>r_sessionid := MinSessionID\<rparr>)) (ret MinSessionID)
       else act_seq (set_rio node (\<lambda>io. io\<lparr>r_sessionid := r_sessionid io + 1\<rparr>)) (ret (r_sessionid io))
     else ret 0)"

definition finish_message :: "bool \<Rightarrow> ptr \<Rightarrow> ptr list \<Rightarrow> u8 \<Rightarrow> ('db, 'c, unit) srv" where
  "finish_message shared node sp_vec type =
     act_seq
       (if type = chat_code CT_serverconnect then
          act_bind (ping_erase node) (\<lambda>_. peer_servers_push shared node)
        else if type = chat_code CT_serverdisconnect then peer_servers_erase shared node
        else
          act_bind (take_sessionid node type) (\<lambda>sid.
          modify (\<lambda>s. s\<lparr>workq := workq s @ [(node, sp_vec, sid)]\<rparr>)))
     (set_rio node (\<lambda>io. io\<lparr>r_buffer_sp_v := []\<rparr>))"

definition fatal_read_code :: "int \<Rightarrow> bool" where
  "fatal_read_code code \<longleftrightarrow> code \<in> {20002, 20003, 20005, 20006, 20007, 20008}"

definition close_node :: "ptr \<Rightarrow> ('db, 'c, unit) srv" where
  "close_node node =
     act_seq (set_rio node (\<lambda>io. io\<lparr>r_active := False\<rparr>))
    (act_bind (ping_erase node) (\<lambda>_.
     act_bind (fetch rios node) (\<lambda>io. uuidnode_delete (r_uuid io))))"

definition read_message :: "'c ssl_reader \<Rightarrow> bool \<Rightarrow> ptr \<Rightarrow> ('db, 'c, unit) srv" where
  "read_message R shared node =
     act_bind (fetch rios node) (\<lambda>io.
     act_seq (if r_buffer_sp_v io = [] then push_new_buffer node else ret ())
    (act_bind (fetch rios node) (\<lambda>io.
     let back = last (r_buffer_sp_v io) in
     act_bind (on_socket node back (socket_read R)) (\<lambda>finished.
     if finished then
       act_bind (fetch bufs back) (\<lambda>b.
       if b_isLastBuf b then finish_message shared node (r_buffer_sp_v io) (b_data_type b)
       else push_new_buffer node)
     else ret ()))))"

definition connection_read_callback :: "'c ssl_reader \<Rightarrow> bool \<Rightarrow> ptr \<Rightarrow> ('db, 'c, unit) srv" where
  "connection_read_callback R shared node =
     catch_system_error (read_message R shared node)
       (\<lambda>e. if fatal_read_code (err_code e) then close_node node else ret ())"

section \<open>Writing\<close>

definition deleteReadio :: "ptr \<Rightarrow> ('db, 'c, unit) srv" where
  "deleteReadio node =
     act_bind (fetch rios node) (\<lambda>io.
     if r_uuid io \<noteq> []
     then act_seq (uuidnode_delete (r_uuid io)) (act_bind (ping_erase node) (\<lambda>_. ret ()))
     else ret ())"

definition before_write :: "ptr \<Rightarrow> u8 \<Rightarrow> ('db, 'c, unit) srv" where
  "before_write node type =
     act_seq (ping_move2back node)
    (act_seq
       (if type = chat_code CT_clientconnectres then
          act_seq (set_rio node (\<lambda>io. io\<lparr>r_isConnect := True\<rparr>))
         (act_bind (fetch rios node) (\<lambda>io.
          if r_uuid io \<noteq> [] then uuidnode_put (r_uuid io) node else ret ()))
        else ret ())
     (if type = chat_code CT_clientdisconnectres then deleteReadio node else ret ()))"

definition connection_write_callback :: "'c ssl_writer \<Rightarrow> ptr \<Rightarrow> ('db, 'c, unit) srv" where
  "connection_write_callback W w =
     act_bind (fetch wios w) (\<lambda>wio.
     let node = w_readio wio in
     case w_buffers_p wio of
       [] \<Rightarrow> set_wio w (\<lambda>x. x\<lparr>w_active := False\<rparr>)
     | p # rest \<Rightarrow>
         act_bind (fetch bufs p) (\<lambda>b.
         act_seq (before_write node (b_data_type b))
        (catch_system_error
          (act_bind (on_socket node p (socket_write W)) (\<lambda>finished.
           if finished then set_wio w (\<lambda>x. x\<lparr>w_buffers_p := tl (w_buffers_p x)\<rparr>) else ret ()))
          (\<lambda>e. deleteReadio node))))"

section \<open>Notification and worker\<close>

definition start_write_callback :: "('db, 'c, unit) srv" where
  "start_write_callback =
     act_bind (gets pingnodes) (\<lambda>nodes.
     act_seq (modify (\<lambda>s. s\<lparr>pingnodes := []\<rparr>))
     (foreach nodes (\<lambda>node.
       act_bind (fetch rios node) (\<lambda>io. set_wio (r_writeio io) (\<lambda>x. x\<lparr>w_active := True\<rparr>)))))"

definition worker_step :: "codec \<Rightarrow> 'db mongo \<Rightarrow> ('db, 'c, unit) srv" where
  "worker_step K M =
     act_bind (gets workq) (\<lambda>q. case q of
       [] \<Rightarrow> ret ()
     | (node, spvec, sid) # jobs \<Rightarrow>
         act_seq (modify (\<lambda>s. s\<lparr>workq := jobs\<rparr>)) (dispatch K M node spvec sid))"

section \<open>Steps of the server\<close>

text \<open>
  A \<open>Read_IO\<close> lives as long as some \<open>shared_ptr\<close> to it: in the ping list, the uuid map, the peer
  list, a pending job, the worker's list or the current job. \<open>weak_ptr::lock\<close> succeeds then, and
  its destructor stops both watchers, so only live nodes get read and write events.
\<close>

definition alive :: "('db, 'c) world \<Rightarrow> ptr \<Rightarrow> bool" where
  "alive s p \<longleftrightarrow> p \<in> set (map snd (pinglist s)) \<or> p \<in> ran (uuidnode_map s)
     \<or> p \<in> set (map snd (peer_list s)) \<or> p \<in> set (map fst (workq s))
     \<or> p \<in> set (pingnodes s) \<or> currentNode s = Some p"

inductive server_step ::
  "codec \<Rightarrow> 'db mongo \<Rightarrow> 'c ssl_reader \<Rightarrow> 'c ssl_writer \<Rightarrow> ('db, 'c) world \<Rightarrow> ('db, 'c) world \<Rightarrow> bool"
  for K M R W where
  step_accept: "socket_accept_callback fd raw_io c s = (Inr (), s') \<Longrightarrow> server_step K M R W s s'"
| step_read: "\<lbrakk>p < length (rios s); alive s p; r_active (rios s ! p); length (workq s) < 20;
     connection_read_callback R shared p s = (Inr (), s')\<rbrakk> \<Longrightarrow> server_step K M R W s s'"
| step_write: "\<lbrakk>w < length (wios s); alive s (w_readio (wios s ! w)); w_active (wios s ! w);
     connection_write_callback W w s = (Inr (), s')\<rbrakk> \<Longrightarrow> server_step K M R W s s'"
| step_timer: "pingtime_callback s = (Inr (), s') \<Longrightarrow> server_step K M R W s s'"
| step_async: "start_write_callback s = (Inr (), s') \<Longrightarrow> server_step K M R W s s'"
| step_worker: "worker_step K M s = (Inr (), s') \<Longrightarrow> server_step K M R W s s'"
| step_clock: "now s \<le> t \<Longrightarrow> server_step K M R W s (s\<lparr>now := t\<rparr>)"

inductive_cases server_stepE: "server_step K M R W s s'"

definition initial :: "(nat \<Rightarrow> buffer) \<Rightarrow> 'db \<Rightarrow> u64 \<Rightarrow> ('db, 'c) world" where
  "initial junk db t =
     \<lparr>bufs = [], raw = junk, rios = [], wios = [], conns = [], pinglist = [], peer_list = [],
      next_cell = 0, uuidnode_map = Map.empty, currentNode = None, connectInfo = ConnectInfo_new,
      node_user = NodeUser_new, node_specifiy = NodeSpecifiy_new, session_id = 0, pingnodes = [],
      workq = [], wdb = db, now = t\<rparr>"

definition reachable ::
  "codec \<Rightarrow> 'db mongo \<Rightarrow> 'c ssl_reader \<Rightarrow> 'c ssl_writer \<Rightarrow> ('db, 'c) world \<Rightarrow> bool" where
  "reachable K M R W s \<longleftrightarrow> (\<exists>junk db t. (server_step K M R W)\<^sup>*\<^sup>* (initial junk db t) s)"

end
