(* ===== verification/Invariants.thy ===== *)
theory Invariants
  imports Session EventLoop
begin

text \<open>
  The invariant of the server process: every index kept in one object designates an existing object,
  frames are whole, the ping list is in the order of the last activity and every cell is known to the
  node it holds. Each step of the event loop keeps it, so it holds in every reachable state; the ping
  timer is exact because of it.
\<close>

section \<open>The invariant\<close>

definition ping_ok :: "('db, 'c) world \<Rightarrow> bool" where
  "ping_ok s \<longleftrightarrow>
     distinct (map fst (pinglist s))
     \<and> (\<forall>x \<in> set (pinglist s). fst x < next_cell s \<and> snd x < length (rios s)
          \<and> r_iter (rios s ! snd x) = Some (fst x) \<and> r_ping_time (rios s ! snd x) \<le> now s)
     \<and> sorted (map (\<lambda>x. r_ping_time (rios s ! snd x)) (pinglist s))"

definition job_ok :: "('db, 'c) world \<Rightarrow> ptr \<times> ptr list \<times> u16 \<Rightarrow> bool" where
  "job_ok s j \<longleftrightarrow> (case j of (node, v, sid) \<Rightarrow>
     node < length (rios s) \<and> v \<noteq> [] \<and> (\<forall>p \<in> set v. p < length (bufs s)))"

definition sys_ok :: "('db, 'c) world \<Rightarrow> bool" where
  "sys_ok s \<longleftrightarrow> world_ok s \<and> ping_ok s
     \<and> (\<forall>x \<in> set (wios s). w_readio x < length (rios s))
     \<and> (\<forall>r \<in> set (rios s). \<forall>p \<in> set (r_buffer_sp_v r). p < length (bufs s))
     \<and> (\<forall>j \<in> set (workq s). job_ok s j)
     \<and> length (conns s) = length (rios s)"

lemma ping_okD:
  assumes "ping_ok s" and "x \<in> set (pinglist s)"
  shows "fst x < next_cell s" "snd x < length (rios s)" "r_iter (rios s ! snd x) = Some (fst x)"
    "r_ping_time (rios s ! snd x) \<le> now s"
  using assms by (auto simp: ping_ok_def)

lemma ping_okI:
  assumes "distinct (map fst (pinglist s))"
    and "\<And>x. x \<in> set (pinglist s) \<Longrightarrow> fst x < next_cell s \<and> snd x < length (rios s)
        \<and> r_iter (rios s ! snd x) = Some (fst x) \<and> r_ping_time (rios s ! snd x) \<le> now s"
    and "sorted (map (\<lambda>x. r_ping_time (rios s ! snd x)) (pinglist s))"
  shows "ping_ok s"
  using assms by (simp add: ping_ok_def)

lemma ping_ok_lists:
  assumes "ping_ok s"
  shows "distinct (map fst (pinglist s))" "sorted (map (\<lambda>x. r_ping_time (rios s ! snd x)) (pinglist s))"
  using assms by (simp_all add: ping_ok_def)

lemma ping_ok_distinct_nodes:
  assumes k: "ping_ok s"
  shows "distinct (map snd (pinglist s))"
proof -
  have "x = y" if "x \<in> set (pinglist s)" "y \<in> set (pinglist s)" "snd x = snd y" for x y
    using ping_okD(3) [OF k that(1)] ping_okD(3) [OF k that(2)] that(3) by (simp add: prod_eq_iff)
  moreover have "distinct (pinglist s)" using ping_ok_lists(1) [OF k] by (simp add: distinct_map)
  ultimately show ?thesis by (auto simp: distinct_map inj_on_def)
qed

text \<open>What the invariant reads of the state.\<close>

lemma map_nth_eq: "map f xs = map f ys \<Longrightarrow> p < length xs \<Longrightarrow> f (xs ! p) = f (ys ! p)"
  by (metis length_map nth_map)

lemma ping_ok_cong:
  assumes p: "ping_ok s" and i: "map r_iter (rios t) = map r_iter (rios s)"
    and tm: "map r_ping_time (rios t) = map r_ping_time (rios s)"
    and l: "pinglist t = pinglist s" "next_cell s \<le> next_cell t" "now s \<le> now t"
  shows "ping_ok t"
proof -
  have len: "length (rios t) = length (rios s)" using i by (metis length_map)
  have eq: "r_iter (rios t ! snd x) = r_iter (rios s ! snd x)"
    "r_ping_time (rios t ! snd x) = r_ping_time (rios s ! snd x)" if "x \<in> set (pinglist s)" for x
    using ping_okD(2) [OF p that] map_nth_eq [OF i, of "snd x"] map_nth_eq [OF tm, of "snd x"] len by simp_all
  have tms: "map (\<lambda>x. r_ping_time (rios t ! snd x)) (pinglist t) = map (\<lambda>x. r_ping_time (rios s ! snd x)) (pinglist s)"
    using eq l(1) by simp
  show ?thesis
  proof (rule ping_okI)
    show "distinct (map fst (pinglist t))" using ping_ok_lists(1) [OF p] l(1) by simp
    show "sorted (map (\<lambda>x. r_ping_time (rios t ! snd x)) (pinglist t))"
      unfolding tms by (rule ping_ok_lists(2) [OF p])
    fix x assume x: "x \<in> set (pinglist t)"
    then have x: "x \<in> set (pinglist s)" using l(1) by simp
    show "fst x < next_cell t \<and> snd x < length (rios t)
        \<and> r_iter (rios t ! snd x) = Some (fst x) \<and> r_ping_time (rios t ! snd x) \<le> now t"
      using ping_okD [OF p x] eq [OF x] l len by auto
  qed
qed

lemma ball_map_cong:
  assumes "map f xs = map f ys"
  shows "(\<forall>x \<in> set xs. P (f x)) = (\<forall>x \<in> set ys. P (f x))"
proof -
  have "(\<forall>x \<in> set zs. P (f x)) = list_all P (map f zs)" for zs by (simp add: list_all_iff)
  then show ?thesis using assms by simp
qed

lemma job_ok_mono:
  "job_ok s j \<Longrightarrow> length (rios s) \<le> length (rios t) \<Longrightarrow> length (bufs s) \<le> length (bufs t) \<Longrightarrow> job_ok t j"
  by (fastforce simp: job_ok_def split: prod.splits)

lemma in_set_change: "r \<in> set (change p f xs) \<Longrightarrow> r \<in> set xs \<or> (\<exists>r' \<in> set xs. r = f r')"
  using set_update_subset_insert [of xs p "f (xs ! p)"] by (auto simp: change_def split: if_splits)

lemma sys_ok_cong:
  assumes s: "sys_ok s"
    and io: "map r_writeio (rios t) = map r_writeio (rios s)"
      "map r_iter (rios t) = map r_iter (rios s)" "map r_ping_time (rios t) = map r_ping_time (rios s)"
    and b: "\<forall>r \<in> set (rios t). \<forall>p \<in> set (r_buffer_sp_v r). p < length (bufs t)"
      "length (bufs s) \<le> length (bufs t)" "\<forall>b \<in> set (bufs t). length (b_mem b) = 1024"
    and w: "map w_readio (wios t) = map w_readio (wios s)"
    and m: "ran (uuidnode_map t) \<subseteq> ran (uuidnode_map s)" "pinglist t = pinglist s" "peer_list t = peer_list s"
      "next_cell s \<le> next_cell t" "now s \<le> now t" "set (workq t) \<subseteq> set (workq s)" "length (conns t) = length (conns s)"
  shows "sys_ok t"
proof -
  have len: "length (rios t) = length (rios s)" "length (wios t) = length (wios s)"
    using io(1) w by (metis length_map)+
  have k: "ping_ok s" and wo: "world_ok s" and jo: "\<forall>j \<in> set (workq s). job_ok s j"
    using s by (simp_all add: sys_ok_def)
  have "ping_ok t" by (rule ping_ok_cong [OF k io(2,3)]) (simp_all add: m)
  moreover have "\<forall>r \<in> set (rios t). r_writeio r < length (wios t)"
    using wo ball_map_cong [OF io(1), of "\<lambda>w. w < length (wios s)"] len by (simp add: world_ok_def)
  moreover have "\<forall>u p. uuidnode_map t u = Some p \<longrightarrow> p < length (rios t)"
  proof (intro allI impI)
    fix u p assume "uuidnode_map t u = Some p"
    then have "p \<in> ran (uuidnode_map s)" using m(1) by (auto simp: ran_def)
    then show "p < length (rios t)" using wo len by (auto simp: world_ok_def ran_def)
  qed
  moreover have "\<forall>p \<in> set (map snd (peer_list t)). p < length (rios t)"
    using wo len m(3) by (simp add: world_ok_def)
  moreover have "\<forall>j \<in> set (workq t). job_ok t j"
    using jo m(6) b(2) len job_ok_mono [of s _ t] by auto
  moreover have "\<forall>x \<in> set (wios t). w_readio x < length (rios t)"
    using s ball_map_cong [OF w, of "\<lambda>p. p < length (rios s)"] len by (simp add: sys_ok_def)
  moreover have "length (conns t) = length (rios t)" using s m(7) len by (simp add: sys_ok_def)
  ultimately show ?thesis
    unfolding sys_ok_def world_ok_def using b(1,3) by blast
qed

lemma sys_okD:
  assumes "sys_ok s"
  shows "\<forall>r \<in> set (rios s). \<forall>p \<in> set (r_buffer_sp_v r). p < length (bufs s)"
    "\<forall>b \<in> set (bufs s). length (b_mem b) = 1024" "length (conns s) = length (rios s)"
    "ping_ok s" "world_ok s"
  using assms by (simp_all add: sys_ok_def world_ok_def)

lemma sys_ok_same:
  assumes s: "sys_ok s" and eq: "rios t = rios s" "map w_readio (wios t) = map w_readio (wios s)"
    "uuidnode_map t = uuidnode_map s" "pinglist t = pinglist s" "peer_list t = peer_list s"
    "next_cell t = next_cell s" "now s \<le> now t" "set (workq t) \<subseteq> set (workq s)"
    "length (conns t) = length (conns s)" "length (bufs s) \<le> length (bufs t)"
    "\<forall>b \<in> set (bufs t). length (b_mem b) = 1024"
  shows "sys_ok t"
proof (rule sys_ok_cong [OF s])
  show "\<forall>r \<in> set (rios t). \<forall>p \<in> set (r_buffer_sp_v r). p < length (bufs t)"
    using sys_okD(1) [OF s] eq(1,10) by (metis order.strict_trans2)
qed (use eq in simp_all)

lemma sys_ok_set_rio:
  assumes s: "sys_ok s"
    and f: "\<And>r. r_writeio (f r) = r_writeio r" "\<And>r. r_iter (f r) = r_iter r"
      "\<And>r. r_ping_time (f r) = r_ping_time r"
    and b: "\<And>r. set (r_buffer_sp_v (f r)) \<subseteq> set (r_buffer_sp_v r) \<union> {..< length (bufs s)}"
  shows "sys_ok (rios_update (change p f) s)"
proof (rule sys_ok_cong [OF s])
  let ?t = "rios_update (change p f) s"
  have "\<forall>r \<in> set (rios s). \<forall>q \<in> set (r_buffer_sp_v r). q < length (bufs s)"
    using s by (simp add: sys_ok_def)
  moreover have "r \<in> set (rios s) \<or> (\<exists>r' \<in> set (rios s). r = f r')" if "r \<in> set (change p f (rios s))" for r
    using that by (rule in_set_change)
  ultimately show "\<forall>r \<in> set (rios ?t). \<forall>q \<in> set (r_buffer_sp_v r). q < length (bufs ?t)"
    using b by fastforce
qed (use s f in \<open>auto simp: sys_ok_def world_ok_def map_change\<close>)

section \<open>The tables\<close>

lemma ping_ok_erase:
  assumes p: "ping_ok s" and i: "r_iter (rios s ! sp) = Some cell" and sp: "sp < length (rios s)"
  shows "ping_ok (rios_update (change sp (\<lambda>io. io\<lparr>r_iter := None\<rparr>))
           (s\<lparr>pinglist := list_erase cell (pinglist s)\<rparr>))"
    and "sp \<notin> snd ` set (list_erase cell (pinglist s))"
proof -
  have only: "fst x = cell" if "x \<in> set (pinglist s)" "snd x = sp" for x
    using ping_okD(3) [OF p that(1)] i that by simp
  then show "sp \<notin> snd ` set (list_erase cell (pinglist s))"
    by (auto simp: list_erase_def)
  have other: "change sp (\<lambda>io. io\<lparr>r_iter := None\<rparr>) (rios s) ! snd x = rios s ! snd x"
    if "x \<in> set (list_erase cell (pinglist s))" for x
    using that only ping_okD(2) [OF p, of x] by (auto simp: list_erase_def change_nth)
  let ?t = "rios_update (change sp (\<lambda>io. io\<lparr>r_iter := None\<rparr>)) (s\<lparr>pinglist := list_erase cell (pinglist s)\<rparr>)"
  have tms: "map (\<lambda>x. r_ping_time (rios ?t ! snd x)) (pinglist ?t)
      = map (\<lambda>x. r_ping_time (rios s ! snd x)) (list_erase cell (pinglist s))"
    using other by simp
  show "ping_ok ?t"
  proof (rule ping_okI)
    show "distinct (map fst (pinglist ?t))"
      using ping_ok_lists(1) [OF p] by (simp add: list_erase_def distinct_map_filter)
    show "sorted (map (\<lambda>x. r_ping_time (rios ?t ! snd x)) (pinglist ?t))"
      unfolding tms using sorted_filter [OF ping_ok_lists(2) [OF p]] by (simp add: list_erase_def)
    fix x assume x: "x \<in> set (pinglist ?t)"
    then have "x \<in> set (pinglist s)" by (simp add: list_erase_def)
    then show "fst x < next_cell ?t \<and> snd x < length (rios ?t)
        \<and> r_iter (rios ?t ! snd x) = Some (fst x) \<and> r_ping_time (rios ?t ! snd x) \<le> now ?t"
      using ping_okD [OF p] other [of x] x by simp
  qed
qed

lemma sys_ok_tables:
  assumes s: "sys_ok s" and t: "rios t = change p f (rios s)" and f: "\<And>r. r_writeio (f r) = r_writeio r"
      "\<And>r. r_buffer_sp_v (f r) = r_buffer_sp_v r"
    and k: "ping_ok t" and eq: "bufs t = bufs s" "wios t = wios s" "uuidnode_map t = uuidnode_map s"
      "workq t = workq s" "conns t = conns s"
    and pl: "\<forall>q \<in> set (map snd (peer_list t)). q < length (rios s)"
  shows "sys_ok t"
proof -
  have m: "map r_writeio (rios t) = map r_writeio (rios s)" "map r_buffer_sp_v (rios t) = map r_buffer_sp_v (rios s)"
    using f t by (simp_all add: map_change)
  have len: "length (rios t) = length (rios s)" using t by simp
  show ?thesis
    using s k eq pl len ball_map_cong [OF m(1), of "\<lambda>w. w < length (wios s)"]
      ball_map_cong [OF m(2), of "\<lambda>v. \<forall>p \<in> set v. p < length (bufs s)"]
    by (simp add: sys_ok_def world_ok_def job_ok_def)
qed

lemma ping_erase_wp:
  assumes s: "sys_ok s" and p: "p < length (rios s)"
  shows "wp (ping_erase p) (\<lambda>_ t. sys_ok t \<and> p \<notin> snd ` set (pinglist t) \<and> length (rios t) = length (rios s) \<and> bufs t = bufs s)
     (\<lambda>e t. t = s) s"
proof -
  have k: "ping_ok s" and w: "\<forall>q \<in> set (map snd (peer_list s)). q < length (rios s)"
    using s by (simp_all add: sys_ok_def world_ok_def)
  have "p \<notin> snd ` set (pinglist s)" if "r_iter (rios s ! p) = None"
    using that ping_okD(3) [OF k] by auto
  moreover have "sys_ok (rios_update (change p (\<lambda>io. io\<lparr>r_iter := None\<rparr>)) (s\<lparr>pinglist := list_erase c (pinglist s)\<rparr>))"
    if "r_iter (rios s ! p) = Some c" for c
    by (rule sys_ok_tables [OF s, where p = p and f = "\<lambda>io. io\<lparr>r_iter := None\<rparr>"])
      (use w ping_ok_erase(1) [OF k that p] in simp_all)
  ultimately show ?thesis
    using s p ping_ok_erase(2) [OF k _ p]
    by (auto simp: ping_erase_def wp_simps split: option.splits)
qed

lemma ping_ok_append:
  assumes k: "ping_ok s" and p: "p < length (rios s)" and n: "p \<notin> snd ` set (pinglist s)"
  shows "ping_ok (rios_update (change p (\<lambda>io. io\<lparr>r_iter := Some (next_cell s), r_ping_time := now s\<rparr>))
     (s\<lparr>pinglist := pinglist s @ [(next_cell s, p)], next_cell := Suc (next_cell s)\<rparr>))"
proof -
  let ?f = "\<lambda>io. io\<lparr>r_iter := Some (next_cell s), r_ping_time := now s\<rparr>"
  have same: "change p ?f (rios s) ! snd x = rios s ! snd x" if "x \<in> set (pinglist s)" for x
    using n that ping_okD(2) [OF k that] by (auto simp: change_nth)
  let ?t = "rios_update (change p ?f) (s\<lparr>pinglist := pinglist s @ [(next_cell s, p)], next_cell := Suc (next_cell s)\<rparr>)"
  have new: "change p ?f (rios s) ! p = ?f (rios s ! p)" using p by (simp add: change_nth)
  have tms: "map (\<lambda>x. r_ping_time (rios ?t ! snd x)) (pinglist ?t)
      = map (\<lambda>x. r_ping_time (rios s ! snd x)) (pinglist s) @ [now s]"
    using same new by simp
  have fresh: "next_cell s \<notin> fst ` set (pinglist s)" using ping_okD(1) [OF k] by fastforce
  show "ping_ok ?t"
  proof (rule ping_okI)
    show "distinct (map fst (pinglist ?t))" using ping_ok_lists(1) [OF k] fresh by simp
    show "sorted (map (\<lambda>x. r_ping_time (rios ?t ! snd x)) (pinglist ?t))"
      unfolding tms using ping_ok_lists(2) [OF k] ping_okD(4) [OF k] by (auto simp: sorted_append)
    fix x assume "x \<in> set (pinglist ?t)"
    then consider "x \<in> set (pinglist s)" | "x = (next_cell s, p)" by auto
    then show "fst x < next_cell ?t \<and> snd x < length (rios ?t)
        \<and> r_iter (rios ?t ! snd x) = Some (fst x) \<and> r_ping_time (rios ?t ! snd x) \<le> now ?t"
      using ping_okD [OF k, of x] same [of x] new p by cases auto
  qed
qed

lemma ping_append_wp:
  assumes s: "sys_ok s" and p: "p < length (rios s)" and n: "p \<notin> snd ` set (pinglist s)"
  shows "wp (ping_append p) (\<lambda>_ t. sys_ok t \<and> length (rios t) = length (rios s) \<and> bufs t = bufs s) (\<lambda>_ _. False) s"
proof -
  have k: "ping_ok s" and w: "\<forall>q \<in> set (map snd (peer_list s)). q < length (rios s)"
    using s by (simp_all add: sys_ok_def world_ok_def)
  show ?thesis
    using w ping_ok_append [OF k p n]
    by (auto simp: ping_append_def wp_simps intro!: sys_ok_tables [OF s, where p = p
        and f = "\<lambda>io. io\<lparr>r_iter := Some (next_cell s), r_ping_time := now s\<rparr>"])
qed

lemma ping_move2back_wp:
  assumes "sys_ok s" and "p < length (rios s)"
  shows "wp (ping_move2back p) (\<lambda>_ t. sys_ok t \<and> length (rios t) = length (rios s) \<and> bufs t = bufs s) (\<lambda>e t. t = s) s"
  unfolding ping_move2back_def wp_bind
  by (rule wp_mono [OF ping_erase_wp [OF assms]])
    (use assms in \<open>auto simp: wp_simps intro!: wp_mono [OF ping_append_wp]\<close>)

section \<open>Reading and writing keep a block's length\<close>

definition keeps_block :: "(buffer \<times> 'c, 'a) act \<Rightarrow> bool" where
  "keeps_block m \<longleftrightarrow> (\<forall>s. length (b_mem (fst (snd (m s)))) = length (b_mem (fst s)))"

lemma keeps_blockD: "keeps_block m \<Longrightarrow> m (b, c) = (r, (b', c')) \<Longrightarrow> length (b_mem b') = length (b_mem b)"
  unfolding keeps_block_def by (metis fst_conv snd_conv)

named_theorems block_intros "actions that keep the length of the block"

lemma block_bind [block_intros]:
  "keeps_block m \<Longrightarrow> (\<And>a. keeps_block (f a)) \<Longrightarrow> keeps_block (act_bind m f)"
  by (simp add: keeps_block_def act_bind_def split: prod.split sum.split) (metis fst_conv snd_conv)

lemma block_seq [block_intros]: "keeps_block m \<Longrightarrow> keeps_block k \<Longrightarrow> keeps_block (act_seq m k)"
  by (simp add: act_seq_def block_bind)

lemma block_simple [block_intros]:
  "keeps_block (ret a)" "keeps_block (raise e)" "keeps_block (getb f)" "keeps_block (lift_exn r)"
  by (simp_all add: keeps_block_def act_defs getb_def)

lemma block_upd [block_intros]: "(\<And>b. length (b_mem (f b)) = length (b_mem b)) \<Longrightarrow> keeps_block (upd f)"
  by (simp add: keeps_block_def upd_def act_defs)

lemma block_if [block_intros]: "keeps_block m \<Longrightarrow> keeps_block k \<Longrightarrow> keeps_block (if c then m else k)"
  by simp

lemma block_pair [block_intros]: "(\<And>a b. keeps_block (f a b)) \<Longrightarrow> keeps_block (case x of (a, b) \<Rightarrow> f a b)"
  by (cases x) simp

lemma block_ssl_read [block_intros]: "keeps_block (ssl_socket_read R pos n)"
  by (auto simp: keeps_block_def ssl_socket_read_def poke_length
      split: prod.split sum.split ssl_read_result.split option.split)

lemma block_ssl_write [block_intros]: "keeps_block (ssl_socket_write W pos n)"
  by (auto simp: keeps_block_def ssl_socket_write_def
      split: prod.split sum.split ssl_write_result.split option.split)

lemma block_read_step [block_intros]: "keeps_block (read_step R)"
  unfolding read_step_def read_header_def parse_header_def read_payload_def Let_def
  by (intro block_intros) simp_all

lemma block_read_loop [block_intros]: "keeps_block (read_loop n R)"
  by (induction n) (auto intro!: block_intros)

lemma block_socket_read: "keeps_block (socket_read R)"
  unfolding socket_read_def by (rule block_read_loop)

lemma block_socket_write: "keeps_block (socket_write W)"
  unfolding socket_write_def by (intro block_intros) simp_all

section \<open>Contracts of the steps\<close>

text \<open>\<open>keeps p v m\<close>: with node \<open>p\<close> and buffers \<open>v\<close> valid, \<open>m\<close> keeps the invariant, also when it fails.\<close>

definition holds_at :: "ptr \<Rightarrow> ptr list \<Rightarrow> ('db, 'c) world \<Rightarrow> bool" where
  "holds_at p v s \<longleftrightarrow> sys_ok s \<and> p < length (rios s) \<and> (\<forall>q \<in> set v. q < length (bufs s))"

definition keeps :: "ptr \<Rightarrow> ptr list \<Rightarrow> ('db, 'c, 'a) srv \<Rightarrow> bool" where
  "keeps p v m \<longleftrightarrow> (\<forall>s. holds_at p v s \<longrightarrow> wp m (\<lambda>_. holds_at p v) (\<lambda>_. holds_at p v) s)"

named_theorems keeps_intros "actions that keep the invariant"

lemma keepsI: "(\<And>s. holds_at p v s \<Longrightarrow> wp m (\<lambda>_. holds_at p v) (\<lambda>_. holds_at p v) s) \<Longrightarrow> keeps p v m"
  by (simp add: keeps_def)

lemma keepsD: "keeps p v m \<Longrightarrow> holds_at p v s \<Longrightarrow> wp m (\<lambda>_. holds_at p v) (\<lambda>_. holds_at p v) s"
  by (simp add: keeps_def)

lemma keeps_bind [keeps_intros]:
  "keeps p v m \<Longrightarrow> (\<And>a. keeps p v (f a)) \<Longrightarrow> keeps p v (act_bind m f)"
  by (auto simp: keeps_def wp_simps intro: wp_mono)

lemma keeps_seq [keeps_intros]: "keeps p v m \<Longrightarrow> keeps p v k \<Longrightarrow> keeps p v (act_seq m k)"
  by (simp add: act_seq_def keeps_bind)

lemma keeps_simple [keeps_intros]: "keeps p v (ret a)" "keeps p v (raise e)" "keeps p v (gets f)"
  by (simp_all add: keeps_def wp_simps)

lemma keeps_fetch [keeps_intros]: "keeps p v (fetch sel q)"
  by (simp add: keeps_def wp_simps)

lemma keeps_if [keeps_intros]: "keeps p v m \<Longrightarrow> keeps p v k \<Longrightarrow> keeps p v (if b then m else k)"
  by simp

lemma keeps_catch [keeps_intros]:
  "keeps p v m \<Longrightarrow> (\<And>e. keeps p v (h e)) \<Longrightarrow> keeps p v (catch_system_error m h)"
  by (auto simp: keeps_def wp_simps intro: wp_mono)

lemma keeps_foreach [keeps_intros]: "(\<And>x. keeps p v (f x)) \<Longrightarrow> keeps p v (foreach xs f)"
  by (induction xs) (auto intro: keeps_intros)

lemma keeps_modify:
  "(\<And>s. holds_at p v s \<Longrightarrow> holds_at p v (f s)) \<Longrightarrow> keeps p v (modify f)"
  by (simp add: keeps_def wp_simps)

lemma keeps_ping_erase [keeps_intros]: "keeps p v (ping_erase p)"
  by (rule keepsI) (auto simp: holds_at_def intro: wp_mono [OF ping_erase_wp])

lemma keeps_ping_move2back [keeps_intros]: "keeps p v (ping_move2back p)"
  by (rule keepsI) (auto simp: holds_at_def intro: wp_mono [OF ping_move2back_wp])

lemma sys_ok_set_wio:
  assumes ok: "sys_ok s" and "\<And>x. w_readio (f x) = w_readio x"
  shows "sys_ok (wios_update (change w f) s)"
  by (rule sys_ok_same [OF ok]) (use sys_okD(2) [OF ok] in \<open>simp_all add: map_change assms(2)\<close>)

lemma keeps_set_wio [keeps_intros]:
  assumes "\<And>x. w_readio (f x) = w_readio x"
  shows "keeps p v (set_wio w f)"
  unfolding set_wio_def by (rule keeps_modify) (simp add: holds_at_def sys_ok_set_wio assms)

lemma keeps_set_rio [keeps_intros]:
  assumes "\<And>r. r_writeio (f r) = r_writeio r" "\<And>r. r_iter (f r) = r_iter r"
    "\<And>r. r_ping_time (f r) = r_ping_time r" "\<And>r. set (r_buffer_sp_v (f r)) \<subseteq> set (r_buffer_sp_v r)"
  shows "keeps p v (set_rio q f)"
  unfolding set_rio_def
proof (rule keeps_modify)
  fix s :: "('db, 'c) world" assume s: "holds_at p v s"
  have "sys_ok (rios_update (change q f) s)"
    by (rule sys_ok_set_rio) (use s assms(1-3) assms(4) [THEN subsetD] in \<open>auto simp: holds_at_def\<close>)
  with s show "holds_at p v (rios_update (change q f) s)" by (simp add: holds_at_def)
qed

lemma sys_ok_uuids:
  "sys_ok s \<Longrightarrow> (\<And>u q. m u = Some q \<Longrightarrow> q < length (rios s)) \<Longrightarrow> sys_ok (s\<lparr>uuidnode_map := m\<rparr>)"
  by (simp add: sys_ok_def world_ok_def ping_ok_def job_ok_def)

lemma sys_ok_uuidD: "sys_ok s \<Longrightarrow> uuidnode_map s u = Some q \<Longrightarrow> q < length (rios s)"
  by (simp add: sys_ok_def world_ok_def)

lemma keeps_uuidnode_delete [keeps_intros]: "keeps p v (uuidnode_delete u)"
  unfolding uuidnode_delete_def
  by (rule keeps_modify)
    (auto simp: holds_at_def intro!: sys_ok_uuids split: if_splits dest: sys_ok_uuidD)

lemma keeps_uuidnode_put [keeps_intros]: "keeps p v (uuidnode_put u p)"
  unfolding uuidnode_put_def
  by (rule keeps_modify)
    (auto simp: holds_at_def intro!: sys_ok_uuids split: if_splits dest: sys_ok_uuidD)

lemma keeps_deleteReadio [keeps_intros]: "keeps p v (deleteReadio p)"
  unfolding deleteReadio_def by (intro keeps_intros)

lemma keeps_close_node [keeps_intros]: "keeps p v (close_node p)"
  unfolding close_node_def by (intro keeps_intros) simp_all

lemma keeps_before_write [keeps_intros]: "keeps p v (before_write p type)"
  unfolding before_write_def by (intro keeps_intros) simp_all

lemma keeps_on_socket:
  fixes m :: "(buffer \<times> 'c, 'a) act"
  assumes m: "keeps_block m"
  shows "keeps p v (on_socket node sp m :: ('db, 'c, 'a) srv)"
proof (rule keepsI)
  fix s :: "('db, 'c) world" assume s: "holds_at p v s"
  show "wp (on_socket node sp m) (\<lambda>_. holds_at p v) (\<lambda>_. holds_at p v) s"
  proof (cases "sp < length (bufs s) \<and> node < length (conns s)")
    case True
    obtain r b c where r: "m (bufs s ! sp, conns s ! node) = (r, (b, c))" by (metis prod_cases3)
    have "length (b_mem b) = length (b_mem (bufs s ! sp))" by (rule keeps_blockD [OF m r])
    moreover have ok: "sys_ok s" using s by (simp add: holds_at_def)
    ultimately have "\<forall>b' \<in> set ((bufs s)[sp := b]). length (b_mem b') = 1024"
      using True sys_okD(2) [OF ok] by (auto dest!: set_update_subset_insert [THEN subsetD])
    then have "sys_ok (s\<lparr>bufs := (bufs s)[sp := b], conns := (conns s)[node := c]\<rparr>)"
      by (intro sys_ok_same [OF ok]) simp_all
    with s have "holds_at p v (s\<lparr>bufs := (bufs s)[sp := b], conns := (conns s)[node := c]\<rparr>)"
      by (simp add: holds_at_def)
    then show ?thesis using True r by (simp add: wp_def on_socket_def split: sum.split)
  next
    case False
    then show ?thesis using s by (auto simp: wp_def on_socket_def)
  qed
qed

lemma keeps_push_new_buffer [keeps_intros]: "keeps p v (push_new_buffer node)"
proof (rule keepsI)
  fix s :: "('db, 'c) world" assume s: "holds_at p v s"
  let ?b = "buffer_ctor (raw s (length (bufs s))) MT_message"
  let ?t = "s\<lparr>bufs := bufs s @ [?b]\<rparr>"
  have "length (b_mem ?b) = 1024" using buffer_ctor_fresh [of "raw s (length (bufs s))" MT_message]
    by (simp add: fresh_def)
  moreover have ok: "sys_ok s" using s by (simp add: holds_at_def)
  ultimately have t: "sys_ok ?t" using sys_okD(2) [OF ok] by (intro sys_ok_same [OF ok]) auto
  have "sys_ok (rios_update (change node (\<lambda>io. io\<lparr>r_buffer_sp_v := r_buffer_sp_v io @ [length (bufs s)]\<rparr>)) ?t)"
    by (rule sys_ok_set_rio [OF t]) auto
  with s show "wp (push_new_buffer node) (\<lambda>_. holds_at p v) (\<lambda>_. holds_at p v) s"
    by (auto simp: push_new_buffer_def wp_simps holds_at_def intro: less_SucI)
qed

lemma set_zip_snd: "(a, b) \<in> set (zip ns (map snd l)) \<Longrightarrow> b \<in> snd ` set l"
  by (metis set_zip_rightD set_map)

lemma keeps_append_node:
  fixes s :: "('db, 'c) world"
  assumes s: "sys_ok s" and p: "p < length (rios s)" and n: "p \<notin> snd ` set (pinglist s)"
    and l: "\<And>x. x \<in> set pl \<Longrightarrow> snd x = p \<or> snd x \<in> snd ` set (peer_list s)" and c: "next_cell s \<le> cell"
  shows "sys_ok (rios_update (change p (\<lambda>r. r\<lparr>r_iter := i\<rparr>)) (s\<lparr>peer_list := pl, next_cell := cell\<rparr>))"
proof -
  let ?f = "\<lambda>r. r\<lparr>r_iter := i\<rparr>"
  let ?t = "rios_update (change p ?f) (s\<lparr>peer_list := pl, next_cell := cell\<rparr>)"
  note k = sys_okD(4) [OF s]
  have same: "change p ?f (rios s) ! snd x = rios s ! snd x" if "x \<in> set (pinglist s)" for x
    using n that ping_okD(2) [OF k that] by (auto simp: change_nth)
  have "ping_ok ?t"
  proof (rule ping_okI)
    have "map (\<lambda>x. r_ping_time (rios ?t ! snd x)) (pinglist ?t) = map (\<lambda>x. r_ping_time (rios s ! snd x)) (pinglist s)"
      using same by simp
    then show "sorted (map (\<lambda>x. r_ping_time (rios ?t ! snd x)) (pinglist ?t))"
      using ping_ok_lists(2) [OF k] by (simp only:)
    fix x assume "x \<in> set (pinglist ?t)"
    then show "fst x < next_cell ?t \<and> snd x < length (rios ?t)
        \<and> r_iter (rios ?t ! snd x) = Some (fst x) \<and> r_ping_time (rios ?t ! snd x) \<le> now ?t"
      using ping_okD [OF k, of x] same [of x] c by simp
  qed (use ping_ok_lists(1) [OF k] in simp)
  moreover have "snd x < length (rios s)" if "x \<in> set pl" for x
    using l [OF that] p sys_okD(5) [OF s] by (auto simp: world_ok_def)
  ultimately show ?thesis
    by (intro sys_ok_tables [OF s, where p = p and f = ?f]) auto
qed

lemma peer_servers_push_wp:
  assumes s: "sys_ok s" and p: "p < length (rios s)" and n: "p \<notin> snd ` set (pinglist s)"
  shows "wp (peer_servers_push shared p)
     (\<lambda>_ t. sys_ok t \<and> length (rios t) = length (rios s) \<and> bufs t = bufs s) (\<lambda>_ _. False) s"
proof -
  show ?thesis
    by (cases shared) (auto simp: peer_servers_push_def peer_unshare_def wp_simps
        intro!: keeps_append_node [OF s p n] dest: set_zip_snd)
qed

lemma keeps_peer_connect [keeps_intros]: "keeps p v (act_bind (ping_erase p) (\<lambda>_. peer_servers_push shared p))"
proof (rule keepsI)
  fix s :: "('db, 'c) world" assume s: "holds_at p v s"
  show "wp (act_bind (ping_erase p) (\<lambda>_. peer_servers_push shared p)) (\<lambda>_. holds_at p v) (\<lambda>_. holds_at p v) s"
    unfolding wp_bind
  proof (rule wp_mono [OF ping_erase_wp])
    fix t
    assume t: "sys_ok t \<and> p \<notin> snd ` set (pinglist t) \<and> length (rios t) = length (rios s) \<and> bufs t = bufs s"
    then have "wp (peer_servers_push shared p)
        (\<lambda>_ u. sys_ok u \<and> length (rios u) = length (rios t) \<and> bufs u = bufs t) (\<lambda>_ _. False) t"
      using s by (intro peer_servers_push_wp) (simp_all add: holds_at_def)
    then show "wp (peer_servers_push shared p) (\<lambda>_. holds_at p v) (\<lambda>_. holds_at p v) t"
      by (rule wp_mono) (use s t in \<open>simp_all add: holds_at_def\<close>)
  qed (use s in \<open>auto simp: holds_at_def\<close>)
qed

lemma sys_ok_peers:
  assumes s: "sys_ok s" and l: "\<And>x. x \<in> set pl \<Longrightarrow> snd x \<in> snd ` set (peer_list s)" and c: "next_cell s \<le> cell"
  shows "sys_ok (s\<lparr>peer_list := pl, next_cell := cell\<rparr>)"
proof -
  have "\<forall>x \<in> set pl. snd x < length (rios s)" using l sys_okD(5) [OF s] by (fastforce simp: world_ok_def)
  then show ?thesis
    using s c by (fastforce simp: sys_ok_def world_ok_def ping_ok_def job_ok_def)
qed

lemma keeps_peer_servers_erase [keeps_intros]: "keeps p v (peer_servers_erase shared q)"
proof (rule keepsI)
  fix s :: "('db, 'c) world" assume s: "holds_at p v s"
  then have ok: "sys_ok s" by (simp add: holds_at_def)
  let ?u = "\<lambda>s. if shared then s\<lparr>peer_list := zip [next_cell s ..< next_cell s + length (peer_list s)] (map snd (peer_list s)),
              next_cell := next_cell s + length (peer_list s)\<rparr> else s"
  have "sys_ok (s\<lparr>peer_list := zip ns (map snd (peer_list s)), next_cell := next_cell s + n\<rparr>)" for ns n
    by (rule sys_ok_peers [OF ok]) (auto dest: set_zip_snd)
  then have u: "sys_ok (?u s)" using ok by simp
  have e: "sys_ok ((?u s)\<lparr>peer_list := list_erase c (peer_list (?u s))\<rparr>)" for c
    using sys_ok_peers [OF u, of "list_erase c (peer_list (?u s))" "next_cell (?u s)"]
    by (simp add: list_erase_def)
  show "wp (peer_servers_erase shared q) (\<lambda>_. holds_at p v) (\<lambda>_. holds_at p v) s"
    using s u e by (cases shared)
      (auto simp: peer_servers_erase_def peer_unshare_def wp_simps holds_at_def split: option.splits)
qed

lemma keeps_take_sessionid [keeps_intros]: "keeps p v (take_sessionid node type)"
  unfolding take_sessionid_def by (intro keeps_intros) simp_all

lemma keeps_enqueue:
  assumes "v \<noteq> []"
  shows "keeps p v (modify (\<lambda>s. s\<lparr>workq := workq s @ [(p, v, sid)]\<rparr>))"
  by (rule keeps_modify)
    (use assms in \<open>auto simp: holds_at_def sys_ok_def world_ok_def ping_ok_def job_ok_def\<close>)

lemma keeps_finish_message:
  assumes "v \<noteq> []"
  shows "keeps p v (finish_message shared p v type)"
  unfolding finish_message_def by (intro keeps_intros keeps_enqueue assms) simp_all

lemma holds_at_more:
  "holds_at p v s \<Longrightarrow> holds_at p (r_buffer_sp_v (rios s ! p)) s"
  using sys_okD(1) [of s] by (auto simp: holds_at_def)

text \<open>\<open>read_message\<close> hands on the non-empty vector of the node's buffers.\<close>

lemma fetch_after_push:
  assumes s: "holds_at p [] s"
    and f: "\<And>t v. holds_at p v t \<Longrightarrow> v = r_buffer_sp_v (rios t ! p) \<Longrightarrow> v \<noteq> [] \<Longrightarrow> wp (f (rios t ! p)) Q E t"
  shows "wp (act_bind (fetch rios p) (\<lambda>io.
      act_seq (if r_buffer_sp_v io = [] then push_new_buffer p else ret ())
     (act_bind (fetch rios p) f))) Q E s"
proof (cases "r_buffer_sp_v (rios s ! p) = []")
  case True
  have p: "p < length (rios s)" using s by (simp add: holds_at_def)
  obtain t where t: "push_new_buffer p s = (Inr (), t)" and v: "r_buffer_sp_v (rios t ! p) = [length (bufs s)]"
    using p True by (simp add: push_new_buffer_def act_defs set_rio_def change_nth)
  have "holds_at p [] t"
    using keepsD [OF keeps_push_new_buffer s, of p] t by (simp add: wp_def)
  from f [OF holds_at_more [OF this]] v this show ?thesis
    using t True p by (simp add: wp_simps holds_at_def) (simp add: wp_def)
next
  case False
  then show ?thesis
    using s f [OF holds_at_more [OF s]] by (simp add: wp_simps holds_at_def)
qed

lemma keeps_read_message: "keeps p [] (read_message R shared p :: ('db, 'c, unit) srv)"
proof (rule keepsI)
  fix s :: "('db, 'c) world" assume s: "holds_at p [] s"
  have w: "holds_at p v t \<Longrightarrow> holds_at p [] t" for v and t :: "('db, 'c) world" by (simp add: holds_at_def)
  show "wp (read_message R shared p) (\<lambda>_. holds_at p []) (\<lambda>_. holds_at p []) s"
    unfolding read_message_def
  proof (rule fetch_after_push [OF s])
    fix t :: "('db, 'c) world" and v
    assume t: "holds_at p v t" and v: "v = r_buffer_sp_v (rios t ! p)" "v \<noteq> []"
    let ?io = "rios t ! p"
    have "keeps p v (act_bind (on_socket p (last v) (socket_read R)) (\<lambda>finished.
     if finished then
       act_bind (fetch bufs (last v)) (\<lambda>b.
       if b_isLastBuf b then finish_message shared p v (b_data_type b)
       else push_new_buffer p)
     else ret ()) :: ('db, 'c, unit) srv)"
      by (intro keeps_bind keeps_if keeps_fetch keeps_simple keeps_push_new_buffer
          keeps_on_socket block_socket_read keeps_finish_message v(2))
    then show "wp (let back = last (r_buffer_sp_v ?io) in
     act_bind (on_socket p back (socket_read R)) (\<lambda>finished.
     if finished then
       act_bind (fetch bufs back) (\<lambda>b.
       if b_isLastBuf b then finish_message shared p (r_buffer_sp_v ?io) (b_data_type b)
       else push_new_buffer p)
     else ret ())) (\<lambda>_. holds_at p []) (\<lambda>_. holds_at p []) t"
      unfolding v(1) Let_def by (rule wp_mono [OF keepsD [OF _ t [unfolded v(1)]]]) (auto intro: w)
  qed
qed

lemma keeps_connection_read: "keeps p [] (connection_read_callback R shared p)"
  unfolding connection_read_callback_def by (intro keeps_catch keeps_read_message keeps_intros)

lemma connection_write_wp:
  assumes s: "sys_ok s" and w: "w < length (wios s)"
  shows "wp (connection_write_callback W w) (\<lambda>_. sys_ok) (\<lambda>_. sys_ok) s"
proof -
  let ?node = "w_readio (wios s ! w)"
  have h: "holds_at ?node [] s" using s w by (simp add: holds_at_def sys_ok_def)
  have "keeps ?node [] (case w_buffers_p (wios s ! w) of
       [] \<Rightarrow> set_wio w (\<lambda>x. x\<lparr>w_active := False\<rparr>)
     | p # rest \<Rightarrow>
         act_bind (fetch bufs p) (\<lambda>b.
         act_seq (before_write ?node (b_data_type b))
        (catch_system_error
          (act_bind (on_socket ?node p (socket_write W)) (\<lambda>finished.
           if finished then set_wio w (\<lambda>x. x\<lparr>w_buffers_p := tl (w_buffers_p x)\<rparr>) else ret ()))
          (\<lambda>e. deleteReadio ?node))))"
    by (cases "w_buffers_p (wios s ! w)")
      (auto intro!: keeps_bind keeps_seq keeps_catch keeps_if keeps_fetch keeps_simple keeps_set_wio
        keeps_before_write keeps_deleteReadio keeps_on_socket block_socket_write)
  from keepsD [OF this h] show ?thesis
    using w by (auto simp: connection_write_callback_def wp_simps Let_def holds_at_def intro: wp_mono)
qed

section \<open>Accepting a connection\<close>

lemma sys_ok_new_node:
  assumes s: "sys_ok s" and r: "r_writeio r = length (wios s)" "r_buffer_sp_v r = []"
    and w: "w_readio x = length (rios s)"
  shows "sys_ok (s\<lparr>rios := rios s @ [r], wios := wios s @ [x], conns := conns s @ [c]\<rparr>)"
proof -
  let ?t = "s\<lparr>rios := rios s @ [r], wios := wios s @ [x], conns := conns s @ [c]\<rparr>"
  note k = sys_okD(4) [OF s]
  have same: "rios ?t ! snd y = rios s ! snd y" if "y \<in> set (pinglist s)" for y
    using ping_okD(2) [OF k that] by (simp add: nth_append)
  have "ping_ok ?t"
  proof (rule ping_okI)
    have "map (\<lambda>x. r_ping_time (rios ?t ! snd x)) (pinglist ?t) = map (\<lambda>x. r_ping_time (rios s ! snd x)) (pinglist s)"
      using same by simp
    then show "sorted (map (\<lambda>x. r_ping_time (rios ?t ! snd x)) (pinglist ?t))"
      using ping_ok_lists(2) [OF k] by (simp only:)
    fix y assume "y \<in> set (pinglist ?t)"
    then show "fst y < next_cell ?t \<and> snd y < length (rios ?t)
        \<and> r_iter (rios ?t ! snd y) = Some (fst y) \<and> r_ping_time (rios ?t ! snd y) \<le> now ?t"
      using ping_okD [OF k, of y] same [of y] by simp
  qed (use ping_ok_lists(1) [OF k] in simp)
  moreover have "world_ok ?t"
    using sys_okD(5) [OF s] r by (auto simp: world_ok_def less_Suc_eq)
  moreover have "\<forall>j \<in> set (workq s). job_ok ?t j"
    using s job_ok_mono [of s _ ?t] by (auto simp: sys_ok_def)
  moreover have "\<forall>x \<in> set (wios s). w_readio x < Suc (length (rios s))"
    using s by (auto simp: sys_ok_def less_Suc_eq)
  ultimately show ?thesis using s r w by (simp add: sys_ok_def)
qed

lemma socket_accept_wp:
  assumes s: "sys_ok s"
  shows "wp (socket_accept_callback fd raw_io c) (\<lambda>_. sys_ok) (\<lambda>_. sys_ok) s"
proof -
  let ?r = "raw_io\<lparr>r_iter := None, r_writeio := length (wios s), r_buffer_sp_v := [],
             r_isConnect := False, r_userid := [], r_uuid := [], r_appVersion := [],
             r_clientVersion := [], r_active := True\<rparr>"
  let ?t = "s\<lparr>rios := rios s @ [?r], wios := wios s @ [\<lparr>w_readio = length (rios s), w_buffers_p = [], w_active = False\<rparr>],
             conns := conns s @ [c]\<rparr>"
  have "sys_ok ?t" by (rule sys_ok_new_node [OF s]) simp_all
  moreover have "length (rios s) \<notin> snd ` set (pinglist ?t)"
    using ping_okD(2) [OF sys_okD(4) [OF s]] by fastforce
  ultimately have "wp (ping_append (length (rios s))) (\<lambda>_. sys_ok) (\<lambda>_. sys_ok) ?t"
    by (intro wp_mono [OF ping_append_wp]) simp_all
  then show ?thesis using s by (simp add: socket_accept_callback_def wp_simps)
qed

section \<open>The ping timer\<close>

text \<open>
  What the timer has to do: every node that has been silent for more than \<open>PINGPONGTIMEOUT\<close> seconds
  leaves the ping list and the uuid map, the others stay as they are.
\<close>

definition silent :: "('db, 'c) world \<Rightarrow> nat \<times> ptr \<Rightarrow> bool" where
  "silent s x \<longleftrightarrow> now s - r_ping_time (rios s ! snd x) > PINGPONGTIMEOUT"

definition silent_nodes :: "('db, 'c) world \<Rightarrow> ptr set" where
  "silent_nodes s = snd ` set (filter (silent s) (pinglist s))"

definition expire :: "('db, 'c) world \<Rightarrow> ('db, 'c) world" where
  "expire s = s
     \<lparr>pinglist := filter (\<lambda>x. \<not> silent s x) (pinglist s),
      uuidnode_map := uuidnode_map s |` (- ((\<lambda>p. r_uuid (rios s ! p)) ` silent_nodes s)),
      rios := map (\<lambda>p. if p \<in> silent_nodes s then (rios s ! p)\<lparr>r_iter := None\<rparr> else rios s ! p)
                [0 ..< length (rios s)]\<rparr>"

lemma expire_id: "filter (silent s) (pinglist s) = [] \<Longrightarrow> expire s = s"
proof -
  assume n: "filter (silent s) (pinglist s) = []"
  then have "silent_nodes s = {}" by (simp only: silent_nodes_def) simp
  moreover have "filter (\<lambda>x. \<not> silent s x) (pinglist s) = pinglist s"
    using n by (simp add: filter_empty_conv)
  moreover have "uuidnode_map s |` UNIV = uuidnode_map s" by (simp add: restrict_map_def)
  ultimately show "expire s = s" by (simp add: expire_def map_nth)
qed

lemma silent_antimono:
  assumes k: "ping_ok s" and xy: "x \<in> set (pinglist s)" "y \<in> set (pinglist s)"
    and le: "r_ping_time (rios s ! snd x) \<le> r_ping_time (rios s ! snd y)" and n: "\<not> silent s x"
  shows "\<not> silent s y"
proof -
  have "r_ping_time (rios s ! snd y) \<le> now s" by (rule ping_okD(4) [OF k xy(2)])
  then have "now s - r_ping_time (rios s ! snd y) \<le> now s - r_ping_time (rios s ! snd x)"
    using ping_okD(4) [OF k xy(1)] le by (simp add: word_le_nat_alt unat_sub)
  then show ?thesis using n by (auto simp: silent_def)
qed

lemma no_silent:
  assumes k: "ping_ok s" and l: "pinglist s = (c, p) # rest" and n: "\<not> silent s (c, p)"
  shows "filter (silent s) (pinglist s) = []"
proof -
  have "r_ping_time (rios s ! p) \<le> r_ping_time (rios s ! snd y)" if "y \<in> set rest" for y
    using ping_ok_lists(2) [OF k] l that by auto
  then have "\<not> silent s y" if "y \<in> set (pinglist s)" for y
    using that n silent_antimono [OF k, of "(c, p)" y] l by (cases "y \<in> set rest") auto
  then show ?thesis by (simp add: filter_empty_conv)
qed

lemma nth_list_update_all: "i < length xs \<Longrightarrow> xs[i := x] ! j = (if j = i then x else xs ! j)"
  by simp

lemma expire_head:
  assumes k: "ping_ok s" and l: "pinglist s = (c, p) # rest" and d: "silent s (c, p)"
  defines "t \<equiv> rios_update (change p (\<lambda>io. io\<lparr>r_iter := None\<rparr>))
      (s\<lparr>uuidnode_map := (uuidnode_map s)(r_uuid (rios s ! p) := None), pinglist := rest\<rparr>)"
  shows "ping_ok t" and "expire t = expire s"
proof -
  have p: "p < length (rios s)" "r_iter (rios s ! p) = Some c"
    using ping_okD [OF k, of "(c, p)"] l by simp_all
  have "c \<notin> fst ` set rest" using ping_ok_lists(1) [OF k] l by simp
  then have er: "list_erase c (pinglist s) = rest"
    unfolding list_erase_def l by (simp add: filter_id_conv) force
  have "ping_ok (rios_update (change p (\<lambda>io. io\<lparr>r_iter := None\<rparr>)) (s\<lparr>pinglist := rest\<rparr>))"
    using ping_ok_erase(1) [OF k p(2,1)] er by simp
  then show "ping_ok t" by (simp add: t_def ping_ok_def)
  have np: "p \<notin> snd ` set rest" using ping_ok_erase(2) [OF k p(2,1)] er by simp
  have tm: "r_ping_time (rios t ! q) = r_ping_time (rios s ! q)" "r_uuid (rios t ! q) = r_uuid (rios s ! q)" for q
    by (simp_all add: t_def change_def nth_list_update_all)
  have sl: "silent t = silent s" by (simp add: silent_def tm fun_eq_iff) (simp add: t_def)
  have sn: "silent_nodes s = insert p (silent_nodes t)"
    using d by (simp add: silent_nodes_def sl l) (simp add: t_def)
  have io: "rios t ! q = (if q = p then (rios s ! q)\<lparr>r_iter := None\<rparr> else rios s ! q)" if "q < length (rios s)" for q
    using that by (simp add: t_def change_nth)
  have "rios (expire t) = rios (expire s)"
    using io by (auto simp: expire_def sn) (simp_all add: t_def)
  moreover have "uuidnode_map (expire t) = uuidnode_map (expire s)"
  proof -
    have "uuidnode_map t = (uuidnode_map s)(r_uuid (rios s ! p) := None)" by (simp add: t_def)
    then have "uuidnode_map (expire t)
        = (uuidnode_map s)(r_uuid (rios s ! p) := None) |` (- ((\<lambda>q. r_uuid (rios s ! q)) ` silent_nodes t))"
      by (simp add: expire_def tm)
    also have "\<dots> = uuidnode_map (expire s)"
      by (rule ext) (auto simp: expire_def sn restrict_map_def)
    finally show ?thesis .
  qed
  moreover have "pinglist (expire t) = pinglist (expire s)"
    using d by (simp add: expire_def sl l) (simp add: t_def)
  moreover have "expire t = s\<lparr>pinglist := pinglist (expire t), uuidnode_map := uuidnode_map (expire t), rios := rios (expire t)\<rparr>"
    by (simp add: expire_def) (simp add: t_def)
  moreover have "expire s = s\<lparr>pinglist := pinglist (expire s), uuidnode_map := uuidnode_map (expire s), rios := rios (expire s)\<rparr>"
    by (simp add: expire_def)
  ultimately show "expire t = expire s" by simp
qed

lemma pingtime_loop_exec:
  "ping_ok s \<Longrightarrow> pinglist s = l \<Longrightarrow> pingtime_loop (now s) l s = (Inr (), expire s)"
proof (induction l arbitrary: s)
  case Nil
  then show ?case by (simp add: act_defs expire_id)
next
  case (Cons x rest)
  obtain c p where x: "x = (c, p)" by (cases x)
  note l = Cons.prems(2) [unfolded x] and k = Cons.prems(1)
  have p: "p < length (rios s)" using ping_okD(2) [OF k, of "(c, p)"] l by simp
  show ?case
  proof (cases "silent s (c, p)")
    case True
    let ?t = "rios_update (change p (\<lambda>io. io\<lparr>r_iter := None\<rparr>))
      (s\<lparr>uuidnode_map := (uuidnode_map s)(r_uuid (rios s ! p) := None), pinglist := rest\<rparr>)"
    have "pingtime_loop (now ?t) rest ?t = (Inr (), expire ?t)"
      using expire_head(1) [OF k l True] by (intro Cons.IH) simp_all
    then show ?thesis
      using True p expire_head(2) [OF k l True]
      by (simp add: x act_defs fetch_def uuidnode_delete_def set_rio_def silent_def)
  next
    case False
    have "filter (silent s) (pinglist s) = []" by (rule no_silent [OF k l False])
    then show ?thesis using False p by (simp add: x act_defs fetch_def silent_def expire_id)
  qed
qed

lemma pingtime_callback_exec: "ping_ok s \<Longrightarrow> pingtime_callback s = (Inr (), expire s)"
  by (simp add: pingtime_callback_def act_bind_def gets_def pingtime_loop_exec)

lemma ping_ok_expire:
  "ping_ok s \<Longrightarrow> pinglist s = l \<Longrightarrow> ping_ok (expire s)"
proof (induction l arbitrary: s)
  case Nil
  then show ?case by (simp add: expire_id)
next
  case (Cons x rest)
  obtain c p where x: "x = (c, p)" by (cases x)
  note l = Cons.prems(2) [unfolded x] and k = Cons.prems(1)
  show ?case
  proof (cases "silent s (c, p)")
    case True
    from Cons.IH [OF expire_head(1) [OF k l True]] expire_head(2) [OF k l True] show ?thesis by simp
  next
    case False
    have "filter (silent s) (pinglist s) = []" by (rule no_silent [OF k l False])
    then show ?thesis using k by (simp add: expire_id)
  qed
qed

lemma sys_ok_expire:
  assumes s: "sys_ok s"
  shows "sys_ok (expire s)"
proof -
  have "rios (expire s) ! p = (if p \<in> silent_nodes s then (rios s ! p)\<lparr>r_iter := None\<rparr> else rios s ! p)"
    if "p < length (rios s)" for p using that by (simp add: expire_def)
  then have e: "r_writeio (rios (expire s) ! p) = r_writeio (rios s ! p)"
    "r_buffer_sp_v (rios (expire s) ! p) = r_buffer_sp_v (rios s ! p)" if "p < length (rios s)" for p
    using that by simp_all
  have len: "length (rios (expire s)) = length (rios s)" by (simp add: expire_def)
  have m: "map r_writeio (rios (expire s)) = map r_writeio (rios s)"
    "map r_buffer_sp_v (rios (expire s)) = map r_buffer_sp_v (rios s)"
    using e len by (auto intro: nth_equalityI)
  have "ping_ok (expire s)" using sys_okD(4) [OF s] by (rule ping_ok_expire) simp
  moreover have "\<forall>u p. uuidnode_map (expire s) u = Some p \<longrightarrow> p < length (rios s)"
    using sys_okD(5) [OF s] by (auto simp: expire_def restrict_map_def world_ok_def split: if_splits)
  ultimately show ?thesis
    using s len ball_map_cong [OF m(1), of "\<lambda>w. w < length (wios s)"]
      ball_map_cong [OF m(2), of "\<lambda>v. \<forall>p \<in> set v. p < length (bufs s)"]
    unfolding sys_ok_def world_ok_def job_ok_def by (simp add: expire_def)
qed

section \<open>Every reachable state\<close>

lemma start_write_wp:
  assumes "sys_ok s"
  shows "wp start_write_callback (\<lambda>_. sys_ok) (\<lambda>_. sys_ok) s"
proof -
  have "sys_ok (s\<lparr>pingnodes := []\<rparr>)" using assms
    by (simp add: sys_ok_def world_ok_def ping_ok_def job_ok_def)
  then show ?thesis
    unfolding start_write_callback_def wp_simps
    by (intro wp_foreach) (simp_all add: wp_simps sys_ok_set_wio)
qed

lemma map_through: "map h xs = map h ys \<Longrightarrow> map (\<lambda>r. g (h r)) xs = map (\<lambda>r. g (h r)) ys"
proof -
  assume "map h xs = map h ys"
  then have "map g (map h xs) = map g (map h ys)" by (simp only:)
  then show ?thesis by (simp add: o_def)
qed

lemma sys_ok_grows:
  assumes t: "sys_ok t" and b: "\<forall>r \<in> set (rios t). \<forall>p \<in> set (r_buffer_sp_v r). p < length (bufs t)"
    and u: "world_ok u" "grows n (t\<lparr>currentNode := c\<rparr>) u"
  shows "sys_ok u"
proof (rule sys_ok_cong [OF t])
  have st: "map io_static (rios u) = map io_static (rios t)" using u(2) by (simp add: grows_def)
  show "map r_writeio (rios u) = map r_writeio (rios t)"
    using map_through [OF st, of fst] by (simp add: io_static_def)
  show "map r_iter (rios u) = map r_iter (rios t)"
    using map_through [OF st, of "fst \<circ> snd"] by (simp add: io_static_def)
  show "map r_ping_time (rios u) = map r_ping_time (rios t)"
    using map_through [OF st, of "fst \<circ> snd \<circ> snd"] by (simp add: io_static_def)
  have "map r_buffer_sp_v (rios u) = map r_buffer_sp_v (rios t)"
    using map_through [OF st, of "fst \<circ> snd \<circ> snd \<circ> snd"] by (simp add: io_static_def)
  from ball_map_cong [OF this, of "\<lambda>v. \<forall>p \<in> set v. p < length (bufs t)"] b
  have "\<forall>r \<in> set (rios u). \<forall>p \<in> set (r_buffer_sp_v r). p < length (bufs t)" by simp
  moreover have "length (bufs t) \<le> length (bufs u)" using u(2) by (simp add: grows_def)
  ultimately show "\<forall>r \<in> set (rios u). \<forall>p \<in> set (r_buffer_sp_v r). p < length (bufs u)"
    by (meson order.strict_trans2)
qed (use u in \<open>simp_all add: grows_def world_ok_def\<close>)

lemma worker_step_wp:
  assumes M: "mongo_ok M" and s: "sys_ok s"
  shows "wp (worker_step K M) (\<lambda>_. sys_ok) (\<lambda>_ _. True) s"
proof (cases "workq s")
  case Nil
  then show ?thesis using s by (simp add: worker_step_def wp_simps)
next
  case (Cons j jobs)
  obtain node spvec sid where j: "j = (node, spvec, sid)" by (cases j)
  let ?t = "s\<lparr>workq := jobs\<rparr>"
  have t: "sys_ok ?t" using s Cons by (simp add: sys_ok_def world_ok_def ping_ok_def job_ok_def)
  have v: "node < length (rios ?t)" "spvec \<noteq> []" "\<forall>p \<in> set spvec. p < length (bufs ?t)"
    using s Cons j by (simp_all add: sys_ok_def job_ok_def)
  have fin: "sys_ok u" if u: "world_ok u" "grows (length (bufs ?t)) (?t\<lparr>currentNode := None\<rparr>) u" for u
    by (rule sys_ok_grows [OF t _ u]) (rule sys_okD(1) [OF t])
  have "wp (dispatch K M node spvec sid) (\<lambda>_. sys_ok) (\<lambda>_ _. True) ?t"
    by (rule wp_mono [OF dispatch_contract_lemma [OF M sys_okD(5) [OF t] v refl]]) (auto intro: fin)
  then show ?thesis using Cons j by (simp add: worker_step_def wp_simps)
qed

lemma server_step_sys_ok:
  assumes M: "mongo_ok M" and step: "server_step K M R W s t" and s: "sys_ok s"
  shows "sys_ok t"
  using step
proof cases
  case (step_accept fd raw_io c)
  then show ?thesis using socket_accept_wp [OF s, of fd raw_io c] by (simp add: wp_def)
next
  case (step_read p shared)
  then show ?thesis
    using keepsD [OF keeps_connection_read, of p s R shared] s by (simp add: wp_def holds_at_def)
next
  case (step_write w)
  then show ?thesis using connection_write_wp [OF s, of w W] by (simp add: wp_def)
next
  case step_timer
  then show ?thesis
    using pingtime_callback_exec [OF sys_okD(4) [OF s]] sys_ok_expire [OF s] by simp
next
  case step_async
  then show ?thesis using start_write_wp [OF s] by (simp add: wp_def)
next
  case step_worker
  then show ?thesis using worker_step_wp [OF M s, of K] by (simp add: wp_def)
next
  case (step_clock t')
  then show ?thesis using sys_okD(2) [OF s] by (auto intro: sys_ok_same [OF s])
qed

lemma sys_ok_initial: "sys_ok (initial junk db t)"
  by (simp add: initial_def sys_ok_def world_ok_def ping_ok_def)

interpretation server: transition_system "server_step K M R W" "\<lambda>s. \<exists>junk db t. s = initial junk db t"
  "\<lambda>s. mongo_ok M \<longrightarrow> sys_ok s" for K M R W
proof
  show "\<exists>junk db t. s = initial junk db t \<Longrightarrow> mongo_ok M \<longrightarrow> sys_ok s" for s
    by (elim exE) (simp only: sys_ok_initial simp_thms)
  show "mongo_ok M \<longrightarrow> sys_ok s \<Longrightarrow> server_step K M R W s t \<Longrightarrow> mongo_ok M \<longrightarrow> sys_ok t" for s t
    by (iprover intro: server_step_sys_ok)
qed

lemma reachable_sys_ok:
  assumes "mongo_ok M" and "reachable K M R W s"
  shows "sys_ok s"
proof -
  obtain junk db t where r: "(server_step K M R W)\<^sup>*\<^sup>* (initial junk db t) s"
    using assms(2) by (auto simp: reachable_def)
  have "\<exists>junk' db' t'. initial junk db t = initial junk' db' t'" by iprover
  from server.reachable_inv [OF this r] show ?thesis using assms(1) by iprover
qed

end
