(* ===== verification/Wire.thy ===== *)
theory Wire
  imports Framing
begin

text \<open>
  The properties of the wire format (\<open>yijian/buffer_yi.cxx\<close>, \<open>yijian/buffer_yi_util.hpp\<close>): the
  length field, the cutting of a message into frames, and what happens at the edges: oversized and
  empty payloads, partial writes, a buffer queued for two connections.
\<close>

section \<open>Concrete connections\<close>

text \<open>
  Two connections for evaluation: one that delivers a list of pieces, one that takes every write
  whole and keeps what it was given.
\<close>

definition script_reader :: "bytes list ssl_reader" where
  "script_reader c n = (case c of [] \<Rightarrow> (Ssl_read_error SSL_ERROR_WANT_READ, [])
     | bs # c' \<Rightarrow> if n \<le> 0 then (Ssl_read_error (SSL_ERROR_other 1), c)
                  else if int (length bs) \<le> n then (Ssl_data bs, c')
                  else (Ssl_data (take (nat n) bs), drop (nat n) bs # c'))"

lemma script_reader_ok: "ssl_reader_ok script_reader"
  by (auto simp: ssl_reader_ok_def script_reader_def split: list.splits if_splits)

definition log_writer :: "bytes list ssl_writer" where
  "log_writer c bs = (Ssl_written (length bs), c @ [bs])"

section \<open>The length field\<close>

text \<open>What \<open>encoding_var_length\<close> writes for a length below 16384 is what
  \<open>decoding_var_length\<close> reads back, wherever it stands in the block, and the reader ends exactly
  behind it.\<close>

theorem length_roundtrip:
  assumes "n < 16384"
  shows "decoding_var_length (pre @ var_length_bytes n @ post) (length pre)
     = Inr (of_nat n, length pre + length (var_length_bytes n))"
  by (rule vl.dec_enc [OF assms])

lemma length_roundtrip_witness:
  "decoding_var_length [7, 172, 2, 9] 1 = Inr (300, 3) \<and> (300 :: nat) < 16384"
  using length_roundtrip [of 300 "[7]" "[9]"] by (simp add: var_length_long)

text \<open>No length field is the beginning of another: whatever follows, the bytes determine the
  length and where it ends.\<close>

theorem length_prefix_free:
  assumes "m < 16384" and "n < 16384" and "var_length_bytes m @ xs = var_length_bytes n @ ys"
  shows "m = n \<and> xs = ys"
  by (rule vl.enc_prefix_free [OF assms])

lemma length_prefix_free_witness: "(300 :: nat) = 300 \<and> [1 :: u8] = [1]"
  by (rule length_prefix_free) simp_all

lemma seven_less: "unat (ucast (w AND 127 :: u8) :: u32) < 128"
proof -
  have "w AND 127 \<le> (127 :: u8)" by (rule word_and_le1)
  then have "unat (w AND 127) \<le> 127" by (simp add: word_le_nat_alt)
  then show ?thesis by (simp add: unsigned_ucast_eq take_bit_nat_eq_self)
qed

lemma two_sevens:
  assumes "unat (x :: u32) < 128" and "unat (y :: u32) < 128"
  shows "unat (x + y * 128) < 16384"
proof -
  have "unat (y * 128) = unat y * 128" using assms by (subst unat_mult_lem [THEN iffD1]) simp_all
  then show ?thesis using assms by (subst unat_add_lem [THEN iffD1]) simp_all
qed

text \<open>\<open>decoding_var_length\<close> always returns: on any bytes it either reads one or two bytes and
  yields a length below 16384, or throws \<open>system_error\<close> 20001 on a third byte, or, only when the
  block ends first, reads outside the block.\<close>

theorem decoding_bounded:
  "case decoding_var_length mem pos of
     Inr (v, q) \<Rightarrow> unat v < 16384 \<and> pos < q \<and> q \<le> pos + 2 \<and> q \<le> length mem
   | Inl e \<Rightarrow> e = sys_error 20001 ''Malformed Remaining Length'' \<and> pos + 2 < length mem
        \<or> e = Undefined \<and> length mem < pos + 3"
proof -
  note step = decode_loop.simps [of mem pos 0] decode_loop.simps [of mem "Suc pos" "Suc 0"]
    decode_loop.simps [of mem "Suc (Suc pos)" "Suc (Suc 0)"]
  have v1: "unat (ucast (x AND 127 :: u8) :: u32) < 16384" for x
    using seven_less [of x] by simp
  have v2: "unat (ucast (x AND 127 :: u8) + ucast (y AND 127 :: u8) * 128 :: u32) < 16384" for x y
    by (rule two_sevens [OF seven_less seven_less])
  show ?thesis
    using v1 v2
    by (simp add: decoding_var_length_def step peek_def Let_def split: sum.split)
qed

section \<open>Messages as frames\<close>

text \<open>\<open>yijianBuffer\<close> cuts a serialised message into at least one piece of at most 1019 bytes,
  all but the last of exactly 1019, whose concatenation is the message.\<close>

theorem chunks_message:
  "concat (chunks d) = d \<and> chunks d \<noteq> [] \<and> (\<forall>x \<in> set (chunks d). length x \<le> maxlength)
     \<and> (\<forall>x \<in> set (butlast (chunks d)). length x = maxlength)"
  using chunk_loop_ok [of 0 0 d] by (simp add: chunks_def)

lemma chunks_message_witness:
  "concat (chunks (replicate 1020 7)) = replicate 1020 7 \<and> chunks (replicate 1020 7) \<noteq> []"
  using chunks_message [of "replicate 1020 7"] by simp

lemma holds_frame_data: "holds_frame b sid l type d \<Longrightarrow> buffer_data b = d"
  by (simp add: holds_frame_def)

text \<open>C16: Sending a message: every piece gets a buffer that holds one whole frame with the message
  type and the session id, only the last one marked as last, and the payloads of the buffers put
  together are the message.\<close>

theorem message_frames:
  assumes "length (chunks d) \<le> length raws"
  shows "\<exists>bs bs'. yijianBuffer raws type d = Inr bs \<and> stamp sid bs = Inr bs'
     \<and> concat (map buffer_data bs') = d
     \<and> (\<forall>k < length bs'. \<exists>x. holds_frame (bs' ! k) sid (Suc k = length bs') type x)"
proof -
  have c: "concat (chunks d) = d" "\<forall>x \<in> set (chunks d). length x \<le> 1019"
    using chunks_message [of d] by simp_all
  obtain bs bs' where b: "new_buffers raws type (chunks d) = Inr bs" "stamp sid bs = Inr bs'"
      "length bs' = length (chunks d)"
      "\<forall>k < length (chunks d). holds_frame (bs' ! k) sid (Suc k = length (chunks d)) type (chunks d ! k)"
    using new_buffers_frames [OF c(2) assms] by blast
  have "map buffer_data bs' = chunks d"
    by (rule nth_equalityI) (use b(3,4) in \<open>auto dest: holds_frame_data\<close>)
  then show ?thesis
    using b c(1) by (auto simp: yijianBuffer_def)
qed

lemma message_frames_witness:
  "\<exists>bs bs'. yijianBuffer [undefined] 3 [10, 20, 30] = Inr bs \<and> stamp 101 bs = Inr bs'
     \<and> concat (map buffer_data bs') = [10, 20, 30]
     \<and> (\<forall>k < length bs'. \<exists>x. holds_frame (bs' ! k) 101 (Suc k = length bs') 3 x)"
  by (rule message_frames) (simp add: chunks_def chunk_loop.simps)

text \<open>C37: Two turns of the loop of \<open>socket_read\<close> are enough: with any fuel from two on it computes
  the same, so it always returns.\<close>

theorem socket_read_two_turns:
  assumes "2 \<le> n"
  shows "read_loop n R s = socket_read R s"
proof (cases "n = 2")
  case False
  then obtain m where "n = Suc (Suc (Suc m))" using assms by (auto dest!: le_Suc_ex simp: numeral_2_eq_2 neq0_conv gr0_conv_Suc)
  then show ?thesis by (simp only: read_loop_fuel socket_read_def)
qed (simp add: socket_read_def)

lemma socket_read_two_turns_witness:
  "read_loop 7 script_reader (buffer_ctor undefined MT_message, [[128, 101, 3, 4, 10], [20, 30, 40]])
     = socket_read script_reader (buffer_ctor undefined MT_message, [[128, 101, 3, 4, 10], [20, 30, 40]])"
  by (rule socket_read_two_turns) simp

section \<open>At the edges\<close>

text \<open>The first five bytes of a frame arriving in a new buffer.\<close>

lemma five_bytes:
  assumes R: "R c 5 = (Ssl_data [s1, s2, ty, l1, l2], c1)" and l2: "drop_bit 7 l2 = 0"
  obtains b where "read_step R (buffer_ctor raw MT_message, c) =
      (case parse_header (b, c1) of (Inl e, s) \<Rightarrow> (Inl e, s) | (Inr _, s) \<Rightarrow> (Inr True, s))"
    and "b_mem b = [s1, s2, ty, l1, l2] @ drop 5 (b_mem b)" and "length (b_mem b) = 1024"
    and "b_current_pos b = 5" and "b_buffer_type b = MT_message" and "\<not> b_isFinish b"
proof -
  let ?b = "buffer_ctor raw MT_message"
  define m where "m = b_mem ?b"
  have m: "length m = 1024" using buffer_ctor_fresh [of raw MT_message] by (simp add: fresh_def m_def)
  let ?n = "Suc (Suc (Suc (Suc (Suc 0))))"
  let ?b1 = "?b\<lparr>b_mem := [s1, s2, ty, l1, l2] @ drop ?n m, b_noread_count := 0,
      b_current_pos := ?n, b_parse_length := 0, b_isParseMsgReaded := True\<rparr>"
  have n5: "size_as_int (ucast (b_parse_length ?b)) = 5"
    by (simp add: buffer_ctor_def reset_def buffer_consts size_as_int_def)
  have "read_step R (?b, c) = (case parse_header (?b1, c1) of (Inl e, s) \<Rightarrow> (Inl e, s) | (Inr _, s) \<Rightarrow> (Inr True, s))"
    using m n5 R l2
    by (simp add: read_step_def read_header_def act_defs getb_def upd_def ssl_socket_read_def poke_def
        buffer_ctor_fresh [of raw MT_message, unfolded fresh_def] m_def [symmetric] peek_def buffer_consts
        upt_rec split: prod.splits sum.splits)
  then show thesis
    by (rule that) (simp_all add: m buffer_ctor_def reset_def)
qed

lemma parse_five:
  assumes mem: "b_mem b = [s1, s2, ty] @ var_length_bytes n @ post" and n: "n < 16384"
    and cur: "b_current_pos b = 5" and bt: "b_buffer_type b = MT_message" and m: "length (b_mem b) = 1024"
  shows "\<exists>b'. parse_header (b, c) = (if (of_nat n - (5 - of_nat (3 + length (var_length_bytes n))) + 5 :: u64) > 1024
       then (Inl (sys_error 20000 ''transfer data over buffer size''), (b', c)) else (Inr (), (b', c)))
     \<and> b_isParseFinish b' \<and> b_isFinish b' = b_isFinish b \<and> b_current_pos b' = 5 \<and> length (b_mem b') = 1024
     \<and> b_remain_data_length b' = of_nat n - (5 - of_nat (3 + length (var_length_bytes n)))
     \<and> b_data_length b' = n"
proof -
  have d: "decoding_var_length (b_mem b) 3 = Inr (of_nat n, 3 + length (var_length_bytes n))"
    using length_roundtrip [OF n, of "[s1, s2, ty]" post] mem by (simp add: numeral_3_eq_3)
  have u: "unat (of_nat n :: u32) = n" by (rule vl.dec_value [OF n])
  have uc: "(ucast (of_nat n :: u32) :: u64) = of_nat n"
  proof -
    have "(ucast (of_nat n :: u32) :: u64) = of_nat (unat (of_nat n :: u32))" by simp
    then show ?thesis by (simp only: u)
  qed
  have p: "peek (b_mem b) 0 = Inr s1" "peek (b_mem b) (Suc 0) = Inr s2" "peek (b_mem b) 2 = Inr ty"
    using mem m by (simp_all add: peek_def)
  let ?t = "if bytes_u16 s1 s2 \<ge> BufferLastFlag
      then b\<lparr>b_isLastBuf := True, b_session_id := bytes_u16 s1 s2 - BufferLastFlag\<rparr>
      else b\<lparr>b_isLastBuf := False, b_session_id := bytes_u16 s1 s2\<rparr>"
  let ?l = "3 + length (var_length_bytes n)"
  have "parse_header (b, c) = (if (of_nat n - (5 - of_nat ?l) + 5 :: u64) > 1024
       then (Inl (sys_error 20000 ''transfer data over buffer size''),
         (?t\<lparr>b_data_type := ty, b_data_length := n, b_data_encode_length := ?l - b_data_pos b, b_data_pos := ?l,
            b_remain_data_length := of_nat n - (5 - of_nat ?l), b_isParseFinish := True\<rparr>, c))
       else (Inr (),
         (?t\<lparr>b_data_type := ty, b_data_length := n, b_data_encode_length := ?l - b_data_pos b, b_data_pos := ?l,
            b_remain_data_length := of_nat n - (5 - of_nat ?l), b_isParseFinish := True\<rparr>, c)))"
    using p d cur bt
    by (cases "BufferLastFlag \<le> bytes_u16 s1 s2")
      (simp_all add: parse_header_def act_defs getb_def upd_def buffer_consts(3-6) u uc Let_def)
  then show ?thesis using cur m
    by (intro exI [of _ "?t\<lparr>b_data_type := ty, b_data_length := n, b_data_encode_length := ?l - b_data_pos b,
        b_data_pos := ?l, b_remain_data_length := of_nat n - (5 - of_nat ?l), b_isParseFinish := True\<rparr>"])
      (simp split: if_split)
qed

lemma socket_read_unfold:
  "socket_read R s = (case read_step R s of
     (Inl e, t) \<Rightarrow> (Inl e, t)
   | (Inr go, t) \<Rightarrow> if go \<and> \<not> b_isFinish (fst t)
       then (case read_step R t of (Inl e, u) \<Rightarrow> (Inl e, u)
             | (Inr go', u) \<Rightarrow> if go' \<and> \<not> b_isFinish (fst u) then (Inl (Fatal ''out of fuel''), u)
                                else (Inr (b_isFinish (fst u)), u))
       else (Inr (b_isFinish (fst t)), t))"
proof -
  obtain r t where t: "read_step R s = (r, t)" by (cases "read_step R s")
  obtain r' u where u: "read_step R t = (r', u)" by (cases "read_step R t")
  show ?thesis using t u
    by (cases r; cases r') (simp_all add: socket_read_def numeral_2_eq_2 act_defs getb_def)
qed

lemma second_turn:
  assumes "b_isParseFinish b" and "\<not> b_isFinish b"
  shows "read_step R (b, c) = (case read_payload R (b, c) of (Inl e, s) \<Rightarrow> (Inl e, s) | (Inr _, s) \<Rightarrow> (Inr False, s))"
  using assms by (simp add: read_step_def act_defs getb_def split: prod.split sum.split)

lemma two_byte_length:
  assumes "128 \<le> n" and "n < 16384"
  shows "var_length_bytes n = [of_nat (n mod 128) OR 128, of_nat (n div 128)]"
    and "drop_bit 7 (of_nat (n div 128) :: u8) = 0"
proof -
  show "var_length_bytes n = [of_nat (n mod 128) OR 128, of_nat (n div 128)]"
    using assms by (simp add: var_length_long)
  have lt: "n div 128 < 128" using assms by auto
  then have u: "unat (of_nat (n div 128) :: u8) = n div 128" by (simp add: unsigned_of_nat take_bit_nat_eq_self)
  have "unat (drop_bit 7 (of_nat (n div 128) :: u8)) = drop_bit 7 (unat (of_nat (n div 128) :: u8))"
    by (rule unsigned_drop_bit_eq [of 7 "of_nat (n div 128) :: u8", THEN trans])
      (use lt in \<open>simp add: u take_bit_nat_eq_self\<close>)
  then have "unat (drop_bit 7 (of_nat (n div 128) :: u8)) = n div 128 div 128"
    by (simp only: u) (simp add: drop_bit_eq_div)
  then show "drop_bit 7 (of_nat (n div 128) :: u8) = 0"
    using lt by (simp add: unat_eq_zero)
qed

lemma size_as_int_length:
  assumes "n < 16384"
  shows "size_as_int (of_nat n) = int n"
proof -
  have "(ucast (of_nat n :: u64) :: 32 word) = of_nat n"
    using assms by (intro bit_word_eqI) (auto simp: bit_simps)
  moreover have "sint (of_nat n :: 32 word) = int n"
    using assms by (simp add: signed_of_nat signed_take_bit_int_eq_self)
  ultimately show ?thesis by (simp add: size_as_int_def)
qed

lemma size_as_int_minus_1: "size_as_int (- 1) = - 1"
proof -
  have "(ucast (- 1 :: u64) :: 32 word) = - 1" by (rule bit_word_eqI) (simp add: bit_simps)
  then show ?thesis by (simp add: size_as_int_def)
qed

text \<open>C34: A header that announces more than 1019 bytes makes \<open>socket_read\<close> throw 20000, but the
  buffer keeps the announced count: the next \<open>socket_read\<close> on it, with enough bytes arriving,
  writes past the end of the 1024-byte block.\<close>

theorem oversize_overflow:
  assumes n: "1019 < n" "n < 16384" and h: "R c 5 = (Ssl_data ([s1, s2, ty] @ var_length_bytes n), c1)"
    and more: "R c1 (int n) = (Ssl_data bs, c2)" "1019 < length bs"
  shows "\<exists>b'. socket_read R (buffer_ctor raw MT_message, c)
       = (Inl (sys_error 20000 ''transfer data over buffer size''), (b', c1))
     \<and> fst (socket_read R (b', c1)) = Inl Undefined"
proof -
  have two: "var_length_bytes n = [of_nat (n mod 128) OR 128, of_nat (n div 128)]"
      "drop_bit 7 (of_nat (n div 128) :: u8) = 0"
    using two_byte_length [of n] n by simp_all
  obtain b where b: "read_step R (buffer_ctor raw MT_message, c) =
      (case parse_header (b, c1) of (Inl e, s) \<Rightarrow> (Inl e, s) | (Inr _, s) \<Rightarrow> (Inr True, s))"
      "b_mem b = [s1, s2, ty, of_nat (n mod 128) OR 128, of_nat (n div 128)] @ drop 5 (b_mem b)"
      "length (b_mem b) = 1024" "b_current_pos b = 5" "b_buffer_type b = MT_message" "\<not> b_isFinish b"
    using five_bytes [OF _ two(2), of R c s1 s2 ty "of_nat (n mod 128) OR 128" c1 raw] h two(1) by auto
  have mem: "b_mem b = [s1, s2, ty] @ var_length_bytes n @ drop 5 (b_mem b)" using b(2) two(1) by simp
  have "unat (of_nat (n + 5) :: u64) = n + 5" using n by (simp only: unsigned_of_nat) (simp add: take_bit_nat_eq_self)
  then have gt: "(of_nat n + 5 :: u64) > 1024" using n by (simp add: word_less_nat_alt)
  obtain b' where b': "parse_header (b, c1) = (Inl (sys_error 20000 ''transfer data over buffer size''), (b', c1))"
      "b_isParseFinish b'" "\<not> b_isFinish b'" "b_current_pos b' = 5" "length (b_mem b') = 1024"
      "b_remain_data_length b' = of_nat n"
    using parse_five [OF mem n(2) b(4,5,3), of c1] b(6) gt two(1) by auto
  from b' more size_as_int_length [OF n(2)] have "fst (socket_read R (b', c1)) = Inl Undefined"
    by (intro oversize_overflow_lemma) simp_all
  then show ?thesis using b(1) b'(1) by (auto simp: socket_read_unfold)
qed

lemma oversize_overflow_witness:
  "\<exists>b'. socket_read script_reader (buffer_ctor undefined MT_message, [[128, 101, 3, 252, 7], replicate 1020 0])
       = (Inl (sys_error 20000 ''transfer data over buffer size''), (b', [replicate 1020 0]))
     \<and> fst (socket_read script_reader (b', [replicate 1020 0])) = Inl Undefined"
proof (rule oversize_overflow)
  show "script_reader [[128, 101, 3, 252, 7], replicate 1020 0] 5
      = (Ssl_data ([128, 101, 3] @ var_length_bytes 1020), [replicate 1020 0])"
    by (simp add: script_reader_def var_length_long)
  show "script_reader [replicate 1020 0] (int 1020) = (Ssl_data (replicate 1020 0), [])"
    by (simp add: script_reader_def)
qed simp_all



text \<open>A write that OpenSSL cannot complete at once (\<open>SSL_ERROR_WANT_WRITE\<close> on the non-blocking
  socket) makes \<open>socket_write\<close> throw 20024; the buffer is as before.\<close>

theorem want_write_throws:
  assumes h: "holds_frame b sid isLast type data" and len: "length data \<le> 1019"
    and w: "W c (frame_bytes sid isLast type data) = (Ssl_write_error SSL_ERROR_WANT_WRITE, c')"
  shows "socket_write W (b, c) = (Inl (sys_error 20024 ''write again now''), (b, c'))"
proof -
  let ?f = "frame_bytes sid isLast type data"
  have "unat (b_remain_data_length b) = length ?f" "b_current_pos b = 0" "length ?f \<le> length (b_mem b)"
      "slice (b_mem b) 0 (length ?f) = ?f"
    using h unat_frame_length [OF len] frame_length_1024 [OF len] by (simp_all add: holds_frame_def slice_def)
  then show ?thesis using w by (simp add: socket_write_def act_defs getb_def ssl_socket_write_def)
qed


lemma one_frame: "\<exists>b. holds_frame b 101 True 3 [10, 20 :: u8]"
proof -
  have "\<forall>x \<in> set [[10, 20 :: u8]]. length x \<le> 1019" and "length [[10, 20 :: u8]] \<le> length [undefined :: buffer]"
    by simp_all
  then obtain bs' where "\<forall>k < length [[10, 20 :: u8]].
      holds_frame (bs' ! k) 101 (Suc k = length [[10, 20 :: u8]]) 3 ([[10, 20]] ! k)"
    using new_buffers_frames by blast
  then show ?thesis by auto
qed

lemma want_write_throws_witness:
  "\<exists>b. socket_write (\<lambda>c bs. (Ssl_write_error SSL_ERROR_WANT_WRITE, c)) (b, ())
     = (Inl (sys_error 20024 ''write again now''), (b, ()))"
proof -
  obtain b where "holds_frame b 101 True 3 [10, 20 :: u8]" using one_frame by blast
  then have "socket_write (\<lambda>c bs. (Ssl_write_error SSL_ERROR_WANT_WRITE, c)) (b, ())
     = (Inl (sys_error 20024 ''write again now''), (b, ()))"
    by (rule want_write_throws) simp_all
  then show ?thesis by blast
qed


end
