(* ===== verification/Memory.thy ===== *)
theory Memory
  imports MongoFacts
begin

text \<open>
  Concrete parameters: a document store kept in a list as the driver \<open>M\<close>, and a message codec.
  They show that the contracts assumed of the driver and of the protobuf runtime can be met, and the
  concrete instances of the properties are evaluated on them. They model no code of the repository.
\<close>

section \<open>A document store\<close>

type_synonym store = "(string \<times> doc) list"

definition matches :: "doc \<Rightarrow> doc \<Rightarrow> bool" where
  "matches flt d \<longleftrightarrow> list_all (\<lambda>(k, v). map_of d k = Some v) flt"

definition find_docs :: "string \<Rightarrow> doc \<Rightarrow> store \<Rightarrow> doc list" where
  "find_docs c flt s = filter (matches flt) (map snd (filter (\<lambda>e. fst e = c) s))"

definition set_fields :: "doc \<Rightarrow> doc \<Rightarrow> doc" where
  "set_fields fs d = fold (\<lambda>(k, v). AList.update k v) fs d"

definition inc_fields :: "doc \<Rightarrow> doc \<Rightarrow> doc" where
  "inc_fields fs d = fold (\<lambda>(k, v) d. case (map_of d k, v) of
     (Some (BInt32 m), BInt32 n) \<Rightarrow> AList.update k (BInt32 (m + n)) d
   | _ \<Rightarrow> AList.update k v d) fs d"

definition apply_update :: "doc \<Rightarrow> doc \<Rightarrow> doc" where
  "apply_update u d =
     (let d' = (case map_of u ''$set'' of Some (BDoc fs) \<Rightarrow> set_fields fs d | _ \<Rightarrow> d) in
      case map_of u ''$inc'' of Some (BDoc fs) \<Rightarrow> inc_fields fs d' | _ \<Rightarrow> d')"

fun update_first :: "string \<Rightarrow> doc \<Rightarrow> doc \<Rightarrow> store \<Rightarrow> store" where
  "update_first c flt u [] = []"
| "update_first c flt u ((c', d) # s) =
     (if c' = c \<and> matches flt d then (c', apply_update u d) # s else (c', d) # update_first c flt u s)"

definition new_key :: "store \<Rightarrow> string" where
  "new_key s = CHR ''n'' # show_nat (length s)"

definition add_doc :: "string \<Rightarrow> doc \<Rightarrow> store \<Rightarrow> store" where
  "add_doc c d s = (c, (''_id'', BOid (new_key s)) # d) # s"

definition memory :: "store mongo" where
  "memory = \<lparr>
     oid = (\<lambda>s. if s = [] then Inl (sys_error 1 ''bad oid'') else Inr s),
     oid_time = (\<lambda>_. 7),
     bad_get = (\<lambda>_. sys_error 2 ''element''),
     clock = (\<lambda>_. 9),
     db_find_one = (\<lambda>c flt s. (Inr (case find_docs c flt s of [] \<Rightarrow> None | d # _ \<Rightarrow> Some d), s)),
     db_find = (\<lambda>c flt srt s. (Inr (find_docs c flt s, None), s)),
     db_insert_one = (\<lambda>c d s. (Inr (new_key s), add_doc c d s)),
     db_update_one = (\<lambda>c flt u s. (Inr (), update_first c flt u s)),
     db_update_many = (\<lambda>c flt u s.
       (Inr (), map (\<lambda>(c', d). if c' = c \<and> matches flt d then (c', apply_update u d) else (c', d)) s)),
     db_find_one_and_update = (\<lambda>c flt u s.
       (Inr (case find_docs c flt s of [] \<Rightarrow> None | d # _ \<Rightarrow> Some d), update_first c flt u s)),
     db_bulk_insert = (\<lambda>c ds s. (Inr (), fold (add_doc c) ds s)),
     stale_views = (\<lambda>ds. ds)\<rparr>"

lemma memory_sel [simp]:
  "oid memory = (\<lambda>s. if s = [] then Inl (sys_error 1 ''bad oid'') else Inr s)"
  "bad_get memory = (\<lambda>_. sys_error 2 ''element'')" "oid_time memory k = 7" "clock memory s = 9"
  "db_find_one memory c flt s = (Inr (case find_docs c flt s of [] \<Rightarrow> None | d # _ \<Rightarrow> Some d), s)"
  "db_find memory c flt srt s = (Inr (find_docs c flt s, None), s)"
  "db_insert_one memory c d s = (Inr (new_key s), add_doc c d s)"
  "db_update_one memory c flt u s = (Inr (), update_first c flt u s)"
  "db_find_one_and_update memory c flt u s =
     (Inr (case find_docs c flt s of [] \<Rightarrow> None | d # _ \<Rightarrow> Some d), update_first c flt u s)"
  "db_bulk_insert memory c ds s = (Inr (), fold (add_doc c) ds s)" "stale_views memory ds = ds"
  by (simp_all add: memory_def)

lemma memory_ok: "mongo_ok memory"
  by (simp add: mongo_ok_def memory_def sys_only_def wp_def)

lemma find_docs_Cons:
  "find_docs c flt ((c', d) # s) = (if c' = c \<and> matches flt d then d # find_docs c flt s else find_docs c flt s)"
  by (simp add: find_docs_def)

lemma find_docs_Nil [simp]: "find_docs c flt [] = []"
  by (simp add: find_docs_def)

lemma find_docs_update:
  assumes "find_docs c flt s = d # ds" and "matches flt (apply_update u d)"
  shows "find_docs c flt (update_first c flt u s) = apply_update u d # ds"
  using assms by (induction s) (auto simp: find_docs_Cons split: if_splits)

lemma find_docs_add: "find_docs c flt (add_doc c d s) = (if matches flt ((''_id'', BOid (new_key s)) # d)
     then ((''_id'', BOid (new_key s)) # d) # find_docs c flt s else find_docs c flt s)"
  by (simp add: add_doc_def find_docs_Cons)

lemma find_docs_update_other: "c \<noteq> c' \<Longrightarrow> find_docs c flt (update_first c' f u s) = find_docs c flt s"
  by (induction s) (auto simp: find_docs_Cons)

lemma find_docs_other: "c \<noteq> c' \<Longrightarrow> find_docs c flt (add_doc c' d s) = find_docs c flt s"
  by (simp add: add_doc_def find_docs_Cons)

section \<open>A codec\<close>

text \<open>Every message is the two bytes of its type; parsing yields the empty message of the type.\<close>

definition plain_codec :: codec where
  "plain_codec = \<lparr>ser = (\<lambda>any. [chat_code (dispatchType any), 10]),
     parse_Error = (\<lambda>_. Error_new), parse_Register = (\<lambda>_. Register_new),
     parse_Login = (\<lambda>_. Login_new), parse_LoginRes = (\<lambda>_. LoginRes_new),
     parse_Logout = (\<lambda>_. Logout_new), parse_ClientConnect = (\<lambda>_. ClientConnect_new),
     parse_ClientDisConnect = (\<lambda>_. ClientDisConnect_new), parse_QueryUser = (\<lambda>_. QueryUser_new),
     parse_QueryUserVersion = (\<lambda>_. QueryUserVersion_new), parse_AddFriend = (\<lambda>_. AddFriend_new),
     parse_AddFriendRes = (\<lambda>_. AddFriendRes_new),
     parse_AddFriendAuthorize = (\<lambda>_. AddFriendAuthorize_new),
     parse_AddFriendAuthorizeRes = (\<lambda>_. AddFriendAuthorizeRes_new),
     parse_CreateGroup = (\<lambda>_. CreateGroup_new), parse_GroupAddMember = (\<lambda>_. GroupAddMember_new),
     parse_QueryNodeVersion = (\<lambda>_. QueryNodeVersion_new), parse_QueryNode = (\<lambda>_. QueryNode_new),
     parse_NodeMessage = (\<lambda>_. NodeMessage_new), parse_QueryMessage = (\<lambda>_. QueryMessage_new),
     parse_QueryOneMessage = (\<lambda>_. QueryOneMessage_new),
     parse_NodeMessageRes = (\<lambda>_. NodeMessageRes_new), parse_Media = (\<lambda>_. Media_new),
     parse_QueryMedia = (\<lambda>_. QueryMedia_new), parse_QueryAddfriendInfo = (\<lambda>_. QueryAddfriendInfo_new),
     parse_Ping = (\<lambda>_. Ping_new), parse_SetUserProperty = (\<lambda>_. SetUserProperty_new)\<rparr>"

end
