(* ===== verification/Store.thy ===== *)
theory Store
  imports Memory
begin

text \<open>
  The properties of \<open>mongo_client\<close> (\<open>yijian/mongo.cxx\<close>): what is stored can be read back, what is
  lost or cannot be read, and how the guarded operations fail.
\<close>

section \<open>Round trips\<close>

text \<open>What the driver documents of \<open>insert_one\<close>: the new document is found under the returned id.\<close>

definition stores_docs :: "'db mongo \<Rightarrow> bool" where
  "stores_docs M \<longleftrightarrow> (\<forall>c d s key s'. db_insert_one M c d s = (Inr key, s') \<longrightarrow>
     oid M key = Inr key \<and> db_find_one M c [(''_id'', BOid key)] s' = (Inr (Some ((''_id'', BOid key) # d)), s'))"

text \<open>A registered user is found under the id \<open>insertUser\<close> returned, with the registered name,
  country code, phone number and password, male, version 1, and no friends, groups or devices.\<close>

theorem user_roundtrip:
  assumes M: "stores_docs M" and i: "insertUser M enroll s = (Inr key, s')"
  shows "queryUser M key s' = (Inr (User_new\<lparr>User_id := key,
       User_nickname := Register_nickname enroll, User_isMale := True,
       User_countryCode := Register_countryCode enroll, User_phoneNo := Register_phoneNo enroll,
       User_password := Register_password enroll, User_version := 1\<rparr>), s')"
proof -
  have "db_insert_one M ''user'' (user_document enroll) s = (Inr key, s')"
    using i by (auto simp: insertUser_def rethrow_def catch_system_error_def act_defs split: prod.splits sum.splits if_splits)
  then have "oid M key = Inr key" and "db_find_one M ''user'' [(''_id'', BOid key)] s'
      = (Inr (Some ((''_id'', BOid key) # user_document enroll)), s')"
    using M by (simp_all add: stores_docs_def)
  then show ?thesis by (simp add: queryUser_def act_defs user_document_read)
qed

lemma memory_stores: "stores_docs memory"
  by (simp add: stores_docs_def new_key_def add_doc_def find_docs_Cons matches_def)

lemma user_roundtrip_witness:
  "queryUser memory (new_key []) (add_doc ''user'' (user_document Register_new) [])
     = (Inr (User_new\<lparr>User_id := new_key [], User_nickname := Register_nickname Register_new, User_isMale := True,
       User_countryCode := Register_countryCode Register_new, User_phoneNo := Register_phoneNo Register_new,
       User_password := Register_password Register_new, User_version := 1\<rparr>),
        add_doc ''user'' (user_document Register_new) [])"
  by (rule user_roundtrip [OF memory_stores])
    (simp add: insertUser_def rethrow_def catch_system_error_def)

text \<open>A message that \<open>insertMessage\<close> stored is read by \<open>queryMessage\<close> under the node and the
  increment id it was given, with the id and the time stamp of the answer, the sender, the type and
  the content; the receiver (\<open>toUserID_outer\<close>) is not stored.\<close>

theorem message_roundtrip:
  assumes i: "insertMessage M message s = (Inr res, s')"
    and f: "db_find_one M ''nodeMessage'' [(''toNodeID'', BStr (NodeMessage_toNodeID message)),
         (''incrementID'', BInt32 (NodeMessageRes_incrementID res))] s'
      = (Inr (Some ((''_id'', BOid (NodeMessageRes_id res)) # message_document message (NodeMessageRes_incrementID res))), s'')"
  shows "queryMessage_one M (NodeMessage_toNodeID message) (NodeMessageRes_incrementID res) s'
     = (Inr (message\<lparr>NodeMessage_id := NodeMessageRes_id res, NodeMessage_toUserID_outer := [],
         NodeMessage_incrementID := NodeMessageRes_incrementID res,
         NodeMessage_timestamp := NodeMessageRes_timestamp res\<rparr>), s'')"
proof -
  have "NodeMessageRes_timestamp res = oid_time M (NodeMessageRes_id res)"
    using i by (auto simp: insertMessage_def rethrow_def catch_system_error_def act_defs NodeMessageRes_new_def
        split: prod.splits sum.splits if_splits option.splits)
  then show ?thesis using f
    by (cases message) (simp add: queryMessage_one_def act_defs message_document_read NodeMessage_new_def)
qed

lemma message_roundtrip_witness:
  "\<exists>res s. insertMessage memory (NodeMessage_new\<lparr>NodeMessage_toNodeID := ''g''\<rparr>)
       [(''messageNodeCount'', [(''nodeID'', BStr ''g''), (''count'', BInt32 4)])] = (Inr res, s)
     \<and> NodeMessageRes_incrementID res = 4
     \<and> fst (queryMessage_one memory ''g'' 4 s) = Inr (NodeMessage_new\<lparr>NodeMessage_toNodeID := ''g'',
         NodeMessage_id := NodeMessageRes_id res, NodeMessage_toUserID_outer := [],
         NodeMessage_incrementID := 4, NodeMessage_timestamp := NodeMessageRes_timestamp res\<rparr>)"
proof -
  let ?m = "NodeMessage_new\<lparr>NodeMessage_toNodeID := ''g''\<rparr>"
  let ?old = "[(''messageNodeCount'', [(''nodeID'', BStr ''g''), (''count'', BInt32 4)])]"
  let ?mid = "update_first ''messageNodeCount'' [(''nodeID'', BStr ''g'')] [(''$inc'', BDoc [(''count'', BInt32 1)])] ?old"
  let ?new = "add_doc ''nodeMessage'' (message_document ?m 4) ?mid"
  let ?res = "NodeMessageRes_new\<lparr>NodeMessageRes_id := new_key ?mid, NodeMessageRes_incrementID := 4, NodeMessageRes_timestamp := 7\<rparr>"
  have i: "insertMessage memory ?m ?old = (Inr ?res, ?new)"
    by (simp add: insertMessage_def rethrow_def catch_system_error_def act_defs find_docs_Cons matches_def
        NodeMessage_new_def field_defs get_int32_def)
  have "queryMessage_one memory (NodeMessage_toNodeID ?m) (NodeMessageRes_incrementID ?res) ?new
     = (Inr (?m\<lparr>NodeMessage_id := NodeMessageRes_id ?res, NodeMessage_toUserID_outer := [],
         NodeMessage_incrementID := NodeMessageRes_incrementID ?res,
         NodeMessage_timestamp := NodeMessageRes_timestamp ?res\<rparr>), ?new)"
    by (rule message_roundtrip [OF i])
      (simp add: add_doc_def find_docs_Cons matches_def message_document_def NodeMessage_new_def NodeMessageRes_new_def)
  then show ?thesis
    using i by (simp add: NodeMessage_new_def NodeMessageRes_new_def)
qed

text \<open>Registering a device with a user keeps everything but its nickname: the document
  \<open>insertDevice\<close> pushes reads back with an empty one, the document of \<open>updateDevice\<close> exactly.\<close>

theorem device_documents:
  "deviceDocument M (new_device_document device) = Inr (device\<lparr>Device_deviceNickname := []\<rparr>)
   \<and> deviceDocument M (device_document device) = Inr device"
  by (simp add: new_device_document_read device_document_read)

text \<open>A connection record that \<open>insertUUID\<close> stored is found by \<open>findUUID\<close> with its user,
  login, connection and notification flags and all its sessions; the three version strings and the
  time stamp are not read, they stay what the caller's object had.\<close>

theorem connection_roundtrip:
  assumes "distinct (map fst (ConnectInfo_users ci))"
    and "db_find_one M ''connectInfo'' [(''UUID'', BStr (ConnectInfo_UUID ci))] db
      = (Inr (Some ((''_id'', key) # (''UUID'', BStr (ConnectInfo_UUID ci)) # connectInfo_fields ci ts)), db')"
  shows "findUUID M (ConnectInfo_UUID ci) c db = (Inr True,
     ci\<lparr>ConnectInfo_serverName := SERVER_NAME, ConnectInfo_clientVersion := ConnectInfo_clientVersion c,
       ConnectInfo_OSVersion := ConnectInfo_OSVersion c, ConnectInfo_appVersion := ConnectInfo_appVersion c,
       ConnectInfo_timestamp := ConnectInfo_timestamp c\<rparr>, db')"
  using assms(2) connectInfo_read [OF assms(1), of M "ConnectInfo_UUID ci" key "BStr (ConnectInfo_UUID ci)" ts c]
  by (cases ci; cases c) (simp add: findUUID_def)

lemma connection_roundtrip_witness:
  "findUUID memory ''phone'' ConnectInfo_new
     [(''connectInfo'', (''_id'', BOid ''n0'') # (''UUID'', BStr ''phone'') # connectInfo_fields
        (ConnectInfo_new\<lparr>ConnectInfo_UUID := ''phone'', ConnectInfo_users := [(''ann'', 100), (''bob'', 205)]\<rparr>) 3)]
   = (Inr True, ConnectInfo_new\<lparr>ConnectInfo_UUID := ''phone'', ConnectInfo_users := [(''ann'', 100), (''bob'', 205)],
        ConnectInfo_serverName := SERVER_NAME\<rparr>,
      [(''connectInfo'', (''_id'', BOid ''n0'') # (''UUID'', BStr ''phone'') # connectInfo_fields
        (ConnectInfo_new\<lparr>ConnectInfo_UUID := ''phone'', ConnectInfo_users := [(''ann'', 100), (''bob'', 205)]\<rparr>) 3)])"
  using connection_roundtrip [of "ConnectInfo_new\<lparr>ConnectInfo_UUID := ''phone'',
      ConnectInfo_users := [(''ann'', 100), (''bob'', 205)]\<rparr>" memory
      "[(''connectInfo'', (''_id'', BOid ''n0'') # (''UUID'', BStr ''phone'') # connectInfo_fields
        (ConnectInfo_new\<lparr>ConnectInfo_UUID := ''phone'', ConnectInfo_users := [(''ann'', 100), (''bob'', 205)]\<rparr>) 3)]"
      "BOid ''n0''" 3 _ ConnectInfo_new]
  by (simp add: find_docs_Cons matches_def ConnectInfo_new_def)

section \<open>Friend requests\<close>

text \<open>The key of a friend request does not depend on who invites, and for ids without an
  underscore it determines the two users.\<close>

theorem friend_key:
  "littleIDBigID a b = littleIDBigID b a
   \<and> (CHR ''_'' \<notin> set (a @ b @ c @ d) \<longrightarrow> littleIDBigID a b = littleIDBigID c d \<longrightarrow> {a, b} = {c, d})"
proof -
  let ?b = "CHR ''_''"
  have cut: "x = x' \<and> y = y'" if e: "x @ ?b # y = x' @ ?b # y'" and n: "?b \<notin> set x" "?b \<notin> set x'" for x y x' y'
  proof -
    have t: "takeWhile (\<lambda>k. k \<noteq> ?b) (z @ ?b # w) = z" if "?b \<notin> set z" for z w
      using that by (induction z) auto
    have "x = x'" using t [OF n(1), of y] t [OF n(2), of y'] by (simp only: e)
    then show ?thesis using e by simp
  qed
  have sym: "littleIDBigID a b = littleIDBigID b a" by (auto simp: littleIDBigID_def)
  have "{a, b} = {c, d}" if n: "?b \<notin> set (a @ b @ c @ d)" and e: "littleIDBigID a b = littleIDBigID c d"
  proof -
    have n': "?b \<notin> set a" "?b \<notin> set b" "?b \<notin> set c" "?b \<notin> set d" using n by simp_all
    obtain p q where p: "littleIDBigID a b = p @ ?b # q" "{p, q} = {a, b}" "?b \<notin> set p"
      using n' by (cases "a < b") (auto simp: littleIDBigID_def)
    obtain r t where r: "littleIDBigID c d = r @ ?b # t" "{r, t} = {c, d}" "?b \<notin> set r"
      using n' by (cases "c < d") (auto simp: littleIDBigID_def)
    have "p = r \<and> q = t" by (rule cut [OF _ p(3) r(3)]) (use e p(1) r(1) in simp)
    then show ?thesis using p(2) r(2) by simp
  qed
  then show ?thesis using sym by blast
qed

lemma friend_key_witness:
  "littleIDBigID ''ann'' ''bob'' = littleIDBigID ''bob'' ''ann'' \<and> {''ann'', ''bob''} = {''bob'', ''ann'' :: string}"
  using friend_key [of "''ann''" "''bob''" "''bob''" "''ann''"] by simp

text \<open>A friend request can be authorised only in the state \<open>createNodeCount\<close>: without a request
  \<open>addFriendAuthorize\<close> throws 40008, in any other state, so also after it has been authorised,
  40009, and nothing is written.\<close>

theorem authorize_gate:
  assumes "db_find_one M ''addFriend'' [(''littleIDBigID'', BStr (littleIDBigID inviter invitee))] s = (Inr found, s')"
    and "case found of None \<Rightarrow> True | Some view \<Rightarrow> \<exists>status. utf8 M view ''status'' = Inr status \<and> status \<noteq> ''createNodeCount''"
  shows "addFriendAuthorize M inviter invitee s = (Inl (case found of
      None \<Rightarrow> sys_error 40008 ''not find add friend request''
    | Some view \<Rightarrow> sys_error 40009 ''add friend authorize info not consistently''), s')"
  using assms by (auto simp: addFriendAuthorize_def Let_def act_defs split: option.splits)

lemma authorize_gate_witness:
  "addFriendAuthorize memory ''ann'' ''bob''
     [(''addFriend'', [(''littleIDBigID'', BStr (littleIDBigID ''ann'' ''bob'')), (''status'', BStr ''finish'')])]
   = (Inl (sys_error 40009 ''add friend authorize info not consistently''),
      [(''addFriend'', [(''littleIDBigID'', BStr (littleIDBigID ''ann'' ''bob'')), (''status'', BStr ''finish'')])])"
  using authorize_gate [of memory "''ann''" "''bob''"
      "[(''addFriend'', [(''littleIDBigID'', BStr (littleIDBigID ''ann'' ''bob'')), (''status'', BStr ''finish'')])]"
      "Some [(''littleIDBigID'', BStr (littleIDBigID ''ann'' ''bob'')), (''status'', BStr ''finish'')]"]
  by (simp add: find_docs_Cons matches_def field_defs get_utf8_def)

section \<open>Groups\<close>

text \<open>The message node \<open>createGroup\<close> writes cannot be read: it stores the members under
  \<open>memebers\<close> and \<open>queryNode\<close> reads \<open>members\<close>, so every later query of the node throws.\<close>

theorem group_node_lost:
  assumes "oid M key = Inr key"
    and "db_find_one M ''messageNode'' [(''_id'', BOid key)] s = (Inr (Some ((''_id'', BOid key) # group_node_document cGroup)), s')"
  shows "queryNode M key s = (Inl (bad_get M None), s')"
  using assms by (simp add: queryNode_def act_defs group_node_unreadable)

lemma group_node_lost_witness:
  "fst (queryNode memory (new_key []) (add_doc ''messageNode'' (group_node_document CreateGroup_new) []))
     = Inl (sys_error 2 ''element'')"
  using group_node_lost [of memory "new_key []" "add_doc ''messageNode'' (group_node_document CreateGroup_new) []"
      CreateGroup_new]
  by (simp add: new_key_def add_doc_def find_docs_Cons matches_def)

section \<open>Message numbers\<close>

text \<open>
  What the driver documents of the counter \<open>cnt\<close> of a node: \<open>find_one_and_update\<close> returns the document
  as it was and increments, and inserting messages does not touch it.
\<close>

definition counts :: "'db mongo \<Rightarrow> string \<Rightarrow> ('db \<Rightarrow> int option) \<Rightarrow> bool" where
  "counts M node cnt \<longleftrightarrow>
     (\<forall>s n. cnt s = Some n \<longrightarrow> (\<exists>view s'. db_find_one_and_update M ''messageNodeCount''
         [(''nodeID'', BStr node)] [(''$inc'', BDoc [(''count'', BInt32 1)])] s = (Inr (Some view), s')
        \<and> map_of view ''count'' = Some (BInt32 n) \<and> cnt s' = Some (n + 1)))
     \<and> (\<forall>d s. \<exists>key s'. db_insert_one M ''nodeMessage'' d s = (Inr key, s') \<and> cnt s' = cnt s)"

primrec insertMessages :: "'db mongo \<Rightarrow> NodeMessage list \<Rightarrow> ('db, NodeMessageRes list) act" where
  "insertMessages M [] = ret []"
| "insertMessages M (m # ms) =
     act_bind (insertMessage M m) (\<lambda>r. act_bind (insertMessages M ms) (\<lambda>rs. ret (r # rs)))"

lemma insertMessage_counts:
  assumes c: "counts M (NodeMessage_toNodeID m) cnt" and n: "cnt s = Some n"
  shows "\<exists>r s'. insertMessage M m s = (Inr r, s') \<and> NodeMessageRes_incrementID r = n \<and> cnt s' = Some (n + 1)"
proof -
  obtain view t where t: "db_find_one_and_update M ''messageNodeCount'' [(''nodeID'', BStr (NodeMessage_toNodeID m))]
      [(''$inc'', BDoc [(''count'', BInt32 1)])] s = (Inr (Some view), t)"
      "map_of view ''count'' = Some (BInt32 n)" "cnt t = Some (n + 1)"
    using c n unfolding counts_def by blast
  obtain key s' where "db_insert_one M ''nodeMessage'' (message_document m n) t = (Inr key, s')" "cnt s' = cnt t"
    using c unfolding counts_def by blast
  then show ?thesis using t
    by (simp add: insertMessage_def rethrow_def catch_system_error_def act_defs field_defs get_int32_def
        NodeMessageRes_new_def)
qed

text \<open>The messages stored in a node are numbered consecutively in the order they arrive, starting
  with the value of the node's counter; a new node's counter is 0.\<close>

theorem message_numbers:
  assumes "counts M node cnt" and "cnt s = Some n" and "\<forall>m \<in> set ms. NodeMessage_toNodeID m = node"
  shows "\<exists>rs s'. insertMessages M ms s = (Inr rs, s')
     \<and> map NodeMessageRes_incrementID rs = [n .. n + int (length ms) - 1] \<and> cnt s' = Some (n + int (length ms))"
  using assms
proof (induction ms arbitrary: s n)
  case Nil
  then show ?case by (simp add: act_defs)
next
  case (Cons m ms)
  obtain r t where t: "insertMessage M m s = (Inr r, t)" "NodeMessageRes_incrementID r = n" "cnt t = Some (n + 1)"
    using insertMessage_counts [of M m cnt s n] Cons.prems by auto
  obtain rs s' where "insertMessages M ms t = (Inr rs, s')"
      "map NodeMessageRes_incrementID rs = [n + 1 .. n + 1 + int (length ms) - 1]"
      "cnt s' = Some (n + 1 + int (length ms))"
    using Cons.IH [of t "n + 1"] Cons.prems t(3) by auto
  then show ?case using t by (simp add: act_defs upto_rec1 [of n] algebra_simps)
qed

definition memory_count :: "string \<Rightarrow> store \<Rightarrow> int option" where
  "memory_count node s = (case find_docs ''messageNodeCount'' [(''nodeID'', BStr node)] s of
     d # _ \<Rightarrow> (case map_of d ''count'' of Some (BInt32 n) \<Rightarrow> Some n | _ \<Rightarrow> None) | [] \<Rightarrow> None)"

lemma map_of_AList_update: "map_of (AList.update k v d) = (map_of d)(k \<mapsto> v)"
  by (rule update_conv')

lemma memory_counts: "counts memory node (memory_count node)"
proof -
  let ?f = "[(''nodeID'', BStr node)]" and ?u = "[(''$inc'', BDoc [(''count'', BInt32 1)])]"
  have "\<exists>view s'. db_find_one_and_update memory ''messageNodeCount'' ?f ?u s = (Inr (Some view), s')
      \<and> map_of view ''count'' = Some (BInt32 n) \<and> memory_count node s' = Some (n + 1)"
    if n: "memory_count node s = Some n" for s n
  proof -
    obtain d ds where d: "find_docs ''messageNodeCount'' ?f s = d # ds" "map_of d ''count'' = Some (BInt32 n)"
      using n by (auto simp: memory_count_def split: list.splits option.splits bson.splits)
    have "matches ?f d" using d(1) by (auto simp: find_docs_def filter_eq_Cons_iff)
    moreover have a: "map_of (apply_update ?u d) = (map_of d)(''count'' \<mapsto> BInt32 (n + 1))"
      using d(2) by (simp add: apply_update_def inc_fields_def map_of_AList_update)
    ultimately have "matches ?f (apply_update ?u d)" by (simp add: matches_def)
    from find_docs_update [OF d(1) this] show ?thesis
      using d a by (simp add: memory_count_def)
  qed
  then show ?thesis
    by (simp add: counts_def memory_count_def find_docs_other)
qed

lemma message_numbers_witness:
  "\<exists>rs s'. insertMessages memory [NodeMessage_new\<lparr>NodeMessage_toNodeID := ''g''\<rparr>, NodeMessage_new\<lparr>NodeMessage_toNodeID := ''g''\<rparr>]
       [(''messageNodeCount'', [(''nodeID'', BStr ''g''), (''count'', BInt32 0)])] = (Inr rs, s')
     \<and> map NodeMessageRes_incrementID rs = [0, 1] \<and> memory_count ''g'' s' = Some 2"
  using message_numbers [OF memory_counts [of "''g''"],
      of "[(''messageNodeCount'', [(''nodeID'', BStr ''g''), (''count'', BInt32 0)])]" 0
         "[NodeMessage_new\<lparr>NodeMessage_toNodeID := ''g''\<rparr>, NodeMessage_new\<lparr>NodeMessage_toNodeID := ''g''\<rparr>]"]
  by (simp add: memory_count_def find_docs_Cons matches_def upto_rec1)

section \<open>User properties\<close>

text \<open>
  What the driver documents of \<open>update_one\<close> with \<open>$set\<close> and \<open>$inc\<close> on a document found by its id, as
  long as the incremented \<open>int32\<close> does not overflow.
\<close>

definition updates_docs :: "'db mongo \<Rightarrow> bool" where
  "updates_docs M \<longleftrightarrow> (\<forall>c key s d t fs s' v. db_find_one M c [(''_id'', BOid key)] s = (Inr (Some d), t)
      \<longrightarrow> db_update_one M c [(''_id'', BOid key)] [(''$set'', BDoc fs), (''$inc'', BDoc [(''version'', BInt32 1)])] s
        = (Inr (), s')
      \<longrightarrow> ''_id'' \<notin> fst ` set fs \<longrightarrow> map_of d ''version'' = Some (BInt32 v) \<longrightarrow> v < 2 ^ 31 - 1
      \<longrightarrow> (\<exists>t'. db_find_one M c [(''_id'', BOid key)] s'
        = (Inr (Some (apply_update [(''$set'', BDoc fs), (''$inc'', BDoc [(''version'', BInt32 1)])] d)), t')))"

text \<open>The user after setting a property.\<close>

definition with_property :: "SetUserProperty \<Rightarrow> User \<Rightarrow> User" where
  "with_property property u =
     (let p = SetUserProperty_property property; v = SetUserProperty_value property in
      if p = UserProperty_realname then u\<lparr>User_realname := v\<rparr>
      else if p = UserProperty_nickname then u\<lparr>User_nickname := v\<rparr>
      else if p = UserProperty_icon then u\<lparr>User_icon := v\<rparr>
      else if p = UserProperty_description then u\<lparr>User_description := v\<rparr>
      else if p = UserProperty_birthday then u\<lparr>User_birthday := projr (stoi v)\<rparr>
      else u\<lparr>User_isMale := (hd v = CHR ''t'')\<rparr>)"

lemma get_Inr:
  "get_utf8 M b = Inr x \<longleftrightarrow> b = Some (BStr x)" "get_int32 M b = Inr i \<longleftrightarrow> b = Some (BInt32 i)"
  "get_bool M b = Inr y \<longleftrightarrow> b = Some (BBool y)" "get_oid M b = Inr x \<longleftrightarrow> b = Some (BOid x)"
  by (auto simp: get_defs split: option.splits bson.splits)

lemma res_bind_Inr: "res_bind r f = Inr y \<longleftrightarrow> (\<exists>x. r = Inr x \<and> f x = Inr y)"
  by (cases r) simp_all

lemma userDocoument_iff:
  "userDocoument M d = Inr u \<longleftrightarrow>
     map_of d ''_id'' = Some (BOid (User_id u)) \<and> map_of d ''realname'' = Some (BStr (User_realname u))
     \<and> map_of d ''nickname'' = Some (BStr (User_nickname u)) \<and> map_of d ''icon'' = Some (BStr (User_icon u))
     \<and> map_of d ''description'' = Some (BStr (User_description u))
     \<and> map_of d ''isMale'' = Some (BBool (User_isMale u))
     \<and> map_of d ''countryCode'' = Some (BStr (User_countryCode u))
     \<and> map_of d ''phoneNo'' = Some (BStr (User_phoneNo u)) \<and> map_of d ''password'' = Some (BStr (User_password u))
     \<and> map_of d ''birthday'' = Some (BInt32 (User_birthday u)) \<and> map_of d ''version'' = Some (BInt32 (User_version u))
     \<and> doc_array M d ''friends'' (userinfoDocument M) = Inr (User_friends u)
     \<and> utf8_array M d ''blacklist'' = Inr (User_blacklist u) \<and> utf8_array M d ''groupNodeIDs'' = Inr (User_groupNodeIDs u)
     \<and> doc_array M d ''devices'' (deviceDocument M) = Inr (User_devices u)"
  by (cases u) (auto simp: userDocoument_def userNodocNoarr_def field_defs res_bind_Inr get_Inr User_new_def)

text \<open>Which single update \<open>setUserProperty\<close> makes.\<close>

lemma setUserProperty_update:
  assumes "setUserProperty M uid property s = (Inr (), s')"
  obtains name v key where "property_string (SetUserProperty_property property) = Some name"
    and "oid M uid = Inr key"
    and "db_update_one M ''user'' [(''_id'', BOid key)]
        [(''$set'', BDoc [(name, v)]), (''$inc'', BDoc [(''version'', BInt32 1)])] s = (Inr (), s')"
    and "v = (if name = ''isMale'' then BBool (hd (SetUserProperty_value property) = CHR ''t'')
              else if name = ''birthday'' then BInt32 (projr (stoi (SetUserProperty_value property)))
              else BStr (SetUserProperty_value property))"
proof -
  obtain name where n: "property_string (SetUserProperty_property property) = Some name"
    using assms by (cases "property_string (SetUserProperty_property property)") (simp_all add: setUserProperty_def act_defs)
  let ?val = "SetUserProperty_value property"
  let ?m = "if take 2 name = ''is'' then (case ?val of [] \<Rightarrow> raise Undefined | c # cs \<Rightarrow> ret (BBool (c = CHR ''t'')))
      else if name = ''birthday'' then act_bind (lift_exn (stoi ?val)) (\<lambda>i. ret (BInt32 i)) else ret (BStr ?val)"
  have nm: "take 2 name = ''is'' \<longleftrightarrow> name = ''isMale''"
    using n by (simp add: property_string_def split: if_splits) auto
  have m: "w = (if name = ''isMale'' then BBool (hd ?val = CHR ''t'')
      else if name = ''birthday'' then BInt32 (projr (stoi ?val)) else BStr ?val) \<and> t = s" if "?m s = (Inr w, t)" for w t
    using that unfolding nm
    by (cases "name = ''isMale''"; cases "name = ''birthday''"; cases ?val; cases "stoi ?val") (simp_all add: act_defs)
  have "act_bind ?m (\<lambda>value. act_bind (lift_exn (oid M uid)) (\<lambda>key. db_update_one M ''user'' [(''_id'', BOid key)]
      [(''$set'', BDoc [(name, value)]), (''$inc'', BDoc [(''version'', BInt32 1)])])) s = (Inr (), s')"
    using assms unfolding setUserProperty_def n option.case .
  then obtain w t key where "?m s = (Inr w, t)" "oid M uid = Inr key" "db_update_one M ''user'' [(''_id'', BOid key)]
      [(''$set'', BDoc [(name, w)]), (''$inc'', BDoc [(''version'', BInt32 1)])] t = (Inr (), s')"
    unfolding act_bind_def lift_exn_def by (auto split: prod.splits sum.splits simp del: if_split)
  then show thesis using m n that by blast
qed

lemmas property_codes = UserProperty_realname_def UserProperty_nickname_def UserProperty_icon_def
  UserProperty_description_def UserProperty_birthday_def UserProperty_isMale_def

lemma property_string_cases:
  assumes "property_string p = Some name"
  obtains (realname) "p = UserProperty_realname" "name = ''realname''"
    | (nickname) "p = UserProperty_nickname" "name = ''nickname''"
    | (icon) "p = UserProperty_icon" "name = ''icon''"
    | (description) "p = UserProperty_description" "name = ''description''"
    | (birthday) "p = UserProperty_birthday" "name = ''birthday''"
    | (isMale) "p = UserProperty_isMale" "name = ''isMale''"
  using assms by (auto simp: property_string_def split: if_splits)

text \<open>C27: Setting a property and querying the user gives the user with that property set, in the type
  the reader expects (a flag, a number, a string), the version one higher, everything else as before.\<close>

theorem property_set_get:
  assumes M: "updates_docs M" and q: "queryUser M uid s = (Inr u, t)" and v: "User_version u < 2 ^ 31 - 1"
    and p: "setUserProperty M uid property s = (Inr (), s')"
  shows "\<exists>t'. queryUser M uid s' = (Inr ((with_property property u)\<lparr>User_version := User_version u + 1\<rparr>), t')"
proof -
  obtain key d where d: "oid M uid = Inr key" "db_find_one M ''user'' [(''_id'', BOid key)] s = (Inr (Some d), t)"
      "userDocoument M d = Inr u"
    using q by (auto simp: queryUser_def act_defs split: sum.splits prod.splits option.splits)
  obtain name b key' where n: "property_string (SetUserProperty_property property) = Some name"
    and k: "oid M uid = Inr key'"
    and up': "db_update_one M ''user'' [(''_id'', BOid key')]
        [(''$set'', BDoc [(name, b)]), (''$inc'', BDoc [(''version'', BInt32 1)])] s = (Inr (), s')"
    and b: "b = (if name = ''isMale'' then BBool (hd (SetUserProperty_value property) = CHR ''t'')
              else if name = ''birthday'' then BInt32 (projr (stoi (SetUserProperty_value property)))
              else BStr (SetUserProperty_value property))"
    by (rule setUserProperty_update [OF p])
  have up: "db_update_one M ''user'' [(''_id'', BOid key)]
        [(''$set'', BDoc [(name, b)]), (''$inc'', BDoc [(''version'', BInt32 1)])] s = (Inr (), s')"
    using up' k d(1) by simp
  have names: "name \<noteq> ''_id''" "name \<noteq> ''version''" using n by (auto simp: property_string_def split: if_splits)
  let ?u = "[(''$set'', BDoc [(name, b)]), (''$inc'', BDoc [(''version'', BInt32 1)])]"
  note ud = d(3) [unfolded userDocoument_iff]
  obtain t' where t': "db_find_one M ''user'' [(''_id'', BOid key)] s' = (Inr (Some (apply_update ?u d)), t')"
  proof -
    have "map_of d ''version'' = Some (BInt32 (User_version u))" using ud by simp
    moreover have "''_id'' \<notin> fst ` set [(name, b)]" using names by simp
    ultimately show thesis
      using M [unfolded updates_docs_def, rule_format, OF d(2) up _ _ v] that by blast
  qed
  define d' where "d' = apply_update ?u d"
  have m: "map_of d' = (map_of d)(name \<mapsto> b, ''version'' \<mapsto> BInt32 (User_version u + 1))"
    using ud names by (simp add: d'_def apply_update_def set_fields_def inc_fields_def map_of_AList_update)
  have "userDocoument M d' = Inr ((with_property property u)\<lparr>User_version := User_version u + 1\<rparr>)"
    by (rule property_string_cases [OF n]; use ud b in \<open>simp add: userDocoument_iff with_property_def
      property_codes doc_array_def utf8_array_def m\<close>)
  then show ?thesis using d(1) t' by (simp add: queryUser_def act_defs d'_def)
qed

lemma memory_updates: "updates_docs memory"
  unfolding updates_docs_def
proof (intro allI impI)
  fix c key fs v and d :: doc and s t s' :: store
  let ?u = "[(''$set'', BDoc fs), (''$inc'', BDoc [(''version'', BInt32 1)])]" and ?f = "[(''_id'', BOid key)]"
  assume f: "db_find_one memory c ?f s = (Inr (Some d), t)" and u: "db_update_one memory c ?f ?u s = (Inr (), s')"
    and fs: "''_id'' \<notin> fst ` set fs" and v: "map_of d ''version'' = Some (BInt32 v)"
  obtain ds where ds: "find_docs c ?f s = d # ds" using f by (auto split: list.splits)
  then have "matches ?f d" by (auto simp: find_docs_def filter_eq_Cons_iff)
  moreover have sf: "map_of (set_fields xs e) k = map_of e k" if "k \<notin> fst ` set xs" for xs e k
    using that unfolding set_fields_def by (induction xs arbitrary: e) (auto simp: map_of_AList_update)
  have "map_of (apply_update ?u d) ''_id'' = map_of d ''_id''"
    using sf [OF fs] by (auto simp: apply_update_def Let_def inc_fields_def map_of_AList_update split: option.split bson.split)
  ultimately have "matches ?f (apply_update ?u d)" by (simp add: matches_def)
  from find_docs_update [OF ds this] u
  show "\<exists>t'. db_find_one memory c ?f s' = (Inr (Some (apply_update ?u d)), t')" by auto
qed

lemma property_set_get_witness:
  "\<exists>s' t'. setUserProperty memory ''k'' \<lparr>SetUserProperty_property = UserProperty_birthday, SetUserProperty_value = ''19''\<rparr>
       [(''user'', (''_id'', BOid ''k'') # user_document Register_new)] = (Inr (), s')
     \<and> queryUser memory ''k'' s' = (Inr (User_new\<lparr>User_id := ''k'', User_isMale := True, User_birthday := 19,
          User_version := 2\<rparr>), t')"
proof -
  let ?p = "\<lparr>SetUserProperty_property = UserProperty_birthday, SetUserProperty_value = ''19''\<rparr>"
  let ?db = "[(''user'', (''_id'', BOid ''k'') # user_document Register_new)]"
  let ?v = "User_new\<lparr>User_id := ''k'', User_isMale := True, User_version := 1\<rparr>"
  have q: "queryUser memory ''k'' ?db = (Inr ?v, ?db)"
    by (simp add: queryUser_def act_defs find_docs_Cons matches_def user_document_read Register_new_def User_new_def)
  have st: "stoi ''19'' = Inr 19" by (simp add: stoi_def is_space_def is_digit_def)
  obtain s' where p: "setUserProperty memory ''k'' ?p ?db = (Inr (), s')"
    by (auto simp: setUserProperty_def property_string_def property_codes act_defs st)
  have "\<exists>t'. queryUser memory ''k'' s' = (Inr ((with_property ?p ?v)\<lparr>User_version := User_version ?v + 1\<rparr>), t')"
    by (rule property_set_get [OF memory_updates q _ p]) (simp add: User_new_def)
  then show ?thesis using p st
    by (auto simp: with_property_def property_codes User_new_def)
qed

end
