(* ===== verification/Service.thy ===== *)
theory Service
  imports Memory Session
begin

text \<open>
  What single requests do (\<open>yijian/server_msg_typemap.cxx\<close>): who is refused and how, what a reply
  discloses, and the requests that never succeed or that stop the server.
\<close>

section \<open>Accounts\<close>

text \<open>A concrete server with one connected device, and a user in the store.\<close>

definition one_device :: "store \<Rightarrow> (store, unit) world" where
  "one_device db =
     \<lparr>bufs = [], raw = (\<lambda>_. undefined),
      rios = [\<lparr>r_ping_time = 0, r_iter = Some 0, r_writeio = 0, r_buffer_sp_v = [], r_isConnect = True,
        r_sessionid = 101, r_userid = ''ann'', r_uuid = ''phone'', r_appVersion = [], r_clientVersion = [],
        r_active = True\<rparr>],
      wios = [\<lparr>w_readio = 0, w_buffers_p = [], w_active = False\<rparr>], conns = [()], pinglist = [(0, 0)],
      peer_list = [], next_cell = 1, uuidnode_map = [''phone'' \<mapsto> 0], currentNode = Some 0,
      connectInfo = ConnectInfo_new, node_user = NodeUser_new, node_specifiy = NodeSpecifiy_new,
      session_id = 101, pingnodes = [], workq = [], wdb = db, now = 0\<rparr>"

lemma one_device_sel [simp]:
  "currentNode (one_device db) = Some 0" "length (rios (one_device db)) = 1" "wdb (one_device db) = db"
  "r_userid (rios (one_device db) ! 0) = ''ann''" "r_uuid (rios (one_device db) ! 0) = ''phone''"
  "r_isConnect (rios (one_device db) ! 0)" "connectInfo (one_device db) = ConnectInfo_new"
  "(one_device db)\<lparr>wdb := db'\<rparr> = one_device db'"
  by (simp_all add: one_device_def)

lemma one_device_ok: "srv_inv (one_device db)"
  by (simp add: srv_inv_def one_device_def)

definition stored_user :: "string \<Rightarrow> Register \<Rightarrow> string \<times> doc" where
  "stored_user key enroll = (''user'', (''_id'', BOid key) # user_document enroll)"

lemma stored_user_read:
  "queryUser memory key (stored_user key enroll # db) = (Inr (User_new\<lparr>User_id := key,
     User_nickname := Register_nickname enroll, User_isMale := True,
     User_countryCode := Register_countryCode enroll, User_phoneNo := Register_phoneNo enroll,
     User_password := Register_password enroll, User_version := 1\<rparr>), stored_user key enroll # db)"
  if "key \<noteq> []"
  using that by (simp add: queryUser_def act_defs stored_user_def find_docs_Cons matches_def user_document_read)

lemma stored_phone_read:
  "queryUser_phone memory (Register_phoneNo enroll) (Register_countryCode enroll) (stored_user key enroll # db)
   = (Inr (User_new\<lparr>User_id := key, User_nickname := Register_nickname enroll, User_isMale := True,
     User_countryCode := Register_countryCode enroll, User_phoneNo := Register_phoneNo enroll,
     User_password := Register_password enroll, User_version := 1\<rparr>), stored_user key enroll # db)"
proof -
  have "find_docs ''user'' [(''countryCode'', BStr (Register_countryCode enroll)), (''phoneNo'', BStr (Register_phoneNo enroll))]
      (stored_user key enroll # db) = ((''_id'', BOid key) # user_document enroll) # find_docs ''user''
        [(''countryCode'', BStr (Register_countryCode enroll)), (''phoneNo'', BStr (Register_phoneNo enroll))] db"
    by (simp add: stored_user_def find_docs_Cons matches_def user_document_def)
  then show ?thesis by (simp add: queryUser_phone_def act_defs user_document_read)
qed

text \<open>A login with a wrong password gets \<open>LoginRes\<close> with \<open>isSuccess\<close> false and error 11001, and
  nothing else happens: no device, no connection record, no notification.\<close>

theorem login_wrong_password:
  assumes "queryUser_phone M (Login_phoneNo login) (Login_countryCode login) (wdb s) = (Inr user, d)"
    and "User_password user \<noteq> Login_password login"
  shows "dispatch_Login K M login s = send_self K (M_LoginRes (LoginRes_new\<lparr>LoginRes_isSuccess := False,
     LoginRes_e_no := 11001, LoginRes_e_msg := err_what (sys_error 11001 ''password or account error'')\<rparr>)) (s\<lparr>wdb := d\<rparr>)"
  using assms by (simp add: dispatch_Login_def act_defs liftdb_def zoom_def sys_error_def)

lemma login_wrong_password_witness:
  "dispatch_Login plain_codec memory (Login_new\<lparr>Login_password := ''x''\<rparr>) (one_device [stored_user ''ann'' Register_new])
   = send_self plain_codec (M_LoginRes (LoginRes_new\<lparr>LoginRes_isSuccess := False,
     LoginRes_e_no := 11001, LoginRes_e_msg := err_what (sys_error 11001 ''password or account error'')\<rparr>)) (one_device [stored_user ''ann'' Register_new])"
proof -
  let ?r = Register_new and ?l = "Login_new\<lparr>Login_password := ''x''\<rparr>"
  have "queryUser_phone memory (Login_phoneNo ?l) (Login_countryCode ?l) (wdb (one_device [stored_user ''ann'' ?r]))
      = (Inr (User_new\<lparr>User_id := ''ann'', User_nickname := Register_nickname ?r, User_isMale := True,
     User_countryCode := Register_countryCode ?r, User_phoneNo := Register_phoneNo ?r,
     User_password := Register_password ?r, User_version := 1\<rparr>), [stored_user ''ann'' ?r])"
    using stored_phone_read [of ?r "''ann''" "[]"] by (simp add: Login_new_def Register_new_def)
  from login_wrong_password [OF this] show ?thesis by (simp add: Login_new_def Register_new_def)
qed



section \<open>Friends and groups\<close>

text \<open>A friend request made in the name of another user, or with an empty id, is refused with
  11012 before the database is touched.\<close>

theorem add_friend_own_name:
  assumes "currentNode s = Some c" and "c < length (rios s)"
    and "\<not> (AddFriend_inviterID frd = r_userid (rios s ! c) \<and> AddFriend_inviterID frd \<noteq> [] \<and> AddFriend_inviteeID frd \<noteq> [])"
  shows "dispatch_AddFriend K M frd s = send_error K 11012 (err_what (sys_error 11012 ''args error'')) s"
  using assms
  by (auto simp: dispatch_AddFriend_def or_error_def act_defs current_userid_def current_def fetch_def)

lemma add_friend_own_name_witness:
  "dispatch_AddFriend plain_codec memory (AddFriend_new\<lparr>AddFriend_inviterID := ''bob'', AddFriend_inviteeID := ''eve''\<rparr>)
     (one_device []) = send_error plain_codec 11012 (err_what (sys_error 11012 ''args error'')) (one_device [])"
  by (rule add_friend_own_name [of _ 0]) (simp_all add: AddFriend_new_def)

text \<open>Being on the invitee's blacklist does not stop a friend request: the handler looks for the
  invitee's own id in that list. Whenever the invitee has not blacklisted himself and the two are not
  friends yet, the request is stored and confirmed.\<close>

theorem add_friend_ignores_blacklist:
  assumes "currentNode s = Some c" and "c < length (rios s)" and "AddFriend_inviterID frd = r_userid (rios s ! c)"
    and "AddFriend_inviterID frd \<noteq> []" and "AddFriend_inviteeID frd \<noteq> []"
    and "queryUser M (AddFriend_inviteeID frd) (wdb s) = (Inr peerUser, d1)"
    and "AddFriend_inviterID frd \<in> set (User_blacklist peerUser)"
    and "AddFriend_inviteeID frd \<notin> set (User_blacklist peerUser)"
    and "queryUser M (AddFriend_inviterID frd) d1 = (Inr user, d2)"
    and "AddFriend_inviteeID frd \<notin> UserInfo_userID ` set (User_friends user)"
    and "AddFriend_inviterID frd \<notin> UserInfo_userID ` set (User_friends peerUser)"
    and "addFriend M frd d2 = (Inr res, d3)"
  shows "\<exists>k. dispatch_AddFriend K M frd s = or_error K (act_seq (send_self K (M_AddFriendRes res)) k) (s\<lparr>wdb := d3\<rparr>)"
proof -
  let ?k = "act_seq (send_peer K (M_AddFriendRes res))
     (act_seq (set_touserid (AddFriendRes_inviteeID res))
     (act_seq (send_user K M (M_AddFriendNoti \<lparr>AddFriendNoti_response = res\<rparr>))
     (act_seq (set_touserid (AddFriendRes_inviterID res))
      (send_user K M (M_AddFriendNoti \<lparr>AddFriendNoti_response = res\<rparr>)))))"
  have "check_add_friend frd peerUser user = Inr ()" using assms by (simp add: check_add_friend_def)
  then have "dispatch_AddFriend K M frd s = or_error K (act_seq (send_self K (M_AddFriendRes res)) ?k) (s\<lparr>wdb := d3\<rparr>)"
    using assms
    by (simp add: dispatch_AddFriend_def or_error_def current_userid_def current_def fetch_def liftdb_def zoom_def
        act_bind_def [of "gets currentNode"] act_defs)
  then show ?thesis by blast
qed

lemma add_friend_ignores_blacklist_witness:
  "\<exists>k res db. dispatch_AddFriend plain_codec memory (AddFriend_new\<lparr>AddFriend_inviterID := ''ann'', AddFriend_inviteeID := ''bob''\<rparr>)
       (one_device [stored_user ''ann'' Register_new, (''user'', AList.update ''blacklist'' (BArr [BStr ''ann''])
           ((''_id'', BOid ''bob'') # user_document Register_new))])
     = or_error plain_codec (act_seq (send_self plain_codec (M_AddFriendRes res)) k) (one_device db)"
proof -
  let ?f = "AddFriend_new\<lparr>AddFriend_inviterID := ''ann'', AddFriend_inviteeID := ''bob''\<rparr>"
  let ?bob = "AList.update ''blacklist'' (BArr [BStr ''ann'']) ((''_id'', BOid ''bob'') # user_document Register_new)"
  let ?db = "[stored_user ''ann'' Register_new, (''user'', ?bob)]"
  have "userDocoument memory ?bob = Inr (User_new\<lparr>User_id := ''bob'', User_isMale := True, User_version := 1,
      User_blacklist := [''ann'']\<rparr>)"
    by (simp add: userDocoument_def userNodocNoarr_def user_document_def field_defs get_defs utf8_array_def
        doc_array_def User_new_def Register_new_def)
  then have b: "queryUser memory (AddFriend_inviteeID ?f) (wdb (one_device ?db)) = (Inr (User_new\<lparr>User_id := ''bob'',
      User_isMale := True, User_version := 1, User_blacklist := [''ann'']\<rparr>), ?db)"
    by (simp add: queryUser_def act_defs stored_user_def find_docs_Cons matches_def user_document_def AddFriend_new_def)
  have a: "queryUser memory (AddFriend_inviterID ?f) ?db = (Inr (User_new\<lparr>User_id := ''ann'',
      User_nickname := Register_nickname Register_new, User_isMale := True,
      User_countryCode := Register_countryCode Register_new, User_phoneNo := Register_phoneNo Register_new,
      User_password := Register_password Register_new, User_version := 1\<rparr>), ?db)"
    using stored_user_read [of "''ann''" Register_new "[(''user'', ?bob)]"] by (simp add: AddFriend_new_def)
  obtain res d3 where r: "addFriend memory ?f ?db = (Inr res, d3)"
    by (simp add: addFriend_def Let_def rethrow_def catch_system_error_def act_defs track_def insertMessage_def
        find_docs_add find_docs_other find_docs_update_other matches_def field_defs get_int32_def NodeMessage_new_def)
  show ?thesis
    using add_friend_ignores_blacklist [OF _ _ _ _ _ b _ _ a _ _ r, of 0 plain_codec]
    by (auto simp: AddFriend_new_def User_new_def)
qed

text \<open>The loop over the members of a new group, for a store in which every member can be read.\<close>

lemma filtrate_exec:
  assumes "\<And>m. m \<in> set ms \<Longrightarrow> queryUser M m (wdb s) = (Inr (u m), wdb s)"
  shows "filtrate M ms s = (Inr (filter (\<lambda>m. m \<in> set (User_blacklist (u m))) ms), s)"
  using assms
proof (induction ms)
  case (Cons m ms)
  have "filtrate M ms s = (Inr (filter (\<lambda>m. m \<in> set (User_blacklist (u m))) ms), s)"
    using Cons by simp
  then show ?case
    using Cons.prems [of m] by (simp add: act_defs liftdb_def zoom_def)
qed (simp add: act_defs)

text \<open>C32: A group of users none of whom has blacklisted himself is never created, however many they
  are: the filter keeps exactly the members on their own blacklist, and the handler answers 11006
  (at least 3 people) without writing anything.\<close>

theorem create_group_refused:
  assumes "\<And>m. m \<in> set (CreateGroup_membersID cGroup) \<Longrightarrow> queryUser M m (wdb s) = (Inr (u m), wdb s)"
    and "\<And>m. m \<in> set (CreateGroup_membersID cGroup) \<Longrightarrow> m \<notin> set (User_blacklist (u m))"
  shows "dispatch_CreateGroup K M cGroup s = send_error K 11006 (err_what (sys_error 11006 ''at least 3 people'')) s"
proof -
  have "filter (\<lambda>m. m \<in> set (User_blacklist (u m))) (CreateGroup_membersID cGroup) = []"
    using assms(2) by (simp add: filter_empty_conv)
  then have "filtrate M (CreateGroup_membersID cGroup) s = (Inr [], s)"
    using filtrate_exec [of "CreateGroup_membersID cGroup" M s u] assms(1) by simp
  then show ?thesis by (simp add: dispatch_CreateGroup_def or_error_def act_defs)
qed

lemma create_group_refused_witness:
  "dispatch_CreateGroup plain_codec memory (CreateGroup_new\<lparr>CreateGroup_membersID := replicate 5 ''bob''\<rparr>)
     (one_device [stored_user ''bob'' Register_new])
   = send_error plain_codec 11006 (err_what (sys_error 11006 ''at least 3 people'')) (one_device [stored_user ''bob'' Register_new])"
proof -
  have q: "queryUser memory ''bob'' [stored_user ''bob'' Register_new]
      = (Inr (User_new\<lparr>User_id := ''bob'', User_isMale := True, User_version := 1\<rparr>), [stored_user ''bob'' Register_new])"
    using stored_user_read [of "''bob''" Register_new "[]"] by (simp add: Register_new_def User_new_def)
  show ?thesis
    by (rule create_group_refused [where u = "\<lambda>_. User_new\<lparr>User_id := ''bob'', User_isMale := True, User_version := 1\<rparr>"])
      (simp_all add: CreateGroup_new_def q, simp add: User_new_def)
qed

text \<open>Declining a friend request is not answered: the handler returns without a frame, and
  neither the request nor anything else in the server changes.\<close>

theorem decline_unanswered:
  assumes "currentNode s = Some c" and "c < length (rios s)"
    and "AddFriendAuthorize_inviteeID addAuth = r_userid (rios s ! c)" and "AddFriendAuthorize_inviteeID addAuth \<noteq> []"
    and "AddFriendAuthorize_inviterID addAuth \<noteq> []" and "AddFriendAuthorize_isAgree addAuth \<noteq> IsAgree_agree"
  shows "dispatch_AddFriendAuthorize K M addAuth s = (Inr (), s)"
  using assms
  by (simp add: dispatch_AddFriendAuthorize_def or_error_def Let_def act_defs current_userid_def current_def fetch_def)

lemma decline_unanswered_witness:
  "dispatch_AddFriendAuthorize plain_codec memory \<lparr>AddFriendAuthorize_inviterID = ''bob'',
     AddFriendAuthorize_inviteeID = ''ann'', AddFriendAuthorize_isAgree = IsAgree_agree + 1\<rparr> (one_device [])
   = (Inr (), one_device [])"
  by (rule decline_unanswered [of _ 0]) simp_all

section \<open>Requests that end the server\<close>

text \<open>Connecting with a device that is registered, but on whose connection record the user never
  logged in, ends the process: \<open>users().at(userid)\<close> of the protobuf map aborts.\<close>

theorem connect_without_login:
  assumes "currentNode s = Some c" and "queryUser M (ClientConnect_userID connect) (wdb s) = (Inr user, d)"
    and "find_device user (ClientConnect_UUID connect) = Some device"
    and "findUUID M (ClientConnect_UUID connect) (connectInfo s) d = (Inr isFind, ci, d')"
    and "map_of (ConnectInfo_users ci) (ClientConnect_userID connect) = None"
  shows "fst (dispatch_ClientConnect K M connect s) = Inl (Fatal ''key not found'')"
  using assms
  by (simp add: dispatch_ClientConnect_def connect_success_def find_uuid_def liftdb_def zoom_def current_def act_defs)

lemma connect_without_login_witness:
  "fst (dispatch_ClientConnect plain_codec memory (ClientConnect_new\<lparr>ClientConnect_userID := ''ann'', ClientConnect_UUID := ''phone''\<rparr>)
     (one_device [(''user'', AList.update ''devices'' (BArr [BDoc (device_document (Device_new\<lparr>Device_UUID := ''phone''\<rparr>))])
         ((''_id'', BOid ''ann'') # user_document Register_new))])) = Inl (Fatal ''key not found'')"
proof -
  let ?c = "ClientConnect_new\<lparr>ClientConnect_userID := ''ann'', ClientConnect_UUID := ''phone''\<rparr>"
  let ?dev = "Device_new\<lparr>Device_UUID := ''phone''\<rparr>"
  let ?ann = "AList.update ''devices'' (BArr [BDoc (device_document ?dev)]) ((''_id'', BOid ''ann'') # user_document Register_new)"
  let ?u = "User_new\<lparr>User_id := ''ann'', User_isMale := True, User_version := 1, User_devices := [?dev]\<rparr>"
  have "userDocoument memory ?ann = Inr ?u"
    by (simp add: userDocoument_def userNodocNoarr_def user_document_def field_defs get_defs utf8_array_def
        doc_array_def User_new_def Register_new_def device_document_def deviceDocument_def Device_new_def)
  then have q: "queryUser memory (ClientConnect_userID ?c) (wdb (one_device [(''user'', ?ann)])) = (Inr ?u, [(''user'', ?ann)])"
    by (simp add: queryUser_def act_defs find_docs_Cons matches_def user_document_def ClientConnect_new_def)
  have i: "findUUID memory (ClientConnect_UUID ?c) (connectInfo (one_device [(''user'', ?ann)])) [(''user'', ?ann)]
      = (Inr False, ConnectInfo_new, [(''user'', ?ann)])"
    by (simp add: findUUID_def find_docs_Cons)
  have f: "find_device ?u (ClientConnect_UUID ?c) = Some ?dev"
    by (simp add: find_device_def User_new_def Device_new_def ClientConnect_new_def)
  have m: "map_of (ConnectInfo_users ConnectInfo_new) (ClientConnect_userID ?c) = None"
    by (simp add: ConnectInfo_new_def)
  show ?thesis by (rule connect_without_login [OF _ q f i m, of 0]) simp
qed

text \<open>A birthday that is not a number makes \<open>std::stoi\<close> throw \<open>std::invalid_argument\<close>; the handler
  catches \<open>std::system_error\<close> only, so the exception leaves it, and the client gets no answer.\<close>

theorem birthday_escapes:
  assumes "currentNode s = Some c" and "c < length (rios s)"
    and "SetUserProperty_property property = UserProperty_birthday"
    and "\<nexists>i. stoi (SetUserProperty_value property) = Inr i"
  shows "dispatch_SetUserProperty K M property s = (Inl (Logic_error ''stoi''), s)"
proof -
  have "stoi (SetUserProperty_value property) = Inl (Logic_error ''stoi'')"
    using assms(4) by (auto simp: stoi_def Let_def split: if_splits)
  then show ?thesis using assms
    by (simp add: dispatch_SetUserProperty_def or_error_def act_defs current_userid_def current_def fetch_def
        setUserProperty_def property_string_def UserProperty_birthday_def UserProperty_realname_def
        UserProperty_nickname_def UserProperty_icon_def UserProperty_description_def liftdb_def zoom_def)
qed

lemma birthday_escapes_witness:
  "fst (dispatch_SetUserProperty plain_codec memory \<lparr>SetUserProperty_property = UserProperty_birthday,
     SetUserProperty_value = ''may''\<rparr> (one_device [])) = Inl (Logic_error ''stoi'')"
  by (subst birthday_escapes [of _ 0]) (simp_all add: stoi_def is_space_def is_digit_def)

section \<open>The session gate\<close>

text \<open>A job whose handler only answers the requesting device.\<close>

lemma dispatch_reply:
  assumes w: "world_ok s" and node: "node < length (rios s)"
    and ne: "spvec \<noteq> []" and v: "\<forall>p \<in> set spvec. p < length (bufs s)"
    and g: "gate K M node sid (b_session_id (bufs s ! last spvec)) (b_data_type (bufs s ! last spvec))
        (concat (map (\<lambda>p. buffer_data (bufs s ! p)) spvec)) (s\<lparr>currentNode := Some node, session_id := sid\<rparr>)
      = send_self K any (s\<lparr>currentNode := Some node, session_id := sid, wdb := d\<rparr>)"
  shows "\<exists>bs. frames_of sid (chat_code (dispatchType any)) (ser K any) bs
     \<and> dispatch K M node spvec sid s = (Inr (), s\<lparr>currentNode := None, session_id := sid, bufs := bufs s @ bs,
         wios := change (r_writeio (rios s ! node)) (\<lambda>x. x\<lparr>w_buffers_p := w_buffers_p x
           @ [length (bufs s) ..< length (bufs s) + length bs]\<rparr>) (wios s),
         pingnodes := pingnodes s @ [node], wdb := d\<rparr>)"
proof -
  let ?s = "s\<lparr>currentNode := Some node, session_id := sid, wdb := d\<rparr>"
  have i: "srv_inv ?s" using w node by (simp add: srv_inv_iff world_ok_def)
  obtain bs where bs: "frames_of (session_id ?s) (chat_code (dispatchType any)) (ser K any) bs"
      "send_self K any ?s = (Inr (), ?s\<lparr>bufs := bufs ?s @ bs,
         wios := change (r_writeio (rios ?s ! node)) (\<lambda>x. x\<lparr>w_buffers_p := w_buffers_p x
           @ [length (bufs ?s) ..< length (bufs ?s) + length bs]\<rparr>) (wios ?s), pingnodes := pingnodes ?s @ [node]\<rparr>)"
    using send_self_exec [OF i, of node any K] by auto
  then show ?thesis
    using dispatch_exec [OF ne v, of K M node sid] g by (intro exI [of _ bs]) (simp add: bs(2))
qed

lemma admitted_job: "admitted (s\<lparr>currentNode := c, session_id := i\<rparr>) node sid b = admitted s node sid b"
  and refusal_job: "refusal (s\<lparr>currentNode := c, session_id := i\<rparr>) node sid b = refusal s node sid b"
  by (simp_all add: admitted_def refusal_def)

text \<open>C7: A request that is not admitted (wrong session id, not connected, or a type that does not fit
  the session) is answered with exactly one \<open>Error\<close> message that carries the session id, number 11010,
  11011 or 11013; no handler runs, the database and everything else stay as they are.\<close>

theorem refused_untouched:
  assumes w: "world_ok s" and node: "node < length (rios s)"
    and ne: "spvec \<noteq> []" and v: "\<forall>p \<in> set spvec. p < length (bufs s)"
    and no: "\<not> admitted s node sid (bufs s ! last spvec)"
  shows "\<exists>bs. frames_of sid (chat_code CT_error) (ser K (M_Error (refusal s node sid (bufs s ! last spvec)))) bs
     \<and> Error_errnum (refusal s node sid (bufs s ! last spvec)) \<in> {11010, 11011, 11013}
     \<and> dispatch K M node spvec sid s = (Inr (), s\<lparr>currentNode := None, session_id := sid, bufs := bufs s @ bs,
         wios := change (r_writeio (rios s ! node)) (\<lambda>x. x\<lparr>w_buffers_p := w_buffers_p x
           @ [length (bufs s) ..< length (bufs s) + length bs]\<rparr>) (wios s),
         pingnodes := pingnodes s @ [node]\<rparr>)"
proof -
  let ?s = "s\<lparr>currentNode := Some node, session_id := sid\<rparr>" and ?b = "bufs s ! last spvec"
  have "gate K M node sid (b_session_id ?b) (b_data_type ?b) (concat (map (\<lambda>p. buffer_data (bufs s ! p)) spvec)) ?s
      = send_self K (M_Error (refusal s node sid ?b)) (s\<lparr>currentNode := Some node, session_id := sid, wdb := wdb s\<rparr>)"
    using gate_cases [of node ?s K M sid ?b] node no
    by (simp only: admitted_job refusal_job if_True not_False_eq_True) simp
  from dispatch_reply [OF w node ne v this] show ?thesis
    by (auto simp: refusal_def)
qed

text \<open>C5: On every job the server accepts from a consistent state, \<open>dispatch\<close> ends in a consistent
  state with the current node cleared; queues have only been appended to and the buffers present
  before are untouched; a refused request and every request of an answered type has put at least one
  frame into the queue of the requesting device. An exception can leave it only for the three message
  types of \<open>may_escape\<close>.\<close>

theorem dispatch_contract:
  assumes "mongo_ok M" and "world_ok s" and "node < length (rios s)"
    and "spvec \<noteq> []" and "\<forall>p \<in> set spvec. p < length (bufs s)"
  shows "wp (dispatch K M node spvec sid)
     (\<lambda>_ s'. world_ok s' \<and> currentNode s' = None \<and> grows (length (bufs s)) (s\<lparr>currentNode := None\<rparr>) s'
        \<and> (\<not> admitted s node sid (bufs s ! last spvec) \<or> answered (b_data_type (bufs s ! last spvec)) \<longrightarrow>
             length (w_buffers_p (wios s ! r_writeio (rios s ! node)))
             < length (w_buffers_p (wios s' ! r_writeio (rios s ! node)))))
     (\<lambda>e s'. may_escape (b_data_type (bufs s ! last spvec)) e) s"
  by (rule dispatch_contract_lemma [OF assms refl])

lemma refused_untouched_witness:
  "\<exists>bs. frames_of 7 (chat_code CT_error) (ser plain_codec (M_Error
        \<lparr>Error_errnum = 11010, Error_errmsg = ''session id error, right id is '' @ show_nat 7 @ '' .''\<rparr>)) bs
     \<and> dispatch plain_codec memory 0 [0] 7 ((one_device [])\<lparr>bufs := [(buffer_ctor undefined MT_message)\<lparr>b_session_id := 9\<rparr>]\<rparr>)
       = (Inr (), (one_device [])\<lparr>bufs := [(buffer_ctor undefined MT_message)\<lparr>b_session_id := 9\<rparr>],
            currentNode := None, session_id := 7,
            bufs := [(buffer_ctor undefined MT_message)\<lparr>b_session_id := 9\<rparr>] @ bs,
            wios := [\<lparr>w_readio = 0, w_buffers_p = [1 ..< 1 + length bs], w_active = False\<rparr>], pingnodes := [0]\<rparr>)"
proof -
  let ?b = "(buffer_ctor undefined MT_message)\<lparr>b_session_id := 9\<rparr>"
  let ?s = "(one_device [])\<lparr>bufs := [?b]\<rparr>"
  have w: "world_ok ?s"
    using buffer_ctor_fresh [of undefined MT_message] by (simp add: world_ok_def one_device_def fresh_def)
  have a: "\<not> admitted ?s 0 7 ?b" and r: "refusal ?s 0 7 ?b = \<lparr>Error_errnum = 11010,
      Error_errmsg = ''session id error, right id is '' @ show_nat 7 @ '' .''\<rparr>"
    by (simp_all add: admitted_def refusal_def)
  show ?thesis
    using refused_untouched [OF w, of 0 "[0]" 7 plain_codec memory] a r
    by (simp add: one_device_def change_def)
qed



text \<open>A \<open>Ping\<close>, which carries session id 0, is answered with exactly one \<open>Pong\<close>; the database and
  everything else stay as they are.\<close>

theorem ping_answered:
  assumes w: "world_ok s" and node: "node < length (rios s)"
    and ne: "spvec \<noteq> []" and v: "\<forall>p \<in> set spvec. p < length (bufs s)"
    and b: "b_session_id (bufs s ! last spvec) = 0" "b_data_type (bufs s ! last spvec) = chat_code CT_ping"
  shows "\<exists>bs. frames_of 0 (chat_code CT_pong) (ser K (M_Pong \<lparr>Pong_msg = ''pong''\<rparr>)) bs
     \<and> dispatch K M node spvec 0 s = (Inr (), s\<lparr>currentNode := None, session_id := 0, bufs := bufs s @ bs,
         wios := change (r_writeio (rios s ! node)) (\<lambda>x. x\<lparr>w_buffers_p := w_buffers_p x
           @ [length (bufs s) ..< length (bufs s) + length bs]\<rparr>) (wios s),
         pingnodes := pingnodes s @ [node]\<rparr>)"
proof -
  let ?s = "s\<lparr>currentNode := Some node, session_id := 0\<rparr>" and ?b = "bufs s ! last spvec"
  have m: "\<not> missing_check8 (chat_code CT_ping)" by (simp add: missing_check_iff)
  have h: "dispatch_data K M (chat_code CT_ping) x ?s = dispatch_Ping K (parse_Ping K x) ?s" for x
    by (simp add: dispatch_data_def dispatch_map_def)
  have "gate K M node 0 (b_session_id ?b) (b_data_type ?b) (concat (map (\<lambda>p. buffer_data (bufs s ! p)) spvec)) ?s
      = send_self K (M_Pong \<lparr>Pong_msg = ''pong''\<rparr>) (s\<lparr>currentNode := Some node, session_id := 0, wdb := wdb s\<rparr>)"
    using b m h by (simp add: gate_def MinSessionID_def dispatch_Ping_def)
  from dispatch_reply [OF w node ne v this] show ?thesis by simp
qed

lemma ping_answered_witness:
  "\<exists>bs. frames_of 0 (chat_code CT_pong) [47, 10] bs
     \<and> dispatch plain_codec memory 0 [0] 0
         ((one_device [])\<lparr>bufs := [(buffer_ctor undefined MT_message)\<lparr>b_session_id := 0, b_data_type := 46\<rparr>]\<rparr>)
       = (Inr (), (one_device [])\<lparr>currentNode := None, session_id := 0,
            bufs := [(buffer_ctor undefined MT_message)\<lparr>b_session_id := 0, b_data_type := 46\<rparr>] @ bs,
            wios := [\<lparr>w_readio = 0, w_buffers_p = [1 ..< 1 + length bs], w_active = False\<rparr>], pingnodes := [0]\<rparr>)"
proof -
  let ?b = "(buffer_ctor undefined MT_message)\<lparr>b_session_id := 0, b_data_type := 46\<rparr>"
  have w: "world_ok ((one_device [])\<lparr>bufs := [?b]\<rparr>)"
    using buffer_ctor_fresh [of undefined MT_message] by (simp add: world_ok_def one_device_def fresh_def)
  show ?thesis
    using ping_answered [OF w, of 0 "[0]" plain_codec memory]
    by (simp add: one_device_def change_def plain_codec_def)
qed

lemma dispatch_contract_witness:
  "wp (dispatch plain_codec memory 0 [0] 101) (\<lambda>_ s'. world_ok s' \<and> w_buffers_p (wios s' ! 0) \<noteq> []) (\<lambda>_ _. False)
     ((one_device [])\<lparr>bufs := [(buffer_ctor undefined MT_message)\<lparr>b_session_id := 101, b_data_type := 12\<rparr>]\<rparr>)"
proof -
  let ?b = "(buffer_ctor undefined MT_message)\<lparr>b_session_id := 101, b_data_type := 12\<rparr>"
  let ?s = "(one_device [])\<lparr>bufs := [?b]\<rparr>"
  have w: "world_ok ?s"
    using buffer_ctor_fresh [of undefined MT_message] by (simp add: world_ok_def one_device_def fresh_def)
  have "answered 12" by (simp add: answered_def answered_types_def)
  moreover have "\<not> may_escape 12 e" for e by (simp add: may_escape_def)
  ultimately show ?thesis
    using dispatch_contract [OF memory_ok w, of 0 "[0]" plain_codec 101]
    by (auto simp: one_device_def elim!: wp_mono)
qed

end
