(* ===== verification/Lifecycle.thy ===== *)
theory Lifecycle
  imports Invariants Wire Service
begin

text \<open>
  The life of a connection (\<open>yijian/libev_server.cxx\<close>): the invariant of every reachable state, the
  ping timer, session numbers, write queues, and what goes wrong around peer servers and reconnects.
\<close>

section \<open>Reachable states\<close>

text \<open>C4: Every state the server reaches from the start, by accepting, reading, writing, timer,
  notification and worker steps in any order, is consistent: all indices designate existing objects,
  all buffers are whole, jobs are complete, and the ping list is in the order of the last activity
  with each node knowing its cell.\<close>

theorem reachable_invariant:
  assumes "mongo_ok M" and "reachable K M R W s"
  shows "sys_ok s"
  by (rule reachable_sys_ok [OF assms])

lemma reachable_step: "reachable K M R W s \<Longrightarrow> server_step K M R W s s' \<Longrightarrow> reachable K M R W s'"
  unfolding reachable_def by (meson rtranclp.rtrancl_into_rtrancl)

lemma reachable_initial: "reachable K M R W (initial junk db t)"
  unfolding reachable_def by blast

definition some_io :: read_io where
  "some_io = \<lparr>r_ping_time = 0, r_iter = None, r_writeio = 0, r_buffer_sp_v = [], r_isConnect = False,
     r_sessionid = 0, r_userid = [], r_uuid = [], r_appVersion = [], r_clientVersion = [], r_active = False\<rparr>"

definition accepted :: "u64 \<Rightarrow> (store, bytes list) world" where
  "accepted t = snd (socket_accept_callback 5 some_io [] (initial (\<lambda>_. undefined) [] t))"

lemma accepted_reachable: "reachable plain_codec memory script_reader log_writer (accepted t)"
proof (rule reachable_step [OF reachable_initial step_accept])
  show "socket_accept_callback 5 some_io [] (initial (\<lambda>_. undefined) [] t) = (Inr (), accepted t)"
    by (simp add: accepted_def socket_accept_callback_def MAX_CONNECTIONS_def ping_append_def set_rio_def act_defs)
qed

lemma reachable_invariant_witness: "sys_ok (accepted 3)"
  by (rule reachable_invariant [OF memory_ok accepted_reachable])

text \<open>C14: In every reachable state the ping timer does exactly what it is for: the nodes silent for
  more than 120 seconds, and no others, leave the ping list and lose their cell, and their uuids
  leave the device map.\<close>

theorem timer_exact:
  assumes "mongo_ok M" and "reachable K M R W s"
  shows "pingtime_callback s = (Inr (), expire s)"
  using reachable_sys_ok [OF assms] by (intro pingtime_callback_exec) (simp add: sys_ok_def)

lemma timer_exact_witness:
  "\<exists>s. reachable plain_codec memory script_reader log_writer s \<and> pingtime_callback s = (Inr (), expire s)
     \<and> pinglist s \<noteq> [] \<and> pinglist (expire s) = []"
proof -
  let ?s = "(accepted 3)\<lparr>now := 124\<rparr>"
  have r: "reachable plain_codec memory script_reader log_writer ?s"
    by (rule reachable_step [OF accepted_reachable [of 3] step_clock])
      (simp add: accepted_def socket_accept_callback_def MAX_CONNECTIONS_def ping_append_def set_rio_def act_defs initial_def)
  have "pinglist ?s \<noteq> []" "pinglist (expire ?s) = []"
    by (simp_all add: accepted_def socket_accept_callback_def MAX_CONNECTIONS_def ping_append_def set_rio_def act_defs
        initial_def expire_def silent_def change_def PINGPONGTIMEOUT_def)
  then show ?thesis using timer_exact [OF memory_ok r] r by blast
qed

text \<open>C36: The timer forgets a device that is connected: when a device has reconnected, so that its uuid
  is mapped to the new connection, the expiry of the old connection removes the mapping of the new
  one, which stays in the ping list but gets no more notifications.\<close>

theorem timer_forgets_reconnected:
  assumes "ping_ok s" and "x \<in> set (pinglist s)" and "silent s x"
    and "uuidnode_map s (r_uuid (rios s ! snd x)) = Some q" and "y \<in> set (pinglist s)" and "snd y = q" and "\<not> silent s y"
  shows "\<exists>s'. pingtime_callback s = (Inr (), s') \<and> uuidnode_map s' (r_uuid (rios s ! snd x)) = None
     \<and> y \<in> set (pinglist s') \<and> r_uuid (rios s' ! q) = r_uuid (rios s ! q)"
proof (intro exI conjI)
  show "pingtime_callback s = (Inr (), expire s)" by (rule pingtime_callback_exec [OF assms(1)])
  have "snd x \<in> silent_nodes s" using assms by (simp add: silent_nodes_def)
  then show "uuidnode_map (expire s) (r_uuid (rios s ! snd x)) = None"
    by (simp add: expire_def restrict_map_def)
  show "y \<in> set (pinglist (expire s))" using assms by (simp add: expire_def)
  have "q < length (rios s)" using ping_okD(2) [OF assms(1) assms(5)] assms(6) by simp
  then show "r_uuid (rios (expire s) ! q) = r_uuid (rios s ! q)" by (simp add: expire_def)
qed

text \<open>The same device connected twice, the first connection silent.\<close>

definition reconnected :: "(store, bytes list) world" where
  "reconnected = (initial (\<lambda>_. undefined) [] 130)
     \<lparr>rios := [some_io\<lparr>r_iter := Some 0, r_uuid := ''phone''\<rparr>,
               some_io\<lparr>r_iter := Some 1, r_uuid := ''phone'', r_writeio := 1, r_ping_time := 100\<rparr>],
      wios := [\<lparr>w_readio = 0, w_buffers_p = [], w_active = False\<rparr>, \<lparr>w_readio = 1, w_buffers_p = [], w_active = False\<rparr>],
      conns := [[], []], pinglist := [(0, 0), (1, 1)], next_cell := 2, uuidnode_map := [''phone'' \<mapsto> 1]\<rparr>"

lemma timer_forgets_reconnected_witness:
  "\<exists>s'. pingtime_callback reconnected = (Inr (), s') \<and> uuidnode_map s' ''phone'' = None \<and> (1, 1) \<in> set (pinglist s')"
proof -
  have k: "ping_ok reconnected" by (simp add: ping_ok_def reconnected_def initial_def some_io_def)
  show ?thesis
    using timer_forgets_reconnected [OF k, of "(0, 0)" 1 "(1, 1)"]
    by (auto simp: reconnected_def initial_def silent_def PINGPONGTIMEOUT_def some_io_def)
qed

text \<open>An error on a stale connection forgets a device in the same way: \<open>close_node\<close> removes the
  mapping of the uuid even when it has passed to another connection.\<close>

theorem close_forgets_reconnected:
  assumes "ping_ok s" and "x \<in> set (pinglist s)" and "uuidnode_map s (r_uuid (rios s ! snd x)) = Some q" and "q \<noteq> snd x"
  shows "\<exists>s'. close_node (snd x) s = (Inr (), s') \<and> uuidnode_map s' (r_uuid (rios s ! snd x)) = None
     \<and> (\<forall>y \<in> set (pinglist s). snd y = q \<longrightarrow> y \<in> set (pinglist s'))"
proof -
  have p: "snd x < length (rios s)" "r_iter (rios s ! snd x) = Some (fst x)" "fst x \<in> fst ` set (pinglist s)"
    using ping_okD [OF assms(1,2)] assms(2) by auto
  have d: "fst y \<noteq> fst x" if "y \<in> set (pinglist s)" "snd y = q" for y
    using ping_okD(3) [OF assms(1)] ping_okD(3) [OF assms(1) that(1)] that assms ping_ok_lists(1) [OF assms(1)]
    by (metis distinct_map inj_onD)
  show ?thesis
    using p d by (auto simp: close_node_def set_rio_def ping_erase_def uuidnode_delete_def act_defs fetch_def change_def
        list_erase_def)
qed

lemma close_forgets_reconnected_witness:
  "\<exists>s'. close_node 0 reconnected = (Inr (), s') \<and> uuidnode_map s' ''phone'' = None \<and> (1, 1) \<in> set (pinglist s')"
proof -
  have k: "ping_ok reconnected" by (simp add: ping_ok_def reconnected_def initial_def some_io_def)
  show ?thesis
    using close_forgets_reconnected [OF k, of "(0, 0)" 1]
    by (auto simp: reconnected_def initial_def some_io_def)
qed

section \<open>Session numbers\<close>

text \<open>For a type that is checked, the server expects the node's session number and moves it on: from
  100 to 32766 to the next one, and at 32767 the number expected is 100 and the one after it 100
  again, so at the wrap one number is used twice. The number stays between 100 and 32767.\<close>

theorem session_numbers:
  assumes n: "node < length (rios s)" and t: "missing_check8 type"
    and b: "MinSessionID \<le> r_sessionid (rios s ! node)" "r_sessionid (rios s ! node) \<le> MaxSessionID"
  shows "\<exists>sid s'. take_sessionid node type s = (Inr sid, s')
     \<and> sid = (if r_sessionid (rios s ! node) = MaxSessionID then MinSessionID else r_sessionid (rios s ! node))
     \<and> r_sessionid (rios s' ! node) = (if r_sessionid (rios s ! node) = MaxSessionID then MinSessionID
          else r_sessionid (rios s ! node) + 1)
     \<and> MinSessionID \<le> r_sessionid (rios s' ! node) \<and> r_sessionid (rios s' ! node) \<le> MaxSessionID
     \<and> s' = s\<lparr>rios := change node (\<lambda>io. io\<lparr>r_sessionid := r_sessionid (rios s' ! node)\<rparr>) (rios s)\<rparr>"
proof -
  let ?r = "r_sessionid (rios s ! node)"
  have up: "MinSessionID \<le> ?r + 1 \<and> ?r + 1 \<le> MaxSessionID" if "?r \<noteq> MaxSessionID"
  proof -
    have "unat ?r \<noteq> unat (32767 :: u16)" using that unfolding MaxSessionID_def by (simp only: word_unat_eq_iff not_False_eq_True)
    moreover have "unat ?r \<le> 32767" using b(2) by (simp add: buffer_consts word_le_nat_alt)
    ultimately have lt: "unat ?r < 32767" by simp
    moreover have "100 \<le> unat ?r" using b(1) by (simp add: buffer_consts word_le_nat_alt)
    ultimately have "unat (?r + 1) = unat ?r + 1" using lt by (subst unat_add_lem [THEN iffD1]) simp_all
    then show ?thesis using lt \<open>100 \<le> unat ?r\<close> by (simp add: buffer_consts word_le_nat_alt)
  qed
  show ?thesis
    using n t up
    by (cases s) (auto simp: take_sessionid_def act_defs fetch_def set_rio_def change_def buffer_consts)
qed

lemma session_numbers_witness:
  "\<exists>s'. take_sessionid 0 48 (reconnected\<lparr>rios := [some_io\<lparr>r_sessionid := 32767\<rparr>]\<rparr>) = (Inr 100, s')
     \<and> r_sessionid (rios s' ! 0) = 100"
  using session_numbers [of 0 "reconnected\<lparr>rios := [some_io\<lparr>r_sessionid := 32767\<rparr>]\<rparr>" 48]
  by (auto simp: buffer_consts missing_check_iff)

text \<open>Connecting adds one to the stored number without the wrap: after 32767 the node expects
  32768, which no frame can carry, and the frames sent with it start with two zero bytes, so the last
  frame of the answer is not marked as the last one.\<close>

theorem connect_at_limit:
  "r_sessionid (connected_node connect (uint MaxSessionID) io) > MaxSessionID
   \<and> take 2 (frame_bytes (r_sessionid (connected_node connect (uint MaxSessionID) io)) True type data) = [0, 0]"
  by (simp add: connected_node_def buffer_consts frame_bytes_def u16_bytes_def wire_sessionid_def)

section \<open>Peer servers\<close>

text \<open>C31: After a peer server has introduced itself with \<open>serverconnect\<close>, the first answer or
  forwarded message written to it makes the server use an iterator of the peer list on the ping list,
  which is undefined behaviour.\<close>

theorem peer_write_undefined:
  assumes ok: "sys_ok s" and node: "node < length (rios s)"
    and w: "w < length (wios s)" "w_readio (wios s ! w) = node" "w_buffers_p (wios s ! w) = p # rest" "p < length (bufs s)"
    and c: "finish_message shared node sps (chat_code CT_serverconnect) s = (Inr (), s')"
  shows "connection_write_callback W w s' = (Inl Undefined, s')"
proof -
  have k: "ping_ok s" using ok by (simp add: sys_ok_def)
  have fresh: "(next_cell s + n, b) \<notin> set (pinglist s)" for n b
    using ping_okD(1) [OF k, of "(next_cell s + n, b)"] by auto
  have s': "\<exists>cell. r_iter (rios s' ! node) = Some cell \<and> cell \<notin> fst ` set (pinglist s') \<and> node < length (rios s')
      \<and> wios s' = wios s \<and> bufs s' = bufs s"
    using c node fresh fresh [of 0]
    by (cases "r_iter (rios s ! node)")
      (auto simp: finish_message_def ping_erase_def peer_servers_push_def peer_unshare_def set_rio_def act_defs fetch_def
        change_def list_erase_def split: if_splits)
  then show ?thesis using w node
    by (auto simp: connection_write_callback_def before_write_def ping_move2back_def ping_erase_def act_defs fetch_def Let_def)
qed

definition peer_server :: "(store, bytes list) world" where
  "peer_server = (initial (\<lambda>_. undefined) [] 130)
     \<lparr>bufs := [buffer_ctor undefined MT_message], rios := [some_io\<lparr>r_iter := Some 0\<rparr>],
      wios := [\<lparr>w_readio = 0, w_buffers_p = [0], w_active = True\<rparr>],
      conns := [[]], pinglist := [(0, 0)], next_cell := 1\<rparr>"

lemma peer_write_undefined_witness:
  "\<exists>s'. finish_message False 0 [] (chat_code CT_serverconnect) peer_server = (Inr (), s')
     \<and> connection_write_callback log_writer 0 s' = (Inl Undefined, s')"
proof -
  have ok: "sys_ok peer_server"
    using buffer_ctor_fresh [of undefined MT_message]
    by (simp add: sys_ok_def world_ok_def ping_ok_def peer_server_def initial_def some_io_def fresh_def)
  obtain s' where c: "finish_message False 0 [] (chat_code CT_serverconnect) peer_server = (Inr (), s')"
    by (simp add: finish_message_def ping_erase_def peer_servers_push_def peer_unshare_def set_rio_def act_defs fetch_def
        peer_server_def initial_def some_io_def)
  have "connection_write_callback log_writer 0 s' = (Inl Undefined, s')"
    by (rule peer_write_undefined [OF ok _ _ _ _ _ c, of 0 0 "[]"]) (simp_all add: peer_server_def initial_def)
  with c show ?thesis by blast
qed

section \<open>Write queues\<close>

text \<open>What a write callback needs of its node: it is in the ping list, or in no list.\<close>

definition pingable :: "ptr \<Rightarrow> ('db, 'c) world \<Rightarrow> bool" where
  "pingable node s \<longleftrightarrow> node < length (rios s)
     \<and> (\<forall>cell. r_iter (rios s ! node) = Some cell \<longrightarrow> cell \<in> fst ` set (pinglist s))"

definition same_io :: "('db, 'c) world \<Rightarrow> ('db, 'c) world \<Rightarrow> bool" where
  "same_io s s' \<longleftrightarrow> bufs s' = bufs s \<and> wios s' = wios s \<and> conns s' = conns s"

lemma ping_erase_io:
  assumes "pingable node s"
  shows "wp (ping_erase node) (\<lambda>_ s'. pingable node s' \<and> same_io s s') (\<lambda>_ _. False) s"
  using assms by (auto simp: ping_erase_def wp_simps pingable_def same_io_def change_nth split: option.split)

lemma ping_move2back_io:
  assumes "pingable node s"
  shows "wp (ping_move2back node) (\<lambda>_ s'. pingable node s' \<and> same_io s s') (\<lambda>_ _. False) s"
proof -
  have a: "wp (ping_append node) (\<lambda>_ s'. pingable node s' \<and> same_io s s') (\<lambda>_ _. False) t"
    if "pingable node t" "same_io s t" for t
    using that by (auto simp: ping_append_def wp_simps pingable_def same_io_def change_nth)
  show ?thesis
    unfolding ping_move2back_def wp_bind
    by (rule wp_mono [OF ping_erase_io [OF assms]]) (auto simp: a wp_simps)
qed

lemma before_write_io:
  assumes "pingable node s"
  shows "wp (before_write node type) (\<lambda>_ s'. pingable node s' \<and> same_io s s') (\<lambda>_ _. False) s"
proof -
  have b: "wp (deleteReadio node) (\<lambda>_ s'. pingable node s' \<and> same_io s s') (\<lambda>_ _. False) t"
    if "pingable node t" "same_io s t" for t
  proof -
    let ?t = "t\<lparr>uuidnode_map := (uuidnode_map t)(r_uuid (rios t ! node) := None)\<rparr>"
    have "pingable node ?t" using that by (simp add: pingable_def)
    from ping_erase_io [OF this] show ?thesis
      using that by (auto simp: deleteReadio_def uuidnode_delete_def wp_simps pingable_def same_io_def elim!: wp_mono)
  qed
  have c: "wp (if type = chat_code CT_clientdisconnectres then deleteReadio node else ret ())
      (\<lambda>_ s'. pingable node s' \<and> same_io s s') (\<lambda>_ _. False) t" if "pingable node t" "same_io s t" for t
    using b [OF that] that by (simp add: wp_simps)
  have a: "wp (if type = chat_code CT_clientconnectres then
          act_seq (set_rio node (\<lambda>io. io\<lparr>r_isConnect := True\<rparr>))
         (act_bind (fetch rios node) (\<lambda>io.
          if r_uuid io \<noteq> [] then uuidnode_put (r_uuid io) node else ret ())) else ret ())
      (\<lambda>_ s'. pingable node s' \<and> same_io s s') (\<lambda>_ _. False) t" if "pingable node t" "same_io s t" for t
    using that by (auto simp: wp_simps uuidnode_put_def pingable_def same_io_def change_nth)
  show ?thesis
    unfolding before_write_def wp_seq
  proof (rule wp_mono [OF ping_move2back_io [OF assms]], goal_cases)
    case (1 x t)
    then show ?case by (intro wp_mono [OF a [of t]]) (blast intro: c)+
  qed simp
qed

lemma write_callback_whole:
  assumes p: "pingable (w_readio (wios s ! w)) s" and w: "w < length (wios s)" "w_buffers_p (wios s ! w) = q # rest"
    and q: "q < length (bufs s)" and c: "w_readio (wios s ! w) < length (conns s)"
    and h: "holds_frame (bufs s ! q) sid isLast type data" and len: "length data \<le> 1019"
    and W: "W (conns s ! w_readio (wios s ! w)) (frame_bytes sid isLast type data)
        = (Ssl_written (length (frame_bytes sid isLast type data)), c')"
  shows "\<exists>s' b'. connection_write_callback W w s = (Inr (), s') \<and> pingable (w_readio (wios s ! w)) s'
     \<and> wios s' = change w (\<lambda>x. x\<lparr>w_buffers_p := rest\<rparr>) (wios s) \<and> bufs s' = (bufs s)[q := b']
     \<and> conns s' = (conns s)[w_readio (wios s ! w) := c']"
proof -
  let ?n = "w_readio (wios s ! w)" and ?type = "b_data_type (bufs s ! q)"
  obtain t where t: "before_write ?n ?type s = (Inr (), t)" "pingable ?n t" "same_io s t"
    using before_write_io [OF p, of ?type] by (auto simp: wp_def split: prod.splits sum.splits)
  obtain b' where b': "socket_write W (bufs s ! q, conns s ! ?n) = (Inr True, (b', c'))"
    using socket_write_whole [of "bufs s ! q" sid isLast type data W "conns s ! ?n" c', OF h len W] by blast
  have pt: "pingable ?n (t\<lparr>bufs := xs, wios := ys, conns := zs\<rparr>)" for xs ys zs
    using t(2) by (simp add: pingable_def)
  have ch: "change w (\<lambda>x. x\<lparr>w_buffers_p := tl (w_buffers_p x)\<rparr>) (wios s) = change w (\<lambda>x. x\<lparr>w_buffers_p := rest\<rparr>) (wios s)"
    using w by (simp add: change_def)
  have "connection_write_callback W w s = (Inr (), t\<lparr>bufs := (bufs s)[q := b'],
      wios := change w (\<lambda>x. x\<lparr>w_buffers_p := rest\<rparr>) (wios s), conns := (conns s)[?n := c']\<rparr>)"
    using w q c t b' ch
    by (cases t) (simp add: connection_write_callback_def act_defs fetch_def Let_def on_socket_def same_io_def set_wio_def)
  then show ?thesis using pt by fastforce
qed

primrec write_events :: "nat \<Rightarrow> 'c ssl_writer \<Rightarrow> ptr \<Rightarrow> ('db, 'c, unit) srv" where
  "write_events 0 W w = ret ()"
| "write_events (Suc n) W w = act_seq (connection_write_callback W w) (write_events n W w)"

text \<open>C15: The queue of a connection is sent in its order: after as many write events as it has
  frames, on a connection that takes each write, exactly those frames have been handed to OpenSSL, in
  the order they were queued, the queue is empty, and no other queue and no other connection has
  changed.\<close>

theorem queue_sent_in_order:
  assumes "pingable (w_readio (wios s ! w)) s" and "w < length (wios s)" and "w_readio (wios s ! w) < length (conns s)"
    and "w_buffers_p (wios s ! w) = map fst fs" and "distinct (map fst fs)"
    and "\<forall>(q, sid, isLast, type, data) \<in> set fs. q < length (bufs s) \<and> length data \<le> 1019
        \<and> holds_frame (bufs s ! q) sid isLast type data"
  shows "\<exists>s'. write_events (length fs) log_writer w s = (Inr (), s')
     \<and> conns s' = (conns s)[w_readio (wios s ! w) := conns s ! w_readio (wios s ! w)
         @ map (\<lambda>(q, sid, isLast, type, data). frame_bytes sid isLast type data) fs]
     \<and> wios s' = change w (\<lambda>x. x\<lparr>w_buffers_p := []\<rparr>) (wios s)"
  using assms
proof (induction fs arbitrary: s)
  case Nil
  then have e: "(wios s ! w)\<lparr>w_buffers_p := []\<rparr> = wios s ! w" by (cases "wios s ! w") simp
  have "change w (\<lambda>x. x\<lparr>w_buffers_p := []\<rparr>) (wios s) = wios s" unfolding change_def e by simp
  with Nil show ?case by (simp add: act_defs)
next
  case (Cons f fs)
  obtain q sid isLast type data where f: "f = (q, sid, isLast, type, data)" by (cases f)
  let ?n = "w_readio (wios s ! w)" and ?fb = "frame_bytes sid isLast type data"
  have "\<exists>t b'. connection_write_callback log_writer w s = (Inr (), t) \<and> pingable ?n t
     \<and> wios t = change w (\<lambda>x. x\<lparr>w_buffers_p := map fst fs\<rparr>) (wios s) \<and> bufs t = (bufs s)[q := b']
     \<and> conns t = (conns s)[?n := conns s ! ?n @ [?fb]]"
    using Cons.prems f by (intro write_callback_whole) (auto simp: log_writer_def)
  then obtain t b' where t: "connection_write_callback log_writer w s = (Inr (), t)" "pingable ?n t"
      "wios t = change w (\<lambda>x. x\<lparr>w_buffers_p := map fst fs\<rparr>) (wios s)" "bufs t = (bufs s)[q := b']"
      "conns t = (conns s)[?n := conns s ! ?n @ [?fb]]" by blast
  have n: "w_readio (wios t ! w) = ?n" using t(3) Cons.prems(2) by (simp add: change_def)
  have "\<exists>s'. write_events (length fs) log_writer w t = (Inr (), s')
     \<and> conns s' = (conns t)[w_readio (wios t ! w) := conns t ! w_readio (wios t ! w)
         @ map (\<lambda>(q, sid, isLast, type, data). frame_bytes sid isLast type data) fs]
     \<and> wios s' = change w (\<lambda>x. x\<lparr>w_buffers_p := []\<rparr>) (wios t)"
  proof (rule Cons.IH)
    show "pingable (w_readio (wios t ! w)) t" "w < length (wios t)" "w_readio (wios t ! w) < length (conns t)"
      "w_buffers_p (wios t ! w) = map fst fs" "distinct (map fst fs)"
      using t n Cons.prems by (simp_all add: change_def)
    show "\<forall>(q, sid, isLast, type, data) \<in> set fs. q < length (bufs t) \<and> length data \<le> 1019
        \<and> holds_frame (bufs t ! q) sid isLast type data"
    proof (rule ballI, clarify)
      fix q' sid isLast type data assume m: "(q', sid, isLast, type, data) \<in> set fs"
      then have "q' \<in> fst ` set fs" by force
      then have "q' \<noteq> q" using Cons.prems(5) f by auto
      moreover have "q' < length (bufs s) \<and> length data \<le> 1019 \<and> holds_frame (bufs s ! q') sid isLast type data"
        using bspec [OF Cons.prems(6), of "(q', sid, isLast, type, data)"] m by simp
      ultimately show "q' < length (bufs t) \<and> length data \<le> 1019 \<and> holds_frame (bufs t ! q') sid isLast type data"
        by (simp add: t(4))
    qed
  qed
  then show ?case
    using t n f Cons.prems(2,3) by (auto simp: act_defs change_def)
qed

lemma queue_sent_in_order_witness:
  "\<exists>b s'. write_events 2 log_writer 0 (peer_server\<lparr>bufs := [b, b],
       wios := [\<lparr>w_readio = 0, w_buffers_p = [1, 0], w_active = True\<rparr>]\<rparr>) = (Inr (), s')
     \<and> conns s' = [[frame_bytes 101 True 3 [10, 20], frame_bytes 101 True 3 [10, 20]]]"
proof -
  obtain b where b: "holds_frame b 101 True 3 [10, 20 :: u8]" using one_frame by blast
  let ?s = "peer_server\<lparr>bufs := [b, b], wios := [\<lparr>w_readio = 0, w_buffers_p = [1, 0], w_active = True\<rparr>]\<rparr>"
  let ?fs = "[(1, 101, True, 3, [10, 20 :: u8]), (0 :: nat, 101, True, 3, [10, 20])] :: (nat \<times> u16 \<times> bool \<times> u8 \<times> bytes) list"
  have p: "pingable (w_readio (wios ?s ! 0)) ?s" by (simp add: pingable_def peer_server_def initial_def some_io_def)
  have "\<exists>s'. write_events (length ?fs) log_writer 0 ?s = (Inr (), s')
     \<and> conns s' = (conns ?s)[w_readio (wios ?s ! 0) := conns ?s ! w_readio (wios ?s ! 0)
         @ map (\<lambda>(q, sid, isLast, type, data). frame_bytes sid isLast type data) ?fs]
     \<and> wios s' = change 0 (\<lambda>x. x\<lparr>w_buffers_p := []\<rparr>) (wios ?s)"
    by (rule queue_sent_in_order [OF p]) (simp_all add: b peer_server_def)
  then show ?thesis by (simp add: numeral_2_eq_2 peer_server_def) blast
qed

end
