(* ===== verification/Receiving.thy ===== *)
theory Receiving
  imports Lifecycle
begin

text \<open>
  From the wire to the handler: a request that arrives in any number of pieces becomes one job of the
  worker, and the handler gets the bytes that were sent (\<open>connection_read_callback\<close> and
  \<open>dispatch\<close> together).
\<close>

section \<open>Read events\<close>

primrec read_events :: "nat \<Rightarrow> 'c ssl_reader \<Rightarrow> bool \<Rightarrow> ptr \<Rightarrow> ('db, 'c, unit) srv" where
  "read_events 0 R shared node = ret ()"
| "read_events (Suc n) R shared node =
     act_seq (connection_read_callback R shared node) (read_events n R shared node)"

text \<open>The node \<open>node\<close> is filling the buffer \<open>p\<close>, the last of its message.\<close>

definition filling :: "ptr \<Rightarrow> ptr \<Rightarrow> ('db, 'c) world \<Rightarrow> bool" where
  "filling node p s \<longleftrightarrow> node < length (rios s) \<and> node < length (conns s) \<and> p < length (bufs s)
     \<and> r_buffer_sp_v (rios s ! node) \<noteq> [] \<and> last (r_buffer_sp_v (rios s ! node)) = p"

definition received_into :: "ptr \<Rightarrow> ptr \<Rightarrow> buffer \<Rightarrow> 'c \<Rightarrow> ('db, 'c) world \<Rightarrow> ('db, 'c) world" where
  "received_into node p b c s = s\<lparr>bufs := (bufs s)[p := b], conns := (conns s)[node := c]\<rparr>"

definition expected_sessionid :: "('db, 'c) world \<Rightarrow> ptr \<Rightarrow> u8 \<Rightarrow> u16" where
  "expected_sessionid s node type =
     (if missing_check8 type
      then if r_sessionid (rios s ! node) = MaxSessionID then MinSessionID else r_sessionid (rios s ! node)
      else 0)"

text \<open>Reading leaves the queues and the place of the node in the tables alone.\<close>

definition io_kept :: "read_io \<Rightarrow> ptr \<times> nat option \<times> bool \<times> string \<times> string" where
  "io_kept r = (r_writeio r, r_iter r, r_isConnect r, r_uuid r, r_userid r)"

definition node_kept :: "ptr \<Rightarrow> ('db, 'c) world \<Rightarrow> ('db, 'c) world \<Rightarrow> bool" where
  "node_kept node s s' \<longleftrightarrow> wios s' = wios s \<and> pinglist s' = pinglist s \<and> pingnodes s' = pingnodes s
     \<and> length (rios s') = length (rios s) \<and> length (conns s') = length (conns s)
     \<and> io_kept (rios s' ! node) = io_kept (rios s ! node)"

lemma node_keptD:
  assumes "node_kept node s s'"
  shows "length (rios s') = length (rios s)" "r_isConnect (rios s' ! node) = r_isConnect (rios s ! node)"
  using assms by (simp_all add: node_kept_def io_kept_def)

lemma read_callback_more:
  assumes f: "filling node p s" and r: "socket_read R (bufs s ! p, conns s ! node) = (Inr False, (b, c))"
  shows "connection_read_callback R shared node s = (Inr (), received_into node p b c s)"
  using assms
  by (simp add: filling_def received_into_def connection_read_callback_def catch_system_error_def read_message_def
      act_defs fetch_def on_socket_def Let_def)

lemma read_callback_last:
  assumes f: "filling node p s" and r: "socket_read R (bufs s ! p, conns s ! node) = (Inr True, (b, c))"
    and l: "b_isLastBuf b" and t: "b_data_type b \<noteq> chat_code CT_serverconnect" "b_data_type b \<noteq> chat_code CT_serverdisconnect"
  shows "\<exists>s'. connection_read_callback R shared node s = (Inr (), s')
     \<and> workq s' = workq s @ [(node, r_buffer_sp_v (rios s ! node), expected_sessionid s node (b_data_type b))]
     \<and> bufs s' = (bufs s)[p := b] \<and> conns s' = (conns s)[node := c] \<and> wdb s' = wdb s
     \<and> r_buffer_sp_v (rios s' ! node) = []
     \<and> node_kept node s s'"
  using assms
  by (simp add: filling_def connection_read_callback_def catch_system_error_def read_message_def finish_message_def
      take_sessionid_def set_rio_def expected_sessionid_def act_defs fetch_def on_socket_def Let_def change_def node_kept_def io_kept_def)

lemma reads_Suc_more:
  assumes "reads (Suc n) R (b, c) = (Inr rs, x)"
  obtains r b1 c1 rs' where "socket_read R (b, c) = (Inr r, (b1, c1))" "reads n R (b1, c1) = (Inr rs', x)" "rs = r # rs'"
  using assms by (auto simp: act_bind_def ret_def split: prod.splits sum.splits)

text \<open>The events of one frame that is the last of its message.\<close>

lemma read_events_frame:
  assumes f: "filling node p s"
    and r: "reads (Suc n) R (bufs s ! p, conns s ! node) = (Inr (replicate n False @ [True]), (b, c))"
    and l: "b_isLastBuf b" and t: "b_data_type b \<noteq> chat_code CT_serverconnect" "b_data_type b \<noteq> chat_code CT_serverdisconnect"
  shows "\<exists>s'. read_events (Suc n) R shared node s = (Inr (), s')
     \<and> workq s' = workq s @ [(node, r_buffer_sp_v (rios s ! node), expected_sessionid s node (b_data_type b))]
     \<and> bufs s' = (bufs s)[p := b] \<and> conns s' = (conns s)[node := c] \<and> wdb s' = wdb s
     \<and> r_buffer_sp_v (rios s' ! node) = []
     \<and> node_kept node s s'"
  using f r
proof (induction n arbitrary: s)
  case 0
  obtain r1 b1 c1 rs' where 1: "socket_read R (bufs s ! p, conns s ! node) = (Inr r1, (b1, c1))"
      "reads 0 R (b1, c1) = (Inr rs', (b, c))" "[True] = r1 # rs'"
    using reads_Suc_more [of 0 R "bufs s ! p" "conns s ! node" "[True]" "(b, c)"] 0 by (auto simp del: reads.simps)
  then have "socket_read R (bufs s ! p, conns s ! node) = (Inr True, (b, c))" by (simp add: ret_def)
  from read_callback_last [OF 0(1) this l t, of shared] show ?case
    by (elim exE conjE) (simp add: act_defs)
next
  case (Suc n)
  obtain r1 b1 c1 rs' where 1: "socket_read R (bufs s ! p, conns s ! node) = (Inr r1, (b1, c1))"
      "reads (Suc n) R (b1, c1) = (Inr rs', (b, c))" "replicate (Suc n) False @ [True] = r1 # rs'"
    using reads_Suc_more [OF Suc.prems(2)] by (metis (no_types))
  then have rs: "r1 = False" "rs' = replicate n False @ [True]" by simp_all
  let ?t = "received_into node p b1 c1 s"
  have cb: "connection_read_callback R shared node s = (Inr (), ?t)"
    using read_callback_more [OF Suc.prems(1)] 1(1) rs(1) by simp
  have ft: "filling node p ?t" using Suc.prems(1) by (simp add: filling_def received_into_def)
  have "reads (Suc n) R (bufs ?t ! p, conns ?t ! node) = (Inr (replicate n False @ [True]), (b, c))"
    using 1(2) rs(2) Suc.prems(1) by (simp add: filling_def received_into_def del: reads.simps)
  from Suc.IH [OF ft this] obtain s' where
    s': "read_events (Suc n) R shared node ?t = (Inr (), s')"
     "workq s' = workq ?t @ [(node, r_buffer_sp_v (rios ?t ! node), expected_sessionid ?t node (b_data_type b))]"
     "bufs s' = (bufs ?t)[p := b]" "conns s' = (conns ?t)[node := c]" "wdb s' = wdb ?t" "r_buffer_sp_v (rios s' ! node) = []"
     "node_kept node ?t s'"
    by blast
  have "read_events (Suc (Suc n)) R shared node s = (Inr (), s')"
    using cb s'(1) by (simp add: act_seq_def act_bind_def)
  then show ?case using s'(2-7) by (simp add: received_into_def expected_sessionid_def node_kept_def)
qed

text \<open>The first event of a message creates its buffer.\<close>

definition with_buffer :: "ptr \<Rightarrow> ('db, 'c) world \<Rightarrow> ('db, 'c) world" where
  "with_buffer node s = s\<lparr>bufs := bufs s @ [buffer_ctor (raw s (length (bufs s))) MT_message],
     rios := change node (\<lambda>io. io\<lparr>r_buffer_sp_v := r_buffer_sp_v io @ [length (bufs s)]\<rparr>) (rios s)\<rparr>"

lemma first_event:
  assumes "node < length (rios s)" and "r_buffer_sp_v (rios s ! node) = []"
  shows "connection_read_callback R shared node s = connection_read_callback R shared node (with_buffer node s)"
proof -
  have "read_message R shared node s = read_message R shared node (with_buffer node s)"
    using assms
    by (cases s) (simp add: read_message_def push_new_buffer_def with_buffer_def set_rio_def act_defs fetch_def change_def Let_def)
  then show ?thesis by (simp add: connection_read_callback_def catch_system_error_def)
qed

lemma request_received_lemma:
  assumes node: "node < length (rios s)" "node < length (conns s)" "r_buffer_sp_v (rios s ! node) = []"
    and len: "2 \<le> length data" "length data \<le> 1019" and sid: "sid \<le> MaxSessionID"
    and t: "type \<noteq> chat_code CT_serverconnect" "type \<noteq> chat_code CT_serverdisconnect"
    and check: "drop_bit 7 (frame_bytes sid True type data ! 4) = 0"
    and h: "fst (R (conns s ! node) 5) = Ssl_data (take 5 (frame_bytes sid True type data))"
    and cs: "cs \<noteq> []" "concat cs = drop 5 (frame_bytes sid True type data)" "[] \<notin> set cs"
    and d: "delivers R (snd (R (conns s ! node) 5)) (length (frame_bytes sid True type data) - 5) cs"
  shows "\<exists>s'. read_events (length cs) R shared node s = (Inr (), s')
     \<and> workq s' = workq s @ [(node, [length (bufs s)], expected_sessionid s node type)]
     \<and> gather [length (bufs s)] s' = (Inr data, s') \<and> wdb s' = wdb s
     \<and> b_data_type (bufs s' ! length (bufs s)) = type \<and> b_session_id (bufs s' ! length (bufs s)) = sid
     \<and> length (bufs s) < length (bufs s') \<and> node_kept node s s'"
proof -
  let ?p = "length (bufs s)" and ?t = "with_buffer node s"
  obtain n where n: "length cs = Suc n" using cs(1) by (cases cs) auto
  have b: "bufs ?t ! ?p = buffer_ctor (raw s ?p) MT_message" "conns ?t = conns s" by (simp_all add: with_buffer_def)
  obtain b' c' where r: "reads (length cs) R (bufs ?t ! ?p, conns ?t ! node)
      = (Inr (replicate (length cs - 1) False @ [True]), (b', c'))"
    and b': "buffer_data b' = data" "b_data_type b' = type" "b_session_id b' = sid" "b_isLastBuf b' = True"
    using frame_received_lemma [of "buffer_ctor (raw s ?p) MT_message" data sid True type R "conns s ! node" cs,
        OF buffer_ctor_fresh(1) _ len sid check h cs d]
    unfolding b by (auto simp: buffer_ctor_def reset_def)
  have sp: "r_buffer_sp_v (rios ?t ! node) = [?p]" using node by (simp add: with_buffer_def change_def)
  have f: "filling node ?p ?t" using node sp by (simp add: filling_def with_buffer_def)
  have ex: "expected_sessionid ?t node type = expected_sessionid s node type"
    using node by (simp add: expected_sessionid_def with_buffer_def change_def)
  obtain s' where s': "read_events (Suc n) R shared node ?t = (Inr (), s')"
     "workq s' = workq ?t @ [(node, r_buffer_sp_v (rios ?t ! node), expected_sessionid ?t node (b_data_type b'))]"
     "bufs s' = (bufs ?t)[?p := b']" "wdb s' = wdb ?t" "node_kept node ?t s'"
    using read_events_frame [OF f, of n R b' c' shared] r b' t n by auto
  have "read_events (Suc n) R shared node s = (Inr (), s')"
    using s'(1) first_event [OF node(1,3), of R shared] by (simp add: act_seq_def act_bind_def)
  moreover have "workq ?t = workq s" "wdb ?t = wdb s" "length (bufs ?t) = Suc ?p"
    by (simp_all add: with_buffer_def)
  moreover have "node_kept node s s'"
    using s'(5) node by (simp add: with_buffer_def change_def node_kept_def io_kept_def)
  ultimately show ?thesis
    using s' sp ex b' n by (auto simp: act_defs fetch_def)
qed

text \<open>A request arrives: a client frames the message \<open>data\<close> and stamps it with its session id; the
  server's connection delivers the frame in any number of pieces. After one read event per piece the
  worker's queue has exactly one job more, for that node, with the session id the server expects, and
  what \<open>dispatch\<close> gathers for the handler from the job's buffers is \<open>data\<close>, with the type and session
  id that were sent; the database is untouched.\<close>

theorem request_received:
  assumes node: "node < length (rios s)" "node < length (conns s)" "r_buffer_sp_v (rios s ! node) = []"
    and len: "2 \<le> length data" "length data \<le> 1019" and sid: "sid \<le> MaxSessionID"
    and t: "type \<noteq> chat_code CT_serverconnect" "type \<noteq> chat_code CT_serverdisconnect"
    and check: "drop_bit 7 (frame_bytes sid True type data ! 4) = 0"
    and h: "fst (R (conns s ! node) 5) = Ssl_data (take 5 (frame_bytes sid True type data))"
    and cs: "cs \<noteq> []" "concat cs = drop 5 (frame_bytes sid True type data)" "[] \<notin> set cs"
    and d: "delivers R (snd (R (conns s ! node) 5)) (length (frame_bytes sid True type data) - 5) cs"
  shows "\<exists>s'. read_events (length cs) R shared node s = (Inr (), s')
     \<and> workq s' = workq s @ [(node, [length (bufs s)], expected_sessionid s node type)]
     \<and> gather [length (bufs s)] s' = (Inr data, s') \<and> wdb s' = wdb s
     \<and> b_data_type (bufs s' ! length (bufs s)) = type \<and> b_session_id (bufs s' ! length (bufs s)) = sid"
  using request_received_lemma [OF assms] by blast

lemma request_received_witness:
  "\<exists>s'. read_events 2 script_reader False 0
       (reconnected\<lparr>conns := [[[128, 101, 46, 4, 10], [20, 30], [40]], []]\<rparr>) = (Inr (), s')
     \<and> workq s' = [(0, [0], 0)] \<and> gather [0] s' = (Inr [10, 20, 30, 40], s')"
proof -
  let ?s = "reconnected\<lparr>conns := [[[128, 101, 46, 4, 10 :: u8], [20, 30], [40]], []]\<rparr>"
  have fb: "frame_bytes 101 True 46 [10, 20, 30, 40] = [128, 101, 46, 4, 10, 20, 30, 40]"
    by (simp add: frame_bytes_def u16_bytes_def wire_sessionid_def buffer_consts var_length_short)
  have "\<exists>s'. read_events (length [[20, 30 :: u8], [40]]) script_reader False 0 ?s = (Inr (), s')
     \<and> workq s' = workq ?s @ [(0, [length (bufs ?s)], expected_sessionid ?s 0 46)]
     \<and> gather [length (bufs ?s)] s' = (Inr [10, 20, 30, 40], s') \<and> wdb s' = wdb ?s
     \<and> b_data_type (bufs s' ! length (bufs ?s)) = 46 \<and> b_session_id (bufs s' ! length (bufs ?s)) = 101"
    by (rule request_received)
      (simp_all add: fb script_reader_def buffer_consts reconnected_def initial_def some_io_def)
  moreover have "length [[20, 30 :: u8], [40]] = 2" "expected_sessionid ?s 0 46 = 0"
    by (simp_all add: expected_sessionid_def missing_check_iff)
  moreover have "workq ?s = []" "length (bufs ?s) = 0" by (simp_all add: reconnected_def initial_def)
  ultimately show ?thesis by (metis append_Nil)
qed

end
