(* ===== verification/Threads.thy ===== *)
theory Threads
  imports Prelude
begin

text \<open>
  The worker pool (\<open>yijian/threads_work.h\<close>, \<open>yijian/threads_work.cxx\<close>). The main thread puts jobs
  into the shortest of the workers' queues and the workers run them. The pool is a transition system
  whose steps are the critical sections of the code, so its runs are the interleavings of the main
  thread and the workers. A job is an abstract value; \<open>effect\<close> gives the nodes it hands to
  \<open>pushPingnode\<close>.
\<close>

section \<open>State\<close>

text \<open>
  \<open>W_wait\<close>: waiting on \<open>c_var_\<close>; \<open>W_loop\<close>: in the inner loop of \<open>thread_func\<close>; \<open>W_run\<close>: running a job
  that has been popped; \<open>W_stop\<close>: returned. \<open>t_sent\<close> and \<open>t_done\<close> record which jobs the worker was
  given and has begun; the code has no such members.
\<close>

datatype 'j worker_pc = W_wait | W_loop | W_run 'j | W_stop

record ('j, 'n) Thread_Data =
  t_isContine :: bool
  t_isWait :: bool
  t_queue :: "'j list"
  t_pingnodes :: "'n list"
  t_pc :: "'j worker_pc"
  t_sent :: "'j list"
  t_done :: "'j list"

text \<open>
  The main thread in \<open>sentWork\<close>: \<open>M_scan f k b\<close> is about to look at thread \<open>k\<close>, with \<open>b\<close> the best one so
  far; \<open>M_push f b\<close> has selected \<open>b\<close>; \<open>M_notify b\<close> has pushed and has to notify; \<open>M_blocked f\<close> waits on
  the pool's condition variable because the selected queue was full.
\<close>

datatype 'j main_pc = M_idle | M_scan 'j nat nat | M_push 'j nat | M_notify nat | M_blocked 'j

record ('j, 'n) noti_threads =
  vec_threads :: "('j, 'n) Thread_Data list"
  p_isWait :: bool
  p_main :: "'j main_pc"

definition new_thread :: "('j, 'n) Thread_Data" where
  "new_thread = \<lparr>t_isContine = True, t_isWait = True, t_queue = [], t_pingnodes = [], t_pc = W_wait,
     t_sent = [], t_done = []\<rparr>"

text \<open>The constructor; \<open>c_isWait_\<close> of the pool is not initialised, \<open>w\<close> is whatever it holds.\<close>

definition new_pool :: "nat \<Rightarrow> bool \<Rightarrow> ('j, 'n) noti_threads" where
  "new_pool thread_num w =
     \<lparr>vec_threads = replicate thread_num new_thread, p_isWait = w, p_main = M_idle\<rparr>"

definition update_thread ::
  "nat \<Rightarrow> (('j, 'n) Thread_Data \<Rightarrow> ('j, 'n) Thread_Data) \<Rightarrow> ('j, 'n) noti_threads \<Rightarrow> ('j, 'n) noti_threads" where
  "update_thread i f p = p\<lparr>vec_threads := (vec_threads p)[i := f (vec_threads p ! i)]\<rparr>"

section \<open>Operations on the node lists\<close>

text \<open>\<open>foreachio\<close>: the nodes handed to the callback, in order, and the pool with fresh lists.\<close>

definition foreachio :: "('j, 'n) noti_threads \<Rightarrow> 'n list \<times> ('j, 'n) noti_threads" where
  "foreachio p = (concat (map t_pingnodes (vec_threads p)),
     p\<lparr>vec_threads := map (\<lambda>t. t\<lparr>t_pingnodes := []\<rparr>) (vec_threads p)\<rparr>)"

definition taskCount :: "('j, 'n) noti_threads \<Rightarrow> nat" where
  "taskCount p = sum_list (map (length \<circ> t_pingnodes) (vec_threads p))"

section \<open>Selecting the shortest queue\<close>

text \<open>The selection loop of \<open>sentWork\<close> without interference, on the queue lengths.\<close>

function select_loop :: "nat list \<Rightarrow> nat \<Rightarrow> nat \<Rightarrow> nat" where
  "select_loop sizes k b =
     (if k < length sizes
      then select_loop sizes (Suc k) (if sizes ! b > sizes ! k then k else b)
      else b)"
  by pat_completeness auto
termination by (relation "measure (\<lambda>(sizes, k, b). length sizes - k)") auto

declare select_loop.simps [simp del]

definition select_min :: "nat list \<Rightarrow> nat" where
  "select_min sizes = select_loop sizes 1 0"

lemma select_loop_min:
  assumes "b < k" and "k \<le> length sizes" and "\<forall>i < k. sizes ! b \<le> sizes ! i" and "\<forall>i < b. sizes ! b < sizes ! i"
  shows "select_loop sizes k b < length sizes \<and> (\<forall>i < length sizes. sizes ! select_loop sizes k b \<le> sizes ! i)
     \<and> (\<forall>i < select_loop sizes k b. sizes ! select_loop sizes k b < sizes ! i)"
  using assms
proof (induction sizes k b rule: select_loop.induct)
  case (1 sizes k b)
  show ?case
  proof (cases "k < length sizes")
    case True
    let ?b = "if sizes ! b > sizes ! k then k else b"
    have "?b < Suc k" "\<forall>i < Suc k. sizes ! ?b \<le> sizes ! i" "\<forall>i < ?b. sizes ! ?b < sizes ! i"
      using "1.prems" by (auto simp: less_Suc_eq intro: le_less_trans less_le_trans order.strict_implies_order)
    then show ?thesis using "1.IH" [OF True] True by (simp add: select_loop.simps [of sizes k b])
  next
    case False
    then have "k = length sizes" using "1.prems"(2) by simp
    moreover have "select_loop sizes k b = b" using False by (simp add: select_loop.simps [of sizes k b])
    ultimately show ?thesis using "1.prems" by simp
  qed
qed

lemma select_min_least:
  "sizes \<noteq> [] \<Longrightarrow> select_min sizes < length sizes \<and> (\<forall>i < length sizes. sizes ! select_min sizes \<le> sizes ! i)
     \<and> (\<forall>i < select_min sizes. sizes ! select_min sizes < sizes ! i)"
  unfolding select_min_def by (intro select_loop_min) (auto simp: Suc_le_eq)

section \<open>Steps\<close>

definition queue_size :: "('j, 'n) noti_threads \<Rightarrow> nat \<Rightarrow> nat" where
  "queue_size p i = length (t_queue (vec_threads p ! i))"

fun main_step :: "('j, 'n) noti_threads \<Rightarrow> ('j, 'n) noti_threads option" where
  "main_step p =
     (case p_main p of
        M_idle \<Rightarrow> None
      | M_scan f k b \<Rightarrow>
          if k < length (vec_threads p)
          then Some (p\<lparr>p_main := M_scan f (Suc k) (if queue_size p b > queue_size p k then k else b)\<rparr>)
          else Some (p\<lparr>p_main := M_push f b\<rparr>)
      | M_push f b \<Rightarrow>
          if queue_size p b < 20
          then Some ((update_thread b (\<lambda>t. t\<lparr>t_queue := t_queue t @ [f], t_sent := t_sent t @ [f]\<rparr>) p)\<lparr>p_main := M_notify b\<rparr>)
          else Some (p\<lparr>p_main := M_blocked f\<rparr>)
      | M_notify b \<Rightarrow> Some ((update_thread b (\<lambda>t. t\<lparr>t_isWait := False\<rparr>) p)\<lparr>p_main := M_idle\<rparr>)
      | M_blocked f \<Rightarrow>
          if \<not> p_isWait p then Some (p\<lparr>p_isWait := True, p_main := M_scan f 1 0\<rparr>) else None)"

text \<open>One step of \<open>thread_func\<close> of worker \<open>i\<close>; \<open>None\<close> while it waits.\<close>

definition thread_step :: "('j \<Rightarrow> 'n list) \<Rightarrow> nat \<Rightarrow> ('j, 'n) noti_threads \<Rightarrow> ('j, 'n) noti_threads option" where
  "thread_step effect i p =
     (let t = vec_threads p ! i in
      case t_pc t of
        W_wait \<Rightarrow> if \<not> t_isWait t then Some (update_thread i (\<lambda>t. t\<lparr>t_isWait := True, t_pc := W_loop\<rparr>) p) else None
      | W_loop \<Rightarrow>
          (case t_queue t of
             f # q \<Rightarrow> Some (update_thread i (\<lambda>t. t\<lparr>t_queue := q, t_done := t_done t @ [f], t_pc := W_run f\<rparr>) p)
           | [] \<Rightarrow> if t_isContine t
                then Some ((update_thread i (\<lambda>t. t\<lparr>t_pc := W_wait\<rparr>) p)\<lparr>p_isWait := False\<rparr>)
                else Some (update_thread i (\<lambda>t. t\<lparr>t_pc := W_stop\<rparr>) p))
      | W_run f \<Rightarrow> Some (update_thread i (\<lambda>t. t\<lparr>t_pingnodes := t_pingnodes t @ effect f, t_pc := W_loop\<rparr>) p)
      | W_stop \<Rightarrow> None)"

inductive pool_step :: "('j \<Rightarrow> 'n list) \<Rightarrow> ('j, 'n) noti_threads \<Rightarrow> ('j, 'n) noti_threads \<Rightarrow> bool"
  for effect where
  pool_sentWork: "p_main p = M_idle \<Longrightarrow> vec_threads p \<noteq> [] \<Longrightarrow> pool_step effect p (p\<lparr>p_main := M_scan f 1 0\<rparr>)"
| pool_main: "main_step p = Some q \<Longrightarrow> pool_step effect p q"
| pool_worker: "i < length (vec_threads p) \<Longrightarrow> thread_step effect i p = Some q \<Longrightarrow> pool_step effect p q"
| pool_foreachio: "p_main p = M_idle \<Longrightarrow> foreachio p = (nodes, q) \<Longrightarrow> pool_step effect p q"

inductive_cases pool_stepE: "pool_step effect p q"

section \<open>The invariant\<close>

definition thread_ok :: "('j, 'n) noti_threads \<Rightarrow> nat \<Rightarrow> bool" where
  "thread_ok p i \<longleftrightarrow>
     (let t = vec_threads p ! i in
      t_isContine t \<and> t_pc t \<noteq> W_stop \<and> length (t_queue t) \<le> 20 \<and> t_sent t = t_done t @ t_queue t
      \<and> (t_queue t \<noteq> [] \<longrightarrow> t_pc t \<noteq> W_wait \<or> \<not> t_isWait t \<or> p_main p = M_notify i))"

definition busy :: "('j, 'n) noti_threads \<Rightarrow> nat \<Rightarrow> bool" where
  "busy p i \<longleftrightarrow> t_pc (vec_threads p ! i) \<noteq> W_wait \<or> t_queue (vec_threads p ! i) \<noteq> []"

lemma update_thread_simps [simp]:
  "p_main (update_thread i f p) = p_main p"
  "p_isWait (update_thread i f p) = p_isWait p"
  "length (vec_threads (update_thread i f p)) = length (vec_threads p)"
  "i < length (vec_threads p) \<Longrightarrow> vec_threads (update_thread i f p) ! i = f (vec_threads p ! i)"
  "j \<noteq> i \<Longrightarrow> vec_threads (update_thread i f p) ! j = vec_threads p ! j"
  by (simp_all add: update_thread_def)

lemma update_thread_nonempty [simp]: "vec_threads (update_thread i f p) = [] \<longleftrightarrow> vec_threads p = []"
  by (simp add: update_thread_def)

definition main_ok :: "('j, 'n) noti_threads \<Rightarrow> bool" where
  "main_ok p \<longleftrightarrow>
     (case p_main p of
        M_scan f k b \<Rightarrow> b < k \<and> k \<le> length (vec_threads p)
      | M_push f b \<Rightarrow> b < length (vec_threads p)
      | M_notify b \<Rightarrow> b < length (vec_threads p)
      | M_blocked f \<Rightarrow> vec_threads p \<noteq> [] \<and> (p_isWait p \<longrightarrow> (\<exists>i < length (vec_threads p). busy p i))
      | M_idle \<Rightarrow> True)"

definition pool_ok :: "('j, 'n) noti_threads \<Rightarrow> bool" where
  "pool_ok p \<longleftrightarrow> (\<forall>i < length (vec_threads p). thread_ok p i) \<and> main_ok p"

lemma pool_okD: "pool_ok p \<Longrightarrow> i < length (vec_threads p) \<Longrightarrow> thread_ok p i"
  by (simp add: pool_ok_def)

lemma pool_ok_new: "pool_ok (new_pool n w)"
  by (simp add: pool_ok_def main_ok_def thread_ok_def new_pool_def new_thread_def)

text \<open>A step that touches one thread and leaves the main thread where it is, or moves it on.\<close>

lemma threads_ok_update:
  assumes "pool_ok p" and "i < length (vec_threads p)" and "vec_threads q = (vec_threads p)[i := t]"
    and "thread_ok q i" and "\<And>j. p_main p = M_notify j \<Longrightarrow> j \<noteq> i \<Longrightarrow> p_main q = M_notify j"
  shows "\<forall>j < length (vec_threads q). thread_ok q j"
proof (intro allI impI)
  fix j assume j: "j < length (vec_threads q)"
  show "thread_ok q j"
  proof (cases "j = i")
    case False
    then show ?thesis using pool_okD [OF assms(1), of j] j assms(3,5) by (auto simp: thread_ok_def Let_def)
  qed (simp add: assms)
qed

lemma main_step_ok:
  assumes ok: "pool_ok p" and step: "main_step p = Some q"
  shows "pool_ok q"
proof (cases "p_main p")
  case (M_scan f k b)
  then show ?thesis using ok step
    by (auto simp: pool_ok_def main_ok_def thread_ok_def Let_def split: if_splits)
next
  case (M_push f b)
  then have b: "b < length (vec_threads p)" using ok by (simp add: pool_ok_def main_ok_def)
  show ?thesis
  proof (cases "queue_size p b < 20")
    case True
    let ?f = "\<lambda>t. t\<lparr>t_queue := t_queue t @ [f], t_sent := t_sent t @ [f]\<rparr>"
    have q: "q = (update_thread b ?f p)\<lparr>p_main := M_notify b\<rparr>" using M_push True step by simp
    have "\<forall>j < length (vec_threads q). thread_ok q j"
      using b M_push True pool_okD [OF ok b]
      by (intro threads_ok_update [OF ok b, of q "?f (vec_threads p ! b)"])
        (auto simp: q update_thread_def thread_ok_def queue_size_def Let_def)
    then show ?thesis using b by (simp add: pool_ok_def main_ok_def q)
  next
    case False
    then have "busy p b" by (auto simp: busy_def queue_size_def)
    then show ?thesis using M_push False b ok step
      by (auto simp: pool_ok_def main_ok_def thread_ok_def busy_def Let_def)
  qed
next
  case (M_notify b)
  then have b: "b < length (vec_threads p)" using ok by (simp add: pool_ok_def main_ok_def)
  let ?f = "\<lambda>t. t\<lparr>t_isWait := False\<rparr>"
  have q: "q = (update_thread b ?f p)\<lparr>p_main := M_idle\<rparr>" using M_notify step by simp
  have "\<forall>j < length (vec_threads q). thread_ok q j"
    using b M_notify pool_okD [OF ok b]
    by (intro threads_ok_update [OF ok b, of q "?f (vec_threads p ! b)"])
      (auto simp: q update_thread_def thread_ok_def Let_def)
  then show ?thesis by (simp add: pool_ok_def main_ok_def q)
next
  case (M_blocked f)
  then show ?thesis using ok step
    by (auto simp: pool_ok_def main_ok_def thread_ok_def Let_def Suc_le_eq split: if_splits)
next
  case M_idle
  then show ?thesis using step by simp
qed

text \<open>What is left to do for a worker: twice the queued jobs, and its place in the loop.\<close>

definition thread_rank :: "('j, 'n) Thread_Data \<Rightarrow> nat" where
  "thread_rank t = 2 * length (t_queue t) + (if t_isWait t then 0 else 2)
     + (case t_pc t of W_wait \<Rightarrow> 0 | W_loop \<Rightarrow> 1 | W_run f \<Rightarrow> 2 | W_stop \<Rightarrow> 0)"

definition pool_rank :: "('j, 'n) noti_threads \<Rightarrow> nat" where
  "pool_rank p = (\<Sum>t\<leftarrow>vec_threads p. thread_rank t)"

definition thread_moves :: "('j, 'n) noti_threads \<Rightarrow> nat \<Rightarrow> ('j, 'n) noti_threads \<Rightarrow> bool" where
  "thread_moves p i q \<longleftrightarrow> (\<exists>t. vec_threads q = (vec_threads p)[i := t] \<and> p_main q = p_main p \<and> thread_ok q i
     \<and> (p_isWait q \<longrightarrow> p_isWait p \<and> busy q i) \<and> thread_rank t < thread_rank (vec_threads p ! i))"

lemma thread_movesI:
  "q = p\<lparr>vec_threads := (vec_threads p)[i := t], p_isWait := w\<rparr> \<Longrightarrow> thread_ok q i \<Longrightarrow>
   (w \<longrightarrow> p_isWait p \<and> busy q i) \<Longrightarrow> thread_rank t < thread_rank (vec_threads p ! i) \<Longrightarrow> thread_moves p i q"
  unfolding thread_moves_def by (rule exI [of _ t]) simp

lemma thread_step_effect:
  assumes ok: "thread_ok p i" and i: "i < length (vec_threads p)" and step: "thread_step effect i p = Some q"
  shows "thread_moves p i q"
proof (cases "t_pc (vec_threads p ! i)")
  case W_wait
  let ?t = "(vec_threads p ! i)\<lparr>t_isWait := True, t_pc := W_loop\<rparr>"
  have q: "q = p\<lparr>vec_threads := (vec_threads p)[i := ?t], p_isWait := p_isWait p\<rparr>"
    using W_wait step by (auto simp: thread_step_def update_thread_def Let_def split: if_splits)
  have w: "\<not> t_isWait (vec_threads p ! i)" using W_wait step by (auto simp: thread_step_def Let_def)
  show ?thesis using ok i w W_wait
    by (intro thread_movesI [OF q]) (simp_all add: q thread_ok_def busy_def thread_rank_def Let_def)
next
  case W_loop
  show ?thesis
  proof (cases "t_queue (vec_threads p ! i)")
    case Nil
    let ?t = "(vec_threads p ! i)\<lparr>t_pc := W_wait\<rparr>"
    have q: "q = p\<lparr>vec_threads := (vec_threads p)[i := ?t], p_isWait := False\<rparr>"
      using W_loop Nil step ok by (auto simp: thread_step_def thread_ok_def update_thread_def Let_def)
    show ?thesis using ok i W_loop Nil
      by (intro thread_movesI [OF q]) (simp_all add: q thread_ok_def thread_rank_def Let_def)
  next
    case (Cons f fs)
    let ?t = "(vec_threads p ! i)\<lparr>t_queue := fs, t_done := t_done (vec_threads p ! i) @ [f], t_pc := W_run f\<rparr>"
    have q: "q = p\<lparr>vec_threads := (vec_threads p)[i := ?t], p_isWait := p_isWait p\<rparr>"
      using W_loop Cons step by (auto simp: thread_step_def update_thread_def Let_def)
    show ?thesis using ok i W_loop Cons
      by (intro thread_movesI [OF q]) (simp_all add: q thread_ok_def busy_def thread_rank_def Let_def)
  qed
next
  case (W_run f)
  let ?t = "(vec_threads p ! i)\<lparr>t_pingnodes := t_pingnodes (vec_threads p ! i) @ effect f, t_pc := W_loop\<rparr>"
  have q: "q = p\<lparr>vec_threads := (vec_threads p)[i := ?t], p_isWait := p_isWait p\<rparr>"
    using W_run step by (auto simp: thread_step_def update_thread_def Let_def)
  show ?thesis using ok i W_run
    by (intro thread_movesI [OF q]) (simp_all add: q thread_ok_def busy_def thread_rank_def Let_def)
next
  case W_stop
  then show ?thesis using ok by (simp add: thread_ok_def Let_def)
qed

lemma sum_list_update_less:
  "i < length xs \<Longrightarrow> f y < f (xs ! i) \<Longrightarrow> (\<Sum>x\<leftarrow>xs[i := y]. f x) < (\<Sum>x\<leftarrow>xs. f x :: nat)"
proof (induction xs arbitrary: i)
  case (Cons x xs)
  then show ?case by (cases i) auto
qed simp

lemma thread_step_ok:
  assumes ok: "pool_ok p" and i: "i < length (vec_threads p)" and step: "thread_step effect i p = Some q"
  shows "pool_ok q" and "p_main q = p_main p" and "pool_rank q < pool_rank p"
    and "length (vec_threads q) = length (vec_threads p)"
proof -
  obtain t where t: "vec_threads q = (vec_threads p)[i := t]" "p_main q = p_main p" "thread_ok q i"
      "p_isWait q \<longrightarrow> p_isWait p \<and> busy q i" "thread_rank t < thread_rank (vec_threads p ! i)"
    using thread_step_effect [OF pool_okD [OF ok i] i step] unfolding thread_moves_def by blast
  have "\<forall>j < length (vec_threads q). thread_ok q j"
    by (rule threads_ok_update [OF ok i t(1) t(3)]) (simp add: t(2))
  moreover have "main_ok q" using ok t(1,2,4) i
    by (auto simp: pool_ok_def main_ok_def split: main_pc.splits)
  ultimately show "pool_ok q" by (simp add: pool_ok_def)
  show "p_main q = p_main p" by (rule t(2))
  show "pool_rank q < pool_rank p" unfolding pool_rank_def t(1) by (rule sum_list_update_less [OF i t(5)])
  show "length (vec_threads q) = length (vec_threads p)" by (simp add: t(1))
qed

lemma foreachio_ok:
  assumes "pool_ok p" and "p_main p = M_idle"
  shows "pool_ok (snd (foreachio p))"
  using assms by (auto simp: pool_ok_def main_ok_def thread_ok_def foreachio_def Let_def)

lemma pool_step_ok:
  assumes ok: "pool_ok p" and step: "pool_step effect p q"
  shows "pool_ok q"
  using step
proof cases
  case (pool_sentWork f)
  then show ?thesis using ok by (auto simp: pool_ok_def main_ok_def thread_ok_def Let_def Suc_le_eq)
next
  case pool_main
  then show ?thesis using ok by (auto intro: main_step_ok)
next
  case (pool_worker i)
  then show ?thesis using ok by (auto intro: thread_step_ok)
next
  case (pool_foreachio nodes)
  then show ?thesis using foreachio_ok [of p] ok by simp
qed

interpretation pool: transition_system "pool_step effect" "\<lambda>p. \<exists>n w. p = new_pool n w" pool_ok for effect
  by unfold_locales (auto intro: pool_ok_new pool_step_ok)

definition pool_reachable :: "('j \<Rightarrow> 'n list) \<Rightarrow> ('j, 'n) noti_threads \<Rightarrow> bool" where
  "pool_reachable effect p \<longleftrightarrow> (\<exists>n w. (pool_step effect)\<^sup>*\<^sup>* (new_pool n w) p)"

lemma pool_reachable_ok: "pool_reachable effect p \<Longrightarrow> pool_ok p"
  unfolding pool_reachable_def using pool.reachable_inv by blast

text \<open>The steps of the workers while the main thread waits.\<close>

definition workers_step :: "('j \<Rightarrow> 'n list) \<Rightarrow> ('j, 'n) noti_threads \<Rightarrow> ('j, 'n) noti_threads \<Rightarrow> bool" where
  "workers_step effect p q \<longleftrightarrow> (\<exists>i < length (vec_threads p). thread_step effect i p = Some q)"

interpretation workers: ranked_system "workers_step effect"
  "\<lambda>p. pool_ok p \<and> p_main p = M_blocked f" "\<lambda>p. pool_ok p \<and> p_main p = M_blocked f" pool_rank for effect f
  by unfold_locales (auto simp: workers_step_def intro: thread_step_ok dest: thread_step_ok(2))

text \<open>Where no worker can move, each waits for work with an empty queue, and the pool is free.\<close>

lemma workers_stuck:
  assumes ok: "pool_ok p" and b: "p_main p = M_blocked f" and n: "\<And>q. \<not> workers_step effect p q"
  shows "\<not> p_isWait p"
proof
  assume "p_isWait p"
  then obtain i where i: "i < length (vec_threads p)" "busy p i" using ok b by (auto simp: pool_ok_def main_ok_def)
  have "thread_step effect i p \<noteq> None"
    using pool_okD [OF ok i(1)] i(2) b
    by (auto simp: thread_step_def thread_ok_def busy_def Let_def split: worker_pc.splits list.splits)
  then show False using n i(1) by (auto simp: workers_step_def)
qed

section \<open>What the pool promises\<close>

lemma pool_step_length: "pool_step effect p q \<Longrightarrow> length (vec_threads q) = length (vec_threads p)"
  by (erule pool_stepE)
    (auto simp: thread_step_def update_thread_def foreachio_def Let_def
      split: main_pc.splits worker_pc.splits list.splits if_splits)

text \<open>Small pools for the witnesses: one idle worker, and one that has been given the job 7.\<close>

lemma pool_reachable_new: "pool_reachable effect (new_pool n w)"
  unfolding pool_reachable_def by blast

lemma pool_reachable_step: "pool_reachable effect p \<Longrightarrow> pool_step effect p q \<Longrightarrow> pool_reachable effect q"
  unfolding pool_reachable_def by (meson rtranclp.rtrancl_into_rtrancl)

definition given :: "nat \<Rightarrow> bool \<Rightarrow> (nat, nat) noti_threads" where
  "given j w = \<lparr>vec_threads = [new_thread\<lparr>t_queue := [j], t_sent := [j]\<rparr>], p_isWait = w, p_main = M_notify 0\<rparr>"

lemma given_reachable: "pool_reachable effect (given j w)"
proof -
  let ?new = "new_pool 1 w :: (nat, nat) noti_threads"
  have "pool_reachable effect (?new\<lparr>p_main := M_scan j 1 0\<rparr>)"
    by (rule pool_reachable_step [OF pool_reachable_new pool_sentWork]) (simp_all add: new_pool_def)
  then have "pool_reachable effect (?new\<lparr>p_main := M_push j 0\<rparr>)"
    by (rule pool_reachable_step [OF _ pool_main]) (simp add: new_pool_def)
  then show ?thesis
    by (rule pool_reachable_step [OF _ pool_main])
      (simp add: new_pool_def given_def queue_size_def update_thread_def new_thread_def)
qed

text \<open>C38: In every reachable state of the pool each worker has begun the jobs it was given in the order
  they were given, without losing or repeating one, holds at most 20 more, and is not asleep on a
  non-empty queue unless its notification is still to come. No worker ever stops: \<open>isContine_\<close> is
  never cleared, so the destructor's \<open>join\<close> never returns.\<close>

theorem pool_jobs_kept:
  assumes "pool_reachable effect p" and "i < length (vec_threads p)" and "t = vec_threads p ! i"
  shows "t_sent t = t_done t @ t_queue t \<and> length (t_queue t) \<le> 20
     \<and> (t_queue t \<noteq> [] \<longrightarrow> t_pc t \<noteq> W_wait \<or> \<not> t_isWait t \<or> p_main p = M_notify i)
     \<and> t_isContine t \<and> t_pc t \<noteq> W_stop"
  using pool_okD [OF pool_reachable_ok [OF assms(1)] assms(2)] assms(3) by (simp add: thread_ok_def Let_def)

lemma pool_jobs_kept_witness: "t_sent (vec_threads (given 7 True) ! 0) = [] @ [7]"
  using pool_jobs_kept [OF given_reachable [of "\<lambda>n. [n]" 7 True], of 0] by (simp add: given_def new_thread_def)

text \<open>C39: \<open>sentWork\<close> never waits for ever: while it is blocked on full queues the workers can take only
  a bounded number of steps, and when none of them can move any more the condition it waits for is
  true and it goes on.\<close>

theorem blocked_wakes:
  assumes "pool_reachable effect p" and "p_main p = M_blocked f" and "(workers_step effect ^^ n) p q"
  shows "n \<le> pool_rank p \<and> p_main q = M_blocked f \<and> ((\<nexists>r. workers_step effect q r) \<longrightarrow> main_step q \<noteq> None)"
proof -
  have ok: "pool_ok p \<and> p_main p = M_blocked f" using pool_reachable_ok [OF assms(1)] assms(2) by blast
  then have q: "pool_ok q \<and> p_main q = M_blocked f" by (rule workers.power_inv [OF assms(3)])
  moreover have "n \<le> pool_rank p" by (rule workers.runs_bounded [OF ok assms(3)])
  moreover have "main_step q \<noteq> None" if "\<nexists>r. workers_step effect q r"
    using workers_stuck [of q f effect] q that by auto
  ultimately show ?thesis by blast
qed

definition filled :: "nat \<Rightarrow> (nat, nat) noti_threads" where
  "filled m = \<lparr>vec_threads = [new_thread\<lparr>t_queue := replicate m 7, t_sent := replicate m 7, t_isWait := (m = 0)\<rparr>],
     p_isWait = True, p_main = M_idle\<rparr>"

lemma filled_scan:
  assumes "pool_reachable effect (filled m)"
  shows "pool_reachable effect ((filled m)\<lparr>p_main := M_push 7 0\<rparr>)"
proof -
  have "pool_reachable effect ((filled m)\<lparr>p_main := M_scan 7 1 0\<rparr>)"
    by (rule pool_reachable_step [OF assms pool_sentWork]) (simp_all add: filled_def)
  then show ?thesis by (rule pool_reachable_step [OF _ pool_main]) (simp add: filled_def)
qed

lemma filled_reachable: "m \<le> 20 \<Longrightarrow> pool_reachable effect (filled m)"
proof (induction m)
  case 0
  have "filled 0 = new_pool 1 True" by (simp add: filled_def new_pool_def new_thread_def)
  then show ?case using pool_reachable_new [of effect 1 True] by simp
next
  case (Suc m)
  let ?push = "\<lambda>t. t\<lparr>t_queue := t_queue t @ [7], t_sent := t_sent t @ [7]\<rparr>"
  have r: "pool_reachable effect (filled m)" using Suc by simp
  have "pool_reachable effect ((update_thread 0 ?push (filled m))\<lparr>p_main := M_notify 0\<rparr>)"
    by (rule pool_reachable_step [OF filled_scan [OF r] pool_main])
      (use Suc.prems in \<open>simp add: filled_def queue_size_def update_thread_def\<close>)
  then show ?case
    by (rule pool_reachable_step [OF _ pool_main])
      (simp add: filled_def update_thread_def replicate_append_same)
qed

lemma blocked_wakes_witness:
  "\<exists>p q. p_main p = M_blocked 7 \<and> (workers_step (\<lambda>n. [n]) ^^ 1) p q \<and> 1 \<le> pool_rank p \<and> p_main q = M_blocked (7 :: nat)"
proof -
  let ?p = "(filled 20)\<lparr>p_main := M_blocked 7\<rparr>"
  let ?q = "update_thread 0 (\<lambda>t. t\<lparr>t_isWait := True, t_pc := W_loop\<rparr>) ?p"
  have r: "pool_reachable (\<lambda>n. [n]) ?p"
    by (rule pool_reachable_step [OF filled_scan [OF filled_reachable [of 20]] pool_main])
      (simp_all add: filled_def queue_size_def)
  have w: "(workers_step (\<lambda>n. [n]) ^^ 1) ?p ?q"
    by (simp add: eq_OO workers_step_def thread_step_def filled_def new_thread_def)
  have "1 \<le> pool_rank ?p \<and> p_main ?q = M_blocked 7" using blocked_wakes [OF r _ w] by simp
  then show ?thesis using w by (intro exI [of _ ?p] exI [of _ ?q]) simp
qed

definition queue_sizes :: "('j, 'n) noti_threads \<Rightarrow> nat list" where
  "queue_sizes p = map (length \<circ> t_queue) (vec_threads p)"

primrec main_steps :: "nat \<Rightarrow> ('j, 'n) noti_threads \<Rightarrow> ('j, 'n) noti_threads option" where
  "main_steps 0 p = Some p"
| "main_steps (Suc n) p = Option.bind (main_step p) (main_steps n)"

lemma queue_size_nth: "i < length (vec_threads p) \<Longrightarrow> queue_size p i = queue_sizes p ! i"
  by (simp add: queue_size_def queue_sizes_def)

lemma scan_steps:
  assumes "b < k" and "k \<le> length (vec_threads p)"
  shows "main_steps (Suc (length (vec_threads p) - k)) (p\<lparr>p_main := M_scan f k b\<rparr>)
     = Some (p\<lparr>p_main := M_push f (select_loop (queue_sizes p) k b)\<rparr>)"
  using assms
proof (induction "length (vec_threads p) - k" arbitrary: k b)
  case 0
  then show ?case by (simp add: select_loop.simps [of _ k b] queue_sizes_def)
next
  case (Suc n)
  let ?b = "if queue_size p b > queue_size p k then k else b"
  have k: "k < length (vec_threads p)" "n = length (vec_threads p) - Suc k" using Suc.hyps(2) by simp_all
  have m: "length (vec_threads p) - k = Suc (length (vec_threads p) - Suc k)" using k(1) by simp
  have "main_steps (Suc (length (vec_threads p) - Suc k)) (p\<lparr>p_main := M_scan f (Suc k) ?b\<rparr>)
     = Some (p\<lparr>p_main := M_push f (select_loop (queue_sizes p) (Suc k) ?b)\<rparr>)"
    by (rule Suc.hyps(1)) (use k Suc.prems in auto)
  moreover have "select_loop (queue_sizes p) k b = select_loop (queue_sizes p) (Suc k) ?b"
    using k(1) Suc.prems by (simp add: select_loop.simps [of _ k b] queue_size_nth) (simp add: queue_sizes_def)
  moreover have "main_step (p\<lparr>p_main := M_scan f k b\<rparr>) = Some (p\<lparr>p_main := M_scan f (Suc k) ?b\<rparr>)"
    using k(1) by (simp add: queue_size_def)
  ultimately show ?case unfolding m by (simp del: main_step.simps)
qed

text \<open>When no worker takes a job in between, the scan of \<open>sentWork\<close> ends after one step for each
  worker with the first of the shortest queues.\<close>

theorem shortest_queue:
  assumes "vec_threads p \<noteq> []" and "p_main p = M_scan f 1 0"
  shows "\<exists>b < length (vec_threads p). main_steps (length (vec_threads p)) p = Some (p\<lparr>p_main := M_push f b\<rparr>)
     \<and> (\<forall>i < length (vec_threads p). queue_size p b \<le> queue_size p i) \<and> (\<forall>i < b. queue_size p b < queue_size p i)"
proof -
  let ?b = "select_min (queue_sizes p)"
  have l: "length (queue_sizes p) = length (vec_threads p)" by (simp add: queue_sizes_def)
  have "queue_sizes p \<noteq> []" using assms(1) by (simp add: queue_sizes_def)
  note b = select_min_least [OF this, unfolded l]
  have "p\<lparr>p_main := M_scan f 1 0\<rparr> = p" using assms(2) by (cases p) simp
  moreover have "Suc (length (vec_threads p) - 1) = length (vec_threads p)" using assms(1) by simp
  ultimately have "main_steps (length (vec_threads p)) p = Some (p\<lparr>p_main := M_push f ?b\<rparr>)"
    using scan_steps [of 0 1 p f] assms(1) by (simp add: select_min_def Suc_le_eq del: main_steps.simps)
  then show ?thesis using b by (intro exI [of _ ?b] conjI) (auto simp: queue_size_nth)
qed

lemma shortest_queue_witness:
  "\<exists>p :: (nat, nat) noti_threads. length (vec_threads p) = 2 \<and> (\<exists>b < 2. main_steps 2 p = Some (p\<lparr>p_main := M_push 5 b\<rparr>))"
proof -
  let ?p = "\<lparr>vec_threads = [new_thread\<lparr>t_queue := [7]\<rparr>, new_thread], p_isWait = True, p_main = M_scan 5 1 0\<rparr> :: (nat, nat) noti_threads"
  have "\<exists>b < length (vec_threads ?p). main_steps (length (vec_threads ?p)) ?p = Some (?p\<lparr>p_main := M_push 5 b\<rparr>)"
    using shortest_queue [of ?p 5] by auto
  then show ?thesis by (intro exI [of _ ?p]) (simp add: numeral_2_eq_2 del: main_steps.simps)
qed

lemma taskCount_foreachio: "taskCount p = length (fst (foreachio p))"
  by (simp add: taskCount_def foreachio_def length_concat comp_def)

lemma foreachio_empties: "taskCount (snd (foreachio p)) = 0 \<and> fst (foreachio (snd (foreachio p))) = []"
  by (simp add: taskCount_def foreachio_def comp_def sum_list_triv)

text \<open>C40: A pool of one worker, which is what the server starts, is a bounded first-in first-out queue:
  a step of it leaves the queue alone, appends a job to a queue shorter than 20, or takes the first
  job for the worker to run.\<close>

theorem one_worker_queue:
  assumes "pool_reachable effect p" and "length (vec_threads p) = 1" and "pool_step effect p q"
  shows "length (vec_threads q) = 1
     \<and> (t_queue (vec_threads q ! 0) = t_queue (vec_threads p ! 0)
      \<or> (\<exists>f. length (t_queue (vec_threads p ! 0)) < 20 \<and> t_queue (vec_threads q ! 0) = t_queue (vec_threads p ! 0) @ [f]
           \<and> p_main p = M_push f 0)
      \<or> (\<exists>f. t_queue (vec_threads p ! 0) = f # t_queue (vec_threads q ! 0) \<and> t_pc (vec_threads q ! 0) = W_run f))"
  using assms(3)
proof cases
  case pool_main
  have "p_main p = M_push f b \<Longrightarrow> b = 0" "p_main p = M_notify b \<Longrightarrow> b = 0" for f b
    using pool_reachable_ok [OF assms(1)] assms(2) by (auto simp: pool_ok_def main_ok_def)
  then show ?thesis using pool_main assms(2)
    by (auto simp: queue_size_def split: main_pc.splits if_splits)
next
  case (pool_worker i)
  then have "i = 0" using assms(2) by simp
  then show ?thesis using pool_worker assms(2)
    by (auto simp: thread_step_def Let_def split: worker_pc.splits list.splits if_splits)
next
  case (pool_foreachio nodes)
  then show ?thesis using assms(2) by (auto simp: foreachio_def)
qed (use assms(2) in auto)

lemma one_worker_queue_witness:
  "\<exists>q. pool_step (\<lambda>n. [n]) (given 7 True) q \<and> length (vec_threads q) = 1"
proof -
  have step: "pool_step (\<lambda>n. [n]) (given 7 True) ((update_thread 0 (\<lambda>t. t\<lparr>t_isWait := False\<rparr>) (given 7 True))\<lparr>p_main := M_idle\<rparr>)"
    by (rule pool_main) (simp add: given_def)
  show ?thesis
    using one_worker_queue [OF given_reachable [of "\<lambda>n. [n]" 7 True] _ step] step by (auto simp: given_def)
qed

end
