(* ===== verification/Startup.thy ===== *)
theory Startup
  imports EventLoop Threads
begin

text \<open>
  Start-up and shutdown: \<open>start_server_libev\<close> up to the event loop (\<open>yijian/libev_server.cxx\<close>) and the
  life of the connection of a client process, \<open>create_client\<close> and \<open>clear_client\<close>
  (\<open>yijian/lib_client.cxx\<close>). What the operating system and OpenSSL return is a parameter; \<open>exit\<close> and
  \<open>std::terminate\<close> are the exception \<open>Fatal\<close>.
\<close>

section \<open>The server\<close>

datatype signal = SIGINT | SIGUSR1 | SIG_other nat

datatype watcher = Watch_signal signal | Watch_async | Watch_accept int | Watch_timer nat

text \<open>The results of the calls; \<open>os_mask\<close> and \<open>os_unmask\<close> tell whether the calls of the two conditions of
  \<open>open_thread_manager\<close> succeed, \<open>os_isWait\<close> is the uninitialised member of the pool.\<close>

record server_os =
  os_ctx :: bool
  os_certificate :: int
  os_open :: "string \<Rightarrow> bool"
  os_chain :: "string \<Rightarrow> int"
  os_key :: int
  os_socket :: int
  os_reuse :: int
  os_bind :: int
  os_listen :: int
  os_mask :: bool
  os_unmask :: bool
  os_isWait :: bool

record ('j, 'n) server_process =
  sv_ctx :: bool
  sv_certificate :: bool
  sv_chain :: "string list"
  sv_key :: bool
  sv_ips :: "(string \<times> int) list"
  sv_peers :: "ptr list option"
  sv_watchers :: "watcher list"
  sv_listening :: bool
  sv_masked :: "signal \<Rightarrow> bool"
  sv_pool :: "(('j, 'n) noti_threads \<times> (signal \<Rightarrow> bool)) option"

type_synonym ('j, 'n, 'a) sv = "(('j, 'n) server_process, 'a) act"

definition exit_failure :: "('s, 'a) act" where
  "exit_failure = raise (Fatal ''exit'')"

definition sslctx :: "server_os \<Rightarrow> ('j, 'n, unit) sv" where
  "sslctx os = act_bind (gets sv_ctx) (\<lambda>created.
     if created then ret () else if os_ctx os then modify (\<lambda>s. s\<lparr>sv_ctx := True\<rparr>) else exit_failure)"

definition add_extra_chain :: "server_os \<Rightarrow> string \<Rightarrow> ('j, 'n, unit) sv" where
  "add_extra_chain os file =
     (if \<not> os_open os file then exit_failure
      else if os_chain os file = 0 then exit_failure
      else modify (\<lambda>s. s\<lparr>sv_chain := sv_chain s @ [file]\<rparr>))"

text \<open>OpenSSL returns 1 when a certificate or a key has been loaded.\<close>

definition configure_sslctx :: "server_os \<Rightarrow> ('j, 'n, unit) sv" where
  "configure_sslctx os =
     act_seq (if os_certificate os < 0 then exit_failure else modify (\<lambda>s. s\<lparr>sv_certificate := os_certificate os = 1\<rparr>))
    (act_seq (add_extra_chain os ''./sub-ca.crt'')
    (act_seq (add_extra_chain os ''./root-ca.crt'')
    (if os_key os < 0 then exit_failure else modify (\<lambda>s. s\<lparr>sv_key := os_key os = 1\<rparr>))))"

definition initSetup :: "(string \<times> int) list \<Rightarrow> ('j, 'n, unit) sv" where
  "initSetup ips = modify (\<lambda>s. s\<lparr>sv_peers := Some [], sv_ips := ips\<rparr>)"

definition start_watcher :: "watcher \<Rightarrow> ('j, 'n, unit) sv" where
  "start_watcher w = modify (\<lambda>s. s\<lparr>sv_watchers := sv_watchers s @ [w]\<rparr>)"

text \<open>The threads of the pool inherit the mask in force when they are created; the pool is created once.\<close>

definition open_thread_manager :: "server_os \<Rightarrow> ('j, 'n, int) sv" where
  "open_thread_manager os =
     act_seq (if os_mask os then modify (\<lambda>s. s\<lparr>sv_masked := (\<lambda>_. True)\<rparr>) else ret ())
    (act_seq (modify (\<lambda>s. if sv_pool s = None then s\<lparr>sv_pool := Some (new_pool 1 (os_isWait os), sv_masked s)\<rparr> else s))
    (act_seq (if os_unmask os then modify (\<lambda>s. s\<lparr>sv_masked := (sv_masked s)(SIGUSR1 := False, SIGINT := False)\<rparr>) else ret ())
    (ret 0)))"

definition start_threads :: "server_os \<Rightarrow> ('j, 'n, unit) sv" where
  "start_threads os = act_bind (open_thread_manager os) (\<lambda>_. ret ())"

definition PINGPONGTIME :: nat where "PINGPONGTIME = 120"

text \<open>\<open>start_server_libev\<close> up to \<open>ev_run\<close>: \<open>None\<close> when the loop is reached, the value returned otherwise.\<close>

definition start_server :: "server_os \<Rightarrow> (string \<times> int) list \<Rightarrow> ('j, 'n, int option) sv" where
  "start_server os ips =
     act_seq (sslctx os) (act_seq (configure_sslctx os) (act_seq (initSetup ips)
    (act_seq (start_watcher (Watch_signal SIGINT)) (act_seq (start_watcher (Watch_signal SIGUSR1))
    (act_seq (start_watcher Watch_async)
    (if os_socket os < 0 then ret (Some (- 1))
     else if os_reuse os \<noteq> 0 then ret (Some (- 1))
     else if os_bind os \<noteq> 0 then ret (Some (- 1))
     else act_seq (modify (\<lambda>s. s\<lparr>sv_listening := 0 \<le> os_listen os\<rparr>))
       (act_seq (start_watcher (Watch_accept (os_socket os))) (act_seq (start_watcher (Watch_timer PINGPONGTIME))
       (act_seq (start_threads os) (ret None))))))))))"

text \<open>A process before \<open>main\<close>.\<close>

definition new_process :: "(signal \<Rightarrow> bool) \<Rightarrow> ('j, 'n) server_process" where
  "new_process masked = \<lparr>sv_ctx = False, sv_certificate = False, sv_chain = [], sv_key = False, sv_ips = [], sv_peers = None,
     sv_watchers = [], sv_listening = False, sv_masked = masked, sv_pool = None\<rparr>"

text \<open>The conditions the code checks.\<close>

definition start_checked :: "server_os \<Rightarrow> bool" where
  "start_checked os \<longleftrightarrow> os_ctx os \<and> os_open os ''./sub-ca.crt'' \<and> os_chain os ''./sub-ca.crt'' \<noteq> 0
     \<and> os_open os ''./root-ca.crt'' \<and> os_chain os ''./root-ca.crt'' \<noteq> 0"

definition socket_checked :: "server_os \<Rightarrow> bool" where
  "socket_checked os \<longleftrightarrow> 0 \<le> os_socket os \<and> os_reuse os = 0 \<and> os_bind os = 0"

text \<open>The process at \<open>ev_run\<close>.\<close>

definition started :: "server_os \<Rightarrow> (string \<times> int) list \<Rightarrow> (signal \<Rightarrow> bool) \<Rightarrow> ('j, 'n) server_process" where
  "started os ips masked = \<lparr>sv_ctx = True, sv_certificate = (os_certificate os = 1),
     sv_chain = [''./sub-ca.crt'', ''./root-ca.crt''], sv_key = (os_key os = 1), sv_ips = ips, sv_peers = Some [],
     sv_watchers = [Watch_signal SIGINT, Watch_signal SIGUSR1, Watch_async, Watch_accept (os_socket os), Watch_timer 120],
     sv_listening = (0 \<le> os_listen os),
     sv_masked = (\<lambda>x. (os_mask os \<or> masked x) \<and> \<not> (os_unmask os \<and> x \<in> {SIGINT, SIGUSR1})),
     sv_pool = Some (new_pool 1 (os_isWait os), \<lambda>x. os_mask os \<or> masked x)\<rparr>"

lemma configure_sslctx_exit:
  assumes "\<not> start_checked os"
  shows "fst (act_seq (sslctx os) (act_seq (configure_sslctx os) m) (new_process masked)) = Inl (Fatal ''exit'')"
  using assms
  by (auto simp: start_checked_def sslctx_def configure_sslctx_def add_extra_chain_def exit_failure_def new_process_def act_defs)

lemmas start_defs = sslctx_def configure_sslctx_def add_extra_chain_def exit_failure_def initSetup_def start_watcher_def
  open_thread_manager_def start_threads_def PINGPONGTIME_def new_process_def

text \<open>Exactly when the server starts. With the results OpenSSL documents for loading a certificate or a key (never
  negative), the process exits unless the context and both chain certificates are there, returns -1
  unless the socket can be made, reused and bound, and otherwise reaches the event loop with five
  watchers, one worker that has every signal blocked, and no signal but SIGINT and SIGUSR1 able to
  reach the main thread. Whether the server's own certificate and key were loaded and whether the
  socket listens makes no difference: such a server runs and can serve nobody.\<close>

theorem server_started:
  assumes "0 \<le> os_certificate os" and "0 \<le> os_key os"
  shows "fst (start_server os ips (new_process masked :: ('j, 'n) server_process))
        = (if \<not> start_checked os then Inl (Fatal ''exit'') else if socket_checked os then Inr None else Inr (Some (- 1)))
     \<and> (start_checked os \<and> socket_checked os \<longrightarrow>
         start_server os ips (new_process masked) = (Inr None, started os ips masked :: ('j, 'n) server_process))"
proof (cases "start_checked os")
  case False
  have "fst (start_server os ips (new_process masked :: ('j, 'n) server_process)) = Inl (Fatal ''exit'')"
    unfolding start_server_def by (rule configure_sslctx_exit [OF False])
  with False show ?thesis by simp
next
  case True
  then show ?thesis
    using assms by (auto simp: start_checked_def socket_checked_def start_server_def start_defs started_def act_defs fun_eq_iff)
qed

definition bare_os :: server_os where
  "bare_os = \<lparr>os_ctx = True, os_certificate = 0, os_open = (\<lambda>_. True), os_chain = (\<lambda>_. 1), os_key = 0, os_socket = 3,
     os_reuse = 0, os_bind = 0, os_listen = - 1, os_mask = True, os_unmask = True, os_isWait = False\<rparr>"

text \<open>A server without certificate, without key, on a socket that does not listen.\<close>

lemma server_started_witness:
  "fst (start_server bare_os [] (new_process (\<lambda>_. False) :: (nat, nat) server_process)) = Inr None
   \<and> \<not> sv_certificate (snd (start_server bare_os [] (new_process (\<lambda>_. False) :: (nat, nat) server_process)))"
proof -
  have "0 \<le> os_certificate bare_os" "0 \<le> os_key bare_os" by (simp_all add: bare_os_def)
  from server_started [OF this, where 'j = nat and 'n = nat, of "[]" "\<lambda>_. False"]
  show ?thesis by (simp add: bare_os_def start_checked_def socket_checked_def started_def)
qed

section \<open>A client process\<close>

text \<open>An object behind a static pointer: \<open>Freed\<close> pointers keep their value.\<close>

datatype life = Unset | Live | Freed

record client_os =
  co_ctx :: bool
  co_locations :: int
  co_hostname :: int
  co_ssl :: bool
  co_cipher :: int
  co_connect :: int
  co_handshake :: int

record client_process =
  cp_async :: life
  cp_loop :: life
  cp_io :: life
  cp_ctx :: life
  cp_read_cb :: bool
  cp_isWait :: bool
  cp_running :: bool

type_synonym 'a cp = "(client_process, 'a) act"

definition client_configure_sslctx :: "client_os \<Rightarrow> 'a cp \<Rightarrow> 'a cp" where
  "client_configure_sslctx os m =
     (if co_locations os \<noteq> 1 then raise (sys_error 60005 ''could load location ca failure'')
      else if co_hostname os \<noteq> 1 then raise (sys_error 60006 ''new web failure'')
      else if \<not> co_ssl os then raise (sys_error 60007 ''init ssl failure'')
      else if co_cipher os \<noteq> 1 then raise (sys_error 60003 ''could not set cipher list'')
      else if co_connect os \<noteq> 1 then raise (sys_error 60008 ''BIO_do_connect failure'')
      else if co_handshake os \<noteq> 1 then raise (sys_error 60009 ''BIO_do_handshake failure'')
      else m)"

text \<open>The watcher of the static pointer is initialised again and the loop run by a second thread when a
  connection is still there, which libev forbids; using a destroyed object is undefined too.\<close>

definition client_init_io :: "client_os \<Rightarrow> unit cp" where
  "client_init_io os =
     act_bind (gets cp_async) (\<lambda>a.
     if a \<noteq> Unset then raise Undefined
     else act_seq (modify (\<lambda>s. s\<lparr>cp_async := Live\<rparr>))
    (act_bind (gets cp_loop) (\<lambda>l.
     if l = Freed then raise Undefined
     else act_seq (modify (\<lambda>s. s\<lparr>cp_loop := Live, cp_io := Live\<rparr>))
    (act_bind (gets cp_ctx) (\<lambda>c.
     if c = Freed then raise Undefined
     else if c = Unset \<and> \<not> co_ctx os then raise (sys_error 60004 ''Unable to create SSL context'')
     else act_seq (modify (\<lambda>s. s\<lparr>cp_ctx := Live\<rparr>)) (client_configure_sslctx os (ret ())))))))"

text \<open>\<open>init_io\<close> runs in the new thread: what it throws leaves the thread function and \<open>std::terminate\<close> is
  called. The caller goes on when \<open>ev_c_isWait_\<close> is false.\<close>

definition create_client :: "client_os \<Rightarrow> unit cp" where
  "create_client os =
     act_seq (catch_system_error (client_init_io os) (\<lambda>_. raise (Fatal ''terminate'')))
     (modify (\<lambda>s. s\<lparr>cp_read_cb := True, cp_isWait := False, cp_running := True\<rparr>))"

text \<open>What \<open>client_send\<close> needs: it dereferences \<open>read_io_\<close> and \<open>write_io_\<close>.\<close>

definition client_deref :: "unit cp" where
  "client_deref = act_bind (gets cp_io) (\<lambda>io. if io = Live then ret () else raise Undefined)"

definition clear_client :: "unit cp" where
  "clear_client =
     act_seq client_deref (modify (\<lambda>s. s\<lparr>cp_ctx := Freed, cp_loop := Freed, cp_io := Freed, cp_async := Freed, cp_running := False\<rparr>))"

definition new_client_process :: client_process where
  "new_client_process = \<lparr>cp_async = Unset, cp_loop = Unset, cp_io = Unset, cp_ctx = Unset, cp_read_cb = False,
     cp_isWait = True, cp_running = False\<rparr>"

text \<open>The calls a program makes: the connection of a new \<open>netyi\<close> or \<open>kvdb\<close>, a request, its destruction.\<close>

datatype client_call = Connect client_os | Request | Destroy

fun client_step :: "client_call \<Rightarrow> unit cp" where
  "client_step (Connect os) = create_client os"
| "client_step Request = client_deref"
| "client_step Destroy = clear_client"

primrec client_calls :: "client_call list \<Rightarrow> unit cp" where
  "client_calls [] = ret ()"
| "client_calls (c # cs) = act_seq (client_step c) (client_calls cs)"

definition connects :: "client_os \<Rightarrow> bool" where
  "connects os \<longleftrightarrow> co_ctx os \<and> co_locations os = 1 \<and> co_hostname os = 1 \<and> co_ssl os \<and> co_cipher os = 1
     \<and> co_connect os = 1 \<and> co_handshake os = 1"

text \<open>One connection that succeeds, then requests, then at most one destruction, then nothing.\<close>

fun after_connect :: "client_call list \<Rightarrow> bool" where
  "after_connect [] = True"
| "after_connect (Request # cs) = after_connect cs"
| "after_connect (Destroy # cs) = (cs = [])"
| "after_connect (Connect os # cs) = False"

fun well_used :: "client_call list \<Rightarrow> bool" where
  "well_used [] = True"
| "well_used (Connect os # cs) = (connects os \<and> after_connect cs)"
| "well_used (c # cs) = False"

definition connected_process :: client_process where
  "connected_process = \<lparr>cp_async = Live, cp_loop = Live, cp_io = Live, cp_ctx = Live, cp_read_cb = True,
     cp_isWait = False, cp_running = True\<rparr>"

lemma create_client_new: "connects os \<Longrightarrow> create_client os new_client_process = (Inr (), connected_process)"
  by (simp add: create_client_def client_init_io_def client_configure_sslctx_def connects_def new_client_process_def
      connected_process_def act_defs)

lemma create_client_fails:
  assumes "\<not> connects os"
  obtains s where "create_client os new_client_process = (Inl (Fatal ''terminate''), s)"
proof -
  have "fst (create_client os new_client_process) = Inl (Fatal ''terminate'')"
    using assms
    by (simp add: create_client_def client_init_io_def client_configure_sslctx_def connects_def new_client_process_def
        act_defs sys_error_def)
  then show thesis using that by (cases "create_client os new_client_process") simp
qed

lemma freed_undefined:
  assumes "cp_io s = Freed" "cp_async s = Freed" "cs \<noteq> []"
  shows "client_calls cs s = (Inl Undefined, s)"
  using assms
  by (cases cs; cases "hd cs") (auto simp: create_client_def client_init_io_def client_deref_def clear_client_def act_defs)

lemma connected_calls: "(\<exists>s. client_calls cs connected_process = (Inr (), s)) \<longleftrightarrow> after_connect cs"
proof (induction cs)
  case (Cons c cs)
  show ?case
  proof (cases c)
    case Destroy
    let ?s = "connected_process\<lparr>cp_ctx := Freed, cp_loop := Freed, cp_io := Freed, cp_async := Freed, cp_running := False\<rparr>"
    have "client_calls (c # cs) connected_process = client_calls cs ?s"
      using Destroy by (simp add: clear_client_def client_deref_def act_defs connected_process_def)
    then show ?thesis
      using Destroy freed_undefined [of ?s cs] by (cases cs) (simp_all add: ret_def)
  next
    case Request
    then show ?thesis using Cons.IH by (simp add: client_deref_def act_defs connected_process_def)
  next
    case (Connect os)
    then show ?thesis by (simp add: create_client_def client_init_io_def act_defs connected_process_def)
  qed
qed (simp add: ret_def)


text \<open>A failing connection ends the process whatever comes next.\<close>

lemma connect_failure_fatal:
  assumes "\<not> connects os"
  shows "fst (client_calls (Connect os # cs) new_client_process) = Inl (Fatal ''terminate'')"
proof -
  from assms obtain s where "create_client os new_client_process = (Inl (Fatal ''terminate''), s)"
    by (rule create_client_fails)
  then show ?thesis by (simp add: act_seq_def act_bind_def)
qed

end
