(* ===== verification/NetClient.thy ===== *)
theory NetClient
  imports EventLoop
begin

text \<open>
  The network client (\<open>yijian/lib_client.cxx\<close>, \<open>yijian/net_yi.cxx\<close>): one connection with its send
  queue and request counter, and the table of callbacks by session number that \<open>netyi\<close> keeps.
  \<open>client_send\<close> calls \<open>set_sessionid\<close> with one argument, which \<open>buffer\<close> does not have; the second
  one is the parameter \<open>final\<close>. A callback is user code: \<open>behave\<close> gives the requests it makes and
  whether it leaves \<open>*isStop\<close> true.
\<close>

section \<open>State\<close>

datatype Session_ID = regist_login_connect | logout_disconnect_id | accept_unread_msg | user_noti

fun session_key :: "Session_ID \<Rightarrow> int" where
  "session_key regist_login_connect = - 1"
| "session_key logout_disconnect_id = - 2"
| "session_key accept_unread_msg = - 3"
| "session_key user_noti = - 4"

text \<open>The globals of \<open>lib_client.cxx\<close>, which both clients use.\<close>

record 'c link =
  cl_sessionid :: u16
  cl_buffer_sp :: buffer
  cl_bufs :: "buffer list"
  cl_buffers_p :: "ptr list"
  cl_async :: bool
  cl_writing :: bool
  cl_conn :: 'c
  cl_raw :: buffer

type_synonym ('c, 'z, 'a) lk = "(('c, 'z) link_scheme, 'a) act"

text \<open>\<open>cl_calls\<close> records the calls of callbacks; the code has no such member.\<close>

record ('f, 'c) client = "'c link" +
  cl_map :: "int \<Rightarrow> 'f option"
  cl_calls :: "('f \<times> u8 \<times> bytes) list"

type_synonym ('f, 'c, 'a) cl = "(('f, 'c) client, 'a) act"

text \<open>\<open>init_io\<close>: \<open>new Read_IO()\<close> zeroes the members without an initialiser.\<close>

definition init_io :: "buffer \<Rightarrow> 'c \<Rightarrow> 'c link" where
  "init_io junk ssl = \<lparr>cl_sessionid = 0, cl_buffer_sp = buffer_ctor junk MT_message, cl_bufs = [],
     cl_buffers_p = [], cl_async = False, cl_writing = False, cl_conn = ssl, cl_raw = junk\<rparr>"

definition new_netyi :: "'c link \<Rightarrow> ('f, 'c) client" where
  "new_netyi io = link.extend io (client.fields Map.empty [])"

section \<open>Sending\<close>

definition client_send :: "bool \<Rightarrow> ptr \<Rightarrow> ('c, 'z, u16) lk" where
  "client_send final sp =
     act_bind (gets cl_sessionid) (\<lambda>sid.
     act_seq (modify (\<lambda>s. s\<lparr>cl_sessionid := sid + 1\<rparr>))
    (act_bind (fetch cl_bufs sp) (\<lambda>b.
     case set_sessionid sid final b of
       (Inl e, b') \<Rightarrow> raise e
     | (Inr _, b') \<Rightarrow>
         act_seq (modify (\<lambda>s. s\<lparr>cl_bufs := (cl_bufs s)[sp := b'], cl_buffers_p := cl_buffers_p s @ [sp], cl_async := True\<rparr>))
         (ret sid))))"

definition put_map :: "int \<Rightarrow> 'f \<Rightarrow> ('f, 'c, unit) cl" where
  "put_map sessionid func = modify (\<lambda>s. s\<lparr>cl_map := (cl_map s)(sessionid := Some func)\<rparr>)"

definition put_map_send :: "bool \<Rightarrow> ptr \<Rightarrow> 'f \<Rightarrow> ('f, 'c, unit) cl" where
  "put_map_send final sp func =
     act_bind (client_send final sp) (\<lambda>temp_session. put_map (uint temp_session) func)"

definition put_map_send_at :: "bool \<Rightarrow> int \<Rightarrow> ptr \<Rightarrow> 'f \<Rightarrow> ('f, 'c, unit) cl" where
  "put_map_send_at final sessionid sp func =
     act_bind (client_send final sp) (\<lambda>_. put_map sessionid func)"

text \<open>The public operations of \<open>netyi\<close>.\<close>

datatype 'f request =
    Signup_login_connect ptr 'f | Logout_disconnect ptr 'f | Send_buffer ptr 'f
  | AcceptUnreadMsg 'f | UserInfoNoti 'f

fun netyi :: "bool \<Rightarrow> 'f request \<Rightarrow> ('f, 'c, unit) cl" where
  "netyi final (Signup_login_connect sp func) = put_map_send_at final (session_key regist_login_connect) sp func"
| "netyi final (Logout_disconnect sp func) = put_map_send_at final (session_key logout_disconnect_id) sp func"
| "netyi final (Send_buffer sp func) = put_map_send final sp func"
| "netyi final (AcceptUnreadMsg func) = put_map (session_key accept_unread_msg) func"
| "netyi final (UserInfoNoti func) = put_map (session_key user_noti) func"

section \<open>Receiving\<close>

text \<open>
  \<open>call_map\<close>: the iterator found before the callback still designates the node of the same key
  after it, because only \<open>call_map\<close> erases nodes; \<open>put_map\<close> assigns to the node that is there.
\<close>

definition call_map ::
  "bool \<Rightarrow> ('f \<Rightarrow> u8 \<Rightarrow> bytes \<Rightarrow> 'f request list \<times> bool) \<Rightarrow> int \<Rightarrow> buffer \<Rightarrow> ('f, 'c, bool) cl" where
  "call_map final behave sessionid sp =
     act_bind (gets (\<lambda>s. cl_map s sessionid)) (\<lambda>it.
     case it of
       None \<Rightarrow> ret False
     | Some lfunc \<Rightarrow>
         let (requests, isStop) = behave lfunc (b_data_type sp) (buffer_data sp) in
         act_seq (modify (\<lambda>s. s\<lparr>cl_calls := cl_calls s @ [(lfunc, b_data_type sp, buffer_data sp)]\<rparr>))
        (act_seq (foreach requests (netyi final))
        (act_seq (if isStop then modify (\<lambda>s. s\<lparr>cl_map := (cl_map s)(sessionid := None)\<rparr>) else ret ())
         (ret True))))"

text \<open>The key \<open>net_connect\<close> looks an answer up with.\<close>

definition answer_key :: "buffer \<Rightarrow> int" where
  "answer_key sp =
     (if b_data_type sp \<in> {chat_code CT_loginnoti, chat_code CT_addfriendnoti, chat_code CT_addfriendauthorizenoti}
      then session_key user_noti
      else if b_data_type sp = chat_code CT_nodemessagenoti then session_key accept_unread_msg
      else if b_data_type sp \<in> {chat_code CT_registorres, chat_code CT_loginres, chat_code CT_clientconnectres}
      then session_key regist_login_connect
      else if b_data_type sp \<in> {chat_code CT_logoutres, chat_code CT_clientdisconnectres}
      then session_key logout_disconnect_id
      else uint (b_session_id sp))"

definition net_callback ::
  "bool \<Rightarrow> ('f \<Rightarrow> u8 \<Rightarrow> bytes \<Rightarrow> 'f request list \<times> bool) \<Rightarrow> buffer \<Rightarrow> ('f, 'c, unit) cl" where
  "net_callback final behave sp = act_bind (call_map final behave (answer_key sp) sp) (\<lambda>_. ret ())"

definition on_read_buffer :: "(buffer \<times> 'c, 'a) act \<Rightarrow> ('c, 'z, 'a) lk" where
  "on_read_buffer m = (\<lambda>s. case m (cl_buffer_sp s, cl_conn s) of
     (r, (b, c)) \<Rightarrow> (r, s\<lparr>cl_buffer_sp := b, cl_conn := c\<rparr>))"

text \<open>What a complete frame does, and the read callback around it; \<open>read_cb\<close> is the function given to
  \<open>create_client\<close>.\<close>

definition frame_arrived :: "(buffer \<Rightarrow> ('c, 'z, unit) lk) \<Rightarrow> ('c, 'z, unit) lk" where
  "frame_arrived read_cb =
     act_bind (gets cl_buffer_sp) (\<lambda>sp.
     act_seq (if b_data_type sp = chat_code CT_clientconnectres
        then modify (\<lambda>s. s\<lparr>cl_sessionid := b_session_id sp\<rparr>) else ret ())
    (act_seq (read_cb sp)
     (modify (\<lambda>s. s\<lparr>cl_buffer_sp := buffer_ctor (cl_raw s) MT_message\<rparr>))))"

definition client_read_callback ::
  "(buffer \<Rightarrow> ('c, 'z, unit) lk) \<Rightarrow> 'c ssl_reader \<Rightarrow> ('c, 'z, unit) lk" where
  "client_read_callback read_cb R =
     rethrow 60000 ''need close client and restart''
       (act_bind (on_read_buffer (socket_read R)) (\<lambda>finished.
        if finished then frame_arrived read_cb else ret ()))"

section \<open>Writing\<close>

definition client_start_write :: "('c, 'z, unit) lk" where
  "client_start_write = modify (\<lambda>s. s\<lparr>cl_async := False, cl_writing := True\<rparr>)"

definition client_write_callback :: "'c ssl_writer \<Rightarrow> ('c, 'z, unit) lk" where
  "client_write_callback W =
     act_bind (gets cl_buffers_p) (\<lambda>q. case q of
       [] \<Rightarrow> modify (\<lambda>s. s\<lparr>cl_writing := False\<rparr>)
     | p # rest \<Rightarrow>
         act_bind (fetch cl_bufs p) (\<lambda>b.
         act_bind (\<lambda>s. case socket_write W (b, cl_conn s) of
           (r, (b', c)) \<Rightarrow> (r, s\<lparr>cl_bufs := (cl_bufs s)[p := b'], cl_conn := c\<rparr>)) (\<lambda>finished.
         if finished then modify (\<lambda>s. s\<lparr>cl_buffers_p := tl (cl_buffers_p s)\<rparr>) else ret ())))"

end
