(* ===== verification/Pairing.thy ===== *)
theory Pairing
  imports NetClient Receiving
begin

text \<open>
  The network client, alone and together with the server: which callback an answer reaches, and
  whether the session numbers the client sends are those the server expects.
\<close>

section \<open>Sending\<close>

definition sendable :: "ptr \<Rightarrow> ('c, 'z) link_scheme \<Rightarrow> bool" where
  "sendable p s \<longleftrightarrow> p < length (cl_bufs s) \<and> length (b_mem (cl_bufs s ! p)) = 1024"

definition sent :: "ptr \<Rightarrow> buffer \<Rightarrow> ('c, 'z) link_scheme \<Rightarrow> ('c, 'z) link_scheme" where
  "sent p b s = s\<lparr>cl_sessionid := cl_sessionid s + 1, cl_bufs := (cl_bufs s)[p := b],
     cl_buffers_p := cl_buffers_p s @ [p], cl_async := True\<rparr>"

definition numbered :: "bool \<Rightarrow> u16 \<Rightarrow> buffer \<Rightarrow> buffer \<Rightarrow> bool" where
  "numbered final sid b b' \<longleftrightarrow> set_sessionid sid final b = (Inr (), b') \<and> b_session_id b' = sid
     \<and> b_data_type b' = b_data_type b \<and> length (b_mem b') = 1024"

lemma client_send_ok:
  assumes "sendable p s"
  obtains b where "client_send final p s = (Inr (cl_sessionid s), sent p b s)"
    and "numbered final (cl_sessionid s) (cl_bufs s ! p) b"
proof -
  let ?sid = "cl_sessionid s"
  obtain b where b: "set_sessionid ?sid final (cl_bufs s ! p) = (Inr (), b)" "length (b_mem b) = 1024"
    using set_sessionid_1024 assms by (fastforce simp: sendable_def)
  then have "numbered final ?sid (cl_bufs s ! p) b"
    by (auto simp: numbered_def set_sessionid_def act_defs Let_def split: sum.splits)
  moreover have "client_send final p s = (Inr ?sid, sent p b s)"
    using b assms by (simp add: client_send_def sent_def sendable_def act_defs fetch_def)
  ultimately show ?thesis by (rule that [rotated])
qed

lemma sendable_sent: "sendable q s \<Longrightarrow> numbered final sid (cl_bufs s ! p) b \<Longrightarrow> sendable q (sent p b s)"
  by (cases "q = p") (auto simp: sendable_def sent_def numbered_def)

section \<open>Answers\<close>

definition special_answer :: "u8 \<Rightarrow> bool" where
  "special_answer t \<longleftrightarrow> t \<in> {chat_code CT_loginnoti, chat_code CT_addfriendnoti, chat_code CT_addfriendauthorizenoti,
     chat_code CT_nodemessagenoti, chat_code CT_registorres, chat_code CT_loginres, chat_code CT_clientconnectres,
     chat_code CT_logoutres, chat_code CT_clientdisconnectres}"

lemma answer_key_session: "\<not> special_answer (b_data_type b) \<Longrightarrow> answer_key b = uint (b_session_id b)"
  by (simp add: answer_key_def special_answer_def)

lemma special_connect: "\<not> special_answer t \<Longrightarrow> t \<noteq> chat_code CT_clientconnectres"
  by (auto simp: special_answer_def)

text \<open>A frame whose key has a callback that makes no request, and one whose key has none.\<close>

lemma frame_called:
  assumes "cl_map s (answer_key (cl_buffer_sp s)) = Some f" and "b_data_type (cl_buffer_sp s) \<noteq> chat_code CT_clientconnectres"
    and "behave f (b_data_type (cl_buffer_sp s)) (buffer_data (cl_buffer_sp s)) = ([], isStop)"
  shows "frame_arrived (net_callback final behave) s = (Inr (), s\<lparr>cl_buffer_sp := buffer_ctor (cl_raw s) MT_message,
     cl_calls := cl_calls s @ [(f, b_data_type (cl_buffer_sp s), buffer_data (cl_buffer_sp s))],
     cl_map := (if isStop then (cl_map s)(answer_key (cl_buffer_sp s) := None) else cl_map s)\<rparr>)"
  using assms by (simp add: frame_arrived_def net_callback_def call_map_def act_defs)

lemma frame_ignored:
  assumes "cl_map s (answer_key (cl_buffer_sp s)) = None" and "b_data_type (cl_buffer_sp s) \<noteq> chat_code CT_clientconnectres"
  shows "frame_arrived (net_callback final behave) s = (Inr (), s\<lparr>cl_buffer_sp := buffer_ctor (cl_raw s) MT_message\<rparr>)"
  using assms by (simp add: frame_arrived_def net_callback_def call_map_def act_defs)

text \<open>An answer finds its callback: after \<open>send_buffer\<close> with callback \<open>f\<close>, a frame of an ordinary type
  that carries the number the request was sent with calls \<open>f\<close> with its type and payload, once, and
  frees the number unless \<open>f\<close> asks for more.\<close>

theorem answer_delivered:
  assumes p: "sendable p s" and t: "\<not> special_answer (b_data_type b)" and sid: "b_session_id b = cl_sessionid s"
    and f: "behave f (b_data_type b) (buffer_data b) = ([], isStop)"
  shows "\<exists>u v. netyi final (Send_buffer p f) s = (Inr (), u)
     \<and> b_session_id (cl_bufs u ! p) = cl_sessionid s \<and> cl_buffers_p u = cl_buffers_p s @ [p]
     \<and> frame_arrived (net_callback final behave) (u\<lparr>cl_buffer_sp := b\<rparr>) = (Inr (), v)
     \<and> cl_calls v = cl_calls s @ [(f, b_data_type b, buffer_data b)]
     \<and> cl_map v = (cl_map s)(uint (cl_sessionid s) := (if isStop then None else Some f))"
proof -
  obtain b' where b': "client_send final p s = (Inr (cl_sessionid s), sent p b' s)"
      "numbered final (cl_sessionid s) (cl_bufs s ! p) b'" by (rule client_send_ok [OF p])
  let ?u = "(sent p b' s)\<lparr>cl_map := (cl_map s)(uint (cl_sessionid s) := Some f)\<rparr>"
  have u: "netyi final (Send_buffer p f) s = (Inr (), ?u)"
    using b'(1) by (simp add: put_map_send_def put_map_def act_defs sent_def)
  have k: "answer_key b = uint (cl_sessionid s)" using answer_key_session [OF t] sid by simp
  have "frame_arrived (net_callback final behave) (?u\<lparr>cl_buffer_sp := b\<rparr>) = (Inr (), ?u\<lparr>cl_buffer_sp := buffer_ctor (cl_raw s) MT_message,
     cl_calls := cl_calls s @ [(f, b_data_type b, buffer_data b)],
     cl_map := (cl_map s)(uint (cl_sessionid s) := (if isStop then None else Some f))\<rparr>)"
    using frame_called [of "?u\<lparr>cl_buffer_sp := b\<rparr>" f behave isStop final] f k special_connect [OF t] by (auto simp: sent_def)
  moreover have "b_session_id (cl_bufs ?u ! p) = cl_sessionid s" "cl_buffers_p ?u = cl_buffers_p s @ [p]"
    using p b'(2) by (simp_all add: sent_def sendable_def numbered_def)
  ultimately show ?thesis using u by (intro exI conjI) auto
qed

text \<open>The client of the witnesses: three buffers, nothing sent.\<close>

definition new_client :: "(nat, bytes list) client" where
  "new_client = (new_netyi (init_io undefined []))\<lparr>cl_bufs := replicate 3 (buffer_ctor undefined MT_message)\<rparr>"

lemma new_client_sendable: "p < 3 \<Longrightarrow> sendable p new_client"
  using buffer_ctor_fresh [of undefined MT_message]
  by (simp add: sendable_def new_client_def new_netyi_def init_io_def link.extend_def client.fields_def fresh_def buffer_ctor_def reset_def)

lemma answer_delivered_witness:
  "\<exists>v. cl_calls v = [(5, 13, buffer_data ((buffer_ctor undefined MT_message)\<lparr>b_data_type := 13, b_session_id := 0\<rparr>))]
     \<and> cl_map (v :: (nat, bytes list) client) 0 = None"
proof -
  let ?b = "(buffer_ctor undefined MT_message)\<lparr>b_data_type := 13, b_session_id := 0\<rparr>"
  show ?thesis
    using answer_delivered [OF new_client_sendable [of 0], of ?b "\<lambda>f t d. ([], True)" 5 True True]
    by (auto simp: special_answer_def new_client_def new_netyi_def init_io_def link.extend_def client.fields_def)
qed

text \<open>Only the first frame of a longer answer is delivered: the client calls back for every frame, and
  with \<open>*isStop\<close> left true the number is gone when the next frame of the same message arrives.\<close>

theorem later_frames_lost:
  assumes t: "\<not> special_answer (b_data_type b)" "\<not> special_answer (b_data_type b')"
    and sid: "b_session_id b' = b_session_id b" and f: "cl_map s (uint (b_session_id b)) = Some f"
    and stop: "behave f (b_data_type b) (buffer_data b) = ([], True)"
  shows "\<exists>u v. frame_arrived (net_callback final behave) (s\<lparr>cl_buffer_sp := b\<rparr>) = (Inr (), u)
     \<and> frame_arrived (net_callback final behave) (u\<lparr>cl_buffer_sp := b'\<rparr>) = (Inr (), v)
     \<and> cl_calls v = cl_calls s @ [(f, b_data_type b, buffer_data b)]"
proof -
  have k: "answer_key b = uint (b_session_id b)" "answer_key b' = uint (b_session_id b)"
    using answer_key_session t sid by simp_all
  let ?u = "s\<lparr>cl_buffer_sp := buffer_ctor (cl_raw s) MT_message,
     cl_calls := cl_calls s @ [(f, b_data_type b, buffer_data b)], cl_map := (cl_map s)(uint (b_session_id b) := None)\<rparr>"
  have "frame_arrived (net_callback final behave) (s\<lparr>cl_buffer_sp := b\<rparr>) = (Inr (), ?u)"
    using frame_called [of "s\<lparr>cl_buffer_sp := b\<rparr>" f behave True final] k f stop special_connect [OF t(1)] by simp
  moreover have "frame_arrived (net_callback final behave) (?u\<lparr>cl_buffer_sp := b'\<rparr>) = (Inr (), ?u\<lparr>cl_buffer_sp := buffer_ctor (cl_raw s) MT_message\<rparr>)"
    using frame_ignored [of "?u\<lparr>cl_buffer_sp := b'\<rparr>" final behave] k special_connect [OF t(2)] by simp
  ultimately show ?thesis by (intro exI [of _ ?u] exI [of _ "?u\<lparr>cl_buffer_sp := buffer_ctor (cl_raw s) MT_message\<rparr>"] conjI) simp_all
qed

lemma later_frames_lost_witness:
  "\<exists>u v. frame_arrived (net_callback True (\<lambda>f t d. ([], True))) (new_client\<lparr>cl_map := [7 \<mapsto> 5],
       cl_buffer_sp := (buffer_ctor undefined MT_message)\<lparr>b_data_type := 37, b_session_id := 7\<rparr>\<rparr>) = (Inr (), u)
     \<and> frame_arrived (net_callback True (\<lambda>f t d. ([], True)))
         (u\<lparr>cl_buffer_sp := (buffer_ctor undefined MT_message)\<lparr>b_data_type := 37, b_session_id := 7\<rparr>\<rparr>) = (Inr (), v)
     \<and> length (cl_calls v) = 1"
proof -
  let ?b = "(buffer_ctor undefined MT_message)\<lparr>b_data_type := 37, b_session_id := 7\<rparr>"
  show ?thesis
    using later_frames_lost [of ?b ?b "new_client\<lparr>cl_map := [7 \<mapsto> 5]\<rparr>" 5 "\<lambda>f t d. ([], True)" True]
    by (auto simp: special_answer_def new_client_def new_netyi_def init_io_def link.extend_def client.fields_def)
qed

definition login_answer :: "u8 \<Rightarrow> bool" where
  "login_answer t \<longleftrightarrow> t \<in> {chat_code CT_registorres, chat_code CT_loginres, chat_code CT_clientconnectres}"

lemma login_answer_key: "login_answer (b_data_type b) \<Longrightarrow> answer_key b = - 1"
  by (auto simp: login_answer_def answer_key_def)

lemma login_ignored:
  assumes "cl_map s (- 1) = None" and "login_answer (b_data_type b)"
  shows "\<exists>v. frame_arrived (net_callback final behave) (s\<lparr>cl_buffer_sp := b\<rparr>) = (Inr (), v) \<and> cl_calls v = cl_calls s"
  using assms login_answer_key [of b]
  by (simp add: frame_arrived_def net_callback_def call_map_def act_defs)

text \<open>A login callback that connects loses the answer: when the callback of the login (or of the
  registration) issues the next of these requests with callback \<open>g\<close> and leaves \<open>*isStop\<close> true, the
  request is sent but \<open>g\<close>, which has taken the place of the old callback, is erased, and the answer
  to the request calls nobody.\<close>

theorem connect_callback_lost:
  assumes f: "cl_map s (- 1) = Some f" and t: "b_data_type b \<in> {chat_code CT_registorres, chat_code CT_loginres}"
    and p: "sendable p s" and call: "behave f (b_data_type b) (buffer_data b) = ([Signup_login_connect p g], True)"
    and t': "login_answer (b_data_type b')"
  shows "\<exists>u v. frame_arrived (net_callback final behave) (s\<lparr>cl_buffer_sp := b\<rparr>) = (Inr (), u)
     \<and> cl_buffers_p u = cl_buffers_p s @ [p] \<and> cl_map u (- 1) = None
     \<and> frame_arrived (net_callback final behave) (u\<lparr>cl_buffer_sp := b'\<rparr>) = (Inr (), v)
     \<and> cl_calls v = cl_calls s @ [(f, b_data_type b, buffer_data b)]"
proof -
  let ?s = "s\<lparr>cl_buffer_sp := b, cl_calls := cl_calls s @ [(f, b_data_type b, buffer_data b)]\<rparr>"
  have "sendable p ?s" using p by (simp add: sendable_def)
  then obtain b1 where b1: "client_send final p ?s = (Inr (cl_sessionid ?s), sent p b1 ?s)"
    by (rule client_send_ok)
  let ?u = "(sent p b1 ?s)\<lparr>cl_buffer_sp := buffer_ctor (cl_raw s) MT_message, cl_map := ((cl_map s)(- 1 \<mapsto> g))(- 1 := None)\<rparr>"
  have u: "frame_arrived (net_callback final behave) (s\<lparr>cl_buffer_sp := b\<rparr>) = (Inr (), ?u)"
    using f t call b1 login_answer_key [of b]
    by (auto simp: frame_arrived_def net_callback_def call_map_def put_map_send_at_def put_map_def act_defs sent_def login_answer_def)
  have "cl_map ?u (- 1) = None" "cl_calls ?u = cl_calls ?s" "cl_buffers_p ?u = cl_buffers_p s @ [p]"
    by (simp_all add: sent_def)
  then show ?thesis using u login_ignored [of ?u b' final behave] t' by auto
qed

lemma connect_callback_lost_witness:
  "\<exists>u v. frame_arrived (net_callback True (\<lambda>f t d. ([Signup_login_connect 0 6], True))) (new_client\<lparr>cl_map := [- 1 \<mapsto> 5],
       cl_buffer_sp := (buffer_ctor undefined MT_message)\<lparr>b_data_type := 4\<rparr>\<rparr>) = (Inr (), u)
     \<and> frame_arrived (net_callback True (\<lambda>f t d. ([Signup_login_connect 0 6], True)))
         (u\<lparr>cl_buffer_sp := (buffer_ctor undefined MT_message)\<lparr>b_data_type := 7\<rparr>\<rparr>) = (Inr (), v)
     \<and> map fst (cl_calls v) = [5]"
proof -
  let ?b = "(buffer_ctor undefined MT_message)\<lparr>b_data_type := 4\<rparr>" and ?b' = "(buffer_ctor undefined MT_message)\<lparr>b_data_type := 7\<rparr>"
  have "sendable 0 (new_client\<lparr>cl_map := [- 1 \<mapsto> 5]\<rparr>)" using new_client_sendable [of 0] by (simp add: sendable_def)
  from connect_callback_lost [OF _ _ this, of 5 ?b "\<lambda>f t d. ([Signup_login_connect 0 6], True)" 6 ?b' True]
  show ?thesis by (auto simp: login_answer_def new_client_def new_netyi_def init_io_def link.extend_def client.fields_def)
qed

section \<open>The numbers of client and server\<close>

primrec client_sends :: "bool \<Rightarrow> ptr list \<Rightarrow> ('c, 'z, u16 list) lk" where
  "client_sends final [] = ret []"
| "client_sends final (p # ps) =
     act_bind (client_send final p) (\<lambda>sid. act_bind (client_sends final ps) (\<lambda>sids. ret (sid # sids)))"

primrec take_sessionids :: "ptr \<Rightarrow> u8 list \<Rightarrow> ('db, 'c, u16 list) srv" where
  "take_sessionids node [] = ret []"
| "take_sessionids node (t # ts) =
     act_bind (take_sessionid node t) (\<lambda>sid. act_bind (take_sessionids node ts) (\<lambda>sids. ret (sid # sids)))"

definition numbers :: "u16 \<Rightarrow> nat \<Rightarrow> u16 list" where
  "numbers sid n = map (\<lambda>i. sid + of_nat i) [0 ..< n]"

lemma numbers_Suc: "numbers sid (Suc n) = sid # numbers (sid + 1) n"
  by (simp add: numbers_def upt_conv_Cons map_Suc_upt [symmetric] comp_def algebra_simps del: upt_Suc)

lemma client_sends_ok:
  assumes "\<forall>p \<in> set ps. sendable p s"
  shows "\<exists>s'. client_sends final ps s = (Inr (numbers (cl_sessionid s) (length ps)), s')
     \<and> cl_sessionid s' = cl_sessionid s + of_nat (length ps) \<and> cl_buffers_p s' = cl_buffers_p s @ ps"
  using assms
proof (induction ps arbitrary: s)
  case Nil
  then show ?case by (simp add: act_defs numbers_def)
next
  case (Cons p ps)
  obtain b where b: "client_send final p s = (Inr (cl_sessionid s), sent p b s)"
      "numbered final (cl_sessionid s) (cl_bufs s ! p) b"
    using client_send_ok [of p s final] Cons.prems by auto
  have "\<forall>q \<in> set ps. sendable q (sent p b s)" using Cons.prems sendable_sent [OF _ b(2)] by simp
  from Cons.IH [OF this] obtain s' where s': "client_sends final ps (sent p b s)
      = (Inr (numbers (cl_sessionid s + 1) (length ps)), s')"
      "cl_sessionid s' = cl_sessionid s + 1 + of_nat (length ps)" "cl_buffers_p s' = cl_buffers_p s @ p # ps"
    by (auto simp: sent_def)
  then show ?case using b(1) by (simp add: act_defs numbers_Suc)
qed

lemma below_limit:
  assumes "unat (sid :: u16) + Suc n \<le> 32767"
  shows "sid \<noteq> MaxSessionID" and "unat (sid + 1) = unat sid + 1"
proof -
  show "sid \<noteq> MaxSessionID"
  proof
    assume "sid = MaxSessionID"
    then show False using assms by (simp add: MaxSessionID_def)
  qed
  show "unat (sid + 1) = unat sid + 1" using assms by (subst unat_add_lem [THEN iffD1]) simp_all
qed

lemma take_sessionids_ok:
  assumes "node < length (rios s)" and "\<forall>t \<in> set ts. missing_check8 t"
    and "unat (r_sessionid (rios s ! node)) + length ts \<le> 32767"
  shows "\<exists>s'. take_sessionids node ts s = (Inr (numbers (r_sessionid (rios s ! node)) (length ts)), s')
     \<and> r_sessionid (rios s' ! node) = r_sessionid (rios s ! node) + of_nat (length ts) \<and> length (rios s') = length (rios s)"
  using assms
proof (induction ts arbitrary: s)
  case Nil
  then show ?case by (simp add: act_defs numbers_def)
next
  case (Cons t ts)
  let ?r = "r_sessionid (rios s ! node)"
  note lim = below_limit [of ?r "length ts"]
  let ?s = "s\<lparr>rios := change node (\<lambda>io. io\<lparr>r_sessionid := r_sessionid io + 1\<rparr>) (rios s)\<rparr>"
  have r: "r_sessionid (rios ?s ! node) = ?r + 1" "length (rios ?s) = length (rios s)"
    using Cons.prems(1) by (simp_all add: change_def)
  have st: "take_sessionid node t s = (Inr ?r, ?s)"
    using Cons.prems lim(1) by (simp add: take_sessionid_def act_defs fetch_def set_rio_def)
  have "\<exists>s'. take_sessionids node ts ?s = (Inr (numbers (?r + 1) (length ts)), s')
     \<and> r_sessionid (rios s' ! node) = ?r + 1 + of_nat (length ts) \<and> length (rios s') = length (rios s)"
    using Cons.IH [of ?s] Cons.prems lim(2) r by simp
  then show ?case using st by (auto simp: act_defs numbers_Suc)
qed



text \<open>A second request before connecting is refused: a new client numbers its first two requests 0 and 1,
  whatever they are, and the server, which expects 0 with every type that needs no session, answers
  the second (the connect after the login) with error 11010.\<close>

theorem second_request_refused:
  assumes c: "sendable p c" "sendable q c" "p \<noteq> q" and new: "cl_sessionid c = 0"
    and t: "\<not> missing_check8 (b_data_type (cl_bufs c ! p))" "\<not> missing_check8 (b_data_type (cl_bufs c ! q))"
  shows "\<exists>c'. client_sends final [p, q] c = (Inr [0, 1], c')
     \<and> expected_sessionid w node (b_data_type (cl_bufs c' ! p)) = 0 \<and> admitted w node 0 (cl_bufs c' ! p)
     \<and> expected_sessionid w node (b_data_type (cl_bufs c' ! q)) = 0 \<and> \<not> admitted w node 0 (cl_bufs c' ! q)
     \<and> Error_errnum (refusal w node 0 (cl_bufs c' ! q)) = 11010"
proof -
  obtain b where b: "client_send final p c = (Inr 0, sent p b c)" "numbered final 0 (cl_bufs c ! p) b"
    using client_send_ok [OF c(1), of final] new by metis
  let ?c = "sent p b c"
  have k: "sendable q ?c" "cl_sessionid ?c = 1" "cl_bufs ?c ! q = cl_bufs c ! q"
    using sendable_sent [OF c(2) b(2)] new c(3) by (simp_all add: sent_def)
  obtain b' where b': "client_send final q ?c = (Inr 1, sent q b' ?c)" "numbered final 1 (cl_bufs ?c ! q) b'"
    using client_send_ok [OF k(1), of final] k(2) by metis
  let ?c' = "sent q b' ?c"
  have "cl_bufs ?c' ! q = b'" "cl_bufs ?c' ! p = b" using k(1) c by (simp_all add: sendable_def sent_def)
  then have q: "b_session_id (cl_bufs ?c' ! q) = 1" "b_data_type (cl_bufs ?c' ! q) = b_data_type (cl_bufs c ! q)"
      "b_session_id (cl_bufs ?c' ! p) = 0" "b_data_type (cl_bufs ?c' ! p) = b_data_type (cl_bufs c ! p)"
    using b(2) b'(2) k(3) by (simp_all add: numbered_def)
  moreover have "client_sends final [p, q] c = (Inr [0, 1], ?c')" using b(1) b'(1) by (simp add: act_defs)
  ultimately show ?thesis
    using t by (intro exI [of _ ?c'] conjI) (simp_all add: expected_sessionid_def admitted_def refusal_def MinSessionID_def)
qed

lemma second_request_refused_witness:
  "\<exists>c'. client_sends True [0, 1] (new_client\<lparr>cl_bufs := [(buffer_ctor undefined MT_message)\<lparr>b_data_type := 3\<rparr>,
       (buffer_ctor undefined MT_message)\<lparr>b_data_type := 6\<rparr>]\<rparr>) = (Inr [0, 1], c')
     \<and> admitted reconnected 0 0 (cl_bufs c' ! 0) \<and> \<not> admitted reconnected 0 0 (cl_bufs c' ! 1)"
proof -
  let ?c = "new_client\<lparr>cl_bufs := [(buffer_ctor undefined MT_message)\<lparr>b_data_type := 3\<rparr>, (buffer_ctor undefined MT_message)\<lparr>b_data_type := 6\<rparr>]\<rparr>"
  have m: "length (b_mem (buffer_ctor undefined MT_message)) = 1024"
    using new_client_sendable [of 0] by (simp add: sendable_def new_client_def)
  have s: "sendable 0 ?c" "sendable 1 ?c" using m by (simp_all add: sendable_def)
  have t: "cl_sessionid ?c = 0" "\<not> missing_check8 (b_data_type (cl_bufs ?c ! 0))" "\<not> missing_check8 (b_data_type (cl_bufs ?c ! 1))"
    by (simp_all add: new_client_def new_netyi_def init_io_def link.extend_def client.fields_def missing_check_iff)
  from second_request_refused [OF s zero_neq_one t, of True reconnected 0] show ?thesis by blast
qed

end
