(* ===== verification/EndToEnd.thy ===== *)
theory EndToEnd
  imports Pairing
begin

text \<open>
  A request all the way: the network client numbers and writes the frame, the connection delivers it in
  pieces, the server hands it to the worker, and \<open>dispatch\<close> runs the handler of the message's type on
  the message that was sent (\<open>yijian/lib_client.cxx\<close>, \<open>yijian/libev_server.cxx\<close>,
  \<open>yijian/server_msg_typemap.cxx\<close>).
\<close>

section \<open>Types and handlers\<close>

text \<open>The overload \<open>dispatch(chat::X &)\<close> of each message type the server accepts.\<close>

fun handler_of :: "codec \<Rightarrow> 'db mongo \<Rightarrow> chat_msg \<Rightarrow> ('db, 'c, unit) srv option" where
  "handler_of K M (M_Error m) = Some (dispatch_Error m)"
| "handler_of K M (M_Register m) = Some (dispatch_Register K M m)"
| "handler_of K M (M_Login m) = Some (dispatch_Login K M m)"
| "handler_of K M (M_LoginRes m) = Some (dispatch_LoginRes K M m)"
| "handler_of K M (M_Logout m) = Some (dispatch_Logout K M m)"
| "handler_of K M (M_ClientConnect m) = Some (dispatch_ClientConnect K M m)"
| "handler_of K M (M_ClientDisConnect m) = Some (dispatch_ClientDisConnect K M m)"
| "handler_of K M (M_QueryUser m) = Some (dispatch_QueryUser K M m)"
| "handler_of K M (M_QueryUserVersion m) = Some (dispatch_QueryUserVersion K M m)"
| "handler_of K M (M_AddFriend m) = Some (dispatch_AddFriend K M m)"
| "handler_of K M (M_AddFriendRes m) = Some (dispatch_AddFriendRes K M m)"
| "handler_of K M (M_AddFriendAuthorize m) = Some (dispatch_AddFriendAuthorize K M m)"
| "handler_of K M (M_AddFriendAuthorizeRes m) = Some (dispatch_AddFriendAuthorizeRes K M m)"
| "handler_of K M (M_CreateGroup m) = Some (dispatch_CreateGroup K M m)"
| "handler_of K M (M_GroupAddMember m) = Some (dispatch_GroupAddMember K M m)"
| "handler_of K M (M_QueryNodeVersion m) = Some (dispatch_QueryNodeVersion K M m)"
| "handler_of K M (M_QueryNode m) = Some (dispatch_QueryNode K M m)"
| "handler_of K M (M_NodeMessage m) = Some (dispatch_NodeMessage K M m)"
| "handler_of K M (M_QueryMessage m) = Some (dispatch_QueryMessage K M m)"
| "handler_of K M (M_QueryOneMessage m) = Some (dispatch_QueryOneMessage K M m)"
| "handler_of K M (M_NodeMessageRes m) = Some (dispatch_NodeMessageRes K M m)"
| "handler_of K M (M_Media m) = Some (dispatch_Media K M m)"
| "handler_of K M (M_QueryMedia m) = Some (dispatch_QueryMedia K M m)"
| "handler_of K M (M_QueryAddfriendInfo m) = Some (dispatch_QueryAddfriendInfo K M m)"
| "handler_of K M (M_Ping m) = Some (dispatch_Ping K m)"
| "handler_of K M (M_SetUserProperty m) = Some (dispatch_SetUserProperty K M m)"
| "handler_of K M any = None"

text \<open>The protobuf runtime parses back the message \<open>any\<close>; asked only of messages the server accepts.\<close>

fun reads_back :: "codec \<Rightarrow> chat_msg \<Rightarrow> bool" where
  "reads_back K (M_Error m) \<longleftrightarrow> parse_Error K (ser K (M_Error m)) = m"
| "reads_back K (M_Register m) \<longleftrightarrow> parse_Register K (ser K (M_Register m)) = m"
| "reads_back K (M_Login m) \<longleftrightarrow> parse_Login K (ser K (M_Login m)) = m"
| "reads_back K (M_LoginRes m) \<longleftrightarrow> parse_LoginRes K (ser K (M_LoginRes m)) = m"
| "reads_back K (M_Logout m) \<longleftrightarrow> parse_Logout K (ser K (M_Logout m)) = m"
| "reads_back K (M_ClientConnect m) \<longleftrightarrow> parse_ClientConnect K (ser K (M_ClientConnect m)) = m"
| "reads_back K (M_ClientDisConnect m) \<longleftrightarrow> parse_ClientDisConnect K (ser K (M_ClientDisConnect m)) = m"
| "reads_back K (M_QueryUser m) \<longleftrightarrow> parse_QueryUser K (ser K (M_QueryUser m)) = m"
| "reads_back K (M_QueryUserVersion m) \<longleftrightarrow> parse_QueryUserVersion K (ser K (M_QueryUserVersion m)) = m"
| "reads_back K (M_AddFriend m) \<longleftrightarrow> parse_AddFriend K (ser K (M_AddFriend m)) = m"
| "reads_back K (M_AddFriendRes m) \<longleftrightarrow> parse_AddFriendRes K (ser K (M_AddFriendRes m)) = m"
| "reads_back K (M_AddFriendAuthorize m) \<longleftrightarrow> parse_AddFriendAuthorize K (ser K (M_AddFriendAuthorize m)) = m"
| "reads_back K (M_AddFriendAuthorizeRes m) \<longleftrightarrow> parse_AddFriendAuthorizeRes K (ser K (M_AddFriendAuthorizeRes m)) = m"
| "reads_back K (M_CreateGroup m) \<longleftrightarrow> parse_CreateGroup K (ser K (M_CreateGroup m)) = m"
| "reads_back K (M_GroupAddMember m) \<longleftrightarrow> parse_GroupAddMember K (ser K (M_GroupAddMember m)) = m"
| "reads_back K (M_QueryNodeVersion m) \<longleftrightarrow> parse_QueryNodeVersion K (ser K (M_QueryNodeVersion m)) = m"
| "reads_back K (M_QueryNode m) \<longleftrightarrow> parse_QueryNode K (ser K (M_QueryNode m)) = m"
| "reads_back K (M_NodeMessage m) \<longleftrightarrow> parse_NodeMessage K (ser K (M_NodeMessage m)) = m"
| "reads_back K (M_QueryMessage m) \<longleftrightarrow> parse_QueryMessage K (ser K (M_QueryMessage m)) = m"
| "reads_back K (M_QueryOneMessage m) \<longleftrightarrow> parse_QueryOneMessage K (ser K (M_QueryOneMessage m)) = m"
| "reads_back K (M_NodeMessageRes m) \<longleftrightarrow> parse_NodeMessageRes K (ser K (M_NodeMessageRes m)) = m"
| "reads_back K (M_Media m) \<longleftrightarrow> parse_Media K (ser K (M_Media m)) = m"
| "reads_back K (M_QueryMedia m) \<longleftrightarrow> parse_QueryMedia K (ser K (M_QueryMedia m)) = m"
| "reads_back K (M_QueryAddfriendInfo m) \<longleftrightarrow> parse_QueryAddfriendInfo K (ser K (M_QueryAddfriendInfo m)) = m"
| "reads_back K (M_Ping m) \<longleftrightarrow> parse_Ping K (ser K (M_Ping m)) = m"
| "reads_back K (M_SetUserProperty m) \<longleftrightarrow> parse_SetUserProperty K (ser K (M_SetUserProperty m)) = m"
| "reads_back K any \<longleftrightarrow> True"

definition handle :: "codec \<Rightarrow> 'db mongo \<Rightarrow> chat_msg \<Rightarrow> ('db, 'c, unit) srv" where
  "handle K M any = (case handler_of K M any of None \<Rightarrow> ret () | Some h \<Rightarrow> h)"

abbreviation type_byte :: "chat_msg \<Rightarrow> u8" where
  "type_byte any \<equiv> chat_code (dispatchType any)"

lemma dispatch_typed_lemma:
  assumes "reads_back K any"
  shows "dispatch_data K M (type_byte any) (ser K any) = handle K M any"
  using assms by (cases any) (simp_all add: dispatch_data_def dispatch_map_def handle_def)

text \<open>C12: The type byte and the payload of a request agree: whatever message the client serialises under the
  byte of its type, the server's table selects the handler of that message type and the handler gets
  that message; messages that are answers have no handler.\<close>

theorem dispatch_typed:
  assumes "reads_back K any"
  shows "dispatch_data K M (chat_code (dispatchType any)) (ser K any)
     = (case handler_of K M any of None \<Rightarrow> ret () | Some h \<Rightarrow> h)"
  using dispatch_typed_lemma [OF assms] by (simp add: handle_def)

lemma dispatch_typed_witness:
  "dispatch_data plain_codec memory (chat_code CT_ping) (ser plain_codec (M_Ping Ping_new)) = dispatch_Ping plain_codec Ping_new"
proof -
  have "reads_back plain_codec (M_Ping Ping_new)" by (simp add: plain_codec_def)
  from dispatch_typed [OF this, of memory] show ?thesis by simp
qed

lemma type_byte_no_server: "type_byte any \<noteq> chat_code CT_serverconnect" "type_byte any \<noteq> chat_code CT_serverdisconnect"
  by (cases any; simp)+

section \<open>From client to handler\<close>

text \<open>A request is sent and written: the connection gets the frame with the next number.\<close>

lemma client_request_written:
  assumes p: "p < length (cl_bufs c)" "Buffer_new r type data = Inr (cl_bufs c ! p)" "length data \<le> 1019"
    and q: "cl_buffers_p c = []"
    and W: "W (cl_conn c) (frame_bytes (cl_sessionid c) True type data)
      = (Ssl_written (length (frame_bytes (cl_sessionid c) True type data)), ssl)"
  obtains c' c'' where "netyi True (Send_buffer p f) c = (Inr (), c')" and "client_write_callback W c' = (Inr (), c'')"
    and "cl_conn c'' = ssl" and "cl_buffers_p c'' = []" and "cl_map c'' = (cl_map c)(uint (cl_sessionid c) \<mapsto> f)"
    and "cl_buffer_sp c'' = cl_buffer_sp c" and "cl_calls c'' = cl_calls c" and "cl_raw c'' = cl_raw c"
proof -
  obtain b0 where b0: "Buffer_new r type data = Inr b0" "length (b_mem b0) = 1024"
      "\<And>sid l. \<exists>b'. set_sessionid sid l b0 = (Inr (), b') \<and> holds_frame b' sid l type data"
    using Buffer_new_ok [OF p(3), of r type] by blast
  then have "sendable p c" using p by (simp add: sendable_def)
  then obtain b where b: "client_send True p c = (Inr (cl_sessionid c), sent p b c)"
      "numbered True (cl_sessionid c) (cl_bufs c ! p) b" by (rule client_send_ok)
  have h: "holds_frame b (cl_sessionid c) True type data"
    using b(2) b0(1) b0(3) [of "cl_sessionid c" True] p(2) by (auto simp: numbered_def)
  let ?c = "(sent p b c)\<lparr>cl_map := (cl_map c)(uint (cl_sessionid c) \<mapsto> f)\<rparr>"
  have n: "netyi True (Send_buffer p f) c = (Inr (), ?c)"
    using b(1) by (simp add: put_map_send_def put_map_def act_defs sent_def)
  obtain b' where w: "socket_write W (b, cl_conn c) = (Inr True, (b', ssl))"
    using socket_write_whole [of b "cl_sessionid c" True type data W "cl_conn c" ssl, OF h p(3) W] by blast
  have k: "cl_buffers_p ?c = [p]" "cl_bufs ?c ! p = b" "p < length (cl_bufs ?c)" "cl_conn ?c = cl_conn c"
      "cl_buffer_sp ?c = cl_buffer_sp c" "cl_calls ?c = cl_calls c" "cl_raw ?c = cl_raw c"
    using p(1) q by (simp_all add: sent_def)
  show ?thesis
    by (rule that [OF n, of "?c\<lparr>cl_bufs := (cl_bufs ?c)[p := b'], cl_conn := ssl, cl_buffers_p := []\<rparr>"])
      (use w k in \<open>simp_all add: client_write_callback_def act_defs fetch_def\<close>)
qed

text \<open>The job of an admitted request: note the session, raise its number, run the handler.\<close>

definition request_job :: "codec \<Rightarrow> 'db mongo \<Rightarrow> ptr \<Rightarrow> u16 \<Rightarrow> chat_msg \<Rightarrow> ('db, 'c, unit) srv" where
  "request_job K M node sid any =
     act_seq (modify (\<lambda>s. s\<lparr>currentNode := Some node, session_id := sid\<rparr>))
    (act_bind (fetch rios node) (\<lambda>io.
     act_seq (if missing_check8 (type_byte any) then liftdb (updateSessionID M (r_uuid io) (r_userid io) sid) else ret ())
    (act_seq (handle K M any) (modify (\<lambda>s. s\<lparr>currentNode := None\<rparr>)))))"

definition in_session :: "('db, 'c) world \<Rightarrow> ptr \<Rightarrow> u16 \<Rightarrow> u8 \<Rightarrow> bool" where
  "in_session s node sid type \<longleftrightarrow> sid = expected_sessionid s node type
     \<and> (missing_check8 type \<longrightarrow> r_isConnect (rios s ! node) \<and> MinSessionID \<le> sid)"

lemma dispatch_admitted:
  fixes s :: "('db, 'c) world"
  assumes node: "node < length (rios s)" and q: "q < length (bufs s)"
    and b: "buffer_data (bufs s ! q) = ser K any" "b_data_type (bufs s ! q) = type_byte any" "b_session_id (bufs s ! q) = sid"
    and rb: "reads_back K any"
    and sess: "if missing_check8 (type_byte any) then r_isConnect (rios s ! node) \<and> MinSessionID \<le> sid else sid = 0"
  shows "dispatch K M node [q] sid s = request_job K M node sid any s"
proof -
  let ?s = "s\<lparr>currentNode := Some node, session_id := sid\<rparr>"
  have ad: "admitted ?s node sid (bufs s ! q)"
    using sess b by (auto simp: admitted_def MinSessionID_def split: if_splits)
  have dd: "dispatch_data K M (b_data_type (bufs s ! q)) (ser K any) = (handle K M any :: ('db, 'c, unit) srv)"
    unfolding b(2) by (rule dispatch_typed_lemma [OF rb])
  have m: "MinSessionID \<le> sid \<longleftrightarrow> missing_check8 (type_byte any)"
    using sess by (auto simp: MinSessionID_def split: if_splits)
  have "gate K M node sid (b_session_id (bufs s ! q)) (b_data_type (bufs s ! q)) (ser K any) ?s
      = (if missing_check8 (type_byte any)
         then act_seq (liftdb (updateSessionID M (r_uuid (rios s ! node)) (r_userid (rios s ! node)) sid)) (handle K M any) ?s
         else handle K M any ?s)"
    using gate_cases [of node ?s K M sid "bufs s ! q" "ser K any"] node ad m b(2) dd by simp
  then show ?thesis
    using dispatch_exec [of "[q]" s K M node sid] node q b(1)
    by (auto simp: request_job_def act_defs fetch_def split: prod.splits sum.splits)
qed

lemma request_arrives:
  fixes s :: "('db, 'c) world" and c :: "('f, 'd) client"
  assumes client: "p < length (cl_bufs c)" "Buffer_new r (chat_code (dispatchType any)) (ser K any) = Inr (cl_bufs c ! p)"
      "cl_buffers_p c = []"
    and msg: "2 \<le> length (ser K any)" "length (ser K any) \<le> 1019" "reads_back K any"
    and frame: "fr = frame_bytes (cl_sessionid c) True (chat_code (dispatchType any)) (ser K any)"
      "cl_sessionid c \<le> MaxSessionID" "drop_bit 7 (fr ! 4) = 0"
    and written: "W (cl_conn c) fr = (Ssl_written (length fr), ssl)"
    and node: "node < length (rios s)" "node < length (conns s)" "r_buffer_sp_v (rios s ! node) = []"
    and network: "fst (R (conns s ! node) 5) = Ssl_data (take 5 fr)" "cs \<noteq> []" "concat cs = drop 5 fr" "[] \<notin> set cs"
      "delivers R (snd (R (conns s ! node) 5)) (length fr - 5) cs"
    and session: "in_session s node (cl_sessionid c) (chat_code (dispatchType any))"
  obtains c' c'' s' where "netyi True (Send_buffer p f) c = (Inr (), c')" and "client_write_callback W c' = (Inr (), c'')"
    and "cl_conn c'' = ssl" and "cl_buffers_p c'' = []" and "cl_map c'' = (cl_map c)(uint (cl_sessionid c) \<mapsto> f)"
    and "cl_buffer_sp c'' = cl_buffer_sp c" and "cl_calls c'' = cl_calls c" and "cl_raw c'' = cl_raw c"
    and "read_events (length cs) R shared node s = (Inr (), s')" and "wdb s' = wdb s"
    and "workq s' = workq s @ [(node, [length (bufs s)], cl_sessionid c)]" and "node_kept node s s'"
    and "dispatch K M node [length (bufs s)] (cl_sessionid c) s' = request_job K M node (cl_sessionid c) any s'"
proof -
  obtain c' c'' where c: "netyi True (Send_buffer p f) c = (Inr (), c')" "client_write_callback W c' = (Inr (), c'')"
      "cl_conn c'' = ssl" "cl_buffers_p c'' = []" "cl_map c'' = (cl_map c)(uint (cl_sessionid c) \<mapsto> f)"
      "cl_buffer_sp c'' = cl_buffer_sp c" "cl_calls c'' = cl_calls c" "cl_raw c'' = cl_raw c"
    by (rule client_request_written
        [of p c r "type_byte any" "ser K any" W ssl f, OF client(1,2) msg(2) client(3) written [unfolded frame(1)]])
  have ex: "expected_sessionid s node (type_byte any) = cl_sessionid c" using session by (simp add: in_session_def)
  obtain s' where s': "read_events (length cs) R shared node s = (Inr (), s')"
      "workq s' = workq s @ [(node, [length (bufs s)], cl_sessionid c)]"
      "gather [length (bufs s)] s' = (Inr (ser K any), s')" "wdb s' = wdb s"
      "b_data_type (bufs s' ! length (bufs s)) = type_byte any" "b_session_id (bufs s' ! length (bufs s)) = cl_sessionid c"
      "length (bufs s) < length (bufs s')" "node_kept node s s'"
    using request_received_lemma [OF node msg(1,2) frame(2) type_byte_no_server frame(3) [unfolded frame(1)]
        network(1) [unfolded frame(1)] network(2) network(3) [unfolded frame(1)] network(4) network(5) [unfolded frame(1)], of shared]
    unfolding ex by blast
  have d: "buffer_data (bufs s' ! length (bufs s)) = ser K any"
    using s'(3,7) by (simp add: act_defs fetch_def)
  have k: "node < length (rios s')" "r_isConnect (rios s' ! node) = r_isConnect (rios s ! node)"
    using node_keptD [OF s'(8)] node(1) by simp_all
  have "dispatch K M node [length (bufs s)] (cl_sessionid c) s' = request_job K M node (cl_sessionid c) any s'"
    by (rule dispatch_admitted [OF k(1) s'(7) d s'(5,6) msg(3)])
      (use session k(2) in \<open>auto simp: in_session_def expected_sessionid_def split: if_splits\<close>)
  with c s' show ?thesis by (intro that)
qed



end
