(* ===== verification/Intruder.thy ===== *)
theory Intruder
  imports EndToEnd
begin

text \<open>
  A connection that never logged in: \<open>connection_write_callback\<close> marks the connection as connected when
  it sends any \<open>ClientConnectRes\<close>, that of a failed \<open>ClientConnect\<close> too
  (\<open>yijian/libev_server.cxx\<close>, \<open>yijian/server_msg_typemap.cxx\<close>).
\<close>

section \<open>A failed connect\<close>

text \<open>The user is unknown, or the device is not one of his.\<close>

definition connect_refused :: "'db mongo \<Rightarrow> ClientConnect \<Rightarrow> 'db \<Rightarrow> bool" where
  "connect_refused M connect d = (case queryUser M (ClientConnect_userID connect) d of
     (Inl e, d') \<Rightarrow> is_system_error e
   | (Inr user, d') \<Rightarrow> find_device user (ClientConnect_UUID connect) = None)"

lemma srv_inv_wdb [simp]: "srv_inv (s\<lparr>wdb := d\<rparr>) = srv_inv s"
  by (simp add: srv_inv_def)

lemma connect_refused_frames:
  assumes i: "srv_inv s" and c: "currentNode s = Some node" and r: "connect_refused M connect (wdb s)"
  obtains bs d where "dispatch_ClientConnect K M connect s = (Inr (), s\<lparr>wdb := d, bufs := bufs s @ bs,
      wios := change (r_writeio (rios s ! node)) (\<lambda>x. x\<lparr>w_buffers_p := w_buffers_p x
        @ [length (bufs s) ..< length (bufs s) + length bs]\<rparr>) (wios s), pingnodes := pingnodes s @ [node]\<rparr>)"
    and "bs \<noteq> []" and "\<exists>l x. length x \<le> 1019 \<and> holds_frame (hd bs) (session_id s) l (chat_code CT_clientconnectres) x"
proof -
  have "\<exists>e d. dispatch_ClientConnect K M connect s
      = send_self K (M_ClientConnectRes (ClientConnectRes_new\<lparr>ClientConnectRes_isSuccess := False,
          ClientConnectRes_e_no := err_code e, ClientConnectRes_e_msg := err_what e\<rparr>)) (s\<lparr>wdb := d\<rparr>)"
  proof (cases "queryUser M (ClientConnect_userID connect) (wdb s)")
    case (Pair res d)
    show ?thesis
    proof (cases res)
      case (Inl e)
      then show ?thesis using r Pair
        by (intro exI [of _ e] exI [of _ d])
          (simp add: connect_refused_def dispatch_ClientConnect_def liftdb_def zoom_def act_defs)
    next
      case (Inr user)
      have "is_system_error (sys_error 11003 ''device not find'')" by (simp add: sys_error_def)
      then show ?thesis using Inr r Pair
        by (intro exI [of _ "sys_error 11003 ''device not find''"] exI [of _ d])
          (simp add: connect_refused_def dispatch_ClientConnect_def liftdb_def zoom_def act_defs)
    qed
  qed
  then obtain e d where e: "dispatch_ClientConnect K M connect s
      = send_self K (M_ClientConnectRes (ClientConnectRes_new\<lparr>ClientConnectRes_isSuccess := False,
          ClientConnectRes_e_no := err_code e, ClientConnectRes_e_msg := err_what e\<rparr>)) (s\<lparr>wdb := d\<rparr>)" by blast
  let ?any = "M_ClientConnectRes (ClientConnectRes_new\<lparr>ClientConnectRes_isSuccess := False,
          ClientConnectRes_e_no := err_code e, ClientConnectRes_e_msg := err_what e\<rparr>)"
  let ?s = "s\<lparr>wdb := d\<rparr>"
  obtain bs where bs: "frames_of (session_id ?s) (chat_code (dispatchType ?any)) (ser K ?any) bs"
      "send_self K ?any ?s = (Inr (), ?s\<lparr>bufs := bufs ?s @ bs,
         wios := change (r_writeio (rios ?s ! node)) (\<lambda>x. x\<lparr>w_buffers_p := w_buffers_p x
           @ [length (bufs ?s) ..< length (bufs ?s) + length bs]\<rparr>) (wios ?s), pingnodes := pingnodes ?s @ [node]\<rparr>)"
    using send_self_exec [of ?s node ?any K] i c by auto
  have ne: "bs \<noteq> []" using bs(1) chunks_ok(3) [of "ser K ?any"] by (auto simp: frames_of_def)
  have len: "length (chunks (ser K ?any) ! 0) \<le> 1019" using chunks_ok(2,3) [of "ser K ?any"] by simp
  have "holds_frame (bs ! 0) (session_id s) (1 = length bs) (chat_code CT_clientconnectres) (chunks (ser K ?any) ! 0)"
    using bs(1) ne by (auto simp: frames_of_def dest: spec [of _ 0])
  with len have "\<exists>l x. length x \<le> 1019 \<and> holds_frame (hd bs) (session_id s) l (chat_code CT_clientconnectres) x"
    using ne hd_conv_nth [OF ne] by metis
  with e bs(2) ne show ?thesis using that [of bs d] by simp
qed

section \<open>Its answer is written\<close>

lemma before_connectres:
  assumes "pingable node s"
  shows "\<exists>t. before_write node (chat_code CT_clientconnectres) s = (Inr (), t) \<and> same_io s t
     \<and> r_isConnect (rios t ! node) \<and> r_sessionid (rios t ! node) = r_sessionid (rios s ! node)
     \<and> r_userid (rios t ! node) = r_userid (rios s ! node) \<and> length (rios t) = length (rios s)"
  using assms
  by (cases "r_iter (rios s ! node)")
    (auto simp: before_write_def ping_move2back_def ping_erase_def ping_append_def uuidnode_put_def act_defs fetch_def set_rio_def
      change_def pingable_def same_io_def)

lemma connectres_written:
  assumes p: "pingable node s" and w: "w < length (wios s)" "w_readio (wios s ! w) = node" "w_buffers_p (wios s ! w) = q # rest"
    and q: "q < length (bufs s)" "holds_frame (bufs s ! q) sid l (chat_code CT_clientconnectres) x" "length x \<le> 1019"
    and c: "node < length (conns s)"
    and W: "W (conns s ! node) (frame_bytes sid l (chat_code CT_clientconnectres) x)
        = (Ssl_written (length (frame_bytes sid l (chat_code CT_clientconnectres) x)), c')"
  shows "\<exists>t. connection_write_callback W w s = (Inr (), t)
     \<and> r_isConnect (rios t ! node) \<and> r_sessionid (rios t ! node) = r_sessionid (rios s ! node)
     \<and> r_userid (rios t ! node) = r_userid (rios s ! node) \<and> length (rios t) = length (rios s)"
proof -
  obtain t where t: "before_write node (chat_code CT_clientconnectres) s = (Inr (), t)" "same_io s t"
      "r_isConnect (rios t ! node)" "r_sessionid (rios t ! node) = r_sessionid (rios s ! node)"
      "r_userid (rios t ! node) = r_userid (rios s ! node)" "length (rios t) = length (rios s)"
    using before_connectres [OF p] by blast
  obtain b' where b': "socket_write W (bufs s ! q, conns s ! node) = (Inr True, (b', c'))"
    using socket_write_whole [of "bufs s ! q" sid l "chat_code CT_clientconnectres" x W "conns s ! node" c', OF q(2,3) W] by blast
  have ty: "b_data_type (bufs s ! q) = chat_code CT_clientconnectres" using q(2) by (simp add: holds_frame_def)
  show ?thesis
    using w q(1) c t b' ty
    by (cases t) (simp add: connection_write_callback_def act_defs fetch_def Let_def on_socket_def same_io_def set_wio_def)
qed

section \<open>Refused requests count\<close>

lemma take_sessionids_keep:
  "take_sessionids node ts s = (Inr sids, t) \<Longrightarrow>
     r_isConnect (rios t ! p) = r_isConnect (rios s ! p) \<and> r_userid (rios t ! p) = r_userid (rios s ! p)"
proof (induction ts arbitrary: s sids)
  case Nil
  then show ?case by (simp add: ret_def)
next
  case (Cons u ts)
  obtain sid s' sids' where 1: "take_sessionid node u s = (Inr sid, s')" "take_sessionids node ts s' = (Inr sids', t)"
    using Cons.prems by (auto simp: act_bind_def ret_def split: prod.splits sum.splits)
  have "r_isConnect (rios s' ! p) = r_isConnect (rios s ! p) \<and> r_userid (rios s' ! p) = r_userid (rios s ! p)"
    using 1(1)
    by (cases "p = node")
      (auto simp: take_sessionid_def act_defs fetch_def set_rio_def change_def nth_list_update split: if_splits)
  with Cons.IH [OF 1(2)] show ?case by simp
qed



section \<open>What any session reads\<close>

text \<open>C9: Every message can be read from every session: an admitted \<open>QueryOneMessage\<close> is answered with the message of
  the node and number it names, whoever the user of the connection is and whether or not he is a member
  of the node; the number of the session, if it can be stored, is stored first.\<close>

theorem any_session_reads:
  assumes M: "mongo_ok M" and ok: "world_ok s" "node < length (rios s)"
    and q: "q < length (bufs s)" "buffer_data (bufs s ! q) = ser K (M_QueryOneMessage query)"
      "b_data_type (bufs s ! q) = chat_code CT_queryonemessage" "b_session_id (bufs s ! q) = sid"
      "parse_QueryOneMessage K (ser K (M_QueryOneMessage query)) = query"
    and session: "r_isConnect (rios s ! node)" "MinSessionID \<le> sid"
    and found: "fst (queryMessage_one M (QueryOneMessage_toNodeID query) (QueryOneMessage_incrementID query)
        (snd (updateSessionID M (r_uuid (rios s ! node)) (r_userid (rios s ! node)) sid (wdb s)))) = Inr msg"
  shows "\<exists>s' bs. dispatch K M node [q] sid s = (Inr (), s')
     \<and> frames_of sid (chat_code CT_querymessageres) (ser K (M_QueryMessageRes \<lparr>QueryMessageRes_messages = [msg]\<rparr>)) bs
     \<and> bufs s' = bufs s @ bs
     \<and> w_buffers_p (wios s' ! r_writeio (rios s ! node))
        = w_buffers_p (wios s ! r_writeio (rios s ! node)) @ [length (bufs s) ..< length (bufs s) + length bs]"
proof -
  let ?any = "M_QueryOneMessage query" and ?io = "rios s ! node" and ?ans = "M_QueryMessageRes \<lparr>QueryMessageRes_messages = [msg]\<rparr>"
  have rb: "reads_back K ?any" using q(5) by simp
  have mc: "missing_check8 (type_byte ?any)" by (simp add: missing_check_iff)
  have job: "dispatch K M node [q] sid s = request_job K M node sid ?any s"
    by (rule dispatch_admitted [OF ok(2) q(1,2) _ q(4) rb]) (use q(3) session mc in simp_all)
  obtain d1 where d1: "updateSessionID M (r_uuid ?io) (r_userid ?io) sid (wdb s) = (Inr (), d1)"
    using updateSessionID_total [OF M, of "r_uuid ?io" "r_userid ?io" sid "wdb s"]
    by (auto simp: wp_def split: prod.splits sum.splits)
  obtain d2 where d2: "queryMessage_one M (QueryOneMessage_toNodeID query) (QueryOneMessage_incrementID query) d1 = (Inr msg, d2)"
    using found d1 by (cases "queryMessage_one M (QueryOneMessage_toNodeID query) (QueryOneMessage_incrementID query) d1") simp
  let ?s = "s\<lparr>currentNode := Some node, session_id := sid, wdb := d2\<rparr>"
  have i: "srv_inv ?s" using ok by (simp add: srv_inv_def world_ok_def)
  obtain bs where bs: "frames_of sid (chat_code CT_querymessageres) (ser K ?ans) bs"
      "send_self K ?ans ?s = (Inr (), ?s\<lparr>bufs := bufs s @ bs,
         wios := change (r_writeio ?io) (\<lambda>x. x\<lparr>w_buffers_p := w_buffers_p x
           @ [length (bufs s) ..< length (bufs s) + length bs]\<rparr>) (wios s), pingnodes := pingnodes s @ [node]\<rparr>)"
    using send_self_exec [OF i, of node ?ans K] by auto
  have "dispatch K M node [q] sid s = (Inr (), s\<lparr>currentNode := None, session_id := sid, wdb := d2, bufs := bufs s @ bs,
         wios := change (r_writeio ?io) (\<lambda>x. x\<lparr>w_buffers_p := w_buffers_p x
           @ [length (bufs s) ..< length (bufs s) + length bs]\<rparr>) (wios s), pingnodes := pingnodes s @ [node]\<rparr>)"
    unfolding job using ok(2) mc d1 d2 bs(2)
    by (simp add: request_job_def handle_def dispatch_QueryOneMessage_def or_error_def liftdb_def zoom_def act_defs fetch_def)
  moreover have "r_writeio ?io < length (wios s)" using ok by (simp add: world_ok_def)
  ultimately show ?thesis using bs(1) by (auto simp: change_def)
qed

lemma any_session_reads_witness:
  "\<exists>b s' bs. dispatch plain_codec memory 0 [0] 100 (reconnected\<lparr>bufs := [b], rios := [some_io\<lparr>r_isConnect := True, r_sessionid := 101\<rparr>], uuidnode_map := Map.empty,
       wdb := [(''nodeMessage'', (''_id'', BOid ''k'') # message_document NodeMessage_new 0)]\<rparr>) = (Inr (), s')
     \<and> bufs s' = b # bs \<and> bs \<noteq> []"
proof -
  let ?any = "M_QueryOneMessage QueryOneMessage_new" and ?doc = "(''_id'', BOid ''k'') # message_document NodeMessage_new 0"
  have "length (ser plain_codec ?any) \<le> 1019" by (simp add: plain_codec_def)
  from Buffer_new_ok [OF this, of undefined "chat_code CT_queryonemessage"] obtain b0 b where
    b: "set_sessionid 100 True b0 = (Inr (), b)" "holds_frame b 100 True (chat_code CT_queryonemessage) (ser plain_codec ?any)" by blast
  let ?s = "reconnected\<lparr>bufs := [b], rios := [some_io\<lparr>r_isConnect := True, r_sessionid := 101\<rparr>], uuidnode_map := Map.empty, wdb := [(''nodeMessage'', ?doc)]\<rparr>"
  have len: "length (b_mem b) = 1024" using b(2) by (simp add: holds_frame_def)
  have wo: "world_ok ?s" using len by (auto simp: world_ok_def reconnected_def initial_def some_io_def)
  have u: "snd (updateSessionID memory [] [] 100 [(''nodeMessage'', ?doc)]) = [(''nodeMessage'', ?doc)]"
    by (simp add: updateSessionID_def swallow_def catch_system_error_def act_defs)
  have f: "find_docs ''nodeMessage'' [(''toNodeID'', BStr []), (''incrementID'', BInt32 0)] [(''nodeMessage'', ?doc)] = [?doc]"
    by (simp add: find_docs_Cons matches_def message_document_def NodeMessage_new_def)
  obtain msg where m: "fst (queryMessage_one memory [] 0 [(''nodeMessage'', ?doc)]) = Inr msg"
    by (simp add: queryMessage_one_def act_defs f message_document_read)
  have "\<exists>s' bs. dispatch plain_codec memory 0 [0] 100 ?s = (Inr (), s')
     \<and> frames_of 100 (chat_code CT_querymessageres) (ser plain_codec (M_QueryMessageRes \<lparr>QueryMessageRes_messages = [msg]\<rparr>)) bs
     \<and> bufs s' = bufs ?s @ bs \<and> w_buffers_p (wios s' ! r_writeio (rios ?s ! 0))
        = w_buffers_p (wios ?s ! r_writeio (rios ?s ! 0)) @ [length (bufs ?s) ..< length (bufs ?s) + length bs]"
    by (rule any_session_reads [OF memory_ok wo, where query = QueryOneMessage_new])
      (use b(2) u m in \<open>simp_all add: holds_frame_def MinSessionID_def plain_codec_def some_io_def QueryOneMessage_new_def\<close>)
  then obtain s' bs where h: "dispatch plain_codec memory 0 [0] 100 ?s = (Inr (), s')" "bufs s' = bufs ?s @ bs"
      "frames_of 100 (chat_code CT_querymessageres) (ser plain_codec (M_QueryMessageRes \<lparr>QueryMessageRes_messages = [msg]\<rparr>)) bs" by blast
  have "bs \<noteq> []" using h(3) chunks_ok(3) by (auto simp: frames_of_def)
  moreover have "bufs s' = b # bs" using h(2) by simp
  ultimately show ?thesis using h(1) by blast
qed

end
