(* ===== verification/Kvdb.thy ===== *)
theory Kvdb
  imports NetClient
begin

text \<open>
  The client with a local store (\<open>yijian/kvdb.cxx\<close>): the key scheme of its LevelDB store, the requests
  it sends, its callback tables, and the handlers of the answers. LevelDB is a parameter. The file is
  written against an older \<open>buffer\<close> whose \<open>Buffer\<close> takes a message: \<open>kv_Buffer\<close>. The handlers of
  media and of friend requests are the argument \<open>kv_other\<close> of the handler table; \<open>MediaStore\<close> defines
  them.
\<close>

section \<open>Parameters\<close>

text \<open>\<open>ErrorNth\<close> of the protocol.\<close>

record ErrorNth =
  ErrorNth_maxnth :: int

record client_codec = codec +
  parse_ErrorNth :: "bytes \<Rightarrow> ErrorNth"
  ser_ErrorNth :: "ErrorNth \<Rightarrow> bytes"
  ser_User :: "User \<Rightarrow> bytes"
  parse_QueryUserRes :: "bytes \<Rightarrow> QueryUserRes"
  parse_QueryUserVersionRes :: "bytes \<Rightarrow> QueryUserVersionRes"
  parse_QueryNodeRes :: "bytes \<Rightarrow> QueryNodeRes"
  parse_QueryNodeVersionRes :: "bytes \<Rightarrow> QueryNodeVersionRes"
  parse_CreateGroupRes :: "bytes \<Rightarrow> CreateGroupRes"
  parse_GroupAddMemberRes :: "bytes \<Rightarrow> GroupAddMemberRes"
  parse_NodeMessageNoti :: "bytes \<Rightarrow> NodeMessageNoti"

text \<open>LevelDB: the status of each call is whether it is \<open>ok()\<close>; in a batch \<open>None\<close> deletes the key.\<close>

record 'd leveldb =
  ldb_put :: "string \<Rightarrow> bytes \<Rightarrow> 'd \<Rightarrow> bool \<times> 'd"
  ldb_get :: "string \<Rightarrow> 'd \<Rightarrow> bytes option"
  ldb_delete :: "string \<Rightarrow> 'd \<Rightarrow> bool \<times> 'd"
  ldb_write :: "(string \<times> bytes option) list \<Rightarrow> 'd \<Rightarrow> bool \<times> 'd"

text \<open>
  \<open>kv_stale\<close> is what the memory of a destroyed string holds when \<open>messageRes\<close> reads it;
  \<open>kv_final\<close> is the argument \<open>client_send\<close> does not give.
\<close>

record 'd kv_env =
  kv_leveldb :: "'d leveldb"
  kv_codec :: client_codec
  kv_Buffer :: "chat_msg \<Rightarrow> buffer"
  kv_stale :: "bytes \<Rightarrow> bytes"
  kv_final :: bool

section \<open>State\<close>

text \<open>A callback that may be called several times: the user's, or the one of \<open>msgunreadnoti\<close>.\<close>

datatype 'g multi = User_multi 'g | Unread_multi

text \<open>\<open>k_calls\<close> and \<open>k_mcalls\<close> record the calls of the user's callbacks; the code has no such members.
  What a callback does in turn are operations that follow the handler, whose last action it is.\<close>

record ('d, 'f, 'g, 'c) kvdb = "'c link" +
  k_db :: 'd
  sessionid_cbfunc_map :: "int \<Rightarrow> 'f option"
  media_cbfunc_map :: "string \<Rightarrow> 'f option"
  sessionid_mmap :: "int \<Rightarrow> 'g multi option"
  k_calls :: "('f \<times> string) list"
  k_mcalls :: "('g \<times> string) list"

type_synonym ('d, 'f, 'g, 'c, 'a) kv = "(('d, 'f, 'g, 'c) kvdb, 'a) act"

definition kvdb_ctor :: "bool \<Rightarrow> 'd \<Rightarrow> 'c link \<Rightarrow> exn + ('d, 'f, 'g, 'c) kvdb" where
  "kvdb_ctor opened d io =
     (if opened then Inr (link.extend io (kvdb.fields d Map.empty Map.empty Map.empty [] []))
      else Inl (sys_error 50000 ''open db failure''))"

section \<open>Store\<close>

definition string_bytes :: "string \<Rightarrow> bytes" where
  "string_bytes = map (\<lambda>c. of_nat (of_char c))"

definition bytes_string :: "bytes \<Rightarrow> string" where
  "bytes_string = map (\<lambda>w. char_of (unat w))"

definition put :: "'d kv_env \<Rightarrow> string \<Rightarrow> bytes \<Rightarrow> ('d, 'f, 'g, 'c, bool) kv" where
  "put E key val = (\<lambda>s. case ldb_put (kv_leveldb E) key val (k_db s) of (ok, d) \<Rightarrow> (Inr ok, s\<lparr>k_db := d\<rparr>))"

definition get :: "'d kv_env \<Rightarrow> string \<Rightarrow> ('d, 'f, 'g, 'c, bytes option) kv" where
  "get E key = gets (\<lambda>s. ldb_get (kv_leveldb E) key (k_db s))"

definition write_batch :: "'d kv_env \<Rightarrow> (string \<times> bytes option) list \<Rightarrow> ('d, 'f, 'g, 'c, bool) kv" where
  "write_batch E batch = (\<lambda>s. case ldb_write (kv_leveldb E) batch (k_db s) of (ok, d) \<Rightarrow> (Inr ok, s\<lparr>k_db := d\<rparr>))"

definition delete_key :: "'d kv_env \<Rightarrow> string \<Rightarrow> ('d, 'f, 'g, 'c, bool) kv" where
  "delete_key E key = (\<lambda>s. case ldb_delete (kv_leveldb E) key (k_db s) of (ok, d) \<Rightarrow> (Inr ok, s\<lparr>k_db := d\<rparr>))"

subsection \<open>Keys\<close>

definition userKey :: "string \<Rightarrow> string" where
  "userKey userid = ''u_'' @ userid"

definition nodeKey :: "string \<Rightarrow> string" where
  "nodeKey tonodeid = ''n_'' @ tonodeid"

definition msgKey :: "string \<Rightarrow> int \<Rightarrow> string" where
  "msgKey tonodeid incrementid = ''m_'' @ tonodeid @ ''_'' @ show_int incrementid"

definition userPhoneKey :: "string \<Rightarrow> string \<Rightarrow> string" where
  "userPhoneKey countrycode phoneno = ''p_'' @ countrycode @ ''_'' @ phoneno"

definition errorKey :: "string \<Rightarrow> int \<Rightarrow> string" where
  "errorKey userid n = ''e_'' @ userid @ ''_'' @ show_int n"

definition talklistKey :: "string \<Rightarrow> string" where
  "talklistKey userid = ''t_'' @ userid"

definition signupKey :: string where "signupKey = ''signup_kvdb''"
definition loginKey :: string where "loginKey = ''login_kvdb''"
definition logoutKey :: string where "logoutKey = ''logout_kvdb''"
definition connectKey :: string where "connectKey = ''connect_kvdb''"
definition disconnectKey :: string where "disconnectKey = ''disconnect_kvdb''"
definition loginNotiKey :: string where "loginNotiKey = ''loginnoti_kvdb''"
definition addFriendNotiKey :: string where "addFriendNotiKey = ''addfriendnoti_kvdb''"
definition addFriendAuthorizeNotiKey :: string where "addFriendAuthorizeNotiKey = ''addfriendauthorizenoti_kvdb''"
definition addFriendInfoKey :: string where "addFriendInfoKey = ''addfriendinfo_kvdb''"

text \<open>The temporary key of a message that has been sent: its session number.\<close>

definition sessionKey :: "u16 \<Rightarrow> string" where
  "sessionKey sid = show_int (uint sid)"

subsection \<open>Users, talk lists and messages\<close>

definition set_current_userid :: "'d kv_env \<Rightarrow> string \<Rightarrow> ('d, 'f, 'g, 'c, unit) kv" where
  "set_current_userid E userid =
     act_bind (put E ''current_user'' (string_bytes userid)) (\<lambda>ok.
     if \<not> ok then raise (sys_error 50003 ''set current user id failure'') else ret ())"

definition get_current_userid :: "'d kv_env \<Rightarrow> ('d, 'f, 'g, 'c, string) kv" where
  "get_current_userid E =
     act_bind (get E ''current_user'') (\<lambda>userid. case userid of
       None \<Rightarrow> raise (sys_error 50004 ''get current user id failure'')
     | Some v \<Rightarrow> ret (bytes_string v))"

definition get_errorno :: "'d kv_env \<Rightarrow> ('d, 'f, 'g, 'c, int) kv" where
  "get_errorno E =
     act_bind (get_current_userid E) (\<lambda>userid.
     let key = errorKey userid 0 in
     act_bind (get E key) (\<lambda>error_data. case error_data of
       Some data \<Rightarrow>
         let re = ErrorNth_maxnth (parse_ErrorNth (kv_codec E) data) in
         act_bind (put E key (ser_ErrorNth (kv_codec E) \<lparr>ErrorNth_maxnth = re + 1\<rparr>)) (\<lambda>_. ret re)
     | None \<Rightarrow>
         act_bind (put E key (ser_ErrorNth (kv_codec E) \<lparr>ErrorNth_maxnth = 2\<rparr>)) (\<lambda>_. ret 1)))"

definition putUser :: "'d kv_env \<Rightarrow> string \<Rightarrow> string \<Rightarrow> string \<Rightarrow> bytes \<Rightarrow> ('d, 'f, 'g, 'c, unit) kv" where
  "putUser E userid countrycode phoneno user =
     (if userid = [] \<or> countrycode = [] \<or> phoneno = [] then raise (sys_error 50001 ''parameter is empty'')
      else
        act_bind (write_batch E [(userPhoneKey countrycode phoneno, Some (string_bytes userid)), (userKey userid, Some user)]) (\<lambda>ok.
        if \<not> ok then raise (sys_error 50006 ''put user failure'') else ret ()))"

definition getUser :: "'d kv_env \<Rightarrow> string \<Rightarrow> ('d, 'f, 'g, 'c, bytes option) kv" where
  "getUser E userid = get E (userKey userid)"

definition getUser_phone :: "'d kv_env \<Rightarrow> string \<Rightarrow> string \<Rightarrow> ('d, 'f, 'g, 'c, bytes option) kv" where
  "getUser_phone E countrycode phoneno =
     act_bind (get E (userPhoneKey countrycode phoneno)) (\<lambda>userid.
     getUser E (case userid of None \<Rightarrow> [] | Some v \<Rightarrow> bytes_string v))"

definition putTalklist :: "'d kv_env \<Rightarrow> string \<Rightarrow> bytes \<Rightarrow> ('d, 'f, 'g, 'c, unit) kv" where
  "putTalklist E userid talklist =
     act_bind (put E (talklistKey userid) talklist) (\<lambda>ok.
     if \<not> ok then raise (sys_error 50008 ''put talklist failure'') else ret ())"

definition getTalklist :: "'d kv_env \<Rightarrow> string \<Rightarrow> ('d, 'f, 'g, 'c, bytes option) kv" where
  "getTalklist E userid = get E (talklistKey userid)"

definition putMsg :: "'d kv_env \<Rightarrow> string \<Rightarrow> int \<Rightarrow> bytes \<Rightarrow> ('d, 'f, 'g, 'c, unit) kv" where
  "putMsg E msgNode incrementid msg =
     (if msgNode = [] \<or> 0 = incrementid then raise (sys_error 50002 ''msg miss tonodeid or incrementid'')
      else
        act_bind (put E (msgKey msgNode incrementid) msg) (\<lambda>ok.
        if \<not> ok then raise (sys_error 50040 ''put message failure'') else ret ()))"

definition getMsg :: "'d kv_env \<Rightarrow> string \<Rightarrow> int \<Rightarrow> ('d, 'f, 'g, 'c, bytes option) kv" where
  "getMsg E msgNode incrementid =
     (if msgNode = [] \<or> 0 \<ge> incrementid then raise (sys_error 50003 ''msg miss tonodeid or incrementid'')
      else get E (msgKey msgNode incrementid))"

section \<open>Callback tables\<close>

text \<open>The tables by session number, by hash, and of callbacks that are called several times; a missing
  entry is only logged.\<close>

definition kv_put_map :: "int \<Rightarrow> 'f \<Rightarrow> ('d, 'f, 'g, 'c, unit) kv" where
  "kv_put_map sessionid func = modify (\<lambda>s. s\<lparr>sessionid_cbfunc_map := (sessionid_cbfunc_map s)(sessionid := Some func)\<rparr>)"

definition called :: "'f option \<Rightarrow> string \<Rightarrow> ('d, 'f, 'g, 'c, unit) kv" where
  "called lfunc key = (case lfunc of None \<Rightarrow> ret ()
     | Some f \<Rightarrow> modify (\<lambda>s. s\<lparr>k_calls := k_calls s @ [(f, key)]\<rparr>))"

definition kv_call_map :: "int \<Rightarrow> string \<Rightarrow> ('d, 'f, 'g, 'c, unit) kv" where
  "kv_call_map sessionid key = act_bind (gets (\<lambda>s. sessionid_cbfunc_map s sessionid)) (\<lambda>lfunc. called lfunc key)"

definition call_erase_map :: "int \<Rightarrow> string \<Rightarrow> ('d, 'f, 'g, 'c, unit) kv" where
  "call_erase_map sessionid key =
     act_bind (gets (\<lambda>s. sessionid_cbfunc_map s sessionid)) (\<lambda>lfunc.
     act_seq (modify (\<lambda>s. s\<lparr>sessionid_cbfunc_map := (sessionid_cbfunc_map s)(sessionid := None)\<rparr>))
     (called lfunc key))"

definition maycall_erase_map :: "int \<Rightarrow> string \<Rightarrow> ('d, 'f, 'g, 'c, bool) kv" where
  "maycall_erase_map sessionid key =
     act_bind (gets (\<lambda>s. sessionid_cbfunc_map s sessionid)) (\<lambda>lfunc.
     act_seq (call_erase_map sessionid key) (ret (lfunc \<noteq> None)))"

definition put_media_map :: "string \<Rightarrow> 'f \<Rightarrow> ('d, 'f, 'g, 'c, unit) kv" where
  "put_media_map sha1 func = modify (\<lambda>s. s\<lparr>media_cbfunc_map := (media_cbfunc_map s)(sha1 := Some func)\<rparr>)"

definition call_media_map :: "string \<Rightarrow> string \<Rightarrow> ('d, 'f, 'g, 'c, unit) kv" where
  "call_media_map sha1 key = act_bind (gets (\<lambda>s. media_cbfunc_map s sha1)) (\<lambda>lfunc. called lfunc key)"

definition callerase_media_map :: "string \<Rightarrow> string \<Rightarrow> ('d, 'f, 'g, 'c, unit) kv" where
  "callerase_media_map sha1 key =
     act_bind (gets (\<lambda>s. media_cbfunc_map s sha1)) (\<lambda>lfunc.
     act_seq (modify (\<lambda>s. s\<lparr>media_cbfunc_map := (media_cbfunc_map s)(sha1 := None)\<rparr>))
     (called lfunc key))"

text \<open>\<open>stops\<close> is whether a callback leaves \<open>*isStop\<close> true; that of \<open>msgunreadnoti\<close> sets it.\<close>

definition call_mmap :: "('g \<Rightarrow> string \<Rightarrow> bool) \<Rightarrow> int \<Rightarrow> string \<Rightarrow> ('d, 'f, 'g, 'c, unit) kv" where
  "call_mmap stops sessionid key =
     act_bind (gets (\<lambda>s. sessionid_mmap s sessionid)) (\<lambda>lfunc.
     let erase = modify (\<lambda>s. s\<lparr>sessionid_mmap := (sessionid_mmap s)(sessionid := None)\<rparr>) in
     case lfunc of
       None \<Rightarrow> ret ()
     | Some (User_multi g) \<Rightarrow>
         act_seq (modify (\<lambda>s. s\<lparr>k_mcalls := k_mcalls s @ [(g, key)]\<rparr>)) (if stops g key then erase else ret ())
     | Some Unread_multi \<Rightarrow> act_seq (kv_call_map (session_key accept_unread_msg) key) erase)"

section \<open>Requests\<close>

definition new_Buffer :: "'d kv_env \<Rightarrow> chat_msg \<Rightarrow> ('d, 'f, 'g, 'c, ptr) kv" where
  "new_Buffer E any =
     act_bind (gets (\<lambda>s. length (cl_bufs s))) (\<lambda>sp.
     act_seq (modify (\<lambda>s. s\<lparr>cl_bufs := cl_bufs s @ [kv_Buffer E any]\<rparr>)) (ret sp))"

definition kv_send :: "'d kv_env \<Rightarrow> chat_msg \<Rightarrow> ('d, 'f, 'g, 'c, ptr \<times> u16) kv" where
  "kv_send E any = act_bind (new_Buffer E any) (\<lambda>sp. act_bind (client_send (kv_final E) sp) (\<lambda>sid. ret (sp, sid)))"

definition kv_put_map_send :: "'d kv_env \<Rightarrow> chat_msg \<Rightarrow> 'f \<Rightarrow> ('d, 'f, 'g, 'c, unit) kv" where
  "kv_put_map_send E any func = act_bind (kv_send E any) (\<lambda>(sp, temp_session). kv_put_map (uint temp_session) func)"

definition put_map_send_dbcache :: "'d kv_env \<Rightarrow> chat_msg \<Rightarrow> 'f \<Rightarrow> ('d, 'f, 'g, 'c, unit) kv" where
  "put_map_send_dbcache E any func =
     act_bind (kv_send E any) (\<lambda>(sp, temp_session).
     act_seq (kv_put_map (uint temp_session) func)
    (act_bind (fetch cl_bufs sp) (\<lambda>b.
     act_bind (put E (sessionKey temp_session) (buffer_data b)) (\<lambda>_. ret ()))))"

definition put_mmap_send :: "'d kv_env \<Rightarrow> chat_msg \<Rightarrow> 'g multi \<Rightarrow> ('d, 'f, 'g, 'c, unit) kv" where
  "put_mmap_send E any mfunc =
     act_bind (kv_send E any) (\<lambda>(sp, temp_session).
     modify (\<lambda>s. s\<lparr>sessionid_mmap := (sessionid_mmap s)(uint temp_session := Some mfunc)\<rparr>))"

text \<open>Requests before the session: the callback is put first, under the number of its kind.\<close>

definition put_then_send :: "'d kv_env \<Rightarrow> Session_ID \<Rightarrow> 'f \<Rightarrow> chat_msg \<Rightarrow> ('d, 'f, 'g, 'c, unit) kv" where
  "put_then_send E kind func any =
     act_seq (kv_put_map (session_key kind) func) (act_bind (kv_send E any) (\<lambda>_. ret ()))"

definition registUser ::
  "'d kv_env \<Rightarrow> string \<Rightarrow> string \<Rightarrow> string \<Rightarrow> string \<Rightarrow> string \<Rightarrow> 'f \<Rightarrow> ('d, 'f, 'g, 'c, unit) kv" where
  "registUser E phoneno countrycode password verifycode nickname func =
     (if phoneno = [] then raise (sys_error 50010 ''phoneno is not valid.'')
      else if countrycode = [] then raise (sys_error 50011 ''countrycode is not valid.'')
      else if length password < 6 then raise (sys_error 50012 ''password length at least 6'')
      else if verifycode = [] then raise (sys_error 50013 ''verifycode is no valid'')
      else if nickname = [] then raise (sys_error 50014 ''nickname is empty'')
      else put_then_send E regist_login_connect func
        (M_Register (Register_new\<lparr>Register_phoneNo := phoneno, Register_countryCode := countrycode,
           Register_password := password, Register_nickname := nickname, Register_verifycode := verifycode\<rparr>)))"

definition kvdb_login ::
  "'d kv_env \<Rightarrow> string \<Rightarrow> string \<Rightarrow> string \<Rightarrow> int \<Rightarrow> string \<Rightarrow> string \<Rightarrow> 'f \<Rightarrow> ('d, 'f, 'g, 'c, unit) kv" where
  "kvdb_login E phoneno countrycode password os devicemodel uuid func =
     put_then_send E regist_login_connect func
       (M_Login (Login_new\<lparr>Login_phoneNo := phoneno, Login_countryCode := countrycode, Login_password := password,
          Login_device := \<lparr>Device_OS = os, Device_deviceModel = devicemodel, Device_deviceNickname = [], Device_UUID = uuid\<rparr>\<rparr>))"

definition kvdb_logout :: "'d kv_env \<Rightarrow> string \<Rightarrow> string \<Rightarrow> 'f \<Rightarrow> ('d, 'f, 'g, 'c, unit) kv" where
  "kvdb_logout E userid uuid func =
     put_then_send E logout_disconnect_id func (M_Logout (Logout_new\<lparr>Logout_userID := userid, Logout_UUID := uuid\<rparr>))"

definition KVDBVersion :: string where "KVDBVersion = ''1.0.0''"

definition kvdb_connect ::
  "'d kv_env \<Rightarrow> string \<Rightarrow> string \<Rightarrow> bool \<Rightarrow> string \<Rightarrow> string \<Rightarrow> 'f \<Rightarrow> ('d, 'f, 'g, 'c, unit) kv" where
  "kvdb_connect E userid uuid isrecivenoti OSversion appversion func =
     put_then_send E regist_login_connect func
       (M_ClientConnect (ClientConnect_new\<lparr>ClientConnect_userID := userid, ClientConnect_UUID := uuid,
          ClientConnect_isReciveNoti := isrecivenoti, ClientConnect_OSVersion := OSversion,
          ClientConnect_clientVersion := KVDBVersion, ClientConnect_appVersion := appversion\<rparr>))"

definition kvdb_disconnect :: "'d kv_env \<Rightarrow> string \<Rightarrow> string \<Rightarrow> 'f \<Rightarrow> ('d, 'f, 'g, 'c, unit) kv" where
  "kvdb_disconnect E userid uuid func =
     put_then_send E logout_disconnect_id func
       (M_ClientDisConnect (ClientDisConnect_new\<lparr>ClientDisConnect_userID := userid, ClientDisConnect_UUID := uuid\<rparr>))"

definition addfriend :: "'d kv_env \<Rightarrow> string \<Rightarrow> string \<Rightarrow> 'f \<Rightarrow> ('d, 'f, 'g, 'c, unit) kv" where
  "addfriend E inviteeid msg func =
     act_bind (get_current_userid E) (\<lambda>userid.
     kv_put_map_send E (M_AddFriend (AddFriend_new\<lparr>AddFriend_inviterID := userid, AddFriend_inviteeID := inviteeid,
       AddFriend_msg := msg\<rparr>)) func)"

definition addfriendAuthorize :: "'d kv_env \<Rightarrow> string \<Rightarrow> int \<Rightarrow> 'f \<Rightarrow> ('d, 'f, 'g, 'c, unit) kv" where
  "addfriendAuthorize E inviterid isAgree func =
     act_bind (get_current_userid E) (\<lambda>userid.
     kv_put_map_send E (M_AddFriendAuthorize (AddFriendAuthorize_new\<lparr>AddFriendAuthorize_inviterID := inviterid,
       AddFriendAuthorize_inviteeID := userid, AddFriendAuthorize_isAgree := isAgree\<rparr>)) func)"

definition queryaddfriendinfo :: "'d kv_env \<Rightarrow> 'f \<Rightarrow> ('d, 'f, 'g, 'c, unit) kv" where
  "queryaddfriendinfo E func =
     act_bind (delete_key E addFriendInfoKey) (\<lambda>_.
     kv_put_map_send E (M_QueryAddfriendInfo (QueryAddfriendInfo_new\<lparr>QueryAddfriendInfo_count := 10\<rparr>)) func)"

definition creategroup :: "'d kv_env \<Rightarrow> string \<Rightarrow> string list \<Rightarrow> 'f \<Rightarrow> ('d, 'f, 'g, 'c, unit) kv" where
  "creategroup E groupname membersid func =
     act_bind (get_current_userid E) (\<lambda>userid.
     kv_put_map_send E (M_CreateGroup (CreateGroup_new\<lparr>CreateGroup_userID := userid, CreateGroup_nickname := groupname,
       CreateGroup_membersID := membersid\<rparr>)) func)"

definition addmembers2group :: "'d kv_env \<Rightarrow> string \<Rightarrow> string list \<Rightarrow> 'f \<Rightarrow> ('d, 'f, 'g, 'c, unit) kv" where
  "addmembers2group E groupid membersid func =
     kv_put_map_send E (M_GroupAddMember (GroupAddMember_new\<lparr>GroupAddMember_toNodeID := groupid,
       GroupAddMember_membersID := membersid\<rparr>)) func"

definition queryuserVersion :: "'d kv_env \<Rightarrow> string \<Rightarrow> 'f \<Rightarrow> ('d, 'f, 'g, 'c, unit) kv" where
  "queryuserVersion E userid func =
     kv_put_map_send E (M_QueryUserVersion (QueryUserVersion_new\<lparr>QueryUserVersion_userID := userid\<rparr>)) func"

definition queryuserVersion_current :: "'d kv_env \<Rightarrow> 'f \<Rightarrow> ('d, 'f, 'g, 'c, unit) kv" where
  "queryuserVersion_current E func = act_bind (get_current_userid E) (\<lambda>userid. queryuserVersion E userid func)"

definition queryuser :: "'d kv_env \<Rightarrow> string \<Rightarrow> 'f \<Rightarrow> ('d, 'f, 'g, 'c, unit) kv" where
  "queryuser E userid func = kv_put_map_send E (M_QueryUser (QueryUser_new\<lparr>QueryUser_userID := userid\<rparr>)) func"

definition queryuser_phone :: "'d kv_env \<Rightarrow> string \<Rightarrow> string \<Rightarrow> 'f \<Rightarrow> ('d, 'f, 'g, 'c, unit) kv" where
  "queryuser_phone E phoneno countrycode func =
     kv_put_map_send E (M_QueryUser (QueryUser_new\<lparr>QueryUser_phoneNo := phoneno, QueryUser_countryCode := countrycode\<rparr>)) func"

definition queryuser_current :: "'d kv_env \<Rightarrow> 'f \<Rightarrow> ('d, 'f, 'g, 'c, unit) kv" where
  "queryuser_current E func = act_bind (get_current_userid E) (\<lambda>userid. queryuser E userid func)"

definition querynodeversion :: "'d kv_env \<Rightarrow> string \<Rightarrow> 'f \<Rightarrow> ('d, 'f, 'g, 'c, unit) kv" where
  "querynodeversion E nodeid func =
     kv_put_map_send E (M_QueryNodeVersion (QueryNodeVersion_new\<lparr>QueryNodeVersion_toNodeID := nodeid\<rparr>)) func"

definition querynode :: "'d kv_env \<Rightarrow> string \<Rightarrow> 'f \<Rightarrow> ('d, 'f, 'g, 'c, unit) kv" where
  "querynode E nodeid func = kv_put_map_send E (M_QueryNode (QueryNode_new\<lparr>QueryNode_toNodeID := nodeid\<rparr>)) func"

definition sendmessage2user ::
  "'d kv_env \<Rightarrow> string \<Rightarrow> string \<Rightarrow> int \<Rightarrow> string \<Rightarrow> 'f \<Rightarrow> ('d, 'f, 'g, 'c, unit) kv" where
  "sendmessage2user E userid tonodeid type contenct func =
     put_map_send_dbcache E (M_NodeMessage (NodeMessage_new\<lparr>NodeMessage_toUserID_outer := userid,
       NodeMessage_toNodeID := tonodeid, NodeMessage_type := type, NodeMessage_content := contenct\<rparr>)) func"

definition sendmessage2group :: "'d kv_env \<Rightarrow> string \<Rightarrow> int \<Rightarrow> string \<Rightarrow> 'f \<Rightarrow> ('d, 'f, 'g, 'c, unit) kv" where
  "sendmessage2group E tonodeid type contenct func =
     put_map_send_dbcache E (M_NodeMessage (NodeMessage_new\<lparr>NodeMessage_toNodeID := tonodeid, NodeMessage_type := type,
       NodeMessage_content := contenct\<rparr>)) func"

definition querymsg :: "'d kv_env \<Rightarrow> string \<Rightarrow> int \<Rightarrow> int \<Rightarrow> 'g multi \<Rightarrow> ('d, 'f, 'g, 'c, unit) kv" where
  "querymsg E tonodeid fromincrementid toincrementid mfunc =
     put_mmap_send E (M_QueryMessage \<lparr>QueryMessage_toNodeID = tonodeid, QueryMessage_fromIncrementID = fromincrementid,
       QueryMessage_toIncrementID = toincrementid\<rparr>) mfunc"

definition queryonemsg :: "'d kv_env \<Rightarrow> string \<Rightarrow> int \<Rightarrow> 'g multi \<Rightarrow> ('d, 'f, 'g, 'c, unit) kv" where
  "queryonemsg E tonodeid incrementid mfunc =
     put_mmap_send E (M_QueryOneMessage \<lparr>QueryOneMessage_toNodeID = tonodeid, QueryOneMessage_incrementID = incrementid\<rparr>) mfunc"

definition kv_acceptUnreadMsg :: "'f \<Rightarrow> ('d, 'f, 'g, 'c, unit) kv" where
  "kv_acceptUnreadMsg func = kv_put_map (session_key accept_unread_msg) func"

definition kv_userInfoNoti :: "'f \<Rightarrow> ('d, 'f, 'g, 'c, unit) kv" where
  "kv_userInfoNoti func = kv_put_map (session_key user_noti) func"

section \<open>Answers\<close>

text \<open>The answers kept as they came, under a key of their kind.\<close>

definition keep_and_call :: "'d kv_env \<Rightarrow> string \<Rightarrow> Session_ID \<Rightarrow> buffer \<Rightarrow> ('d, 'f, 'g, 'c, unit) kv" where
  "keep_and_call E key kind sp =
     act_bind (put E key (buffer_data sp)) (\<lambda>_. call_erase_map (session_key kind) key)"

definition registerRes :: "'d kv_env \<Rightarrow> buffer \<Rightarrow> ('d, 'f, 'g, 'c, unit) kv" where
  "registerRes E sp = keep_and_call E signupKey regist_login_connect sp"

definition loginRes :: "'d kv_env \<Rightarrow> buffer \<Rightarrow> ('d, 'f, 'g, 'c, unit) kv" where
  "loginRes E sp =
     act_bind (put E loginKey (buffer_data sp)) (\<lambda>_.
     let res = parse_LoginRes (kv_codec E) (buffer_data sp) in
     act_seq (if LoginRes_isSuccess res then set_current_userid E (LoginRes_userID res) else ret ())
     (call_erase_map (session_key regist_login_connect) loginKey))"

definition logoutRes :: "'d kv_env \<Rightarrow> buffer \<Rightarrow> ('d, 'f, 'g, 'c, unit) kv" where
  "logoutRes E sp = keep_and_call E logoutKey logout_disconnect_id sp"

definition connectRes :: "'d kv_env \<Rightarrow> buffer \<Rightarrow> ('d, 'f, 'g, 'c, unit) kv" where
  "connectRes E sp = keep_and_call E connectKey regist_login_connect sp"

definition disconnectRes :: "'d kv_env \<Rightarrow> buffer \<Rightarrow> ('d, 'f, 'g, 'c, unit) kv" where
  "disconnectRes E sp = keep_and_call E disconnectKey logout_disconnect_id sp"

definition answer_call :: "buffer \<Rightarrow> string \<Rightarrow> ('d, 'f, 'g, 'c, unit) kv" where
  "answer_call sp key = call_erase_map (uint (b_session_id sp)) key"

definition kvdb_error :: "'d kv_env \<Rightarrow> buffer \<Rightarrow> ('d, 'f, 'g, 'c, unit) kv" where
  "kvdb_error E sp =
     act_bind (get_current_userid E) (\<lambda>userid.
     act_bind (get_errorno E) (\<lambda>n.
     let key = errorKey userid n in
     act_bind (put E key (buffer_data sp)) (\<lambda>_. answer_call sp key)))"

definition addfriendRes :: "'d kv_env \<Rightarrow> buffer \<Rightarrow> ('d, 'f, 'g, 'c, unit) kv" where
  "addfriendRes E sp = act_bind (get_current_userid E) (\<lambda>userid. answer_call sp (userKey userid))"

definition addfriendAuthorizeRes :: "'d kv_env \<Rightarrow> buffer \<Rightarrow> ('d, 'f, 'g, 'c, unit) kv" where
  "addfriendAuthorizeRes E sp = act_bind (get_current_userid E) (\<lambda>userid. answer_call sp (userKey userid))"

definition creategroupRes :: "'d kv_env \<Rightarrow> buffer \<Rightarrow> ('d, 'f, 'g, 'c, unit) kv" where
  "creategroupRes E sp =
     answer_call sp (nodeKey (CreateGroupRes_toNodeID (parse_CreateGroupRes (kv_codec E) (buffer_data sp))))"

definition groupaddmemberRes :: "'d kv_env \<Rightarrow> buffer \<Rightarrow> ('d, 'f, 'g, 'c, unit) kv" where
  "groupaddmemberRes E sp =
     answer_call sp (nodeKey (GroupAddMemberRes_toNodeID (parse_GroupAddMemberRes (kv_codec E) (buffer_data sp))))"

definition queryuserversionRes :: "'d kv_env \<Rightarrow> buffer \<Rightarrow> ('d, 'f, 'g, 'c, unit) kv" where
  "queryuserversionRes E sp =
     answer_call sp (show_int (QueryUserVersionRes_version (parse_QueryUserVersionRes (kv_codec E) (buffer_data sp))))"

definition queryuserRes :: "'d kv_env \<Rightarrow> buffer \<Rightarrow> ('d, 'f, 'g, 'c, unit) kv" where
  "queryuserRes E sp =
     (let user = QueryUserRes_user (parse_QueryUserRes (kv_codec E) (buffer_data sp)) in
      act_seq (putUser E (User_id user) (User_countryCode user) (User_phoneNo user) (ser_User (kv_codec E) user))
      (answer_call sp (userKey (User_id user))))"

definition querynodeversionRes :: "'d kv_env \<Rightarrow> buffer \<Rightarrow> ('d, 'f, 'g, 'c, unit) kv" where
  "querynodeversionRes E sp =
     answer_call sp (show_int (QueryNodeVersionRes_version (parse_QueryNodeVersionRes (kv_codec E) (buffer_data sp))))"

definition querynodeRes :: "'d kv_env \<Rightarrow> buffer \<Rightarrow> ('d, 'f, 'g, 'c, unit) kv" where
  "querynodeRes E sp =
     (let key = nodeKey (MessageNode_id (QueryNodeRes_node (parse_QueryNodeRes (kv_codec E) (buffer_data sp)))) in
      act_bind (put E key (buffer_data sp)) (\<lambda>_. answer_call sp key))"

text \<open>\<open>leveldb::Slice value(msg.SerializeAsString())\<close> keeps a pointer into a string that is destroyed at the
  end of the declaration; the batch copies what is there later.\<close>

definition messageRes :: "'d kv_env \<Rightarrow> buffer \<Rightarrow> ('d, 'f, 'g, 'c, unit) kv" where
  "messageRes E sp =
     act_bind (get E (sessionKey (b_session_id sp))) (\<lambda>msg_string. case msg_string of
       None \<Rightarrow> raise (sys_error 50030 ''not find temporary key (sessionid)'')
     | Some v \<Rightarrow>
         let res = parse_NodeMessageRes (kv_codec E) (buffer_data sp);
             msg = (parse_NodeMessage (kv_codec E) v)\<lparr>NodeMessage_incrementID := NodeMessageRes_incrementID res\<rparr>;
             key = msgKey (NodeMessage_toNodeID msg) (NodeMessage_incrementID msg);
             val = kv_stale E (ser (kv_codec E) (M_NodeMessage msg)) in
         act_bind (write_batch E [(sessionKey (b_session_id sp), None), (key, Some val)]) (\<lambda>ok.
         if \<not> ok then raise (sys_error 50031 ''delete temporary key (sessionid) and insert msg failure'')
         else answer_call sp key))"

definition nodemessage :: "'d kv_env \<Rightarrow> ('g \<Rightarrow> string \<Rightarrow> bool) \<Rightarrow> buffer \<Rightarrow> ('d, 'f, 'g, 'c, unit) kv" where
  "nodemessage E stops sp =
     (let msg = parse_NodeMessage (kv_codec E) (buffer_data sp) in
      act_seq (putMsg E (NodeMessage_toNodeID msg) (NodeMessage_incrementID msg) (ser (kv_codec E) (M_NodeMessage msg)))
      (call_mmap stops (uint (b_session_id sp)) (msgKey (NodeMessage_toNodeID msg) (NodeMessage_incrementID msg))))"

definition msgunreadnoti :: "'d kv_env \<Rightarrow> buffer \<Rightarrow> ('d, 'f, 'g, 'c, unit) kv" where
  "msgunreadnoti E sp =
     (let noti = parse_NodeMessageNoti (kv_codec E) (buffer_data sp) in
      queryonemsg E (NodeMessageNoti_toNodeID noti) (NodeMessageNoti_unreadIncrement noti) Unread_multi)"

definition usernoti :: "'d kv_env \<Rightarrow> buffer \<Rightarrow> ('d, 'f, 'g, 'c, unit) kv" where
  "usernoti E sp =
     (let keep = (\<lambda>key. act_bind (put E key (buffer_data sp)) (\<lambda>_. kv_call_map (session_key user_noti) key)) in
      if b_data_type sp = chat_code CT_loginnoti then keep loginNotiKey
      else if b_data_type sp = chat_code CT_addfriendnoti then keep addFriendNotiKey
      else if b_data_type sp = chat_code CT_addfriendauthorizenoti then keep addFriendAuthorizeNotiKey
      else ret ())"

section \<open>Dispatch\<close>

text \<open>
  The table is static, but the \<open>once_flag\<close> is a local variable, so every call fills it again with
  closures over its own buffer. \<open>kv_other\<close> are the entries of media and of friend requests.
\<close>

definition map_p ::
  "'d kv_env \<Rightarrow> ('g \<Rightarrow> string \<Rightarrow> bool) \<Rightarrow> (u8 \<times> (buffer \<Rightarrow> ('d, 'f, 'g, 'c, unit) kv)) list \<Rightarrow> buffer
     \<Rightarrow> (u8 \<times> ('d, 'f, 'g, 'c, unit) kv) list" where
  "map_p E stops kv_other sp =
     [(chat_code CT_registorres, registerRes E sp),
      (chat_code CT_loginres, loginRes E sp),
      (chat_code CT_logoutres, logoutRes E sp),
      (chat_code CT_clientconnectres, connectRes E sp),
      (chat_code CT_clientdisconnectres, disconnectRes E sp),
      (chat_code CT_error, kvdb_error E sp),
      (chat_code CT_nodemessagenoti, msgunreadnoti E sp),
      (chat_code CT_loginnoti, usernoti E sp),
      (chat_code CT_addfriendnoti, usernoti E sp),
      (chat_code CT_addfriendauthorizenoti, usernoti E sp),
      (chat_code CT_addfriendres, addfriendRes E sp),
      (chat_code CT_addfriendauthorizeres, addfriendAuthorizeRes E sp),
      (chat_code CT_creategroupres, creategroupRes E sp),
      (chat_code CT_groupaddmemberres, groupaddmemberRes E sp),
      (chat_code CT_queryuserres, queryuserRes E sp),
      (chat_code CT_queryuserversionres, queryuserversionRes E sp),
      (chat_code CT_querynodeversionres, querynodeversionRes E sp),
      (chat_code CT_querynoderes, querynodeRes E sp),
      (chat_code CT_nodemessageres, messageRes E sp),
      (chat_code CT_nodemessage, nodemessage E stops sp)]
     @ map (\<lambda>(t, h). (t, h sp)) kv_other"

definition kvdb_dispatch ::
  "'d kv_env \<Rightarrow> ('g \<Rightarrow> string \<Rightarrow> bool) \<Rightarrow> (u8 \<times> (buffer \<Rightarrow> ('d, 'f, 'g, 'c, unit) kv)) list \<Rightarrow> buffer
     \<Rightarrow> ('d, 'f, 'g, 'c, unit) kv" where
  "kvdb_dispatch E stops kv_other sp =
     (case map_of (map_p E stops kv_other sp) (b_data_type sp) of
        Some handler \<Rightarrow> handler
      | None \<Rightarrow> raise (sys_error 50021 ''map_p not find type''))"

end
