(* ===== verification/Cache.thy ===== *)
theory Cache
  imports Kvdb Pairing
begin

text \<open>
  What the client with a local store guarantees: its keys do not collide, an answer is called back
  once, users, messages and errors are found under the keys the callbacks are given, and which answers
  of the server it does not understand.
\<close>

section \<open>Callback tables\<close>

text \<open>The contract of a table of callbacks that are called once: registering replaces, an answer calls and
  erases.\<close>

locale callback_table =
  fixes look :: "'k \<Rightarrow> 's \<Rightarrow> 'f option"
    and calls :: "'s \<Rightarrow> ('f \<times> string) list"
    and register :: "'k \<Rightarrow> 'f \<Rightarrow> ('s, unit) act"
    and answer :: "'k \<Rightarrow> string \<Rightarrow> ('s, unit) act"
  assumes register: "\<exists>s'. register k f s = (Inr (), s') \<and> calls s' = calls s
      \<and> (\<forall>j. look j s' = (if j = k then Some f else look j s))"
    and answer: "\<exists>s'. answer k key s = (Inr (), s')
      \<and> calls s' = calls s @ (case look k s of None \<Rightarrow> [] | Some f \<Rightarrow> [(f, key)])
      \<and> (\<forall>j. look j s' = (if j = k then None else look j s))"
begin

lemma answered_once:
  "\<exists>s'. act_seq (register k f) (act_seq (answer k key) (answer k key')) s = (Inr (), s')
     \<and> calls s' = calls s @ [(f, key)] \<and> look k s' = None \<and> (\<forall>j. j \<noteq> k \<longrightarrow> look j s' = look j s)"
proof -
  obtain t where t: "register k f s = (Inr (), t)" "calls t = calls s" "\<forall>j. look j t = (if j = k then Some f else look j s)"
    using register by blast
  obtain u where u: "answer k key t = (Inr (), u)" "calls u = calls s @ [(f, key)]"
      "\<forall>j. look j u = (if j = k then None else look j s)"
    using answer [of k key t] t by auto
  obtain v where "answer k key' u = (Inr (), v)" "calls v = calls s @ [(f, key)]"
      "\<forall>j. look j v = (if j = k then None else look j s)"
    using answer [of k key' u] u by auto
  then show ?thesis using t(1) u(1) by (simp add: act_seq_def act_bind_def)
qed

end

interpretation session_table: callback_table "\<lambda>k s. sessionid_cbfunc_map s k" k_calls kv_put_map call_erase_map
  by unfold_locales (auto simp: kv_put_map_def call_erase_map_def called_def act_defs split: option.splits)

interpretation media_table: callback_table "\<lambda>k s. media_cbfunc_map s k" k_calls put_media_map callerase_media_map
  by unfold_locales (auto simp: put_media_map_def callerase_media_map_def called_def act_defs split: option.splits)

section \<open>The store\<close>

text \<open>What LevelDB documents of calls that succeed, and that they do.\<close>

definition apply_batch :: "(string \<times> bytes option) list \<Rightarrow> (string \<Rightarrow> bytes option) \<Rightarrow> string \<Rightarrow> bytes option" where
  "apply_batch batch m = fold (\<lambda>(k, v) m. m(k := v)) batch m"

definition leveldb_ok :: "'d leveldb \<Rightarrow> bool" where
  "leveldb_ok L \<longleftrightarrow>
     (\<forall>k v d. \<exists>d'. ldb_put L k v d = (True, d') \<and> (\<forall>j. ldb_get L j d' = (if j = k then Some v else ldb_get L j d)))
   \<and> (\<forall>k d. \<exists>d'. ldb_delete L k d = (True, d') \<and> (\<forall>j. ldb_get L j d' = (if j = k then None else ldb_get L j d)))
   \<and> (\<forall>b d. \<exists>d'. ldb_write L b d = (True, d') \<and> (\<forall>j. ldb_get L j d' = apply_batch b (\<lambda>k. ldb_get L k d) j))"

definition holds :: "'d kv_env \<Rightarrow> ('d, 'f, 'g, 'c) kvdb \<Rightarrow> string \<Rightarrow> bytes option" where
  "holds E s key = ldb_get (kv_leveldb E) key (k_db s)"

lemma holds_fun: "holds E s = (\<lambda>k. ldb_get (kv_leveldb E) k (k_db s))"
  by (simp add: fun_eq_iff holds_def)

definition same_kv :: "('d, 'f, 'g, 'c) kvdb \<Rightarrow> ('d, 'f, 'g, 'c) kvdb \<Rightarrow> bool" where
  "same_kv s s' \<longleftrightarrow> (\<exists>d. s' = s\<lparr>k_db := d\<rparr>)"

lemma same_kv_sel:
  "same_kv s s' \<Longrightarrow> sessionid_cbfunc_map s' = sessionid_cbfunc_map s \<and> k_calls s' = k_calls s \<and> sessionid_mmap s' = sessionid_mmap s"
  by (auto simp: same_kv_def)

lemma get_holds: "get E key s = (Inr (holds E s key), s)"
  by (simp add: get_def holds_def gets_def)

lemma put_ok:
  assumes "leveldb_ok (kv_leveldb E)"
  obtains t where "put E key v s = (Inr True, t)" and "holds E t = (holds E s)(key := Some v)" and "same_kv s t"
proof -
  obtain d where d: "ldb_put (kv_leveldb E) key v (k_db s) = (True, d)"
      "\<forall>j. ldb_get (kv_leveldb E) j d = (if j = key then Some v else ldb_get (kv_leveldb E) j (k_db s))"
    using assms unfolding leveldb_ok_def by blast
  show ?thesis
    by (rule that [of "s\<lparr>k_db := d\<rparr>"]) (use d in \<open>auto simp: put_def holds_fun fun_eq_iff same_kv_def\<close>)
qed

lemma write_batch_ok:
  assumes "leveldb_ok (kv_leveldb E)"
  obtains t where "write_batch E b s = (Inr True, t)" and "holds E t = apply_batch b (holds E s)" and "same_kv s t"
proof -
  obtain d where d: "ldb_write (kv_leveldb E) b (k_db s) = (True, d)"
      "\<forall>j. ldb_get (kv_leveldb E) j d = apply_batch b (\<lambda>k. ldb_get (kv_leveldb E) k (k_db s)) j"
    using assms unfolding leveldb_ok_def by blast
  show ?thesis
    by (rule that [of "s\<lparr>k_db := d\<rparr>"]) (use d in \<open>auto simp: write_batch_def holds_fun fun_eq_iff same_kv_def\<close>)
qed

lemma char_bytes: "char_of (unat (of_nat (of_char c) :: u8)) = c"
  by (simp add: unat_of_nat take_bit_eq_mod of_char_mod_256)

lemma bytes_string_bytes [simp]: "bytes_string (string_bytes s) = s"
  by (simp add: bytes_string_def string_bytes_def comp_def char_bytes)

section \<open>Keys\<close>

lemma numbered_key_inj:
  assumes "x @ ''_'' @ show_int i = y @ ''_'' @ show_int j"
  shows "x = y \<and> i = j"
proof -
  have "x = y \<and> show_int i = show_int j"
    by (rule split_at_last_sep [OF _ show_int_no_underscore show_int_no_underscore]) (use assms in simp)
  then show ?thesis by simp
qed

lemma msgKey_inj: "msgKey n i = msgKey n' i' \<longleftrightarrow> n = n' \<and> i = i'"
  using numbered_key_inj [of n i n' i'] by (auto simp: msgKey_def)

lemma errorKey_inj: "errorKey n i = errorKey n' i' \<longleftrightarrow> n = n' \<and> i = i'"
  using numbered_key_inj [of n i n' i'] by (auto simp: errorKey_def)

lemma userKey_inj: "userKey u = userKey u' \<longleftrightarrow> u = u'"
  by (simp add: userKey_def)

lemma nodeKey_inj: "nodeKey n = nodeKey n' \<longleftrightarrow> n = n'"
  by (simp add: nodeKey_def)

lemma talklistKey_inj: "talklistKey u = talklistKey u' \<longleftrightarrow> u = u'"
  by (simp add: talklistKey_def)

lemma sessionKey_inj: "sessionKey a = sessionKey b \<longleftrightarrow> a = b"
  by (simp add: sessionKey_def word_uint_eq_iff)

lemma sessionKey_hd: "(of_char (hd (sessionKey a)) :: nat) < 58"
proof -
  have "hd (show_nat (unat a)) \<in> set (show_nat (unat a))" by simp
  from show_nat_chars [OF this] show ?thesis by (simp add: sessionKey_def show_int_def)
qed

lemma key_hds:
  "hd (userKey u) = CHR ''u''" "hd (nodeKey u) = CHR ''n''" "hd (msgKey u i) = CHR ''m''" "hd (userPhoneKey u v) = CHR ''p''"
  "hd (errorKey u i) = CHR ''e''" "hd (talklistKey u) = CHR ''t''"
  by (simp_all add: userKey_def nodeKey_def msgKey_def userPhoneKey_def errorKey_def talklistKey_def)

lemma key_families:
  "distinct [userKey u, nodeKey n, msgKey n' i, userPhoneKey cc ph, errorKey u' i', talklistKey u'', sessionKey a, ''current_user'']"
proof -
  have n: "hd (sessionKey a) \<noteq> c" "c \<noteq> hd (sessionKey a)" if "58 \<le> (of_char c :: nat)" for c :: char
    using sessionKey_hd [of a] that by auto
  have "distinct (map hd [userKey u, nodeKey n, msgKey n' i, userPhoneKey cc ph, errorKey u' i', talklistKey u'',
      sessionKey a, ''current_user''])"
    by (simp add: key_hds n)
  then show ?thesis unfolding distinct_map by (rule conjunct1)
qed

lemma families_apart [simp]:
  "userKey u \<noteq> userPhoneKey cc ph" "userPhoneKey cc ph \<noteq> userKey u" "msgKey n i \<noteq> sessionKey a" "sessionKey a \<noteq> msgKey n i"
  "errorKey u i \<noteq> ''current_user''" "''current_user'' \<noteq> errorKey u i"
  using key_families [of u n n i cc ph u i u a] by auto


text \<open>The phone keys do collide: country code and number are joined without escaping.\<close>

lemma phone_keys_collide: "userPhoneKey ''86'' ''1_2'' = userPhoneKey ''86_1'' ''2''"
  by (simp add: userPhoneKey_def)

section \<open>Requests and answers\<close>

definition big_buffers :: "'d kv_env \<Rightarrow> bool" where
  "big_buffers E \<longleftrightarrow> (\<forall>any. length (b_mem (kv_Buffer E any)) = 1024)"

lemma kv_send_ok:
  assumes "big_buffers E"
  obtains b where "kv_send E any s = (Inr (length (cl_bufs s), cl_sessionid s),
      sent (length (cl_bufs s)) b (s\<lparr>cl_bufs := cl_bufs s @ [kv_Buffer E any]\<rparr>))"
    and "numbered (kv_final E) (cl_sessionid s) (kv_Buffer E any) b"
proof -
  let ?s = "s\<lparr>cl_bufs := cl_bufs s @ [kv_Buffer E any]\<rparr>"
  have "sendable (length (cl_bufs s)) ?s" using assms by (simp add: sendable_def big_buffers_def)
  then obtain b where b: "client_send (kv_final E) (length (cl_bufs s)) ?s = (Inr (cl_sessionid ?s), sent (length (cl_bufs s)) b ?s)"
      "numbered (kv_final E) (cl_sessionid ?s) (cl_bufs ?s ! length (cl_bufs s)) b"
    by (rule client_send_ok)
  show ?thesis
    by (rule that [of b]) (use b in \<open>simp_all add: kv_send_def new_Buffer_def act_defs\<close>)
qed

lemma put_map_send_ok:
  assumes "big_buffers E"
  obtains t where "kv_put_map_send E any f s = (Inr (), t)" and "k_db t = k_db s" and "k_calls t = k_calls s"
    and "sessionid_cbfunc_map t = (sessionid_cbfunc_map s)(uint (cl_sessionid s) \<mapsto> f)"
    and "cl_sessionid t = cl_sessionid s + 1" and "cl_buffers_p t = cl_buffers_p s @ [length (cl_bufs s)]"
proof -
  obtain b where b: "kv_send E any s = (Inr (length (cl_bufs s), cl_sessionid s),
      sent (length (cl_bufs s)) b (s\<lparr>cl_bufs := cl_bufs s @ [kv_Buffer E any]\<rparr>))"
    by (rule kv_send_ok [OF assms])
  let ?t = "(sent (length (cl_bufs s)) b (s\<lparr>cl_bufs := cl_bufs s @ [kv_Buffer E any]\<rparr>))
      \<lparr>sessionid_cbfunc_map := (sessionid_cbfunc_map s)(uint (cl_sessionid s) \<mapsto> f)\<rparr>"
  show ?thesis
    by (rule that [of ?t]) (use b in \<open>simp_all add: kv_put_map_send_def kv_put_map_def act_defs sent_def\<close>)
qed

lemma answer_call_ok:
  assumes "sessionid_cbfunc_map s (uint (b_session_id sp)) = Some f"
  shows "\<exists>t. answer_call sp key s = (Inr (), t) \<and> k_calls t = k_calls s @ [(f, key)] \<and> k_db t = k_db s
     \<and> sessionid_cbfunc_map t = (sessionid_cbfunc_map s)(uint (b_session_id sp) := None)"
  using assms by (simp add: answer_call_def call_erase_map_def called_def act_defs)

lemma holds_db: "k_db t = k_db s \<Longrightarrow> holds E t = holds E s"
  by (simp add: holds_fun)

lemma putUser_ok:
  assumes "leveldb_ok (kv_leveldb E)" and "u \<noteq> []" "cc \<noteq> []" "ph \<noteq> []"
  obtains t where "putUser E u cc ph user s = (Inr (), t)" and "same_kv s t"
    and "holds E t = (holds E s)(userPhoneKey cc ph \<mapsto> string_bytes u, userKey u \<mapsto> user)"
proof -
  obtain t where t: "write_batch E [(userPhoneKey cc ph, Some (string_bytes u)), (userKey u, Some user)] s = (Inr True, t)"
      "holds E t = apply_batch [(userPhoneKey cc ph, Some (string_bytes u)), (userKey u, Some user)] (holds E s)" "same_kv s t"
    by (rule write_batch_ok [OF assms(1)])
  show ?thesis
    by (rule that [OF _ t(3)]) (use t assms in \<open>simp_all add: putUser_def act_defs apply_batch_def\<close>)
qed

text \<open>C19: Asking for a user caches him: the request is sent with the next session number, and the answer with
  that number stores the user, so that he is found by his id and by his phone number, calls the
  callback once with his key, and frees the number. The request itself touches neither the store nor
  the callbacks called so far.\<close>

theorem query_user_cached:
  fixes E :: "'d kv_env" and s :: "('d, 'f, 'g, 'c) kvdb"
  assumes L: "leveldb_ok (kv_leveldb E)" and B: "big_buffers E"
    and sp: "b_data_type sp = chat_code CT_queryuserres" "b_session_id sp = cl_sessionid s"
    and u: "u = QueryUserRes_user (parse_QueryUserRes (kv_codec E) (buffer_data sp))"
    and ne: "User_id u \<noteq> []" "User_countryCode u \<noteq> []" "User_phoneNo u \<noteq> []"
  shows "\<exists>t v. queryuser E (User_id u) f s = (Inr (), t) \<and> cl_buffers_p t = cl_buffers_p s @ [length (cl_bufs s)]
     \<and> holds E t = holds E s \<and> k_calls t = k_calls s
     \<and> kvdb_dispatch E stops kv_other sp t = (Inr (), v) \<and> k_calls v = k_calls s @ [(f, userKey (User_id u))]
     \<and> getUser E (User_id u) v = (Inr (Some (ser_User (kv_codec E) u)), v)
     \<and> getUser_phone E (User_countryCode u) (User_phoneNo u) v = (Inr (Some (ser_User (kv_codec E) u)), v)
     \<and> sessionid_cbfunc_map v = (sessionid_cbfunc_map s)(uint (cl_sessionid s) := None)"
proof -
  obtain t where t: "queryuser E (User_id u) f s = (Inr (), t)" "k_db t = k_db s" "k_calls t = k_calls s"
      "sessionid_cbfunc_map t = (sessionid_cbfunc_map s)(uint (cl_sessionid s) \<mapsto> f)"
      "cl_buffers_p t = cl_buffers_p s @ [length (cl_bufs s)]"
    unfolding queryuser_def by (rule put_map_send_ok [OF B])
  obtain w where w: "putUser E (User_id u) (User_countryCode u) (User_phoneNo u) (ser_User (kv_codec E) u) t = (Inr (), w)"
      "same_kv t w" "holds E w = (holds E t)(userPhoneKey (User_countryCode u) (User_phoneNo u) \<mapsto> string_bytes (User_id u),
         userKey (User_id u) \<mapsto> ser_User (kv_codec E) u)"
    by (rule putUser_ok [OF L ne])
  obtain v where v: "answer_call sp (userKey (User_id u)) w = (Inr (), v)" "k_calls v = k_calls s @ [(f, userKey (User_id u))]"
      "k_db v = k_db w" "sessionid_cbfunc_map v = (sessionid_cbfunc_map s)(uint (cl_sessionid s) := None)"
    using answer_call_ok [of w sp f "userKey (User_id u)"] same_kv_sel [OF w(2)] t(3,4) sp(2) by auto
  have "kvdb_dispatch E stops kv_other sp t = queryuserRes E sp t"
    by (simp add: kvdb_dispatch_def map_p_def sp(1))
  also have "\<dots> = (Inr (), v)" using w(1) v(1) by (simp add: queryuserRes_def act_defs Let_def u [symmetric])
  finally have d: "kvdb_dispatch E stops kv_other sp t = (Inr (), v)" .
  have "holds E v = (holds E t)(userPhoneKey (User_countryCode u) (User_phoneNo u) \<mapsto> string_bytes (User_id u),
         userKey (User_id u) \<mapsto> ser_User (kv_codec E) u)" using holds_db [OF v(3)] w(3) by simp
  then have "getUser E (User_id u) v = (Inr (Some (ser_User (kv_codec E) u)), v)"
     "getUser_phone E (User_countryCode u) (User_phoneNo u) v = (Inr (Some (ser_User (kv_codec E) u)), v)"
    by (simp_all add: getUser_def getUser_phone_def get_holds act_defs)
  with t d v(2,4) holds_db [OF t(2)] show ?thesis by (intro exI conjI)
qed

text \<open>A store that is a map, and a codec, for the witnesses.\<close>

definition map_db :: "(string \<Rightarrow> bytes option) leveldb" where
  "map_db = \<lparr>ldb_put = (\<lambda>k v d. (True, d(k \<mapsto> v))), ldb_get = (\<lambda>k d. d k), ldb_delete = (\<lambda>k d. (True, d(k := None))),
     ldb_write = (\<lambda>b d. (True, apply_batch b d))\<rparr>"

lemma map_db_ok: "leveldb_ok map_db"
  by (simp add: leveldb_ok_def map_db_def)

definition demo_user :: User where
  "demo_user = User_new\<lparr>User_id := ''7'', User_countryCode := ''86'', User_phoneNo := ''123''\<rparr>"

definition client_plain :: client_codec where
  "client_plain = codec.extend plain_codec (client_codec.fields
     (\<lambda>b. \<lparr>ErrorNth_maxnth = int (read_digits (bytes_string b))\<rparr>) (\<lambda>n. string_bytes (show_int (ErrorNth_maxnth n)))
     (\<lambda>u. string_bytes (User_id u)) (\<lambda>b. QueryUserRes_new\<lparr>QueryUserRes_user := demo_user\<rparr>) (\<lambda>b. QueryUserVersionRes_new)
     (\<lambda>b. QueryNodeRes_new) (\<lambda>b. QueryNodeVersionRes_new) (\<lambda>b. CreateGroupRes_new) (\<lambda>b. GroupAddMemberRes_new)
     (\<lambda>b. NodeMessageNoti_new))"

definition demo_env :: "(string \<Rightarrow> bytes option) kv_env" where
  "demo_env = \<lparr>kv_leveldb = map_db, kv_codec = client_plain, kv_Buffer = (\<lambda>any. buffer_ctor undefined MT_message),
     kv_stale = (\<lambda>b. b), kv_final = True\<rparr>"

lemma demo_env_ok: "leveldb_ok (kv_leveldb demo_env)" "big_buffers demo_env"
  using new_client_sendable [of 0]
  by (simp_all add: demo_env_def map_db_ok big_buffers_def sendable_def new_client_def)

definition demo_kvdb :: "(string \<Rightarrow> bytes option, nat, nat, bytes list) kvdb" where
  "demo_kvdb = link.extend (init_io undefined []) (kvdb.fields [''current_user'' \<mapsto> string_bytes ''7''] Map.empty Map.empty Map.empty [] [])"

lemmas demo_defs = demo_env_def demo_kvdb_def link.extend_def kvdb.fields_def init_io_def client_plain_def codec.extend_def
  client_codec.fields_def

lemma query_user_cached_witness:
  "\<exists>t v. queryuser demo_env ''7'' 5 demo_kvdb = (Inr (), t)
     \<and> kvdb_dispatch demo_env (\<lambda>_ _. True) [] ((buffer_ctor undefined MT_message)\<lparr>b_data_type := 13, b_session_id := 0\<rparr>) t = (Inr (), v)
     \<and> k_calls v = [(5, ''u_7'')] \<and> fst (getUser_phone demo_env ''86'' ''123'' v) = Inr (Some (string_bytes ''7''))"
proof -
  let ?sp = "(buffer_ctor undefined MT_message)\<lparr>b_data_type := 13, b_session_id := 0\<rparr>"
  have u: "demo_user = QueryUserRes_user (parse_QueryUserRes (kv_codec demo_env) (buffer_data ?sp))"
    by (simp add: demo_defs)
  have k: "b_data_type ?sp = chat_code CT_queryuserres" "b_session_id ?sp = cl_sessionid demo_kvdb"
      "User_id demo_user \<noteq> []" "User_countryCode demo_user \<noteq> []" "User_phoneNo demo_user \<noteq> []"
    by (simp_all add: demo_defs demo_user_def)
  have "k_calls demo_kvdb = []" "userKey (User_id demo_user) = ''u_7''" "User_id demo_user = ''7''"
      "User_countryCode demo_user = ''86''" "User_phoneNo demo_user = ''123''" "ser_User (kv_codec demo_env) demo_user = string_bytes ''7''"
    by (simp_all add: demo_defs demo_user_def userKey_def)
  then show ?thesis
    using query_user_cached [OF demo_env_ok k(1,2) u k(3-5), of 5 "\<lambda>_ _. True" "[]"] by (auto simp: fst_def)
qed

section \<open>Errors\<close>

text \<open>The number of the next error of the current user.\<close>

definition next_error :: "'d kv_env \<Rightarrow> ('d, 'f, 'g, 'c) kvdb \<Rightarrow> string \<Rightarrow> int" where
  "next_error E s u = (case holds E s (errorKey u 0) of None \<Rightarrow> 1
     | Some data \<Rightarrow> ErrorNth_maxnth (parse_ErrorNth (kv_codec E) data))"

definition errno_codec :: "'d kv_env \<Rightarrow> bool" where
  "errno_codec E \<longleftrightarrow> (\<forall>n \<ge> 0. parse_ErrorNth (kv_codec E) (ser_ErrorNth (kv_codec E) \<lparr>ErrorNth_maxnth = n\<rparr>) = \<lparr>ErrorNth_maxnth = n\<rparr>)"

lemma kvdb_error_ok:
  assumes L: "leveldb_ok (kv_leveldb E)" and K: "errno_codec E" and u: "holds E s ''current_user'' = Some (string_bytes u)"
    and n: "1 \<le> next_error E s u"
  obtains t where "kvdb_error E sp s = (Inr (), t)" and "next_error E t u = next_error E s u + 1"
    and "holds E t (errorKey u (next_error E s u)) = Some (buffer_data sp)"
    and "\<And>k. k \<noteq> errorKey u 0 \<Longrightarrow> k \<noteq> errorKey u (next_error E s u) \<Longrightarrow> holds E t k = holds E s k"
    and "k_calls t = k_calls s @ (case sessionid_cbfunc_map s (uint (b_session_id sp)) of None \<Rightarrow> []
           | Some f \<Rightarrow> [(f, errorKey u (next_error E s u))])"
    and "sessionid_cbfunc_map t = (sessionid_cbfunc_map s)(uint (b_session_id sp) := None)"
proof -
  let ?n = "next_error E s u"
  let ?v = "ser_ErrorNth (kv_codec E) \<lparr>ErrorNth_maxnth = ?n + 1\<rparr>"
  have cur: "get_current_userid E s = (Inr u, s)"
    using u by (simp add: get_current_userid_def get_holds act_defs)
  obtain t1 where t1: "put E (errorKey u 0) ?v s = (Inr True, t1)" "holds E t1 = (holds E s)(errorKey u 0 := Some ?v)" "same_kv s t1"
    by (rule put_ok [OF L])
  have no: "get_errorno E s = (Inr ?n, t1)"
    using cur t1(1) by (auto simp: get_errorno_def act_defs get_holds next_error_def Let_def split: option.splits)
  obtain t2 where t2: "put E (errorKey u ?n) (buffer_data sp) t1 = (Inr True, t2)"
      "holds E t2 = (holds E t1)(errorKey u ?n := Some (buffer_data sp))" "same_kv t1 t2"
    by (rule put_ok [OF L])
  obtain t where t: "call_erase_map (uint (b_session_id sp)) (errorKey u ?n) t2 = (Inr (), t)"
      "k_calls t = k_calls t2 @ (case sessionid_cbfunc_map t2 (uint (b_session_id sp)) of None \<Rightarrow> [] | Some f \<Rightarrow> [(f, errorKey u ?n)])"
      "\<forall>j. sessionid_cbfunc_map t j = (if j = uint (b_session_id sp) then None else sessionid_cbfunc_map t2 j)"
    using session_table.answer by blast
  have db: "k_db t = k_db t2" using t(1) by (auto simp: call_erase_map_def called_def act_defs split: option.splits)
  have h: "holds E t = (holds E s)(errorKey u 0 := Some ?v, errorKey u ?n := Some (buffer_data sp))"
    using holds_db [OF db] t2(2) t1(2) by simp
  have ne: "errorKey u ?n \<noteq> errorKey u 0" using n by (simp add: errorKey_inj)
  show ?thesis
  proof (rule that)
    show "kvdb_error E sp s = (Inr (), t)"
      using cur no t2(1) t(1) by (simp add: kvdb_error_def answer_call_def act_defs Let_def)
    show "next_error E t u = ?n + 1" using h ne K n by (simp add: next_error_def errno_codec_def)
    show "holds E t (errorKey u ?n) = Some (buffer_data sp)" by (simp add: h)
    show "holds E t k = holds E s k" if "k \<noteq> errorKey u 0" "k \<noteq> errorKey u ?n" for k using that by (simp add: h)
    show "k_calls t = k_calls s @ (case sessionid_cbfunc_map s (uint (b_session_id sp)) of None \<Rightarrow> []
           | Some f \<Rightarrow> [(f, errorKey u ?n)])" using t(2) same_kv_sel [OF t1(3)] same_kv_sel [OF t2(3)] by simp
    show "sessionid_cbfunc_map t = (sessionid_cbfunc_map s)(uint (b_session_id sp) := None)"
      using t(3) same_kv_sel [OF t1(3)] same_kv_sel [OF t2(3)] by (simp add: fun_eq_iff)
  qed
qed


lemma errno_codec_demo: "errno_codec demo_env"
  by (simp add: errno_codec_def demo_defs show_int_def read_show_nat)


section \<open>Messages\<close>

lemma send_cached:
  assumes "leveldb_ok (kv_leveldb E)" and "big_buffers E"
  obtains t where "put_map_send_dbcache E any f s = (Inr (), t)"
    and "holds E t = (holds E s)(sessionKey (cl_sessionid s) \<mapsto> buffer_data (cl_bufs t ! length (cl_bufs s)))"
    and "sessionid_cbfunc_map t = (sessionid_cbfunc_map s)(uint (cl_sessionid s) \<mapsto> f)" and "k_calls t = k_calls s"
    and "cl_buffers_p t = cl_buffers_p s @ [length (cl_bufs s)]"
proof -
  let ?p = "length (cl_bufs s)"
  obtain b where b: "kv_send E any s = (Inr (?p, cl_sessionid s), sent ?p b (s\<lparr>cl_bufs := cl_bufs s @ [kv_Buffer E any]\<rparr>))"
    by (rule kv_send_ok [OF assms(2)])
  let ?r = "(sent ?p b (s\<lparr>cl_bufs := cl_bufs s @ [kv_Buffer E any]\<rparr>))
      \<lparr>sessionid_cbfunc_map := (sessionid_cbfunc_map s)(uint (cl_sessionid s) \<mapsto> f)\<rparr>"
  have r: "cl_bufs ?r ! ?p = b" "?p < length (cl_bufs ?r)" "k_db ?r = k_db s" by (simp_all add: sent_def)
  obtain t where t: "put E (sessionKey (cl_sessionid s)) (buffer_data b) ?r = (Inr True, t)"
      "holds E t = (holds E ?r)(sessionKey (cl_sessionid s) := Some (buffer_data b))" "same_kv ?r t"
    by (rule put_ok [OF assms(1)])
  show ?thesis
  proof (rule that [of t])
    show "put_map_send_dbcache E any f s = (Inr (), t)"
      using b t(1) r(1,2) by (simp add: put_map_send_dbcache_def kv_put_map_def act_defs fetch_def sent_def)
    show "holds E t = (holds E s)(sessionKey (cl_sessionid s) \<mapsto> buffer_data (cl_bufs t ! ?p))"
      using t(2,3) r holds_db [OF r(3)] by (auto simp: same_kv_def)
  qed (use t(3) in \<open>auto simp: same_kv_def sent_def\<close>)
qed

definition numbered_message :: "'d kv_env \<Rightarrow> bytes \<Rightarrow> buffer \<Rightarrow> NodeMessage" where
  "numbered_message E v sp = (parse_NodeMessage (kv_codec E) v)
     \<lparr>NodeMessage_incrementID := NodeMessageRes_incrementID (parse_NodeMessageRes (kv_codec E) (buffer_data sp))\<rparr>"

definition message_key :: "NodeMessage \<Rightarrow> string" where
  "message_key m = msgKey (NodeMessage_toNodeID m) (NodeMessage_incrementID m)"

lemma message_key_apart [simp]: "message_key m \<noteq> sessionKey a" "sessionKey a \<noteq> message_key m"
  by (simp_all add: message_key_def)

lemma messageRes_ok:
  assumes L: "leveldb_ok (kv_leveldb E)" and v: "holds E s (sessionKey (b_session_id sp)) = Some v"
    and f: "sessionid_cbfunc_map s (uint (b_session_id sp)) = Some f" and m: "m = numbered_message E v sp"
  obtains t where "messageRes E sp s = (Inr (), t)"
    and "holds E t = (holds E s)(sessionKey (b_session_id sp) := None, message_key m \<mapsto> kv_stale E (ser (kv_codec E) (M_NodeMessage m)))"
    and "k_calls t = k_calls s @ [(f, message_key m)]"
    and "sessionid_cbfunc_map t = (sessionid_cbfunc_map s)(uint (b_session_id sp) := None)"
proof -
  let ?b = "[(sessionKey (b_session_id sp), None), (message_key m, Some (kv_stale E (ser (kv_codec E) (M_NodeMessage m))))]"
  obtain r where r: "write_batch E ?b s = (Inr True, r)" "holds E r = apply_batch ?b (holds E s)" "same_kv s r"
    by (rule write_batch_ok [OF L])
  obtain t where t: "answer_call sp (message_key m) r = (Inr (), t)" "k_calls t = k_calls s @ [(f, message_key m)]"
      "k_db t = k_db r" "sessionid_cbfunc_map t = (sessionid_cbfunc_map s)(uint (b_session_id sp) := None)"
    using answer_call_ok [of r sp f "message_key m"] same_kv_sel [OF r(3)] f by auto
  show ?thesis
  proof (rule that [OF _ _ t(2,4)])
    show "messageRes E sp s = (Inr (), t)"
      using v r(1) t(1) unfolding m
      by (simp add: messageRes_def get_holds act_defs Let_def numbered_message_def message_key_def)
    show "holds E t = (holds E s)(sessionKey (b_session_id sp) := None,
        message_key m \<mapsto> kv_stale E (ser (kv_codec E) (M_NodeMessage m)))"
      using holds_db [OF t(3)] r(2) by (simp add: apply_batch_def)
  qed
qed



section \<open>Answers the client does not know\<close>

definition dropped_answers :: "ChatType set" where
  "dropped_answers = {CT_querymessageres, CT_setuserprotertyres, CT_pong, CT_querymediares}"

text \<open>Some answers of the server take the client down: the answers to a message query, to setting a user
  property, to a ping and to a media query are not in its table, and the exception that dispatch
  throws leaves the read callback as error 60000.\<close>

theorem answer_unknown:
  assumes "t \<in> dropped_answers" and "fst ` set kv_other \<subseteq> chat_code ` {CT_queryaddfriendinfores, CT_mediares, CT_media}"
    and "socket_read R (cl_buffer_sp s, cl_conn s) = (Inr True, (sp, c))" and "b_data_type sp = chat_code t"
  shows "client_read_callback (kvdb_dispatch E stops kv_other) R s
     = (Inl (sys_error 60000 ''need close client and restart''), s\<lparr>cl_buffer_sp := sp, cl_conn := c\<rparr>)"
proof -
  have "chat_code t \<notin> fst ` set kv_other" using assms(1,2) by (auto simp: dropped_answers_def)
  then have "map_of (map (\<lambda>(t, h). (t, h sp)) kv_other) (chat_code t) = None"
    by (force simp: map_of_eq_None_iff)
  then have "map_of (map_p E stops kv_other sp) (b_data_type sp) = None"
    using assms(1,4) by (auto simp: map_p_def map_add_def dropped_answers_def)
  then have "kvdb_dispatch E stops kv_other sp = raise (sys_error 50021 ''map_p not find type'')"
    by (simp add: kvdb_dispatch_def)
  then show ?thesis using assms
    by (auto simp: client_read_callback_def rethrow_def on_read_buffer_def frame_arrived_def dropped_answers_def act_defs)
qed

lemma answer_unknown_witness:
  "\<exists>s'. client_read_callback (kvdb_dispatch demo_env (\<lambda>_ _. True) []) script_reader
       (demo_kvdb\<lparr>cl_conn := [[128, 101, 34, 4, 10], [20, 30, 40]]\<rparr>)
     = (Inl (sys_error 60000 ''need close client and restart''), s')"
proof -
  let ?s = "demo_kvdb\<lparr>cl_conn := [[128, 101, 34, 4, 10 :: u8], [20, 30, 40]]\<rparr>"
  have fb: "frame_bytes 101 True 34 [10, 20, 30, 40] = [128, 101, 34, 4, 10, 20, 30, 40]"
    by (simp add: frame_bytes_def u16_bytes_def wire_sessionid_def buffer_consts var_length_short)
  have s: "cl_buffer_sp ?s = buffer_ctor undefined MT_message" "cl_conn ?s = [[128, 101, 34, 4, 10], [20, 30, 40]]"
    by (simp_all add: demo_defs)
  have "\<exists>b' c'. reads (length [[20, 30, 40 :: u8]]) script_reader (buffer_ctor undefined MT_message, cl_conn ?s)
      = (Inr (replicate (length [[20, 30, 40 :: u8]] - 1) False @ [True]), (b', c'))
      \<and> buffer_data b' = [10, 20, 30, 40] \<and> b_data_type b' = 34 \<and> b_session_id b' = 101 \<and> b_isLastBuf b' = True"
    by (rule frame_received_lemma [OF buffer_ctor_fresh])
      (simp_all add: fb s(2) script_reader_def buffer_consts buffer_ctor_def reset_def)
  then obtain b c where "socket_read script_reader (cl_buffer_sp ?s, cl_conn ?s) = (Inr True, (b, c))" "b_data_type b = 34"
    unfolding s(1) by (auto simp: act_bind_def ret_def split: prod.splits sum.splits)
  from answer_unknown [of CT_querymessageres "[]", OF _ _ this(1), of demo_env "\<lambda>_ _. True"] this(2)
  show ?thesis by (simp add: dropped_answers_def)
qed

end
