(* ===== verification/MediaStore.thy ===== *)
theory MediaStore
  imports Cache
begin

text \<open>
  The media operations and the list of friend requests of the client with a local store
  (\<open>yijian/kvdb.cxx\<close>). They are written against message classes that the protocol file no longer
  generates (\<open>Media\<close> with hash, number and length, \<open>MediaIsExist\<close>, \<open>MediaCheck\<close>, the older
  \<open>QueryAddfriendInfoRes\<close>): these classes are the parameter \<open>old_proto\<close>, with the hash of OpenSSL.
\<close>

section \<open>Parameters\<close>

text \<open>\<open>op_Media\<close> and the other messages are given as the buffer \<open>buffer::Buffer\<close> makes of them; their
  arguments are the fields that are set, \<open>op_Media sha1 nth length type content\<close>.\<close>

record 'i old_proto =
  op_sha1 :: "bytes \<Rightarrow> string"
  op_Media :: "string \<Rightarrow> int \<Rightarrow> int \<Rightarrow> int \<Rightarrow> bytes \<Rightarrow> buffer"
  op_ByteSize :: "string \<Rightarrow> int \<Rightarrow> int \<Rightarrow> int \<Rightarrow> int"
  op_parse_Media :: "bytes \<Rightarrow> string \<times> int"
  op_QueryMedia :: "string \<Rightarrow> buffer"
  op_MediaIsExist :: "string \<Rightarrow> buffer"
  op_MediaCheck :: "string \<Rightarrow> buffer"
  op_isexist :: "bytes \<Rightarrow> bool"
  op_isintact :: "bytes \<Rightarrow> bool"
  op_mediaisexistres :: u8
  op_mediacheckres :: u8
  op_info :: "bytes \<Rightarrow> 'i"
  op_isend :: "'i \<Rightarrow> bool"
  op_inviter :: "'i \<Rightarrow> string"
  op_invitee :: "'i \<Rightarrow> string"
  op_infos :: "bytes \<Rightarrow> 'i list"
  op_ser_infos :: "'i list \<Rightarrow> bytes"

section \<open>Requests\<close>

definition put_map_send_sp :: "'d kv_env \<Rightarrow> buffer \<Rightarrow> 'f \<Rightarrow> ('d, 'f, 'g, 'c, unit) kv" where
  "put_map_send_sp E b func =
     act_bind (gets (\<lambda>s. length (cl_bufs s))) (\<lambda>sp.
     act_seq (modify (\<lambda>s. s\<lparr>cl_bufs := cl_bufs s @ [b]\<rparr>))
    (act_bind (client_send (kv_final E) sp) (\<lambda>temp_session. kv_put_map (uint temp_session) func)))"

text \<open>\<open>content.substr(pos, length)\<close> and \<open>pos += length\<close>; a negative length becomes a huge one.\<close>

definition sub_content :: "bytes \<Rightarrow> nat \<Rightarrow> int \<Rightarrow> bytes" where
  "sub_content content pos len = (if len < 0 then drop pos content else take (nat len) (drop pos content))"

definition advance :: "nat \<Rightarrow> int \<Rightarrow> nat" where
  "advance pos len = nat ((int pos + len) mod 2 ^ 64)"

definition piece_length :: "'i old_proto \<Rightarrow> string \<Rightarrow> int \<Rightarrow> bytes \<Rightarrow> int \<Rightarrow> int" where
  "piece_length P sha1 i content type =
     int maxlength - op_ByteSize P sha1 i (signed_take_bit 31 (int (length content))) type"

text \<open>The loop of \<open>sendmedia\<close>; \<open>piece sha1 length\<close> is the closure it registers for the answer.\<close>

partial_function (option) send_pieces ::
  "'d kv_env \<Rightarrow> 'i old_proto \<Rightarrow> (string \<Rightarrow> int \<Rightarrow> 'f) \<Rightarrow> string \<Rightarrow> int \<Rightarrow> bytes \<Rightarrow> int \<Rightarrow> nat
     \<Rightarrow> ('d, 'f, 'g, 'c) kvdb \<Rightarrow> ((exn + unit) \<times> ('d, 'f, 'g, 'c) kvdb) option" where
  "send_pieces E P piece sha1 type content i pos s =
     (if length content < pos then Some (Inl (Logic_error ''out_of_range''), s)
      else case put_map_send_sp E (op_Media P sha1 i (signed_take_bit 31 (int (length content))) type
                  (sub_content content pos (piece_length P sha1 i content type)))
                (piece sha1 (piece_length P sha1 i content type)) s of
          (Inl e, s') \<Rightarrow> Some (Inl e, s')
        | (Inr _, s') \<Rightarrow>
            if length content \<le> advance pos (piece_length P sha1 i content type)
            then send_pieces E P piece sha1 type content (i + 1) (advance pos (piece_length P sha1 i content type)) s'
            else Some (Inr (), s'))"

definition sendmedia ::
  "'d kv_env \<Rightarrow> 'i old_proto \<Rightarrow> (string \<Rightarrow> int \<Rightarrow> 'f) \<Rightarrow> int \<Rightarrow> bytes \<Rightarrow> 'f
     \<Rightarrow> ('d, 'f, 'g, 'c) kvdb \<Rightarrow> ((exn + unit) \<times> ('d, 'f, 'g, 'c) kvdb) option" where
  "sendmedia E P piece type content process s =
     (let sha1 = op_sha1 P content in
      case act_bind (put E sha1 content) (\<lambda>_. put_media_map sha1 process) s of
        (Inl e, s') \<Rightarrow> Some (Inl e, s')
      | (Inr _, s') \<Rightarrow> send_pieces E P piece sha1 type content 0 0 s')"

text \<open>What the closure of a piece does when it is called with the key of the answer.\<close>

definition piece_called :: "string \<Rightarrow> int \<Rightarrow> string \<Rightarrow> ('d, 'f, 'g, 'c, unit) kv" where
  "piece_called sha1 len key =
     (if key < show_int len then call_media_map sha1 (key @ ''_'' @ show_int len)
      else if key = show_int len then callerase_media_map sha1 (key @ ''_'' @ show_int len)
      else raise (sys_error 50015 ''media length error''))"

definition querymedia :: "'d kv_env \<Rightarrow> 'i old_proto \<Rightarrow> string \<Rightarrow> 'f \<Rightarrow> ('d, 'f, 'g, 'c, unit) kv" where
  "querymedia E P sha1 func =
     act_seq (put_media_map sha1 func)
    (act_bind (gets (\<lambda>s. length (cl_bufs s))) (\<lambda>sp.
     act_seq (modify (\<lambda>s. s\<lparr>cl_bufs := cl_bufs s @ [op_QueryMedia P sha1]\<rparr>))
    (act_bind (client_send (kv_final E) sp) (\<lambda>_. ret ()))))"

definition sendmediaIsexist :: "'d kv_env \<Rightarrow> 'i old_proto \<Rightarrow> bytes \<Rightarrow> 'f \<Rightarrow> ('d, 'f, 'g, 'c, unit) kv" where
  "sendmediaIsexist E P content func = put_map_send_sp E (op_MediaIsExist P (op_sha1 P content)) func"

definition sendmediacheck :: "'d kv_env \<Rightarrow> 'i old_proto \<Rightarrow> bytes \<Rightarrow> 'f \<Rightarrow> ('d, 'f, 'g, 'c, unit) kv" where
  "sendmediacheck E P content func = put_map_send_sp E (op_MediaCheck P (op_sha1 P content)) func"

section \<open>Answers\<close>

text \<open>\<open>mediaRes\<close> never parses the answer: \<open>nth()\<close> is that of a new message.\<close>

definition mediaRes :: "buffer \<Rightarrow> ('d, 'f, 'g, 'c, unit) kv" where
  "mediaRes sp = answer_call sp (show_int 0)"

definition media_arrived :: "'d kv_env \<Rightarrow> 'i old_proto \<Rightarrow> buffer \<Rightarrow> ('d, 'f, 'g, 'c, unit) kv" where
  "media_arrived E P sp =
     (let (sha1, len) = op_parse_Media P (buffer_data sp); key = sessionKey (b_session_id sp) in
      act_bind (get E key) (\<lambda>old.
      let value = (case old of None \<Rightarrow> [] | Some v \<Rightarrow> v) @ buffer_data sp in
      act_bind (put E key value) (\<lambda>_.
      if int (length value) = len mod 2 ^ 64
      then if op_sha1 P value = sha1
           then act_bind (write_batch E [(key, None), (sha1, Some value)]) (\<lambda>_. callerase_media_map key sha1)
           else act_bind (delete_key E key) (\<lambda>_. raise (sys_error 50032 ''media sha1 check failure''))
      else ret ())))"

definition mediaisexistRes :: "'i old_proto \<Rightarrow> buffer \<Rightarrow> ('d, 'f, 'g, 'c, unit) kv" where
  "mediaisexistRes P sp = answer_call sp (if op_isexist P (buffer_data sp) then ''1'' else ''0'')"

definition mediacheckRes :: "'i old_proto \<Rightarrow> buffer \<Rightarrow> ('d, 'f, 'g, 'c, unit) kv" where
  "mediacheckRes P sp = answer_call sp (if op_isintact P (buffer_data sp) then ''1'' else ''0'')"

text \<open>The list of friend requests: the first entry of the same two users is erased, the new one appended.\<close>

definition replace_info :: "'i old_proto \<Rightarrow> 'i \<Rightarrow> 'i list \<Rightarrow> 'i list" where
  "replace_info P res infos =
     (let other = (\<lambda>a. \<not> (op_inviter P a = op_inviter P res \<and> op_invitee P a = op_invitee P res)) in
      takeWhile other infos @ tl (dropWhile other infos) @ [res])"

definition queryaddfriendinfoRes :: "'d kv_env \<Rightarrow> 'i old_proto \<Rightarrow> buffer \<Rightarrow> ('d, 'f, 'g, 'c, unit) kv" where
  "queryaddfriendinfoRes E P sp =
     (let res = op_info P (buffer_data sp) in
      if \<not> op_isend P res then
        act_bind (get E addFriendInfoKey) (\<lambda>old.
        let infos = (case old of None \<Rightarrow> [] | Some v \<Rightarrow> op_infos P v) in
        act_bind (put E addFriendInfoKey (op_ser_infos P (replace_info P res infos))) (\<lambda>_. ret ()))
      else answer_call sp addFriendInfoKey)"

text \<open>The remaining entries of the table of \<open>kvdb::dispatch\<close>.\<close>

definition media_entries :: "'d kv_env \<Rightarrow> 'i old_proto \<Rightarrow> (u8 \<times> (buffer \<Rightarrow> ('d, 'f, 'g, 'c, unit) kv)) list" where
  "media_entries E P =
     [(chat_code CT_queryaddfriendinfores, queryaddfriendinfoRes E P),
      (chat_code CT_mediares, mediaRes),
      (chat_code CT_media, media_arrived E P),
      (op_mediaisexistres P, mediaisexistRes P),
      (op_mediacheckres P, mediacheckRes P)]"

section \<open>Uploads\<close>

text \<open>Buffers are as \<open>buffer::Buffer\<close> makes them, and the header of a piece leaves room in a frame.\<close>

definition roomy :: "'i old_proto \<Rightarrow> bool" where
  "roomy P \<longleftrightarrow> (\<forall>sha1 i n type c. length (b_mem (op_Media P sha1 i n type c)) = 1024
     \<and> 0 \<le> op_ByteSize P sha1 i n type \<and> op_ByteSize P sha1 i n type < int maxlength)"

lemma roomy_piece: "roomy P \<Longrightarrow> 0 < piece_length P sha1 i content type \<and> piece_length P sha1 i content type \<le> 1019"
  by (simp add: roomy_def piece_length_def maxlength_def buffer_consts)

lemma put_map_send_sp_ok:
  assumes "length (b_mem b) = 1024"
  obtains b' t where "put_map_send_sp E b f s = (Inr (), t)" and "numbered (kv_final E) (cl_sessionid s) b b'"
    and "cl_bufs t = cl_bufs s @ [b']" and "k_db t = k_db s"
proof -
  let ?p = "length (cl_bufs s)" and ?s = "s\<lparr>cl_bufs := cl_bufs s @ [b]\<rparr>"
  have "sendable ?p ?s" using assms by (simp add: sendable_def)
  then obtain b' where b': "client_send (kv_final E) ?p ?s = (Inr (cl_sessionid ?s), sent ?p b' ?s)"
      "numbered (kv_final E) (cl_sessionid ?s) (cl_bufs ?s ! ?p) b'"
    by (rule client_send_ok)
  let ?t = "(sent ?p b' ?s)\<lparr>sessionid_cbfunc_map := (sessionid_cbfunc_map s)(uint (cl_sessionid s) \<mapsto> f)\<rparr>"
  show ?thesis
    by (rule that [of ?t b']) (use b' in \<open>simp_all add: put_map_send_sp_def kv_put_map_def act_defs sent_def\<close>)
qed

lemma advance_small: "0 \<le> len \<Longrightarrow> len \<le> 1019 \<Longrightarrow> pos < 2 ^ 63 \<Longrightarrow> advance pos len = pos + nat len"
  by (simp add: advance_def nat_add_distrib)

lemma send_pieces_beyond:
  "length content < pos \<Longrightarrow> send_pieces E P piece sha1 type content i pos s = Some (Inl (Logic_error ''out_of_range''), s)"
  by (simp add: send_pieces.simps)

lemma send_pieces_step:
  assumes r: "roomy P" and pos: "pos \<le> length content" "length content < 2 ^ 62"
  obtains b t where "numbered (kv_final E) (cl_sessionid s) (op_Media P sha1 i (signed_take_bit 31 (int (length content))) type
        (take (nat (piece_length P sha1 i content type)) (drop pos content))) b"
    and "cl_bufs t = cl_bufs s @ [b]" and "k_db t = k_db s"
    and "send_pieces E P piece sha1 type content i pos s =
      (if length content \<le> pos + nat (piece_length P sha1 i content type)
       then send_pieces E P piece sha1 type content (i + 1) (pos + nat (piece_length P sha1 i content type)) t
       else Some (Inr (), t))"
proof -
  let ?len = "piece_length P sha1 i content type" and ?n = "signed_take_bit 31 (int (length content))"
  have len: "0 < ?len" "?len \<le> 1019" using roomy_piece [OF r] by auto
  have adv: "advance pos ?len = pos + nat ?len" by (rule advance_small) (use len pos in simp_all)
  have sub: "sub_content content pos ?len = take (nat ?len) (drop pos content)" using len by (simp add: sub_content_def)
  have "length (b_mem (op_Media P sha1 i ?n type (sub_content content pos ?len))) = 1024" using r by (simp add: roomy_def)
  then obtain b t where t: "put_map_send_sp E (op_Media P sha1 i ?n type (sub_content content pos ?len)) (piece sha1 ?len) s = (Inr (), t)"
      "numbered (kv_final E) (cl_sessionid s) (op_Media P sha1 i ?n type (sub_content content pos ?len)) b"
      "cl_bufs t = cl_bufs s @ [b]" "k_db t = k_db s"
    by (rule put_map_send_sp_ok)
  show ?thesis
    by (rule that [OF _ t(3,4)])
      (use t(1,2) pos adv in \<open>simp_all add: sub send_pieces.simps [of E P piece sha1 type content i pos s]\<close>)
qed

lemma send_pieces_end:
  assumes r: "roomy P" and len: "length content < 2 ^ 62"
  obtains b t where "send_pieces E P piece sha1 type content i (length content) s = Some (Inl (Logic_error ''out_of_range''), t)"
    and "cl_bufs t = cl_bufs s @ [b]" and "k_db t = k_db s"
proof -
  have p: "0 < piece_length P sha1 i content type" using roomy_piece [OF r] by blast
  obtain b t where t: "cl_bufs t = cl_bufs s @ [b]" "k_db t = k_db s"
      "send_pieces E P piece sha1 type content i (length content) s =
        (if length content \<le> length content + nat (piece_length P sha1 i content type)
         then send_pieces E P piece sha1 type content (i + 1) (length content + nat (piece_length P sha1 i content type)) t
         else Some (Inr (), t))"
    by (rule send_pieces_step [OF r order_refl len, of E s sha1 i type piece]) blast
  then show ?thesis using that [of t b] p by (simp add: send_pieces_beyond)
qed


text \<open>Older message classes for the witnesses: a friend request is one byte.\<close>

definition demo_proto :: "u8 old_proto" where
  "demo_proto = \<lparr>op_sha1 = (\<lambda>_. ''hash''), op_Media = (\<lambda>_ _ _ _ _. buffer_ctor undefined MT_message), op_ByteSize = (\<lambda>_ _ _ _. 30),
     op_parse_Media = (\<lambda>_. (''hash'', 4)), op_QueryMedia = (\<lambda>_. buffer_ctor undefined MT_message),
     op_MediaIsExist = (\<lambda>_. buffer_ctor undefined MT_message), op_MediaCheck = (\<lambda>_. buffer_ctor undefined MT_message),
     op_isexist = (\<lambda>_. True), op_isintact = (\<lambda>_. True), op_mediaisexistres = 200, op_mediacheckres = 201,
     op_info = (\<lambda>_. 5), op_isend = (\<lambda>a. a = 0), op_inviter = (\<lambda>a. show_nat (unat a)), op_invitee = (\<lambda>_. ''7''),
     op_infos = (\<lambda>b. b), op_ser_infos = (\<lambda>b. b)\<rparr>"

lemma demo_proto_roomy: "roomy demo_proto"
  using new_client_sendable [of 0]
  by (simp add: roomy_def demo_proto_def sendable_def new_client_def maxlength_def buffer_consts)


text \<open>The answer to a piece never reports the end of the upload, because its number is never parsed.\<close>

lemma show_nat_hd: "0 < n \<Longrightarrow> (49 :: nat) \<le> of_char (hd (show_nat n))"
proof (induction n rule: show_nat.induct)
  case (1 n)
  show ?case
  proof (cases "n < 10")
    case True
    then show ?thesis using 1(2) by (simp add: show_nat.simps [of n] of_char_digit)
  next
    case False
    then have "0 < n div 10" by auto
    then have "(49 :: nat) \<le> of_char (hd (show_nat (n div 10)))" by (rule 1(1) [OF False])
    then show ?thesis using False by (simp add: show_nat.simps [of n])
  qed
qed

lemma upload_unfinished:
  assumes "0 < len"
  shows "piece_called sha1 len (show_int 0) = call_media_map sha1 (''0_'' @ show_int len)"
proof -
  have z: "show_int 0 = ''0''" by code_simp
  obtain c cs where c: "show_int len = c # cs" "(49 :: nat) \<le> of_char c"
    using show_nat_hd [of "nat len"] assms by (cases "show_nat (nat len)") (auto simp: show_int_def)
  then have "CHR ''0'' < c" by (simp add: less_char_def)
  then have "show_int 0 < show_int len" by (simp add: z c(1))
  then show ?thesis by (simp add: piece_called_def z)
qed

section \<open>Downloads\<close>

text \<open>No media callback waits under a session number; \<open>f\<close> waits under the hash.\<close>

definition media_waiting :: "string \<Rightarrow> 'f \<Rightarrow> ('f \<times> string) list \<Rightarrow> ('d, 'f, 'g, 'c) kvdb \<Rightarrow> bool" where
  "media_waiting sha1 f calls s \<longleftrightarrow> (\<forall>x. media_cbfunc_map s (sessionKey x) = None)
     \<and> media_cbfunc_map s sha1 = Some f \<and> k_calls s = calls"

lemma media_arrived_waiting:
  fixes s :: "('d, 'f, 'g, 'c) kvdb"
  assumes w: "media_waiting sha1 f calls s"
  shows "media_waiting sha1 f calls (snd (media_arrived E P sp s))"
proof -
  let ?k = "sessionKey (b_session_id sp)"
  have db: "media_waiting sha1 f calls (t\<lparr>k_db := d\<rparr>) = media_waiting sha1 f calls t" for t :: "('d, 'f, 'g, 'c) kvdb" and d
    by (simp add: media_waiting_def)
  have e: "media_waiting sha1 f calls (snd (callerase_media_map ?k h t))" if "media_waiting sha1 f calls t"
    for h and t :: "('d, 'f, 'g, 'c) kvdb"
    using that by (auto simp: callerase_media_map_def called_def act_defs media_waiting_def)
  show ?thesis
    using w
    by (auto simp: media_arrived_def put_def get_def write_batch_def delete_key_def act_defs Let_def db e split: prod.splits sum.splits)
qed

lemma media_stream_waiting:
  assumes "media_waiting sha1 f calls s"
  shows "media_waiting sha1 f calls (snd (foreach sps (media_arrived E P) s))"
  using assms
proof (induction sps arbitrary: s)
  case (Cons sp sps)
  from media_arrived_waiting [OF Cons.prems, of E P sp] Cons.IH show ?case
    by (auto simp: act_seq_def act_bind_def split: prod.splits sum.splits)
qed (simp add: ret_def)

text \<open>A medium that has been asked for is never reported: the callback waits under the hash, the answers look for
  one under the session number.\<close>

lemma querymedia_unanswered:
  assumes b: "length (b_mem (op_QueryMedia P sha1)) = 1024"
    and s: "\<forall>x. media_cbfunc_map s (sessionKey x) = None" "\<forall>x. sha1 \<noteq> sessionKey x"
  shows "\<exists>t. querymedia E P sha1 f s = (Inr (), t)
     \<and> k_calls (snd (foreach sps (media_arrived E P) t)) = k_calls s
     \<and> media_cbfunc_map (snd (foreach sps (media_arrived E P) t)) sha1 = Some f"
proof -
  let ?s = "s\<lparr>media_cbfunc_map := (media_cbfunc_map s)(sha1 \<mapsto> f), cl_bufs := cl_bufs s @ [op_QueryMedia P sha1]\<rparr>"
  have "sendable (length (cl_bufs s)) ?s" using b by (simp add: sendable_def)
  then obtain b' where b': "client_send (kv_final E) (length (cl_bufs s)) ?s = (Inr (cl_sessionid ?s), sent (length (cl_bufs s)) b' ?s)"
    by (rule client_send_ok)
  let ?t = "sent (length (cl_bufs s)) b' ?s"
  have q: "querymedia E P sha1 f s = (Inr (), ?t)"
    using b' by (simp add: querymedia_def put_media_map_def act_defs)
  have "media_waiting sha1 f (k_calls s) ?t" using s by (auto simp: media_waiting_def sent_def)
  from media_stream_waiting [OF this, of sps E P] q show ?thesis by (auto simp: media_waiting_def)
qed

section \<open>Friend requests\<close>

text \<open>The stored list as a map from the two users to the last request between them.\<close>

definition info_users :: "'i old_proto \<Rightarrow> 'i \<Rightarrow> string \<times> string" where
  "info_users P a = (op_inviter P a, op_invitee P a)"

definition info_map :: "'i old_proto \<Rightarrow> 'i list \<Rightarrow> string \<times> string \<Rightarrow> 'i option" where
  "info_map P infos = map_of (map (\<lambda>a. (info_users P a, a)) infos)"

definition stored_infos :: "'d kv_env \<Rightarrow> 'i old_proto \<Rightarrow> ('d, 'f, 'g, 'c) kvdb \<Rightarrow> 'i list" where
  "stored_infos E P s = (case holds E s addFriendInfoKey of None \<Rightarrow> [] | Some v \<Rightarrow> op_infos P v)"

lemma replace_info_alt:
  assumes "distinct (map (info_users P) infos)"
  shows "replace_info P res infos = filter (\<lambda>a. info_users P a \<noteq> info_users P res) infos @ [res]"
proof -
  have o: "(\<lambda>a. \<not> (op_inviter P a = op_inviter P res \<and> op_invitee P a = op_invitee P res)) = (\<lambda>a. info_users P a \<noteq> info_users P res)"
    by (auto simp: info_users_def)
  have "takeWhile (\<lambda>a. info_users P a \<noteq> info_users P res) infos @ tl (dropWhile (\<lambda>a. info_users P a \<noteq> info_users P res) infos)
      = filter (\<lambda>a. info_users P a \<noteq> info_users P res) infos"
    using assms
  proof (induction infos)
    case (Cons a infos)
    show ?case
    proof (cases "info_users P a = info_users P res")
      case True
      then have "filter (\<lambda>a. info_users P a \<noteq> info_users P res) infos = infos"
        using Cons.prems by (auto simp: filter_id_conv image_iff)
      then show ?thesis using True by simp
    qed (use Cons in simp)
  qed simp
  then show ?thesis unfolding replace_info_def Let_def o by simp
qed

lemma replace_info_distinct:
  "distinct (map (info_users P) infos) \<Longrightarrow> distinct (map (info_users P) (replace_info P res infos))"
  by (auto simp: replace_info_alt distinct_map inj_on_def)

lemma info_map_filter: "info_map P (filter (\<lambda>a. info_users P a \<noteq> k) infos) = (info_map P infos)(k := None)"
  by (induction infos) (auto simp: info_map_def fun_eq_iff)

lemma info_map_snoc: "info_map P (xs @ [a]) = info_map P [a] ++ info_map P xs"
  by (simp add: info_map_def)

lemma info_map_replace:
  assumes "distinct (map (info_users P) infos)"
  shows "info_map P (replace_info P res infos) = (info_map P infos)(info_users P res \<mapsto> res)"
proof -
  have one: "info_map P [res] = [info_users P res \<mapsto> res]" by (simp add: info_map_def)
  show ?thesis
    by (rule ext) (simp add: one replace_info_alt [OF assms] info_map_snoc info_map_filter map_add_def split: option.splits)
qed

lemma friend_info_step:
  assumes L: "leveldb_ok (kv_leveldb E)" and c: "\<forall>is. op_infos P (op_ser_infos P is) = is"
    and e: "\<not> op_isend P (op_info P (buffer_data sp))" and d: "distinct (map (info_users P) (stored_infos E P s))"
  obtains t where "queryaddfriendinfoRes E P sp s = (Inr (), t)" and "k_calls t = k_calls s"
    and "distinct (map (info_users P) (stored_infos E P t))"
    and "info_map P (stored_infos E P t)
      = (info_map P (stored_infos E P s))(info_users P (op_info P (buffer_data sp)) \<mapsto> op_info P (buffer_data sp))"
proof -
  let ?res = "op_info P (buffer_data sp)"
  let ?v = "op_ser_infos P (replace_info P ?res (stored_infos E P s))"
  obtain t where t: "put E addFriendInfoKey ?v s = (Inr True, t)" "holds E t = (holds E s)(addFriendInfoKey := Some ?v)" "same_kv s t"
    by (rule put_ok [OF L])
  have st: "stored_infos E P t = replace_info P ?res (stored_infos E P s)" using t(2) c by (simp add: stored_infos_def)
  show ?thesis
  proof (rule that)
    show "queryaddfriendinfoRes E P sp s = (Inr (), t)"
      using e t(1) by (simp add: queryaddfriendinfoRes_def act_defs get_holds stored_infos_def Let_def)
    show "k_calls t = k_calls s" using same_kv_sel [OF t(3)] by simp
  qed (simp_all add: st replace_info_distinct [OF d] info_map_replace [OF d])
qed

text \<open>C22: The list of friend requests refines a map: whatever answers arrive before the last one, the stored list holds
  for each pair of inviter and invitee exactly the request that arrived last, once, and the requests of
  other pairs as they were; no callback is called before the end.\<close>

theorem addfriend_infos_latest:
  assumes L: "leveldb_ok (kv_leveldb E)" and c: "\<forall>is. op_infos P (op_ser_infos P is) = is"
    and e: "\<forall>sp \<in> set sps. \<not> op_isend P (op_info P (buffer_data sp))" and d: "distinct (map (info_users P) (stored_infos E P s))"
  shows "\<exists>t. foreach sps (queryaddfriendinfoRes E P) s = (Inr (), t) \<and> k_calls t = k_calls s
     \<and> distinct (map (info_users P) (stored_infos E P t))
     \<and> info_map P (stored_infos E P t)
        = fold (\<lambda>sp m. m(info_users P (op_info P (buffer_data sp)) \<mapsto> op_info P (buffer_data sp))) sps (info_map P (stored_infos E P s))"
  using e d
proof (induction sps arbitrary: s)
  case Nil
  then show ?case by (simp add: ret_def)
next
  case (Cons sp sps)
  obtain t where t: "queryaddfriendinfoRes E P sp s = (Inr (), t)" "k_calls t = k_calls s"
      "distinct (map (info_users P) (stored_infos E P t))"
      "info_map P (stored_infos E P t)
        = (info_map P (stored_infos E P s))(info_users P (op_info P (buffer_data sp)) \<mapsto> op_info P (buffer_data sp))"
    by (rule friend_info_step [OF L c _ Cons.prems(2), of sp]) (use Cons.prems(1) in auto)
  from Cons.IH [OF _ t(3)] Cons.prems(1) t show ?case by (auto simp: act_seq_def act_bind_def)
qed

lemma addfriend_infos_latest_witness:
  "\<exists>t. foreach [buffer_ctor undefined MT_message, buffer_ctor undefined MT_message] (queryaddfriendinfoRes demo_env demo_proto) demo_kvdb = (Inr (), t)
     \<and> info_map demo_proto (stored_infos demo_env demo_proto t) (''5'', ''7'') = Some 5"
proof -
  have d: "\<forall>is. op_infos demo_proto (op_ser_infos demo_proto is) = is" "stored_infos demo_env demo_proto demo_kvdb = []"
      "info_users demo_proto 5 = (''5'', ''7'')" "\<And>b. op_info demo_proto b = 5" "\<not> op_isend demo_proto 5"
    by (simp_all add: demo_proto_def stored_infos_def holds_def demo_defs map_db_def addFriendInfoKey_def info_users_def) code_simp
  have "\<exists>t. foreach [buffer_ctor undefined MT_message, buffer_ctor undefined MT_message] (queryaddfriendinfoRes demo_env demo_proto) demo_kvdb = (Inr (), t)
     \<and> k_calls t = k_calls demo_kvdb \<and> distinct (map (info_users demo_proto) (stored_infos demo_env demo_proto t))
     \<and> info_map demo_proto (stored_infos demo_env demo_proto t)
       = fold (\<lambda>sp m. m(info_users demo_proto (op_info demo_proto (buffer_data sp)) \<mapsto> op_info demo_proto (buffer_data sp)))
          [buffer_ctor undefined MT_message, buffer_ctor undefined MT_message] (info_map demo_proto (stored_infos demo_env demo_proto demo_kvdb))"
    by (rule addfriend_infos_latest) (simp_all add: d demo_env_ok(1))
  then show ?thesis by (auto simp: d)
qed

end
