(* ===== verification/AnswerOnce.thy ===== *)
theory AnswerOnce
  imports MediaStore
begin

text \<open>
  A client with a local store that has at most one callback registered: what each handler of an answer
  does to the callback tables, and so a frame: it calls nothing, or that callback, once and as its last
  action, and then only if the frame can be the answer to its request.
\<close>

section \<open>A client with one callback\<close>

definition only :: "(int \<times> 'f) option \<Rightarrow> ('d, 'f, 'g, 'c) kvdb \<Rightarrow> bool" where
  "only T k \<longleftrightarrow> sessionid_cbfunc_map k = (case T of None \<Rightarrow> Map.empty | Some (j, f) \<Rightarrow> [j \<mapsto> f])
     \<and> media_cbfunc_map k = Map.empty \<and> (\<forall>j m. sessionid_mmap k j = Some m \<longrightarrow> m = Unread_multi)"

text \<open>No notification key: the callback is called once.\<close>

definition once :: "(int \<times> 'f) option \<Rightarrow> bool" where
  "once T \<longleftrightarrow> (case T of None \<Rightarrow> True | Some (j, f) \<Rightarrow> j \<noteq> session_key accept_unread_msg \<and> j \<noteq> session_key user_noti)"

definition same_tables :: "('d, 'f, 'g, 'c) kvdb \<Rightarrow> ('d, 'f, 'g, 'c) kvdb \<Rightarrow> bool" where
  "same_tables k t \<longleftrightarrow> k_calls t = k_calls k \<and> sessionid_cbfunc_map t = sessionid_cbfunc_map k
     \<and> media_cbfunc_map t = media_cbfunc_map k \<and> sessionid_mmap t = sessionid_mmap k"

definition callless :: "('d, 'f, 'g, 'c, 'a) kv \<Rightarrow> bool" where
  "callless m \<longleftrightarrow> (\<forall>k. same_tables k (snd (m k)))"

text \<open>Either nothing is called and the tables stay as they are, or the one callback is called, last, and is
  gone; then its number is one of \<open>J\<close>.\<close>

definition outcome :: "int set \<Rightarrow> (int \<times> 'f) option \<Rightarrow> ('d, 'f, 'g, 'c) kvdb \<Rightarrow> (exn + unit) \<times> ('d, 'f, 'g, 'c) kvdb \<Rightarrow> bool" where
  "outcome J T k x \<longleftrightarrow> k_calls (snd x) = k_calls k \<and> only T (snd x)
     \<or> (\<exists>j f key. j \<in> J \<and> T = Some (j, f) \<and> fst x = Inr () \<and> k_calls (snd x) = k_calls k @ [(f, key)] \<and> only None (snd x))"

definition answers_once :: "int set \<Rightarrow> (int \<times> 'f) option \<Rightarrow> ('d, 'f, 'g, 'c, unit) kv \<Rightarrow> bool" where
  "answers_once J T m \<longleftrightarrow> (\<forall>k. only T k \<longrightarrow> outcome J T k (m k))"

named_theorems callless_intros
named_theorems once_intros

lemma only_same: "only T k \<Longrightarrow> same_tables k t \<Longrightarrow> only T t \<and> k_calls t = k_calls k"
  by (simp add: only_def same_tables_def)

lemma act_bind_assoc: "act_bind (act_bind m f) g = act_bind m (\<lambda>a. act_bind (f a) g)"
  by (simp add: act_bind_def fun_eq_iff split: prod.splits sum.splits)

lemma act_bind_ret: "act_bind (ret a) f = f a"
  by (simp add: act_bind_def ret_def)

lemma callless_ret [callless_intros]: "callless (ret a)"
  by (simp add: callless_def ret_def same_tables_def)

lemma callless_raise [callless_intros]: "callless (raise e)"
  by (simp add: callless_def raise_def same_tables_def)

lemma callless_gets [callless_intros]: "callless (gets f)"
  by (simp add: callless_def gets_def same_tables_def)

lemma callless_bind [callless_intros]:
  assumes "callless m" and "\<And>a. callless (f a)" shows "callless (act_bind m f)"
proof -
  have "same_tables k (snd (act_bind m f k))" for k
  proof (cases "m k")
    case (Pair r t)
    then have "same_tables k t" using assms(1) by (metis callless_def snd_conv)
    moreover have "same_tables t (snd (f a t))" for a using assms(2) by (simp add: callless_def)
    ultimately show ?thesis using Pair by (auto simp: act_bind_def same_tables_def split: sum.splits)
  qed
  then show ?thesis by (simp add: callless_def)
qed

lemma callless_seq [callless_intros]: "callless m \<Longrightarrow> callless n \<Longrightarrow> callless (act_seq m n)"
  by (simp add: act_seq_def callless_bind)

lemma callless_if [callless_intros]: "(b \<Longrightarrow> callless m) \<Longrightarrow> (\<not> b \<Longrightarrow> callless n) \<Longrightarrow> callless (if b then m else n)"
  by simp

lemma callless_option [callless_intros]: "callless n \<Longrightarrow> (\<And>v. callless (m v)) \<Longrightarrow> callless (case x of None \<Rightarrow> n | Some v \<Rightarrow> m v)"
  by (simp split: option.split)

lemma callless_modify [callless_intros]: "(\<And>k. same_tables k (g k)) \<Longrightarrow> callless (modify g)"
  by (simp add: callless_def modify_def)

lemma callless_store [callless_intros]:
  "callless (put E key v)" "callless (get E key)" "callless (write_batch E b)" "callless (delete_key E key)"
  by (auto simp: callless_def put_def get_def gets_def write_batch_def delete_key_def same_tables_def split: prod.splits)

lemma callless_current [callless_intros]: "callless (get_current_userid E)" "callless (set_current_userid E u)" "callless (get_errorno E)"
  unfolding get_current_userid_def set_current_userid_def get_errorno_def Let_def by (intro callless_intros)+

lemma callless_put_rows [callless_intros]: "callless (putUser E u c p v)" "callless (putMsg E n i m)"
  unfolding putUser_def putMsg_def by (intro callless_intros)+

lemma callless_send [callless_intros]: "callless (kv_send E any)"
  unfolding kv_send_def new_Buffer_def client_send_def
  by (intro callless_intros) (auto simp: same_tables_def fetch_def callless_def act_defs split: sum.splits prod.splits)

lemma once_callless [once_intros]: "callless m \<Longrightarrow> answers_once J T m"
  unfolding answers_once_def callless_def outcome_def using only_same by blast

lemma outcome_same: "k_calls t = k_calls k \<Longrightarrow> outcome J T t x \<Longrightarrow> outcome J T k x"
  by (simp add: outcome_def)

lemma once_bind [once_intros]:
  fixes m :: "('d, 'f, 'g, 'c, 'a) kv" and f :: "'a \<Rightarrow> ('d, 'f, 'g, 'c, unit) kv"
  assumes "callless m" and "\<And>a. answers_once J T (f a)" shows "answers_once J T (act_bind m f)"
  unfolding answers_once_def
proof (intro allI impI)
  fix k :: "('d, 'f, 'g, 'c) kvdb" assume k: "only T k"
  obtain r t where m: "m k = (r, t)" by (cases "m k")
  then have "same_tables k t" using assms(1) unfolding callless_def by (metis snd_conv)
  with k have t: "only T t" "k_calls t = k_calls k" using only_same by blast+
  show "outcome J T k (act_bind m f k)"
  proof (cases r)
    case (Inl e)
    then show ?thesis using m t by (simp add: act_bind_def outcome_def)
  next
    case (Inr a)
    have "outcome J T t (f a t)" using assms(2) [of a] t(1) by (simp add: answers_once_def)
    then have "outcome J T k (f a t)" by (rule outcome_same [OF t(2)])
    then show ?thesis using Inr m by (simp add: act_bind_def)
  qed
qed

lemma once_seq [once_intros]: "callless m \<Longrightarrow> answers_once J T n \<Longrightarrow> answers_once J T (act_seq m n)"
  by (simp add: act_seq_def once_bind)

lemma once_if [once_intros]: "(b \<Longrightarrow> answers_once J T m) \<Longrightarrow> (\<not> b \<Longrightarrow> answers_once J T n) \<Longrightarrow> answers_once J T (if b then m else n)"
  by simp

lemma once_option [once_intros]:
  "answers_once J T n \<Longrightarrow> (\<And>v. answers_once J T (m v)) \<Longrightarrow> answers_once J T (case x of None \<Rightarrow> n | Some v \<Rightarrow> m v)"
  by (simp split: option.split)

lemma once_call_erase [once_intros]: "j \<in> J \<Longrightarrow> answers_once J T (call_erase_map j key)"
  by (auto simp: answers_once_def outcome_def only_def call_erase_map_def called_def act_defs fun_eq_iff split: option.splits)

text \<open>The numbers a frame can be the answer to.\<close>

definition call_keys :: "buffer \<Rightarrow> int set" where
  "call_keys sp = {session_key regist_login_connect, session_key logout_disconnect_id, uint (b_session_id sp)}"

lemma once_answer [once_intros]: "answers_once (call_keys sp) T (answer_call sp key)"
  unfolding answer_call_def by (rule once_call_erase) (simp add: call_keys_def)

lemma once_call_map [once_intros]: "once T \<Longrightarrow> kind \<in> {accept_unread_msg, user_noti} \<Longrightarrow> answers_once J T (kv_call_map (session_key kind) key)"
  by (auto simp: answers_once_def outcome_def only_def once_def kv_call_map_def called_def act_defs split: option.splits)

lemma once_media [once_intros]: "answers_once J T (callerase_media_map j key)"
  by (auto simp: answers_once_def outcome_def only_def callerase_media_map_def called_def act_defs fun_eq_iff split: option.splits)

lemma only_mmap: "only T k \<Longrightarrow> only T (k\<lparr>sessionid_mmap := (sessionid_mmap k)(j := None)\<rparr>)"
  by (auto simp: only_def)

lemma once_call_mmap [once_intros]:
  fixes T :: "(int \<times> 'f) option"
  assumes "once T" shows "answers_once J T (call_mmap stops j key :: ('d, 'f, 'g, 'c, unit) kv)"
  unfolding answers_once_def
proof (intro allI impI)
  fix k :: "('d, 'f, 'g, 'c) kvdb" assume k: "only T k"
  have "sessionid_cbfunc_map k (session_key accept_unread_msg) = None"
    using assms k by (auto simp: once_def only_def split: option.splits prod.splits)
  then show "outcome J T k (call_mmap stops j key k)"
    using k only_mmap [OF k, of j]
    by (auto simp: outcome_def call_mmap_def Let_def kv_call_map_def called_def act_defs only_def split: option.splits multi.splits)
qed

lemma once_query [once_intros]: "answers_once J T (queryonemsg E n i Unread_multi)"
proof -
  have m: "answers_once J T (modify (\<lambda>s. s\<lparr>sessionid_mmap := (sessionid_mmap s)(uint sid := Some Unread_multi)\<rparr>))" for sid :: u16
    by (auto simp: answers_once_def outcome_def only_def modify_def)
  show ?thesis unfolding queryonemsg_def put_mmap_send_def case_prod_beta by (intro once_bind callless_send m)
qed

section \<open>The handlers\<close>

lemma once_kind [once_intros]:
  "answers_once (call_keys sp) T (call_erase_map (session_key regist_login_connect) key)"
  "answers_once (call_keys sp) T (call_erase_map (session_key logout_disconnect_id) key)"
  by (intro once_call_erase; simp add: call_keys_def)+

lemma once_simple [once_intros]:
  "answers_once (call_keys sp) T (registerRes E sp)" "answers_once (call_keys sp) T (logoutRes E sp)" "answers_once (call_keys sp) T (connectRes E sp)"
  "answers_once (call_keys sp) T (disconnectRes E sp)" "answers_once (call_keys sp) T (loginRes E sp)" "answers_once (call_keys sp) T (kvdb_error E sp)"
  "answers_once (call_keys sp) T (addfriendRes E sp)" "answers_once (call_keys sp) T (addfriendAuthorizeRes E sp)" "answers_once (call_keys sp) T (creategroupRes E sp)"
  "answers_once (call_keys sp) T (groupaddmemberRes E sp)" "answers_once (call_keys sp) T (queryuserversionRes E sp)" "answers_once (call_keys sp) T (queryuserRes E sp)"
  "answers_once (call_keys sp) T (querynodeversionRes E sp)" "answers_once (call_keys sp) T (querynodeRes E sp)" "answers_once (call_keys sp) T (messageRes E sp)"
  "answers_once (call_keys sp) T (msgunreadnoti E sp)"
  unfolding keep_and_call_def registerRes_def logoutRes_def connectRes_def disconnectRes_def loginRes_def kvdb_error_def addfriendRes_def
    addfriendAuthorizeRes_def creategroupRes_def groupaddmemberRes_def queryuserversionRes_def queryuserRes_def
    querynodeversionRes_def querynodeRes_def messageRes_def msgunreadnoti_def Let_def
  by (intro once_intros callless_intros)+

lemma once_noti [once_intros]: "once T \<Longrightarrow> answers_once (call_keys sp) T (usernoti E sp)" "once T \<Longrightarrow> answers_once (call_keys sp) T (nodemessage E stops sp)"
  unfolding usernoti_def nodemessage_def Let_def by (intro once_intros callless_intros; simp)+

lemma once_media_entries [once_intros]:
  "answers_once (call_keys sp) T (queryaddfriendinfoRes E P sp)" "answers_once (call_keys sp) T (mediaRes sp)" "answers_once (call_keys sp) T (media_arrived E P sp)"
  "answers_once (call_keys sp) T (mediaisexistRes P sp)" "answers_once (call_keys sp) T (mediacheckRes P sp)"
  unfolding queryaddfriendinfoRes_def mediaRes_def media_arrived_def mediaisexistRes_def mediacheckRes_def Let_def case_prod_beta
  by (intro once_intros callless_intros)+

lemma once_dispatch:
  fixes T :: "(int \<times> 'f) option" and stops :: "'g \<Rightarrow> string \<Rightarrow> bool"
  assumes "once T" shows "answers_once (call_keys sp) T (kvdb_dispatch E stops (media_entries E P) sp :: ('d, 'f, 'g, 'c, unit) kv)"
proof (cases "map_of (map_p E stops (media_entries E P) sp :: (u8 \<times> ('d, 'f, 'g, 'c, unit) kv) list) (b_data_type sp)")
  case None
  show ?thesis unfolding kvdb_dispatch_def None option.case by (intro once_callless callless_raise)
next
  case (Some h)
  then have "h \<in> snd ` set (map_p E stops (media_entries E P) sp)" by (metis map_of_SomeD image_eqI snd_conv)
  then have "answers_once (call_keys sp) T h" using assms by (auto simp: map_p_def media_entries_def intro: once_simple once_noti once_media_entries)
  then show ?thesis unfolding kvdb_dispatch_def Some option.case .
qed

lemma once_then:
  fixes m :: "('d, 'f, 'g, 'c, unit) kv"
  assumes "answers_once J T m" and g: "\<And>k. same_tables k (g k)" shows "answers_once J T (act_seq m (modify g))"
  unfolding answers_once_def
proof (intro allI impI)
  fix k :: "('d, 'f, 'g, 'c) kvdb" assume k: "only T k"
  then have oc: "outcome J T k (m k)" using assms(1) by (simp add: answers_once_def)
  obtain r t where m: "m k = (r, t)" by (cases "m k")
  have "only T' t \<Longrightarrow> only T' (g t) \<and> k_calls (g t) = k_calls t" for T' using g [of t] only_same by blast
  with oc m show "outcome J T k (act_seq m (modify g) k)"
    by (cases r) (auto simp: act_seq_def act_bind_def modify_def outcome_def)
qed

end
