(* ===== verification/Drivers.thy ===== *)
theory Drivers
  imports MediaStore
begin

text \<open>
  The test drivers of the client with a local store (\<open>user.h\<close>, \<open>user1.cxx\<close> to \<open>user4.cxx\<close>): the main
  thread runs the sections of the test cases, each of which makes a request and waits, and the client's
  thread runs the callbacks, which check the answer and wake the main thread. Catch is not modelled
  beyond this: \<open>REQUIRE\<close> throws, a section ends at an exception, sections run one after the other.
\<close>

section \<open>Parameters\<close>

record user_config =
  phoneno :: string
  countrycode :: string
  password :: string
  verifycode :: string
  config_name :: string
  os_number :: int
  osversion :: string
  appversion :: string
  devicemodel :: string
  config_uuid :: string
  addfriendphone :: string

definition user1 :: user_config where
  "user1 = (let phoneno = ''18514029918'' in
     \<lparr>phoneno = phoneno, countrycode = ''86'', password = ''123456'', verifycode = ''654321'',
      config_name = ''user1_yijian'', os_number = 0, osversion = ''9.0.3'', appversion = ''1.0.0'',
      devicemodel = ''iphone 5s'', config_uuid = phoneno @ ''_uuid'', addfriendphone = ''18514029911''\<rparr>)"

definition user2 :: user_config where
  "user2 = (let phoneno = ''18514029919'' in
     \<lparr>phoneno = phoneno, countrycode = ''86'', password = ''123456'', verifycode = ''654321'',
      config_name = ''user2_yijian'', os_number = 0, osversion = ''10.0.2'', appversion = ''1.0.0'',
      devicemodel = ''iphone 8'', config_uuid = phoneno @ ''_uuid'', addfriendphone = ''18514029911''\<rparr>)"

definition user3 :: user_config where
  "user3 = (let phoneno = ''18514029910'' in
     \<lparr>phoneno = phoneno, countrycode = ''86'', password = ''123456'', verifycode = ''654321'',
      config_name = ''user3_yijian'', os_number = 0, osversion = ''11.0.0'', appversion = ''1.0.0'',
      devicemodel = ''iphone 8s'', config_uuid = phoneno @ ''_uuid'', addfriendphone = ''18514029911''\<rparr>)"

definition user4 :: user_config where
  "user4 = (let phoneno = ''18514029911'' in
     \<lparr>phoneno = phoneno, countrycode = ''86'', password = ''123456'', verifycode = ''654321'',
      config_name = ''user4_yijian'', os_number = 0, osversion = ''9.0.3'', appversion = ''1.0.0'',
      devicemodel = ''iphone 5'', config_uuid = phoneno @ ''_uuid'', addfriendphone = ''18514029910''\<rparr>)"

text \<open>The client below, the message classes of the older protocol, and the parsers only the drivers use.\<close>

record ('d, 'i) driver_env =
  dv_kv :: "'d kv_env"
  dv_proto :: "'i old_proto"
  dv_config :: user_config
  dv_RegisterRes :: "bytes \<Rightarrow> RegisterRes"
  dv_ClientConnectRes :: "bytes \<Rightarrow> ClientConnectRes"
  dv_User :: "bytes \<Rightarrow> User"
  dv_AddFriendNoti :: "bytes \<Rightarrow> AddFriendNoti"

section \<open>State\<close>

text \<open>The callbacks the drivers register, with what they capture by value or compare with.\<close>

datatype driver_cb =
    Registered bool | Logged_in bool | Connected | Disconnected | User_queried string | Phone_queried
  | Version_queried | Noti_waited | Infos_queried | Friend_added | Friend_authorized

text \<open>What a section is made of: the blocks of \<open>user.h\<close> and the code of the test cases themselves.\<close>

datatype block =
    Register_expect bool | Login_failure | Loginblock | Connectblock | Disconnectblock | DbHasUserblock
  | Queryuserblock | Queryuserversionblock | QueryuserWithphoneblock | Addfriendblock
  | Userinfonotiblock | Check_invitee | Qaddfrdinfo_inviter | Qaddfrdinfo_invitee | Addfriendauthorizeblock

datatype main_pc = Running "block list" | Waiting block "block list"

text \<open>
  \<open>dr_frame\<close> is whether the variables \<open>userinfonotiblock\<close> captures by reference exist, \<open>dr_value\<close> and
  \<open>dr_noti\<close> are \<open>value\<close> and \<open>noti\<close> of the section around it. \<open>dr_failed\<close> counts the sections that ended
  with an exception, \<open>dr_dead\<close> is the exception that left the client's thread. \<open>dr_done\<close> and \<open>dr_passed\<close>
  record the callbacks that reached their end and the blocks whose wait is over; the code has no such
  variables.
\<close>

record ('d, 'c) driver =
  dr_kvdb :: "('d, driver_cb, unit, 'c) kvdb"
  dr_iswait :: bool
  dr_main :: main_pc
  dr_sections :: "block list list"
  dr_frame :: bool
  dr_value :: bytes
  dr_noti :: AddFriendNoti
  dr_failed :: nat
  dr_dead :: "exn option"
  dr_done :: "driver_cb list"
  dr_passed :: "block list"

type_synonym ('d, 'c, 'a) dr = "(('d, 'c) driver, 'a) act"

definition on_kvdb :: "('d, driver_cb, unit, 'c, 'a) kv \<Rightarrow> ('d, 'c, 'a) dr" where
  "on_kvdb m = (\<lambda>s. case m (dr_kvdb s) of (r, k) \<Rightarrow> (r, s\<lparr>dr_kvdb := k\<rparr>))"

text \<open>\<open>REQUIRE\<close> of Catch throws a \<open>TestFailureException\<close>.\<close>

definition REQUIRE :: "bool \<Rightarrow> ('d, 'c, unit) dr" where
  "REQUIRE ok = (if ok then ret () else raise (Logic_error ''TestFailureException''))"

section \<open>Waiting\<close>

text \<open>\<open>mainwait\<close> goes on when it holds the mutex and \<open>iswait_\<close> is false, and sets it again before it releases
  the mutex; \<open>None\<close> while it waits.\<close>

definition mainwait :: "('d, 'c) driver \<Rightarrow> ('d, 'c) driver option" where
  "mainwait s = (if dr_iswait s then None else Some (s\<lparr>dr_iswait := True\<rparr>))"

definition notimain :: "('d, 'c, unit) dr" where
  "notimain = modify (\<lambda>s. s\<lparr>dr_iswait := False\<rparr>)"

section \<open>Callbacks\<close>

text \<open>\<open>std::string value; db->get(key, value)\<close>\<close>

definition db_get :: "('d, 'i) driver_env \<Rightarrow> string \<Rightarrow> ('d, 'c, bytes) dr" where
  "db_get V key = act_bind (on_kvdb (get (dv_kv V) key)) (\<lambda>v. ret (case v of None \<Rightarrow> [] | Some v \<Rightarrow> v))"

definition register_called :: "('d, 'i) driver_env \<Rightarrow> bool \<Rightarrow> string \<Rightarrow> ('d, 'c, unit) dr" where
  "register_called V success key = act_bind (db_get V key) (\<lambda>value.
     act_seq (REQUIRE (RegisterRes_isSuccess (dv_RegisterRes V value) = success)) notimain)"

definition login_called :: "('d, 'i) driver_env \<Rightarrow> bool \<Rightarrow> string \<Rightarrow> ('d, 'c, unit) dr" where
  "login_called V success key = act_bind (db_get V key) (\<lambda>value.
     act_seq (REQUIRE (LoginRes_isSuccess (parse_LoginRes (kv_codec (dv_kv V)) value) = success)) notimain)"

definition connect_called :: "('d, 'i) driver_env \<Rightarrow> string \<Rightarrow> ('d, 'c, unit) dr" where
  "connect_called V key = act_bind (db_get V key) (\<lambda>value.
     act_seq (REQUIRE (ClientConnectRes_isSuccess (dv_ClientConnectRes V value))) notimain)"

definition disconnect_called :: "('d, 'i) driver_env \<Rightarrow> string \<Rightarrow> ('d, 'c, unit) dr" where
  "disconnect_called V key = act_bind (db_get V key) (\<lambda>_. act_seq (REQUIRE (disconnectKey = key)) notimain)"

definition queryuser_called :: "('d, 'i) driver_env \<Rightarrow> string \<Rightarrow> string \<Rightarrow> ('d, 'c, unit) dr" where
  "queryuser_called V userid key = act_seq (REQUIRE (key = userKey userid)) (act_bind (db_get V key) (\<lambda>_. notimain))"

text \<open>These only log what they read; \<open>qaddfrdinfo\<close> also assigns the first inviter to its own parameter.\<close>

definition logged_called :: "('d, 'i) driver_env \<Rightarrow> string \<Rightarrow> ('d, 'c, unit) dr" where
  "logged_called V key = act_bind (db_get V key) (\<lambda>_. notimain)"

definition version_called :: "string \<Rightarrow> ('d, 'c, unit) dr" where
  "version_called version = notimain"

text \<open>The callback of \<open>userinfonotiblock\<close> uses its parameters \<open>db\<close> and \<open>value\<close>, captured by reference.\<close>

definition noti_called :: "('d, 'i) driver_env \<Rightarrow> string \<Rightarrow> ('d, 'c, unit) dr" where
  "noti_called V key = act_bind (gets dr_frame) (\<lambda>alive.
     if \<not> alive then raise Undefined
     else act_bind (on_kvdb (get (dv_kv V) key)) (\<lambda>v.
       act_seq (case v of None \<Rightarrow> ret () | Some v \<Rightarrow> modify (\<lambda>s. s\<lparr>dr_value := v\<rparr>)) notimain))"

fun called_back :: "('d, 'i) driver_env \<Rightarrow> driver_cb \<times> string \<Rightarrow> ('d, 'c, unit) dr" where
  "called_back V (Registered success, key) = register_called V success key"
| "called_back V (Logged_in success, key) = login_called V success key"
| "called_back V (Connected, key) = connect_called V key"
| "called_back V (Disconnected, key) = disconnect_called V key"
| "called_back V (User_queried userid, key) = queryuser_called V userid key"
| "called_back V (Phone_queried, key) = logged_called V key"
| "called_back V (Version_queried, key) = version_called key"
| "called_back V (Noti_waited, key) = noti_called V key"
| "called_back V (Infos_queried, key) = logged_called V key"
| "called_back V (Friend_added, key) = logged_called V key"
| "called_back V (Friend_authorized, key) = logged_called V key"

definition run_callback :: "('d, 'i) driver_env \<Rightarrow> driver_cb \<times> string \<Rightarrow> ('d, 'c, unit) dr" where
  "run_callback V call = act_seq (called_back V call) (modify (\<lambda>s. s\<lparr>dr_done := dr_done s @ [fst call]\<rparr>))"

section \<open>Blocks\<close>

text \<open>What each block does before it waits.\<close>

definition register_block :: "('d, 'i) driver_env \<Rightarrow> bool \<Rightarrow> ('d, 'c, unit) dr" where
  "register_block V success = (let c = dv_config V in
     on_kvdb (registUser (dv_kv V) (phoneno c) (countrycode c) (password c) (verifycode c) (config_name c) (Registered success)))"

definition login_failure :: "('d, 'i) driver_env \<Rightarrow> ('d, 'c, unit) dr" where
  "login_failure V = (let c = dv_config V in
     on_kvdb (kvdb_login (dv_kv V) (phoneno c) (countrycode c) ''000000'' (os_number c) (devicemodel c) (config_uuid c) (Logged_in False)))"

definition loginblock :: "('d, 'i) driver_env \<Rightarrow> ('d, 'c, unit) dr" where
  "loginblock V = (let c = dv_config V in
     on_kvdb (kvdb_login (dv_kv V) (phoneno c) (countrycode c) (password c) (os_number c) (devicemodel c) (config_uuid c) (Logged_in True)))"

definition connectblock :: "('d, 'i) driver_env \<Rightarrow> ('d, 'c, unit) dr" where
  "connectblock V = (let c = dv_config V in
     act_bind (on_kvdb (get_current_userid (dv_kv V))) (\<lambda>userid.
     on_kvdb (kvdb_connect (dv_kv V) userid (config_uuid c) True (osversion c) (appversion c) Connected)))"

definition disconnectblock :: "('d, 'i) driver_env \<Rightarrow> ('d, 'c, unit) dr" where
  "disconnectblock V =
     act_bind (on_kvdb (get_current_userid (dv_kv V))) (\<lambda>userid.
     on_kvdb (kvdb_disconnect (dv_kv V) userid (config_uuid (dv_config V)) Disconnected))"

definition dbHasUserblock :: "('d, 'i) driver_env \<Rightarrow> string \<Rightarrow> ('d, 'c, bool) dr" where
  "dbHasUserblock V userid = act_bind (on_kvdb (getUser (dv_kv V) userid)) (\<lambda>user_data. ret (user_data \<noteq> None))"

definition queryuserblock :: "('d, 'i) driver_env \<Rightarrow> string \<Rightarrow> ('d, 'c, unit) dr" where
  "queryuserblock V userid = on_kvdb (queryuser (dv_kv V) userid (User_queried userid))"

definition queryuserWithphoneblock :: "('d, 'i) driver_env \<Rightarrow> string \<Rightarrow> ('d, 'c, unit) dr" where
  "queryuserWithphoneblock V phone = on_kvdb (queryuser_phone (dv_kv V) phone ''86'' Phone_queried)"

definition queryuserversionblock :: "('d, 'i) driver_env \<Rightarrow> string \<Rightarrow> ('d, 'c, unit) dr" where
  "queryuserversionblock V userid = on_kvdb (queryuserVersion (dv_kv V) userid Version_queried)"

definition userinfonotiblock :: "('d, 'i) driver_env \<Rightarrow> ('d, 'c, unit) dr" where
  "userinfonotiblock V = act_seq (modify (\<lambda>s. s\<lparr>dr_frame := True\<rparr>)) (on_kvdb (kv_userInfoNoti Noti_waited))"

definition qaddfrdinfo :: "('d, 'i) driver_env \<Rightarrow> string \<Rightarrow> ('d, 'c, unit) dr" where
  "qaddfrdinfo V friend_id = on_kvdb (queryaddfriendinfo (dv_kv V) Infos_queried)"

definition addfriendblock :: "('d, 'i) driver_env \<Rightarrow> string \<Rightarrow> ('d, 'c, unit) dr" where
  "addfriendblock V friend_id = on_kvdb (addfriend (dv_kv V) friend_id ''ni hao'' Friend_added)"

definition addfriendauthorizeblock :: "('d, 'i) driver_env \<Rightarrow> string \<Rightarrow> ('d, 'c, unit) dr" where
  "addfriendauthorizeblock V friend_id = on_kvdb (addfriendAuthorize (dv_kv V) friend_id IsAgree_agree Friend_authorized)"

definition for_current_user :: "('d, 'i) driver_env \<Rightarrow> (string \<Rightarrow> ('d, 'c, unit) dr) \<Rightarrow> ('d, 'c, unit) dr" where
  "for_current_user V f = act_bind (on_kvdb (get_current_userid (dv_kv V))) f"

definition check_invitee :: "('d, 'i) driver_env \<Rightarrow> ('d, 'c, unit) dr" where
  "check_invitee V =
     act_seq (modify (\<lambda>s. s\<lparr>dr_noti := dv_AddFriendNoti V (dr_value s)\<rparr>))
    (for_current_user V (\<lambda>userid.
     act_bind (gets dr_noti) (\<lambda>noti. REQUIRE (AddFriendRes_inviteeID (AddFriendNoti_response noti) = userid))))"

definition add_friend_section :: "('d, 'i) driver_env \<Rightarrow> ('d, 'c, unit) dr" where
  "add_friend_section V =
     act_bind (on_kvdb (getUser_phone (dv_kv V) ''86'' (addfriendphone (dv_config V)))) (\<lambda>user_data.
     addfriendblock V (User_id (dv_User V (case user_data of None \<Rightarrow> [] | Some v \<Rightarrow> v))))"

fun block_start :: "('d, 'i) driver_env \<Rightarrow> block \<Rightarrow> ('d, 'c, unit) dr" where
  "block_start V (Register_expect success) = register_block V success"
| "block_start V Login_failure = login_failure V"
| "block_start V Loginblock = loginblock V"
| "block_start V Connectblock = connectblock V"
| "block_start V Disconnectblock = disconnectblock V"
| "block_start V DbHasUserblock = for_current_user V (\<lambda>userid. act_bind (dbHasUserblock V userid) (\<lambda>_. ret ()))"
| "block_start V Queryuserblock = for_current_user V (queryuserblock V)"
| "block_start V Queryuserversionblock = for_current_user V (queryuserversionblock V)"
| "block_start V QueryuserWithphoneblock = queryuserWithphoneblock V (addfriendphone (dv_config V))"
| "block_start V Addfriendblock = add_friend_section V"
| "block_start V Userinfonotiblock = userinfonotiblock V"
| "block_start V Check_invitee = check_invitee V"
| "block_start V Qaddfrdinfo_inviter =
     act_bind (gets dr_noti) (\<lambda>noti. qaddfrdinfo V (AddFriendRes_inviterID (AddFriendNoti_response noti)))"
| "block_start V Qaddfrdinfo_invitee =
     act_bind (gets dr_noti) (\<lambda>noti. qaddfrdinfo V (AddFriendRes_inviteeID (AddFriendNoti_response noti)))"
| "block_start V Addfriendauthorizeblock =
     act_bind (gets dr_noti) (\<lambda>noti. addfriendauthorizeblock V (AddFriendRes_inviterID (AddFriendNoti_response noti)))"

fun block_waits :: "block \<Rightarrow> bool" where
  "block_waits DbHasUserblock = False"
| "block_waits Check_invitee = False"
| "block_waits _ = True"

section \<open>Test cases\<close>

text \<open>A test case: its name, its tag and its sections; a nested section runs with the one around it.\<close>

type_synonym test_case = "string \<times> string \<times> (string \<times> block list) list"

definition register_case :: test_case where
  "register_case = (''register login connect disconnet'', ''[register]'',
     [(''register'', [Register_expect True]), (''re register'', [Register_expect False]),
      (''login failure'', [Login_failure]), (''login success'', [Loginblock]),
      (''connect'', [Connectblock]), (''disconnet'', [Disconnectblock])])"

definition disconnect_case :: test_case where
  "disconnect_case = (''normal disconnet'', ''[connect]'',
     [(''login'', [Loginblock]), (''connect'', [Connectblock]), (''disconnet'', [Disconnectblock])])"

definition abnormal_case :: "string \<Rightarrow> test_case" where
  "abnormal_case tag = (''abnormal disconnet'', tag, [(''login'', [Loginblock]), (''connect'', [Connectblock])])"

text \<open>The sections both friend test cases begin with.\<close>

definition known_user :: "(string \<times> block list) list" where
  "known_user = [(''login'', [Loginblock]), (''connect'', [Connectblock]), (''han user'', [DbHasUserblock]),
     (''query user'', [Queryuserblock]), (''han user'', [DbHasUserblock]), (''queryuser version'', [Queryuserversionblock])]"

definition wait_case :: "block list \<Rightarrow> test_case" where
  "wait_case infos = (''wait for add friends & authorize'', ''[waitaddfriend]'',
     known_user @ [(''wait user add noti'', [Userinfonotiblock, Check_invitee] @ infos), (''disconnet'', [Disconnectblock])])"

definition addfriend_case :: test_case where
  "addfriend_case = (''add friend & wait for authorize'', ''[addfriend]'',
     known_user @ [(''query add friend info'', [QueryuserWithphoneblock]), (''add friend'', [Addfriendblock]),
       (''disconnet'', [Disconnectblock])])"

definition user1_tests :: "test_case list" where
  "user1_tests = [register_case, disconnect_case, abnormal_case ''[econnect]'',
     wait_case [Qaddfrdinfo_inviter, Addfriendauthorizeblock], addfriend_case]"

definition user2_tests :: "test_case list" where
  "user2_tests = [register_case, disconnect_case, abnormal_case ''[connect]'', wait_case [Qaddfrdinfo_invitee], addfriend_case]"

definition user3_tests :: "test_case list" where
  "user3_tests = [register_case, disconnect_case, abnormal_case ''[connect]'',
     wait_case [Qaddfrdinfo_inviter, Addfriendauthorizeblock], addfriend_case]"

definition user4_tests :: "test_case list" where
  "user4_tests = [register_case, disconnect_case, abnormal_case ''[connect]'',
     wait_case [Qaddfrdinfo_inviter, Addfriendauthorizeblock], addfriend_case]"

definition sections_of :: "test_case list \<Rightarrow> block list list" where
  "sections_of tests = concat (map (\<lambda>(name, tag, sections). map snd sections) tests)"

text \<open>\<open>main\<close>: the store is opened first; \<open>reCode\<close> is what \<open>applyCommandLine\<close> returns, and \<open>chosen\<close> the
  test cases the command line selects.\<close>

definition driver_main :: "bool \<Rightarrow> 'd \<Rightarrow> 'c link \<Rightarrow> int \<Rightarrow> test_case list \<Rightarrow> exn + (int + ('d, 'c) driver)" where
  "driver_main opened d io reCode chosen =
     (case kvdb_ctor opened d io of
        Inl e \<Rightarrow> Inl e
      | Inr db \<Rightarrow>
          if reCode \<noteq> 0 then Inr (Inl reCode)
          else Inr (Inr \<lparr>dr_kvdb = db, dr_iswait = True, dr_main = Running [], dr_sections = sections_of chosen,
            dr_frame = False, dr_value = [], dr_noti = AddFriendNoti_new, dr_failed = 0, dr_dead = None, dr_done = [], dr_passed = []\<rparr>))"

section \<open>Steps\<close>

definition main_moves :: "('d, 'i) driver_env \<Rightarrow> ('d, 'c) driver \<Rightarrow> ('d, 'c) driver option" where
  "main_moves V s = (case dr_main s of
     Running [] \<Rightarrow> (case dr_sections s of [] \<Rightarrow> None
       | sec # secs \<Rightarrow> Some (s\<lparr>dr_main := Running sec, dr_sections := secs, dr_value := [], dr_noti := AddFriendNoti_new\<rparr>))
   | Running (b # bs) \<Rightarrow> (case block_start V b s of
         (Inl e, t) \<Rightarrow> Some (t\<lparr>dr_main := Running [], dr_frame := False, dr_failed := dr_failed t + 1\<rparr>)
       | (Inr _, t) \<Rightarrow> Some (t\<lparr>dr_main := (if block_waits b then Waiting b bs else Running bs)\<rparr>))
   | Waiting b bs \<Rightarrow> (case mainwait s of None \<Rightarrow> None
       | Some t \<Rightarrow> Some (t\<lparr>dr_main := Running bs, dr_frame := False, dr_passed := dr_passed s @ [b]\<rparr>)))"

text \<open>A frame that is complete on the client's thread: the handler, then the callback it calls last. What
  leaves the thread ends the process.\<close>

definition handled :: "('d, 'i) driver_env \<Rightarrow> buffer \<Rightarrow> ('d, driver_cb, unit, 'c, unit) kv" where
  "handled V sp = act_seq (modify (\<lambda>k. k\<lparr>cl_buffer_sp := sp\<rparr>))
     (frame_arrived (kvdb_dispatch (dv_kv V) (\<lambda>_ _. True) (media_entries (dv_kv V) (dv_proto V))))"

definition net_frame :: "('d, 'i) driver_env \<Rightarrow> buffer \<Rightarrow> ('d, 'c, unit) dr" where
  "net_frame V sp =
     act_bind (gets (\<lambda>s. length (k_calls (dr_kvdb s)))) (\<lambda>n.
     act_seq (on_kvdb (handled V sp))
    (act_bind (gets (\<lambda>s. drop n (k_calls (dr_kvdb s)))) (\<lambda>calls. foreach calls (run_callback V))))"

definition net_moves :: "('d, 'i) driver_env \<Rightarrow> buffer \<Rightarrow> ('d, 'c) driver \<Rightarrow> ('d, 'c) driver" where
  "net_moves V sp s = (case rethrow 60000 ''need close client and restart'' (net_frame V sp) s of
     (Inr _, t) \<Rightarrow> t | (Inl e, t) \<Rightarrow> t\<lparr>dr_dead := Some e\<rparr>)"

inductive driver_step :: "('d, 'i) driver_env \<Rightarrow> (buffer \<Rightarrow> bool) \<Rightarrow> ('d, 'c) driver \<Rightarrow> ('d, 'c) driver \<Rightarrow> bool"
  for V comes where
  driver_main_step: "dr_dead s = None \<Longrightarrow> main_moves V s = Some t \<Longrightarrow> driver_step V comes s t"
| driver_net_step: "dr_dead s = None \<Longrightarrow> comes sp \<Longrightarrow> driver_step V comes s (net_moves V sp s)"

inductive_cases driver_stepE: "driver_step V comes s t"

end
