(* ===== verification/DriverRuns.thy ===== *)
theory DriverRuns
  imports Drivers AnswerOnce
begin

text \<open>
  What the test drivers do: a frame calls at most the one callback that is registered, so each wait of
  the main thread is ended by the answer to its own request; what happens when the answer comes before
  the callback is registered, when it is not the expected one, and when a notification comes late.
\<close>

text \<open>A frame on the client's thread.\<close>

lemma handled_eq:
  "handled V sp = act_seq (modify (\<lambda>k. k\<lparr>cl_buffer_sp := sp\<rparr>))
     (act_seq (if b_data_type sp = chat_code CT_clientconnectres then modify (\<lambda>k. k\<lparr>cl_sessionid := b_session_id sp\<rparr>) else ret ())
     (act_seq (kvdb_dispatch (dv_kv V) (\<lambda>_ _. True) (media_entries (dv_kv V) (dv_proto V)) sp)
       (modify (\<lambda>k. k\<lparr>cl_buffer_sp := buffer_ctor (cl_raw k) MT_message\<rparr>))))"
  by (simp add: handled_def frame_arrived_def act_defs fun_eq_iff)

lemma handled_once:
  assumes "once T" shows "answers_once (call_keys sp) T (handled V sp)"
  unfolding handled_eq
  by (intro once_seq once_then once_dispatch callless_intros assms) (simp_all add: same_tables_def)

lemma net_frame_handled:
  "net_frame V sp s = (case handled V sp (dr_kvdb s) of
     (Inl e, k) \<Rightarrow> (Inl e, s\<lparr>dr_kvdb := k\<rparr>)
   | (Inr _, k) \<Rightarrow> foreach (drop (length (k_calls (dr_kvdb s))) (k_calls k)) (run_callback V) (s\<lparr>dr_kvdb := k\<rparr>))"
  by (simp add: net_frame_def on_kvdb_def act_defs split: prod.splits sum.splits)

lemma net_moves_eq:
  "net_moves V sp s = (case net_frame V sp s of (Inr _, t) \<Rightarrow> t
     | (Inl e, t) \<Rightarrow> t\<lparr>dr_dead := Some (if is_system_error e then sys_error 60000 ''need close client and restart'' else e)\<rparr>)"
  by (simp add: net_moves_def rethrow_def catch_system_error_def raise_def split: prod.splits sum.splits)

lemma on_kvdb_get: "on_kvdb (get E key) s = (Inr (holds E (dr_kvdb s) key), s)"
  by (cases s) (simp add: on_kvdb_def get_holds)

lemmas called_defs = db_get_def register_called_def login_called_def connect_called_def disconnect_called_def
  queryuser_called_def logged_called_def version_called_def noti_called_def notimain_def REQUIRE_def on_kvdb_get

lemma run_callback_wakes:
  assumes "run_callback V (f, key) s = (Inr (), t)"
  shows "\<exists>v. t = s\<lparr>dr_iswait := False, dr_value := v, dr_done := dr_done s @ [f]\<rparr>"
proof -
  have "\<exists>v. called_back V (f, key) s = (Inr (), s\<lparr>dr_iswait := False, dr_value := v\<rparr>)
     \<and> t = s\<lparr>dr_iswait := False, dr_value := v, dr_done := dr_done s @ [f]\<rparr>"
    using assms
    by (cases f; cases s) (auto simp: run_callback_def called_defs act_defs split: if_splits option.splits)
  then show ?thesis by blast
qed

section \<open>Waits and answers\<close>

fun callback_of :: "block \<Rightarrow> driver_cb \<Rightarrow> bool" where
  "callback_of (Register_expect success) f = (f = Registered success)"
| "callback_of Login_failure f = (f = Logged_in False)"
| "callback_of Loginblock f = (f = Logged_in True)"
| "callback_of Connectblock f = (f = Connected)"
| "callback_of Disconnectblock f = (f = Disconnected)"
| "callback_of Queryuserblock f = (\<exists>userid. f = User_queried userid)"
| "callback_of Queryuserversionblock f = (f = Version_queried)"
| "callback_of QueryuserWithphoneblock f = (f = Phone_queried)"
| "callback_of Addfriendblock f = (f = Friend_added)"
| "callback_of Qaddfrdinfo_inviter f = (f = Infos_queried)"
| "callback_of Qaddfrdinfo_invitee f = (f = Infos_queried)"
| "callback_of Addfriendauthorizeblock f = (f = Friend_authorized)"
| "callback_of Userinfonotiblock f = (f = Noti_waited)"
| "callback_of _ f = False"

definition registers :: "'f \<Rightarrow> ('d, 'f, 'g, 'c, unit) kv \<Rightarrow> bool" where
  "registers f m \<longleftrightarrow> (\<forall>k. only None k \<longrightarrow> (case m k of (Inl e, t) \<Rightarrow> only None t
     | (Inr _, t) \<Rightarrow> \<exists>j. only (Some (j, f)) t \<and> once (Some (j, f))))"

lemma registers_raise: "registers f (raise e)"
  by (simp add: registers_def raise_def)

lemma registers_bind:
  fixes m :: "('d, 'f, 'g, 'c, 'a) kv" and g :: "'a \<Rightarrow> ('d, 'f, 'g, 'c, unit) kv"
  assumes "callless m" and "\<And>a. registers f (g a)" shows "registers f (act_bind m g)"
  unfolding registers_def
proof (intro allI impI)
  fix k :: "('d, 'f, 'g, 'c) kvdb" assume k: "only None k"
  obtain r t where m: "m k = (r, t)" by (cases "m k")
  then have "same_tables k t" using assms(1) unfolding callless_def by (metis snd_conv)
  with k have t: "only None t" using only_same by blast
  show "case act_bind m g k of (Inl e, t) \<Rightarrow> only None t | (Inr _, t) \<Rightarrow> \<exists>j. only (Some (j, f)) t \<and> once (Some (j, f))"
    using assms(2) m t by (cases r) (auto simp: act_bind_def registers_def)
qed

lemma once_number: "once (Some (uint (sid :: u16), f))"
  by (auto simp: once_def dest: arg_cong [of _ _ "\<lambda>i. 0 \<le> i"])

lemma registers_ask:
  assumes "big_buffers E" shows "registers f (kv_put_map_send E any f :: ('d, 'f, 'g, 'c, unit) kv)"
  unfolding registers_def
proof (intro allI impI)
  fix k :: "('d, 'f, 'g, 'c) kvdb" assume k: "only None k"
  obtain b where "kv_send E any k = (Inr (length (cl_bufs k), cl_sessionid k),
      sent (length (cl_bufs k)) b (k\<lparr>cl_bufs := cl_bufs k @ [kv_Buffer E any]\<rparr>))" by (rule kv_send_ok [OF assms])
  then show "case kv_put_map_send E any f k of (Inl e, t) \<Rightarrow> only None t | (Inr _, t) \<Rightarrow> \<exists>j. only (Some (j, f)) t \<and> once (Some (j, f))"
    using k once_number [of "cl_sessionid k" f]
    by (auto simp: kv_put_map_send_def kv_put_map_def act_defs only_def sent_def)
qed

lemma registers_session:
  assumes "big_buffers E" and "kind \<in> {regist_login_connect, logout_disconnect_id}"
  shows "registers f (put_then_send E kind f any :: ('d, 'f, 'g, 'c, unit) kv)"
  unfolding registers_def
proof (intro allI impI)
  fix k :: "('d, 'f, 'g, 'c) kvdb" assume k: "only None k"
  let ?k = "k\<lparr>sessionid_cbfunc_map := (sessionid_cbfunc_map k)(session_key kind \<mapsto> f)\<rparr>"
  obtain b where "kv_send E any ?k = (Inr (length (cl_bufs ?k), cl_sessionid ?k),
      sent (length (cl_bufs ?k)) b (?k\<lparr>cl_bufs := cl_bufs ?k @ [kv_Buffer E any]\<rparr>))" by (rule kv_send_ok [OF assms(1)])
  then show "case put_then_send E kind f any k of (Inl e, t) \<Rightarrow> only None t | (Inr _, t) \<Rightarrow> \<exists>j. only (Some (j, f)) t \<and> once (Some (j, f))"
    using k assms(2) by (auto simp: put_then_send_def kv_put_map_def act_defs only_def sent_def once_def)
qed

text \<open>What a block leaves behind before it waits.\<close>

definition same_driver :: "('d, 'c) driver \<Rightarrow> ('d, 'c) driver \<Rightarrow> bool" where
  "same_driver s t \<longleftrightarrow> dr_iswait t = dr_iswait s \<and> dr_main t = dr_main s \<and> dr_sections t = dr_sections s
     \<and> dr_failed t = dr_failed s \<and> dr_dead t = dr_dead s \<and> dr_done t = dr_done s \<and> dr_passed t = dr_passed s"

definition registered :: "block \<Rightarrow> ('d, driver_cb, unit, 'c) kvdb \<Rightarrow> bool" where
  "registered b k \<longleftrightarrow> (if block_waits b then \<exists>j f. callback_of b f \<and> only (Some (j, f)) k \<and> once (Some (j, f)) else only None k)"

lemma registered_nothing: "\<not> block_waits b \<Longrightarrow> registered b k = only None k"
  by (simp add: registered_def)

definition started :: "block \<Rightarrow> ('d, 'c) driver \<Rightarrow> (exn + unit) \<times> ('d, 'c) driver \<Rightarrow> bool" where
  "started b s x \<longleftrightarrow> same_driver s (snd x)
     \<and> (case fst x of Inl e \<Rightarrow> only None (dr_kvdb (snd x)) | Inr _ \<Rightarrow> registered b (dr_kvdb (snd x)))"

lemma same_driver_trans: "same_driver s t \<Longrightarrow> same_driver t u \<Longrightarrow> same_driver s u"
  by (simp add: same_driver_def)

lemma started_registers:
  assumes m: "registers f m" and "callback_of b f" and s: "only None (dr_kvdb s)" and "block_waits b"
  shows "started b s (on_kvdb m s)"
proof -
  obtain r k where k: "m (dr_kvdb s) = (r, k)" by (cases "m (dr_kvdb s)")
  have "case m (dr_kvdb s) of (Inl e, t) \<Rightarrow> only None t | (Inr _, t) \<Rightarrow> \<exists>j. only (Some (j, f)) t \<and> once (Some (j, f))"
    using m s by (simp add: registers_def)
  with k have res: "case r of Inl e \<Rightarrow> only None k | Inr _ \<Rightarrow> \<exists>j. only (Some (j, f)) k \<and> once (Some (j, f))"
    by (simp split: sum.splits)
  have on: "on_kvdb m s = (r, s\<lparr>dr_kvdb := k\<rparr>)" using k by (simp add: on_kvdb_def)
  have sd: "same_driver s (s\<lparr>dr_kvdb := k\<rparr>)" by (simp add: same_driver_def)
  show ?thesis
  proof (cases r)
    case (Inl e)
    then show ?thesis using on sd res by (simp add: started_def)
  next
    case (Inr a)
    then have "registered b k" using res assms(2,4) unfolding registered_def by auto
    then show ?thesis using Inr on sd by (simp add: started_def)
  qed
qed

lemma started_bind:
  assumes m: "m s = (r, t)" "same_driver s t" "only None (dr_kvdb t)"
    and g: "\<And>a. r = Inr a \<Longrightarrow> started b t (g a t)"
  shows "started b s (act_bind m g s)"
proof (cases r)
  case (Inl e)
  then show ?thesis using m by (simp add: started_def act_bind_def)
next
  case (Inr a)
  then have st: "started b t (g a t)" by (rule g)
  then have "same_driver s (snd (g a t))" using same_driver_trans [OF m(2)] by (simp add: started_def)
  then show ?thesis using st Inr m(1) by (simp add: started_def act_bind_def)
qed

lemma started_callless:
  assumes "callless m" and s: "only None (dr_kvdb s)" and g: "\<And>a t. only None (dr_kvdb t) \<Longrightarrow> started b t (g a t)"
  shows "started b s (act_bind (on_kvdb m) g s)"
proof -
  obtain r k where m: "m (dr_kvdb s) = (r, k)" by (cases "m (dr_kvdb s)")
  then have "same_tables (dr_kvdb s) k" using assms(1) unfolding callless_def by (metis snd_conv)
  then have k: "only None k" using only_same s by blast
  show ?thesis
    by (rule started_bind [of _ s r "s\<lparr>dr_kvdb := k\<rparr>"]) (use m k g in \<open>simp_all add: on_kvdb_def same_driver_def\<close>)
qed

lemma started_noti: "(\<And>n. started b s (g n s)) \<Longrightarrow> started b s (act_bind (gets dr_noti) g s)"
  by (simp add: act_bind_def gets_def)

lemma started_set_noti: "started b (s\<lparr>dr_noti := f s\<rparr>) (m (s\<lparr>dr_noti := f s\<rparr>)) \<Longrightarrow> started b s (act_seq (modify (\<lambda>s. s\<lparr>dr_noti := f s\<rparr>)) m s)"
  by (simp add: act_defs started_def same_driver_def)

lemma started_done: "only None (dr_kvdb s) \<Longrightarrow> \<not> block_waits b \<Longrightarrow> started b s (ret () s)"
  by (simp add: started_def ret_def registered_def same_driver_def)

lemma started_require: "only None (dr_kvdb s) \<Longrightarrow> \<not> block_waits b \<Longrightarrow> started b s (REQUIRE ok s)"
  by (simp add: REQUIRE_def started_done) (simp add: raise_def started_def same_driver_def)

lemma block_started:
  assumes B: "big_buffers (dv_kv V)" and s: "only None (dr_kvdb s)" and b: "b \<noteq> Userinfonotiblock"
  shows "started b s (block_start V b s)"
proof -
  have r: "registers f (registUser (dv_kv V) p c w v n f)" "registers f (kvdb_login (dv_kv V) p c w os d u f)"
    "registers f (kvdb_connect (dv_kv V) p u True v w f)" "registers f (kvdb_disconnect (dv_kv V) p u f)"
    "registers f (queryuser (dv_kv V) p f)" "registers f (queryuser_phone (dv_kv V) p c f)"
    "registers f (queryuserVersion (dv_kv V) p f)" "registers f (queryaddfriendinfo (dv_kv V) f)"
    "registers f (addfriend (dv_kv V) p c f)" "registers f (addfriendAuthorize (dv_kv V) p os f)" for f p c w v n os d u
    unfolding registUser_def kvdb_login_def kvdb_connect_def kvdb_disconnect_def queryuser_def queryuser_phone_def
      queryuserVersion_def queryaddfriendinfo_def addfriend_def addfriendAuthorize_def
    by (auto intro!: registers_raise registers_bind registers_ask registers_session B callless_intros)
  note reg = started_registers [OF r(1)] started_registers [OF r(2)] started_registers [OF r(3)] started_registers [OF r(4)]
    started_registers [OF r(5)] started_registers [OF r(6)] started_registers [OF r(7)] started_registers [OF r(8)]
    started_registers [OF r(9)] started_registers [OF r(10)]
  note step = reg started_callless started_noti started_set_noti started_done started_require callless_intros
  show ?thesis
    using s b
    by (cases b) (auto simp: act_bind_assoc act_bind_ret Let_def register_block_def login_failure_def loginblock_def connectblock_def disconnectblock_def
      queryuserblock_def queryuserversionblock_def queryuserWithphoneblock_def qaddfrdinfo_def addfriendblock_def
      addfriendauthorizeblock_def for_current_user_def add_friend_section_def dbHasUserblock_def getUser_def getUser_phone_def
      check_invitee_def intro!: step)
qed

text \<open>Between blocks no callback is registered; while the main thread waits the callback of its block is, or has run.\<close>

definition rest :: "main_pc \<Rightarrow> block list" where
  "rest m = (case m of Running bs \<Rightarrow> bs | Waiting b bs \<Rightarrow> b # bs)"

definition woken :: "('d, 'c) driver \<Rightarrow> block list" where
  "woken s = (case dr_main s of Running bs \<Rightarrow> [] | Waiting b bs \<Rightarrow> if dr_iswait s then [] else [b])"

definition noti_free :: "('d, 'c) driver \<Rightarrow> bool" where
  "noti_free s \<longleftrightarrow> Userinfonotiblock \<notin> set (rest (dr_main s)) \<union> \<Union> (set ` set (dr_sections s))"

definition synchronous :: "block list \<Rightarrow> ('d, 'c) driver \<Rightarrow> bool" where
  "synchronous script s \<longleftrightarrow> (dr_dead s = None \<longrightarrow> noti_free s \<and>
     (case dr_main s of Running bs \<Rightarrow> dr_iswait s \<and> only None (dr_kvdb s)
      | Waiting b bs \<Rightarrow> block_waits b \<and> (if dr_iswait s then registered b (dr_kvdb s) else only None (dr_kvdb s)))
     \<and> list_all2 callback_of (dr_passed s @ woken s) (dr_done s)
     \<and> (dr_failed s = 0 \<longrightarrow>
         filter block_waits script = dr_passed s @ filter block_waits (rest (dr_main s) @ concat (dr_sections s))))"

lemma synchronous_main:
  assumes B: "big_buffers (dv_kv V)" and i: "synchronous script s" "dr_dead s = None" and m: "main_moves V s = Some t"
  shows "synchronous script t"
proof (cases "dr_main s")
  case (Waiting b bs)
  then show ?thesis using i m
    by (auto simp: main_moves_def mainwait_def synchronous_def noti_free_def rest_def woken_def split: if_splits)
next
  case (Running bs)
  show ?thesis
  proof (cases bs)
    case Nil
    then show ?thesis using i m Running
      by (auto simp: main_moves_def synchronous_def noti_free_def rest_def woken_def split: list.splits)
  next
    case (Cons b bs')
    obtain r u where u: "block_start V b s = (r, u)" by (cases "block_start V b s")
    have "started b s (r, u)"
      using block_started [OF B, where s = s and b = b] i Running Cons u by (auto simp: synchronous_def noti_free_def rest_def)
    then show ?thesis using i m Running Cons u
      by (cases r; cases "block_waits b")
        (auto simp: main_moves_def synchronous_def noti_free_def rest_def woken_def started_def same_driver_def registered_nothing)
  qed
qed

lemma net_frame_calls:
  assumes T: "only T (dr_kvdb s)" "once T"
  shows "(\<exists>r k. net_frame V sp s = (r, s\<lparr>dr_kvdb := k\<rparr>) \<and> only T k)
     \<or> (\<exists>j f key k. j \<in> call_keys sp \<and> T = Some (j, f) \<and> only None k \<and> net_frame V sp s = run_callback V (f, key) (s\<lparr>dr_kvdb := k\<rparr>))"
proof -
  have single: "foreach [c] (run_callback V) u = run_callback V c u" for c u
    by (simp add: act_defs split: prod.splits sum.splits)
  obtain r k where k: "handled V sp (dr_kvdb s) = (r, k)" by (cases "handled V sp (dr_kvdb s)")
  have "outcome (call_keys sp) T (dr_kvdb s) (r, k)"
    using handled_once [OF T(2), where V = V and sp = sp] T(1) k unfolding answers_once_def by metis
  then consider "k_calls k = k_calls (dr_kvdb s)" "only T k"
    | j f key where "j \<in> call_keys sp" "T = Some (j, f)" "r = Inr ()" "k_calls k = k_calls (dr_kvdb s) @ [(f, key)]" "only None k"
    by (auto simp: outcome_def)
  then show ?thesis
  proof cases
    case 1
    then show ?thesis using k by (cases r) (auto simp: net_frame_handled act_defs)
  next
    case 2
    then have "net_frame V sp s = run_callback V (f, key) (s\<lparr>dr_kvdb := k\<rparr>)"
      using k single [of "(f, key)"] by (simp add: net_frame_handled)
    with 2 show ?thesis by blast
  qed
qed

lemma synchronous_net:
  assumes i: "synchronous script s" "dr_dead s = None"
  shows "synchronous script (net_moves V sp s)"
proof -
  obtain T where T: "only T (dr_kvdb s)" "once T"
    and T': "\<And>j f. T = Some (j, f) \<Longrightarrow> \<exists>b bs. dr_main s = Waiting b bs \<and> dr_iswait s \<and> callback_of b f"
    "T = None \<Longrightarrow> \<not> (\<exists>b bs. dr_main s = Waiting b bs \<and> dr_iswait s)"
  proof (cases "\<exists>b bs. dr_main s = Waiting b bs \<and> dr_iswait s")
    case True
    then obtain b j f where "\<exists>bs. dr_main s = Waiting b bs \<and> dr_iswait s" "callback_of b f" "only (Some (j, f)) (dr_kvdb s)" "once (Some (j, f))"
      using i by (auto simp: synchronous_def registered_def)
    then show thesis by (intro that [of "Some (j, f)"]) auto
  next
    case False
    then have "only None (dr_kvdb s)" using i by (auto simp: synchronous_def split: main_pc.splits)
    then show thesis using False by (intro that [of None]) (auto simp: once_def)
  qed
  from net_frame_calls [OF T, where V = V and sp = sp] show ?thesis
  proof (elim disjE exE conjE)
    fix r k assume k: "net_frame V sp s = (r, s\<lparr>dr_kvdb := k\<rparr>)" "only T k"
    have "registered b k" if "dr_main s = Waiting b bs" "dr_iswait s" "block_waits b" for b bs
      using that k(2) T(2) T' by (cases T) (auto simp: registered_def)
    moreover have "only None k" if "\<not> (\<exists>b bs. dr_main s = Waiting b bs \<and> dr_iswait s)"
      using that k(2) T'(1) by (cases T) auto
    ultimately show ?thesis using i k(1)
      by (cases r) (auto simp: net_moves_eq synchronous_def noti_free_def rest_def woken_def split: main_pc.splits if_splits)
  next
    fix j f key k assume k: "j \<in> call_keys sp" "T = Some (j, f)" "only None k" "net_frame V sp s = run_callback V (f, key) (s\<lparr>dr_kvdb := k\<rparr>)"
    obtain b bs where b: "dr_main s = Waiting b bs" "dr_iswait s" "callback_of b f" using T'(1) k(2) by blast
    obtain r t where t: "run_callback V (f, key) (s\<lparr>dr_kvdb := k\<rparr>) = (r, t)" by (cases "run_callback V (f, key) (s\<lparr>dr_kvdb := k\<rparr>)")
    show ?thesis
    proof (cases r)
      case (Inl e)
      then show ?thesis using t k by (simp add: net_moves_eq synchronous_def)
    next
      case (Inr a)
      then obtain v where "t = (s\<lparr>dr_kvdb := k\<rparr>)\<lparr>dr_iswait := False, dr_value := v, dr_done := dr_done s @ [f]\<rparr>"
        using run_callback_wakes [of V f key "s\<lparr>dr_kvdb := k\<rparr>" t] t by auto
      then show ?thesis using t Inr k i b
        by (auto simp: net_moves_eq synchronous_def noti_free_def rest_def woken_def list_all2_appendI)
    qed
  qed
qed

section \<open>Each wait is ended by its own answer\<close>

lemma synchronous_step: "big_buffers (dv_kv V) \<Longrightarrow> driver_step V comes s t \<Longrightarrow> synchronous script s \<Longrightarrow> synchronous script t"
  by (auto elim!: driver_stepE intro: synchronous_main synchronous_net)

lemma synchronous_reach:
  assumes B: "big_buffers (dv_kv V)" and run: "rtranclp (driver_step V comes) s t" and s: "synchronous script s"
  shows "synchronous script t"
  using run s by (induction rule: rtranclp_induct) (auto intro: synchronous_step [OF B])

lemma driver_main_start:
  assumes "driver_main opened d io 0 chosen = Inr (Inr s)"
  shows "s = \<lparr>dr_kvdb = link.extend io (kvdb.fields d Map.empty Map.empty Map.empty [] []), dr_iswait = True, dr_main = Running [],
     dr_sections = sections_of chosen, dr_frame = False, dr_value = [], dr_noti = AddFriendNoti_new, dr_failed = 0,
     dr_dead = None, dr_done = [], dr_passed = []\<rparr>"
  using assms by (simp add: driver_main_def kvdb_ctor_def split: if_splits)

lemma synchronous_start:
  assumes "driver_main opened d io 0 chosen = Inr (Inr s)" and "\<forall>sec \<in> set (sections_of chosen). Userinfonotiblock \<notin> set sec"
  shows "synchronous (concat (sections_of chosen)) s"
  using assms(2) unfolding driver_main_start [OF assms(1)]
  by (auto simp: synchronous_def noti_free_def rest_def woken_def only_def link.extend_def kvdb.fields_def)

text \<open>A driver for the witnesses: its server answers every login and connect with success.\<close>

definition demo_LoginRes :: LoginRes where
  "demo_LoginRes = LoginRes_new\<lparr>LoginRes_isSuccess := True, LoginRes_userID := ''7''\<rparr>"

definition demo_driver :: "(string \<Rightarrow> bytes option, u8) driver_env" where
  "demo_driver = \<lparr>dv_kv = demo_env\<lparr>kv_codec := client_plain\<lparr>parse_LoginRes := (\<lambda>_. demo_LoginRes)\<rparr>\<rparr>, dv_proto = demo_proto,
     dv_config = user1, dv_RegisterRes = (\<lambda>_. RegisterRes_new),
     dv_ClientConnectRes = (\<lambda>_. ClientConnectRes_new\<lparr>ClientConnectRes_isSuccess := True\<rparr>), dv_User = (\<lambda>_. User_new),
     dv_AddFriendNoti = (\<lambda>_. AddFriendNoti_new)\<rparr>"

lemma demo_driver_ok: "leveldb_ok (kv_leveldb (dv_kv demo_driver))" "big_buffers (dv_kv demo_driver)"
  using demo_env_ok by (simp_all add: demo_driver_def big_buffers_def)

definition frame_of :: "ChatType \<Rightarrow> u16 \<Rightarrow> buffer" where
  "frame_of t sid = (buffer_ctor undefined MT_message)\<lparr>b_data_type := chat_code t, b_session_id := sid\<rparr>"

definition demo_start :: "test_case list \<Rightarrow> (string \<Rightarrow> bytes option, unit) driver" where
  "demo_start tests = \<lparr>dr_kvdb = link.extend (init_io undefined ()) (kvdb.fields Map.empty Map.empty Map.empty Map.empty [] []),
     dr_iswait = True, dr_main = Running [], dr_sections = sections_of tests, dr_frame = False, dr_value = [],
     dr_noti = AddFriendNoti_new, dr_failed = 0, dr_dead = None, dr_done = [], dr_passed = []\<rparr>"

lemma demo_started: "driver_main True Map.empty (init_io undefined ()) 0 tests = Inr (Inr (demo_start tests))"
  by (simp add: driver_main_def kvdb_ctor_def demo_start_def)

lemma demo_res: "parse_LoginRes (kv_codec (dv_kv demo_driver)) v = demo_LoginRes" "LoginRes_isSuccess demo_LoginRes"
    "LoginRes_userID demo_LoginRes = ''7''" "ClientConnectRes_isSuccess (dv_ClientConnectRes demo_driver v)"
  by (simp_all add: demo_driver_def demo_LoginRes_def)


section \<open>A session\<close>

lemma put_then_send_ok:
  assumes "big_buffers E"
  obtains b t where "put_then_send E kind f any k = (Inr (), t)"
    and "numbered (kv_final E) (cl_sessionid k) (kv_Buffer E any) b" and "cl_bufs t = cl_bufs k @ [b]"
    and "cl_buffers_p t = cl_buffers_p k @ [length (cl_bufs k)]" and "cl_sessionid t = cl_sessionid k + 1"
    and "k_db t = k_db k" and "k_calls t = k_calls k"
    and "sessionid_cbfunc_map t = (sessionid_cbfunc_map k)(session_key kind \<mapsto> f)"
proof -
  let ?k = "k\<lparr>sessionid_cbfunc_map := (sessionid_cbfunc_map k)(session_key kind \<mapsto> f)\<rparr>"
  obtain b where b: "kv_send E any ?k = (Inr (length (cl_bufs ?k), cl_sessionid ?k),
      sent (length (cl_bufs ?k)) b (?k\<lparr>cl_bufs := cl_bufs ?k @ [kv_Buffer E any]\<rparr>))"
    "numbered (kv_final E) (cl_sessionid ?k) (kv_Buffer E any) b" by (rule kv_send_ok [OF assms])
  show ?thesis
    by (rule that [of "sent (length (cl_bufs ?k)) b (?k\<lparr>cl_bufs := cl_bufs ?k @ [kv_Buffer E any]\<rparr>)" b])
      (use b in \<open>simp_all add: put_then_send_def kv_put_map_def act_defs sent_def\<close>)
qed

definition answered :: "driver_cb \<Rightarrow> string \<Rightarrow> ('d, driver_cb, unit, 'c) kvdb \<Rightarrow> ('d, driver_cb, unit, 'c) kvdb \<Rightarrow> bool" where
  "answered f key k t \<longleftrightarrow> k_calls t = k_calls k @ [(f, key)] \<and> cl_bufs t = cl_bufs k \<and> cl_buffers_p t = cl_buffers_p k"

lemma call_erase_answered:
  assumes "sessionid_cbfunc_map k j = Some f" and "same_kv k0 k"
  obtains t where "call_erase_map j key k = (Inr (), t)" and "answered f key k0 t" and "k_db t = k_db k"
    and "cl_sessionid t = cl_sessionid k0"
  by (rule that [of "k\<lparr>sessionid_cbfunc_map := (sessionid_cbfunc_map k)(j := None), k_calls := k_calls k @ [(f, key)]\<rparr>"])
    (use assms in \<open>auto simp: call_erase_map_def called_def act_defs answered_def same_kv_def\<close>)

lemma keep_answered:
  assumes L: "leveldb_ok (kv_leveldb E)" and f: "sessionid_cbfunc_map k (session_key kind) = Some f"
  obtains t where "keep_and_call E key kind sp k = (Inr (), t)" and "holds E t = (holds E k)(key \<mapsto> buffer_data sp)"
    and "answered f key k t" and "cl_sessionid t = cl_sessionid k"
proof -
  obtain r where r: "put E key (buffer_data sp) k = (Inr True, r)" "holds E r = (holds E k)(key \<mapsto> buffer_data sp)" "same_kv k r"
    by (rule put_ok [OF L])
  have "sessionid_cbfunc_map r (session_key kind) = Some f" using f same_kv_sel [OF r(3)] by simp
  then obtain t where t: "call_erase_map (session_key kind) key r = (Inr (), t)" "answered f key k t" "k_db t = k_db r"
      "cl_sessionid t = cl_sessionid k" by (rule call_erase_answered [OF _ r(3)])
  show ?thesis
    by (rule that [OF _ _ t(2,4)]) (use r t holds_db [OF t(3)] in \<open>simp_all add: keep_and_call_def act_defs\<close>)
qed

lemma login_answered:
  assumes L: "leveldb_ok (kv_leveldb E)" and f: "sessionid_cbfunc_map k (session_key regist_login_connect) = Some f"
    and res: "LoginRes_isSuccess (parse_LoginRes (kv_codec E) (buffer_data sp))"
    and u: "LoginRes_userID (parse_LoginRes (kv_codec E) (buffer_data sp)) = u"
  obtains t where "loginRes E sp k = (Inr (), t)"
    and "holds E t = (holds E k)(loginKey \<mapsto> buffer_data sp, ''current_user'' \<mapsto> string_bytes u)"
    and "answered f loginKey k t" and "cl_sessionid t = cl_sessionid k"
proof -
  obtain r where r: "put E loginKey (buffer_data sp) k = (Inr True, r)" "holds E r = (holds E k)(loginKey \<mapsto> buffer_data sp)" "same_kv k r"
    by (rule put_ok [OF L])
  obtain q where q: "put E ''current_user'' (string_bytes u) r = (Inr True, q)"
      "holds E q = (holds E r)(''current_user'' \<mapsto> string_bytes u)" "same_kv r q" by (rule put_ok [OF L])
  have k: "same_kv k q" using r(3) q(3) by (auto simp: same_kv_def)
  have "sessionid_cbfunc_map q (session_key regist_login_connect) = Some f" using f same_kv_sel [OF k] by simp
  then obtain t where t: "call_erase_map (session_key regist_login_connect) loginKey q = (Inr (), t)" "answered f loginKey k t"
      "k_db t = k_db q" "cl_sessionid t = cl_sessionid k" by (rule call_erase_answered [OF _ k])
  show ?thesis
    by (rule that [OF _ _ t(2,4)])
      (use r q t holds_db [OF t(3)] res u in \<open>simp_all add: loginRes_def set_current_userid_def act_defs Let_def\<close>)
qed

text \<open>The bookkeeping of a run in which nothing has failed.\<close>

definition between :: "block list \<Rightarrow> block list list \<Rightarrow> driver_cb list \<Rightarrow> ('d, driver_cb, unit, 'c) kvdb \<Rightarrow> ('d, 'c) driver \<Rightarrow> bool" where
  "between bs secs fs k s \<longleftrightarrow> dr_main s = Running bs \<and> dr_sections s = secs \<and> dr_done s = fs \<and> dr_kvdb s = k
     \<and> dr_iswait s \<and> dr_failed s = 0 \<and> dr_dead s = None"

lemma next_section:
  assumes "between [] (sec # secs) fs k s"
  obtains t where "driver_step V comes s t" and "between sec secs fs k t"
proof (rule that)
  show "driver_step V comes s (s\<lparr>dr_main := Running sec, dr_sections := secs, dr_value := [], dr_noti := AddFriendNoti_new\<rparr>)"
    by (rule driver_main_step) (use assms in \<open>simp_all add: between_def main_moves_def\<close>)
qed (use assms in \<open>simp add: between_def\<close>)

lemma block_round:
  assumes s: "between (b # bs) secs fs k s" and b: "block_waits b" and c: "comes sp"
    and start: "block_start V b s = (Inr (), s\<lparr>dr_kvdb := k1\<rparr>)"
    and frame: "handled V sp k1 = (Inr (), k2)" "k_calls k2 = k_calls k1 @ [(f, key)]"
    and ok: "\<And>u. dr_kvdb u = k2 \<Longrightarrow> called_back V (f, key) u = (Inr (), u\<lparr>dr_iswait := False\<rparr>)"
  shows "\<exists>t. rtranclp (driver_step V comes) s t \<and> between bs secs (fs @ [f]) k2 t"
proof -
  let ?w = "s\<lparr>dr_kvdb := k1, dr_main := Waiting b bs\<rparr>"
  let ?n = "?w\<lparr>dr_kvdb := k2, dr_iswait := False, dr_done := fs @ [f]\<rparr>"
  let ?t = "?n\<lparr>dr_iswait := True, dr_main := Running bs, dr_frame := False, dr_passed := dr_passed s @ [b]\<rparr>"
  have 1: "driver_step V comes s ?w"
    by (rule driver_main_step) (use s b start in \<open>simp_all add: between_def main_moves_def\<close>)
  have "net_frame V sp ?w = (Inr (), ?n)"
    using frame s by (simp add: net_frame_handled run_callback_def act_defs ok between_def)
  then have "net_moves V sp ?w = ?n" by (simp add: net_moves_eq)
  then have 2: "driver_step V comes ?w ?n"
    using driver_net_step [of ?w comes sp V] c s by (simp add: between_def)
  have 3: "driver_step V comes ?n ?t"
    by (rule driver_main_step) (use s in \<open>simp_all add: between_def main_moves_def mainwait_def\<close>)
  have "rtranclp (driver_step V comes) s ?t" using 1 2 3 by (meson rtranclp.rtrancl_into_rtrancl rtranclp.rtrancl_refl)
  moreover have "between bs secs (fs @ [f]) k2 ?t" using s by (simp add: between_def)
  ultimately show ?thesis by blast
qed

lemma handled_plain:
  assumes t: "map_of (map_p (dv_kv V) (\<lambda>_ _. True) (media_entries (dv_kv V) (dv_proto V)) sp) (b_data_type sp) = Some h"
    and h: "h (k\<lparr>cl_buffer_sp := sp, cl_sessionid := (if b_data_type sp = chat_code CT_clientconnectres then b_session_id sp else cl_sessionid k)\<rparr>)
      = (Inr (), u)"
  shows "handled V sp k = (Inr (), u\<lparr>cl_buffer_sp := buffer_ctor (cl_raw u) MT_message\<rparr>)"
  using h unfolding handled_eq kvdb_dispatch_def t option.case by (cases k) (simp add: act_defs split: if_splits)

lemma current_user_known: "holds E k ''current_user'' = Some (string_bytes u) \<Longrightarrow> get_current_userid E k = (Inr u, k)"
  by (simp add: get_current_userid_def act_bind_def get_holds ret_def)

text \<open>A block that is answered: what it leaves in the client, \<open>n\<close> being the number of the next request.\<close>

definition asked :: "'d kv_env \<Rightarrow> chat_msg \<Rightarrow> string \<Rightarrow> u16 \<Rightarrow> ('d, driver_cb, unit, 'c) kvdb \<Rightarrow> ('d, driver_cb, unit, 'c) kvdb \<Rightarrow> bool" where
  "asked E any u n k k' \<longleftrightarrow> (\<exists>b. numbered (kv_final E) (cl_sessionid k) (kv_Buffer E any) b \<and> cl_bufs k' = cl_bufs k @ [b])
     \<and> cl_buffers_p k' = cl_buffers_p k @ [length (cl_bufs k)] \<and> cl_sessionid k' = n
     \<and> holds E k' ''current_user'' = Some (string_bytes u)"

definition login_message :: "user_config \<Rightarrow> chat_msg" where
  "login_message c = M_Login (Login_new\<lparr>Login_phoneNo := phoneno c, Login_countryCode := countrycode c, Login_password := password c,
     Login_device := \<lparr>Device_OS = os_number c, Device_deviceModel = devicemodel c, Device_deviceNickname = [], Device_UUID = config_uuid c\<rparr>\<rparr>)"

definition connect_message :: "user_config \<Rightarrow> string \<Rightarrow> chat_msg" where
  "connect_message c u = M_ClientConnect (ClientConnect_new\<lparr>ClientConnect_userID := u, ClientConnect_UUID := config_uuid c,
     ClientConnect_isReciveNoti := True, ClientConnect_OSVersion := osversion c, ClientConnect_clientVersion := KVDBVersion,
     ClientConnect_appVersion := appversion c\<rparr>)"

definition disconnect_message :: "user_config \<Rightarrow> string \<Rightarrow> chat_msg" where
  "disconnect_message c u = M_ClientDisConnect (ClientDisConnect_new\<lparr>ClientDisConnect_userID := u, ClientDisConnect_UUID := config_uuid c\<rparr>)"

lemma login_round:
  fixes V :: "('d, 'i) driver_env" and k :: "('d, driver_cb, unit, 'c) kvdb"
  assumes L: "leveldb_ok (kv_leveldb (dv_kv V))" and B: "big_buffers (dv_kv V)"
    and s: "between (Loginblock # bs) secs fs k s" and c: "comes sp" and t: "b_data_type sp = chat_code CT_loginres"
    and res: "parse_LoginRes (kv_codec (dv_kv V)) (buffer_data sp) = res" "LoginRes_isSuccess res" "LoginRes_userID res = u"
  obtains t k' where "rtranclp (driver_step V comes) s t" and "between bs secs (fs @ [Logged_in True]) k' t"
    and "asked (dv_kv V) (login_message (dv_config V)) u (cl_sessionid k + 1) k k'"
proof -
  let ?E = "dv_kv V"
  obtain b k1 where k1: "put_then_send ?E regist_login_connect (Logged_in True) (login_message (dv_config V)) k = (Inr (), k1)"
      "numbered (kv_final ?E) (cl_sessionid k) (kv_Buffer ?E (login_message (dv_config V))) b" "cl_bufs k1 = cl_bufs k @ [b]"
      "cl_buffers_p k1 = cl_buffers_p k @ [length (cl_bufs k)]" "cl_sessionid k1 = cl_sessionid k + 1" "k_db k1 = k_db k"
      "k_calls k1 = k_calls k" "sessionid_cbfunc_map k1 = (sessionid_cbfunc_map k)(session_key regist_login_connect \<mapsto> Logged_in True)"
    by (rule put_then_send_ok [OF B])
  have start: "block_start V Loginblock s = (Inr (), s\<lparr>dr_kvdb := k1\<rparr>)"
    using k1(1) s by (simp add: loginblock_def kvdb_login_def on_kvdb_def login_message_def between_def Let_def)
  let ?k = "k1\<lparr>cl_buffer_sp := sp, cl_sessionid := cl_sessionid k1\<rparr>"
  have f: "sessionid_cbfunc_map ?k (session_key regist_login_connect) = Some (Logged_in True)" using k1(8) by simp
  obtain k2 where k2: "loginRes ?E sp ?k = (Inr (), k2)"
      "holds ?E k2 = (holds ?E ?k)(loginKey \<mapsto> buffer_data sp, ''current_user'' \<mapsto> string_bytes u)"
      "answered (Logged_in True) loginKey ?k k2" "cl_sessionid k2 = cl_sessionid ?k"
    by (rule login_answered [OF L f]) (use res in auto)
  let ?k2 = "k2\<lparr>cl_buffer_sp := buffer_ctor (cl_raw k2) MT_message\<rparr>"
  have h: "handled V sp k1 = (Inr (), ?k2)"
    by (rule handled_plain [of V sp "loginRes ?E sp"]) (use t k2(1) in \<open>simp_all add: map_p_def\<close>)
  have hk: "holds ?E ?k2 = holds ?E k2" by (simp add: holds_fun)
  have key: "holds ?E ?k2 loginKey = Some (buffer_data sp)" "holds ?E ?k2 ''current_user'' = Some (string_bytes u)"
    using k2(2) hk by (simp_all add: loginKey_def)
  have "\<exists>t. rtranclp (driver_step V comes) s t \<and> between bs secs (fs @ [Logged_in True]) ?k2 t"
  proof (rule block_round [where V = V and b = Loginblock and comes = comes and sp = sp and ?k1.0 = k1 and key = loginKey])
    show "called_back V (Logged_in True, loginKey) v = (Inr (), v\<lparr>dr_iswait := False\<rparr>)" if "dr_kvdb v = ?k2" for v :: "('d, 'c) driver"
      using key(1) res that by (simp add: called_defs act_defs)
  qed (use s c start h k2(3) in \<open>simp_all add: answered_def\<close>)
  moreover have "asked ?E (login_message (dv_config V)) u (cl_sessionid k + 1) k ?k2"
    using k1(2-5) k2(3,4) key(2) by (auto simp: asked_def answered_def)
  ultimately show ?thesis using that by blast
qed

text \<open>A block whose answer is kept as it came.\<close>

lemma kept_round:
  fixes V :: "('d, 'i) driver_env" and k :: "('d, driver_cb, unit, 'c) kvdb"
  defines "n \<equiv> \<lambda>sp (k :: ('d, driver_cb, unit, 'c) kvdb). if b_data_type sp = chat_code CT_clientconnectres then b_session_id sp else cl_sessionid k + 1"
  assumes L: "leveldb_ok (kv_leveldb (dv_kv V))" and B: "big_buffers (dv_kv V)"
    and s: "between (b # bs) secs fs k s" and b: "block_waits b" and c: "comes sp"
    and u: "holds (dv_kv V) k ''current_user'' = Some (string_bytes u)"
    and block: "block_start V b s = on_kvdb (put_then_send (dv_kv V) kind f any) s"
    and t: "map_of (map_p (dv_kv V) (\<lambda>_ _. True) (media_entries (dv_kv V) (dv_proto V)) sp
        :: (u8 \<times> ('d, driver_cb, unit, 'c, unit) kv) list) (b_data_type sp)
      = Some (keep_and_call (dv_kv V) key kind sp)" and key: "key \<noteq> ''current_user''"
    and ok: "\<And>v :: ('d, 'c) driver. holds (dv_kv V) (dr_kvdb v) key = Some (buffer_data sp) \<Longrightarrow>
      called_back V (f, key) v = (Inr (), v\<lparr>dr_iswait := False\<rparr>)"
  shows "\<exists>t k'. rtranclp (driver_step V comes) s t \<and> between bs secs (fs @ [f]) k' t \<and> asked (dv_kv V) any u (n sp k) k k'"
proof -
  let ?E = "dv_kv V"
  obtain b0 k1 where k1: "put_then_send ?E kind f any k = (Inr (), k1)"
      "numbered (kv_final ?E) (cl_sessionid k) (kv_Buffer ?E any) b0" "cl_bufs k1 = cl_bufs k @ [b0]"
      "cl_buffers_p k1 = cl_buffers_p k @ [length (cl_bufs k)]" "cl_sessionid k1 = cl_sessionid k + 1" "k_db k1 = k_db k"
      "k_calls k1 = k_calls k" "sessionid_cbfunc_map k1 = (sessionid_cbfunc_map k)(session_key kind \<mapsto> f)"
    by (rule put_then_send_ok [OF B])
  have start: "block_start V b s = (Inr (), s\<lparr>dr_kvdb := k1\<rparr>)" using k1(1) s block by (simp add: on_kvdb_def between_def)
  let ?k = "k1\<lparr>cl_buffer_sp := sp, cl_sessionid := (if b_data_type sp = chat_code CT_clientconnectres then b_session_id sp else cl_sessionid k1)\<rparr>"
  have f: "sessionid_cbfunc_map ?k (session_key kind) = Some f" using k1(8) by simp
  obtain k2 where k2: "keep_and_call ?E key kind sp ?k = (Inr (), k2)" "holds ?E k2 = (holds ?E ?k)(key \<mapsto> buffer_data sp)"
      "answered f key ?k k2" "cl_sessionid k2 = cl_sessionid ?k"
    by (rule keep_answered [OF L f])
  let ?k2 = "k2\<lparr>cl_buffer_sp := buffer_ctor (cl_raw k2) MT_message\<rparr>"
  have h: "handled V sp k1 = (Inr (), ?k2)" by (rule handled_plain [OF t k2(1)])
  have hk: "holds ?E ?k2 = holds ?E k2" "holds ?E ?k = holds ?E k" using k1(6) by (simp_all add: holds_fun)
  have key: "holds ?E ?k2 key = Some (buffer_data sp)" "holds ?E ?k2 ''current_user'' = Some (string_bytes u)"
    using k2(2) hk u key by simp_all
  have "\<exists>t. rtranclp (driver_step V comes) s t \<and> between bs secs (fs @ [f]) ?k2 t"
  proof (rule block_round [where V = V and b = b and comes = comes and sp = sp and ?k1.0 = k1 and key = key])
    show "called_back V (f, key) v = (Inr (), v\<lparr>dr_iswait := False\<rparr>)" if "dr_kvdb v = ?k2" for v :: "('d, 'c) driver"
      using key(1) that by (intro ok) simp
  qed (use s b c start h k2(3) in \<open>simp_all add: answered_def\<close>)
  moreover have "asked ?E any u (n sp k) k ?k2"
    using k1(2-5) k2(3,4) key(2) by (auto simp: asked_def answered_def n_def)
  ultimately show ?thesis by blast
qed

lemma connect_round:
  fixes V :: "('d, 'i) driver_env" and k :: "('d, driver_cb, unit, 'c) kvdb"
  assumes L: "leveldb_ok (kv_leveldb (dv_kv V))" and B: "big_buffers (dv_kv V)"
    and s: "between (Connectblock # bs) secs fs k s" and c: "comes sp" and t: "b_data_type sp = chat_code CT_clientconnectres"
    and res: "ClientConnectRes_isSuccess (dv_ClientConnectRes V (buffer_data sp))"
    and u: "holds (dv_kv V) k ''current_user'' = Some (string_bytes u)"
  obtains t k' where "rtranclp (driver_step V comes) s t" and "between bs secs (fs @ [Connected]) k' t"
    and "asked (dv_kv V) (connect_message (dv_config V) u) u (b_session_id sp) k k'"
proof -
  have blk: "block_start V Connectblock s = on_kvdb (put_then_send (dv_kv V) regist_login_connect Connected (connect_message (dv_config V) u)) s"
    using s current_user_known [OF u]
    by (cases s) (simp add: connectblock_def kvdb_connect_def on_kvdb_def connect_message_def between_def Let_def act_bind_def)
  have "\<exists>t k'. rtranclp (driver_step V comes) s t \<and> between bs secs (fs @ [Connected]) k' t
     \<and> asked (dv_kv V) (connect_message (dv_config V) u) u (if b_data_type sp = chat_code CT_clientconnectres then b_session_id sp else cl_sessionid k + 1) k k'"
    by (rule kept_round [where kind = regist_login_connect and key = connectKey and comes = comes and b = Connectblock, OF L B s _ c u blk])
      (use t res in \<open>simp_all add: map_p_def connectRes_def called_defs act_defs connectKey_def\<close>)
  then show ?thesis using that t by auto
qed

lemma disconnect_round:
  fixes V :: "('d, 'i) driver_env" and k :: "('d, driver_cb, unit, 'c) kvdb"
  assumes L: "leveldb_ok (kv_leveldb (dv_kv V))" and B: "big_buffers (dv_kv V)"
    and s: "between (Disconnectblock # bs) secs fs k s" and c: "comes sp" and t: "b_data_type sp = chat_code CT_clientdisconnectres"
    and u: "holds (dv_kv V) k ''current_user'' = Some (string_bytes u)"
  obtains t k' where "rtranclp (driver_step V comes) s t" and "between bs secs (fs @ [Disconnected]) k' t"
    and "asked (dv_kv V) (disconnect_message (dv_config V) u) u (cl_sessionid k + 1) k k'"
proof -
  have blk: "block_start V Disconnectblock s = on_kvdb (put_then_send (dv_kv V) logout_disconnect_id Disconnected (disconnect_message (dv_config V) u)) s"
    using s current_user_known [OF u]
    by (cases s) (simp add: disconnectblock_def kvdb_disconnect_def on_kvdb_def disconnect_message_def between_def Let_def act_bind_def)
  have "\<exists>t k'. rtranclp (driver_step V comes) s t \<and> between bs secs (fs @ [Disconnected]) k' t
     \<and> asked (dv_kv V) (disconnect_message (dv_config V) u) u (if b_data_type sp = chat_code CT_clientconnectres then b_session_id sp else cl_sessionid k + 1) k k'"
    by (rule kept_round [where kind = logout_disconnect_id and key = disconnectKey and comes = comes and b = Disconnectblock, OF L B s _ c u blk])
      (use t in \<open>simp_all add: map_p_def disconnectRes_def called_defs act_defs disconnectKey_def\<close>)
  then show ?thesis using that t by auto
qed




section \<open>An answer that comes too early\<close>

lemma other_number_ignored:
  assumes "only (Some (uint sid, f)) (dr_kvdb s)" and "b_session_id sp \<noteq> sid"
  shows "only (Some (uint sid, f)) (dr_kvdb (net_moves V sp s)) \<and> dr_iswait (net_moves V sp s) = dr_iswait s"
proof -
  have "uint sid \<notin> call_keys sp" using assms(2) by (auto simp: call_keys_def word_uint_eq_iff dest: arg_cong [of _ _ "\<lambda>i. 0 \<le> i"])
  then obtain r k where "net_frame V sp s = (r, s\<lparr>dr_kvdb := k\<rparr>)" "only (Some (uint sid, f)) k"
    using net_frame_calls [OF assms(1) once_number, where V = V and sp = sp] by auto
  then show ?thesis by (cases r) (auto simp: net_moves_eq)
qed

lemma other_numbers_ignored:
  assumes "only (Some (uint sid, f)) (dr_kvdb s)" and "\<forall>b \<in> set sps. b_session_id b \<noteq> sid"
  shows "dr_iswait (fold (net_moves V) sps s) = dr_iswait s"
  using assms
proof (induction sps arbitrary: s)
  case (Cons sp sps)
  then show ?case using other_number_ignored [of sid f s sp V] by simp
qed simp



section \<open>Answers that are not expected\<close>

text \<open>A failed expectation in a callback does not fail the test: the exception leaves the client's thread and
  ends the process.\<close>

lemma failed_expectation_ends:
  assumes "handled V sp (dr_kvdb s) = (Inr (), k)" and "k_calls k = k_calls (dr_kvdb s) @ [(Logged_in True, key)]"
    and "holds (dv_kv V) k key = Some v" and "\<not> LoginRes_isSuccess (parse_LoginRes (kv_codec (dv_kv V)) v)"
  shows "dr_dead (net_moves V sp s) = Some (Logic_error ''TestFailureException'') \<and> \<not> driver_step V comes (net_moves V sp s) t"
  using assms by (auto simp: net_moves_eq net_frame_handled run_callback_def called_defs act_defs elim: driver_stepE)

text \<open>The callback of \<open>userinfonotiblock\<close> stays registered when the block has returned, and refers to its variables.\<close>

lemma late_noti_undefined:
  assumes L: "leveldb_ok (kv_leveldb (dv_kv V))" and f: "sessionid_cbfunc_map (dr_kvdb s) (session_key user_noti) = Some Noti_waited"
    and fr: "\<not> dr_frame s" and t: "b_data_type sp = chat_code CT_loginnoti"
  shows "dr_dead (net_moves V sp s) = Some Undefined"
proof -
  let ?k = "(dr_kvdb s)\<lparr>cl_buffer_sp := sp, cl_sessionid := cl_sessionid (dr_kvdb s)\<rparr>"
  obtain r where r: "put (dv_kv V) loginNotiKey (buffer_data sp) ?k = (Inr True, r)" "same_kv ?k r" by (rule put_ok [OF L])
  let ?r = "r\<lparr>k_calls := k_calls r @ [(Noti_waited, loginNotiKey)]\<rparr>"
  have "usernoti (dv_kv V) sp ?k = (Inr (), ?r)"
    using r(1) same_kv_sel [OF r(2)] f t by (simp add: usernoti_def kv_call_map_def called_def act_defs Let_def)
  then have "handled V sp (dr_kvdb s) = (Inr (), ?r\<lparr>cl_buffer_sp := buffer_ctor (cl_raw ?r) MT_message\<rparr>)"
    by (intro handled_plain [of V sp "usernoti (dv_kv V) sp"]) (simp_all add: map_p_def t)
  moreover have "k_calls ?r = k_calls (dr_kvdb s) @ [(Noti_waited, loginNotiKey)]" using same_kv_sel [OF r(2)] by simp
  ultimately show ?thesis using fr by (simp add: net_moves_eq net_frame_handled run_callback_def noti_called_def act_defs)
qed

text \<open>The server answers a refused register, login or connect with an \<open>Error\<close>, whose number is not the key these
  requests wait under: the main thread is never woken.\<close>

lemma error_leaves_waiting:
  fixes V :: "('d, 'i) driver_env" and s :: "('d, 'c) driver"
  assumes o: "only (Some (session_key kind, f)) (dr_kvdb s)" and kind: "kind \<in> {regist_login_connect, logout_disconnect_id}"
    and t: "b_data_type sp = chat_code CT_error"
  shows "dr_iswait (net_moves V sp s) = dr_iswait s \<and> only (Some (session_key kind, f)) (dr_kvdb (net_moves V sp s))"
proof -
  let ?T = "Some (session_key kind, f)" and ?k = "(dr_kvdb s)\<lparr>cl_buffer_sp := sp\<rparr>"
  have neg: "session_key kind \<noteq> uint (b_session_id sp)" using kind by (auto dest: arg_cong [of _ _ "\<lambda>i. 0 \<le> i"])
  have "answers_once {uint (b_session_id sp)} ?T (kvdb_error (dv_kv V) sp)"
    unfolding kvdb_error_def answer_call_def Let_def by (intro once_intros callless_intros) simp
  moreover have "only ?T ?k" using o by (simp add: only_def)
  ultimately have oc: "outcome {uint (b_session_id sp)} ?T ?k (kvdb_error (dv_kv V) sp ?k)"
    unfolding answers_once_def by blast
  obtain r k where k: "kvdb_error (dv_kv V) sp ?k = (r, k)" by (cases "kvdb_error (dv_kv V) sp ?k")
  then have ok: "k_calls k = k_calls (dr_kvdb s)" "only ?T k" using oc neg by (auto simp: outcome_def)
  have m: "map_of (map_p (dv_kv V) (\<lambda>_ _. True) (media_entries (dv_kv V) (dv_proto V)) sp :: (u8 \<times> ('d, driver_cb, unit, 'c, unit) kv) list)
      (b_data_type sp) = Some (kvdb_error (dv_kv V) sp)" by (simp add: map_p_def t)
  show ?thesis
  proof (cases r)
    case (Inl e)
    have "handled V sp (dr_kvdb s) = (Inl e, k)"
      unfolding handled_eq kvdb_dispatch_def m option.case using k Inl t by (simp add: act_defs)
    then show ?thesis using ok(2) by (simp add: net_moves_eq net_frame_handled)
  next
    case (Inr a)
    have "handled V sp (dr_kvdb s) = (Inr (), k\<lparr>cl_buffer_sp := buffer_ctor (cl_raw k) MT_message\<rparr>)"
      unfolding handled_eq kvdb_dispatch_def m option.case using k Inr t by (simp add: act_defs)
    then show ?thesis using ok by (simp add: net_moves_eq net_frame_handled act_defs only_def)
  qed
qed

end
