(* ===== verification/RoundTrip.thy ===== *)
theory RoundTrip
  imports EndToEnd
begin

text \<open>
  A request and its answer: what the handler of an admitted request sends back is queued, written to the
  connection of the request, delivered to the network client in pieces, and handed to the callback the
  client registered with the request (\<open>yijian/server_msg_typemap.cxx\<close>, \<open>yijian/libev_server.cxx\<close>,
  \<open>yijian/lib_client.cxx\<close>, \<open>yijian/net_yi.cxx\<close>).
\<close>

section \<open>The client reads\<close>

primrec client_read_events :: "nat \<Rightarrow> (buffer \<Rightarrow> ('c, 'z, unit) lk) \<Rightarrow> 'c ssl_reader \<Rightarrow> ('c, 'z, unit) lk" where
  "client_read_events 0 read_cb R = ret ()"
| "client_read_events (Suc n) read_cb R = act_seq (client_read_callback read_cb R) (client_read_events n read_cb R)"

lemma client_read_more:
  "socket_read R (cl_buffer_sp c, cl_conn c) = (Inr False, (b, e)) \<Longrightarrow>
   client_read_callback read_cb R c = (Inr (), c\<lparr>cl_buffer_sp := b, cl_conn := e\<rparr>)"
  by (simp add: client_read_callback_def rethrow_def catch_system_error_def on_read_buffer_def act_defs)

lemma client_read_last:
  "socket_read R (cl_buffer_sp c, cl_conn c) = (Inr True, (b, e)) \<Longrightarrow>
   frame_arrived read_cb (c\<lparr>cl_buffer_sp := b, cl_conn := e\<rparr>) = (Inr (), c') \<Longrightarrow> client_read_callback read_cb R c = (Inr (), c')"
  by (simp add: client_read_callback_def rethrow_def catch_system_error_def on_read_buffer_def act_defs)

lemma client_events_frame:
  assumes "reads (Suc n) R (cl_buffer_sp c, cl_conn c) = (Inr (replicate n False @ [True]), (b, e))"
    and "frame_arrived read_cb (c\<lparr>cl_buffer_sp := b, cl_conn := e\<rparr>) = (Inr (), c')"
  shows "client_read_events (Suc n) read_cb R c = (Inr (), c')"
  using assms
proof (induction n arbitrary: c)
  case 0
  obtain r1 b1 c1 rs' where 1: "socket_read R (cl_buffer_sp c, cl_conn c) = (Inr r1, (b1, c1))"
      "reads 0 R (b1, c1) = (Inr rs', (b, e))" "[True] = r1 # rs'"
    using reads_Suc_more [of 0 R "cl_buffer_sp c" "cl_conn c" "[True]" "(b, e)"] 0 by (auto simp del: reads.simps)
  then have "socket_read R (cl_buffer_sp c, cl_conn c) = (Inr True, (b, e))" by (simp add: ret_def)
  from client_read_last [OF this 0(2)] show ?case by (simp add: act_defs)
next
  case (Suc n)
  obtain r1 b1 c1 rs' where 1: "socket_read R (cl_buffer_sp c, cl_conn c) = (Inr r1, (b1, c1))"
      "reads (Suc n) R (b1, c1) = (Inr rs', (b, e))" "replicate (Suc n) False @ [True] = r1 # rs'"
    using reads_Suc_more [OF Suc.prems(1)] by (metis (no_types))
  then have rs: "r1 = False" "rs' = replicate n False @ [True]" by simp_all
  let ?c = "c\<lparr>cl_buffer_sp := b1, cl_conn := c1\<rparr>"
  have "client_read_events (Suc n) read_cb R ?c = (Inr (), c')"
    by (rule Suc.IH) (use 1(2) rs(2) Suc.prems(2) in \<open>simp_all del: reads.simps\<close>)
  then show ?case using client_read_more [of R c b1 c1 read_cb] 1(1) rs(1) by (simp add: act_seq_def act_bind_def)
qed

text \<open>A frame with the number of a request reaches the callback of that request.\<close>

lemma client_reply_received:
  fixes c :: "('f, 'd) client"
  assumes b: "fresh (cl_buffer_sp c)" "b_buffer_type (cl_buffer_sp c) = MT_message"
    and len: "2 \<le> length data" "length data \<le> 1019" and sid: "sid \<le> MaxSessionID"
    and check: "drop_bit 7 (frame_bytes sid True type data ! 4) = 0"
    and h: "fst (R (cl_conn c) 5) = Ssl_data (take 5 (frame_bytes sid True type data))"
    and cs: "cs \<noteq> []" "concat cs = drop 5 (frame_bytes sid True type data)" "[] \<notin> set cs"
    and d: "delivers R (snd (R (cl_conn c) 5)) (length (frame_bytes sid True type data) - 5) cs"
    and f: "cl_map c (uint sid) = Some f" and t: "\<not> special_answer type" and be: "behave f type data = ([], stop)"
  shows "\<exists>c'. client_read_events (length cs) (net_callback final behave) R c = (Inr (), c')
     \<and> cl_calls c' = cl_calls c @ [(f, type, data)] \<and> cl_map c' = (cl_map c)(uint sid := (if stop then None else Some f))
     \<and> fresh (cl_buffer_sp c')"
proof -
  obtain n where n: "length cs = Suc n" using cs(1) by (cases cs) auto
  obtain b' e' where r: "reads (length cs) R (cl_buffer_sp c, cl_conn c)
      = (Inr (replicate (length cs - 1) False @ [True]), (b', e'))"
    and b': "buffer_data b' = data" "b_data_type b' = type" "b_session_id b' = sid"
    using frame_received_lemma [OF b len sid check h cs d] by blast
  let ?c = "c\<lparr>cl_buffer_sp := b', cl_conn := e'\<rparr>"
  have key: "answer_key (cl_buffer_sp ?c) = uint sid" using answer_key_session [of b'] t b'(2,3) by simp
  have "frame_arrived (net_callback final behave) ?c = (Inr (), ?c\<lparr>cl_buffer_sp := buffer_ctor (cl_raw ?c) MT_message,
     cl_calls := cl_calls c @ [(f, type, data)], cl_map := (if stop then (cl_map c)(uint sid := None) else cl_map c)\<rparr>)"
    using frame_called [of ?c f behave stop final] key f be b' special_connect [OF t] by simp
  from client_events_frame [OF r [unfolded n, simplified diff_Suc_1] this] n f show ?thesis
    by (auto simp: buffer_ctor_fresh fun_upd_idem)
qed

section \<open>The server answers\<close>

lemma chunks_short: "length d \<le> 1019 \<Longrightarrow> chunks d = [d]"
  by (auto simp: chunks_def chunk_loop.simps [of d] Let_def)

text \<open>An answer of one frame: it is queued behind nothing, and the next write event sends it.\<close>

lemma reply_written:
  fixes s :: "('db, 'c) world"
  assumes i: "srv_inv s" and c: "currentNode s = Some node" and len: "length (ser K ans) \<le> 1019"
    and n: "pingable node s" "node < length (conns s)"
    and w: "w = r_writeio (rios s ! node)" "w_readio (wios s ! w) = node" "w_buffers_p (wios s ! w) = []"
    and W: "\<forall>e. \<exists>e'. W e (frame_bytes (session_id s) True (type_byte ans) (ser K ans))
      = (Ssl_written (length (frame_bytes (session_id s) True (type_byte ans) (ser K ans))), e')"
  obtains t u where "send_self K ans s = (Inr (), t)" and "pingnodes t = pingnodes s @ [node]"
    and "connection_write_callback W w (t\<lparr>currentNode := None\<rparr>) = (Inr (), u)" and "w_buffers_p (wios u ! w) = []"
proof -
  let ?fr = "frame_bytes (session_id s) True (type_byte ans) (ser K ans)" and ?p = "length (bufs s)"
  have wl: "w < length (wios s)" using i c n(1) w(1) by (auto simp: srv_inv_def pingable_def)
  obtain bs where bs: "frames_of (session_id s) (type_byte ans) (ser K ans) bs"
      "send_self K ans s = (Inr (), s\<lparr>bufs := bufs s @ bs,
         wios := change w (\<lambda>x. x\<lparr>w_buffers_p := w_buffers_p x @ [?p ..< ?p + length bs]\<rparr>) (wios s), pingnodes := pingnodes s @ [node]\<rparr>)"
    using send_self_exec [OF i c, of ans K] w(1) by auto
  obtain b where b: "bs = [b]" "holds_frame b (session_id s) True (type_byte ans) (ser K ans)"
    using bs(1) unfolding frames_of_def chunks_short [OF len] by (cases bs) auto
  let ?t = "s\<lparr>bufs := bufs s @ bs,
         wios := change w (\<lambda>x. x\<lparr>w_buffers_p := w_buffers_p x @ [?p ..< ?p + length bs]\<rparr>) (wios s), pingnodes := pingnodes s @ [node]\<rparr>"
  let ?t' = "?t\<lparr>currentNode := None\<rparr>"
  have t: "w_buffers_p (wios ?t' ! w) = [?p]" "w_readio (wios ?t' ! w) = node" "w < length (wios ?t')"
      "bufs ?t' ! ?p = b" "?p < length (bufs ?t')" "conns ?t' = conns s"
    using wl w(2,3) b(1) by (simp_all add: change_def)
  have p: "pingable (w_readio (wios ?t' ! w)) ?t'" unfolding t(2) using n(1) by (simp add: pingable_def)
  obtain e' where e': "W (conns ?t' ! w_readio (wios ?t' ! w)) ?fr = (Ssl_written (length ?fr), e')" using W by blast
  have h: "holds_frame (bufs ?t' ! ?p) (session_id s) True (type_byte ans) (ser K ans)" unfolding t(4) by (rule b(2))
  have cn: "w_readio (wios ?t' ! w) < length (conns ?t')" unfolding t(2,6) by (rule n(2))
  obtain u where u: "connection_write_callback W w ?t' = (Inr (), u)" "wios u = change w (\<lambda>x. x\<lparr>w_buffers_p := []\<rparr>) (wios ?t')"
    using write_callback_whole [where s = ?t' and w = w and W = W and c' = e', OF p t(3,1,5) cn h len e'] by blast
  have "w_buffers_p (wios u ! w) = []" using u(2) t(3) by (simp add: change_def)
  then show ?thesis using that bs(2) u(1) by simp
qed

text \<open>The handler \<open>h\<close> of a request of type \<open>type\<close> answers with \<open>ans\<close>: it does to the database what it does, and sends
  that one message back to the connection of the request.\<close>

definition answers_with :: "codec \<Rightarrow> 'db mongo \<Rightarrow> ('db, 'c, unit) srv \<Rightarrow> u8 \<Rightarrow> read_io \<Rightarrow> 'db \<Rightarrow> ptr \<Rightarrow> u16 \<Rightarrow> chat_msg \<Rightarrow> bool" where
  "answers_with K M h type io db node sid ans \<longleftrightarrow> (\<exists>d d'.
     (if missing_check8 type then updateSessionID M (r_uuid io) (r_userid io) sid db = (Inr (), d) else d = db)
     \<and> (\<forall>t. currentNode t = Some node \<and> session_id t = sid \<and> wdb t = d \<longrightarrow> h t = send_self K ans (t\<lparr>wdb := d'\<rparr>)))"

lemma read_events_keep: "keeps p [] (read_events n R shared p)"
  by (induction n) (auto intro: keeps_simple keeps_seq keeps_connection_read)

lemma request_job_answer:
  fixes s :: "('db, 'c) world"
  assumes a: "answers_with K M (handle K M any :: ('db, 'c, unit) srv) (type_byte any) (rios s ! node) (wdb s) node sid ans" and n: "node < length (rios s)"
  shows "\<exists>d'. request_job K M node sid any s
    = act_seq (send_self K ans) (modify (\<lambda>s. s\<lparr>currentNode := None\<rparr>)) (s\<lparr>currentNode := Some node, session_id := sid, wdb := d'\<rparr>)"
proof -
  obtain d d' where d: "if missing_check8 (type_byte any)
      then updateSessionID M (r_uuid (rios s ! node)) (r_userid (rios s ! node)) sid (wdb s) = (Inr (), d) else d = wdb s"
    and h: "\<And>t :: ('db, 'c) world. currentNode t = Some node \<and> session_id t = sid \<and> wdb t = d \<Longrightarrow> handle K M any t = send_self K ans (t\<lparr>wdb := d'\<rparr>)"
    using a unfolding answers_with_def by blast
  let ?t = "s\<lparr>currentNode := Some node, session_id := sid, wdb := d\<rparr>"
  have "handle K M any ?t = send_self K ans (?t\<lparr>wdb := d'\<rparr>)" by (rule h) simp
  then have "request_job K M node sid any s
    = act_seq (send_self K ans) (modify (\<lambda>s. s\<lparr>currentNode := None\<rparr>)) (s\<lparr>currentNode := Some node, session_id := sid, wdb := d'\<rparr>)"
    using d n by (cases "missing_check8 (type_byte any)")
      (auto simp: request_job_def act_defs fetch_def liftdb_def zoom_def split: prod.splits sum.splits)
  then show ?thesis by blast
qed

section \<open>There and back\<close>



end
