(* ===== verification/Connected.thy ===== *)
theory Connected
  imports Lifecycle
begin

text \<open>
  The flag \<open>isConnect\<close> of a connection (\<open>yijian/libev_server.h\<close>, \<open>yijian/libev_server.cxx\<close>): which steps of the
  server change it.
\<close>

section \<open>Actions and the flag\<close>

text \<open>Between two states no flag is reset, and only those of the connections in \<open>A\<close> are set.\<close>

definition flags_between :: "ptr set \<Rightarrow> ('db, 'c) world \<Rightarrow> ('db, 'c) world \<Rightarrow> bool" where
  "flags_between A s t \<longleftrightarrow> length (rios s) \<le> length (rios t)
     \<and> (\<forall>p < length (rios s). (r_isConnect (rios s ! p) \<longrightarrow> r_isConnect (rios t ! p))
          \<and> (r_isConnect (rios t ! p) \<longrightarrow> r_isConnect (rios s ! p) \<or> p \<in> A))"

definition flags :: "ptr set \<Rightarrow> ('db, 'c, 'a) srv \<Rightarrow> bool" where
  "flags A m \<longleftrightarrow> (\<forall>s. flags_between A s (snd (m s)))"

lemma flags_between_same: "rios t = rios s \<Longrightarrow> flags_between A s t"
  by (simp add: flags_between_def)

lemma flags_between_trans:
  assumes "flags_between A s t" and "flags_between A t u"
  shows "flags_between A s u"
  using assms unfolding flags_between_def by (meson less_le_trans order_trans)

lemma flags_between_map:
  assumes "map r_isConnect (rios t) = map r_isConnect (rios s)"
  shows "flags_between A s t"
proof -
  have "length (rios t) = length (rios s)" using assms by (rule map_eq_imp_length_eq)
  with map_nth_eq [OF assms] show ?thesis by (simp add: flags_between_def)
qed

lemma flagsD: "flags A m \<Longrightarrow> m s = (r, t) \<Longrightarrow> flags_between A s t"
  unfolding flags_def by (metis snd_conv)

named_theorems flags_intros "actions that reset no flag"

lemma flags_bind [flags_intros]:
  assumes "flags A m" and "\<And>a. flags A (f a)"
  shows "flags A (act_bind m f)"
proof (unfold flags_def, rule allI)
  fix s :: "('a, 'b) world"
  obtain r t where m: "m s = (r, t)" by (cases "m s")
  show "flags_between A s (snd (act_bind m f s))"
  proof (cases r)
    case (Inl e)
    then show ?thesis using flagsD [OF assms(1) m] m by (simp add: act_bind_def)
  next
    case (Inr a)
    obtain r' u where "f a t = (r', u)" by (cases "f a t")
    then show ?thesis
      using flags_between_trans [OF flagsD [OF assms(1) m] flagsD [OF assms(2)]] m Inr by (simp add: act_bind_def)
  qed
qed

lemma flags_seq [flags_intros]: "flags A m \<Longrightarrow> flags A k \<Longrightarrow> flags A (act_seq m k)"
  by (simp add: act_seq_def flags_bind)

lemma flags_simple [flags_intros]: "flags A (ret a)" "flags A (raise e)" "flags A (gets f)" "flags A (fetch sel q)"
  by (auto simp: flags_def act_defs fetch_def intro: flags_between_same)

lemma flags_if [flags_intros]: "flags A m \<Longrightarrow> flags A k \<Longrightarrow> flags A (if b then m else k)"
  by simp

lemma flags_case [flags_intros]:
  "(\<And>a b. flags A (f a b)) \<Longrightarrow> flags A (case x of (a, b) \<Rightarrow> f a b)"
  "flags A m \<Longrightarrow> (\<And>y. flags A (g y)) \<Longrightarrow> flags A (case z of None \<Rightarrow> m | Some y \<Rightarrow> g y)"
  by (simp_all split: prod.split option.split)

lemma flags_catch [flags_intros]:
  assumes "flags A m" and "\<And>e. flags A (h e)"
  shows "flags A (catch_system_error m h)"
  unfolding flags_def
proof (rule allI)
  fix s :: "('a, 'b) world"
  obtain r t where m: "m s = (r, t)" by (cases "m s")
  note t = flagsD [OF assms(1) m]
  have "flags_between A s (snd (h e t))" for e
    using flags_between_trans [OF t flagsD [OF assms(2), of e t]] by (cases "h e t") auto
  then show "flags_between A s (snd (catch_system_error m h s))"
    using m t by (auto simp: catch_system_error_def split: sum.split)
qed

lemma flags_foreach [flags_intros]: "(\<And>x. flags A (f x)) \<Longrightarrow> flags A (foreach xs f)"
  by (induction xs) (auto intro: flags_intros)

lemma flags_modify: "(\<And>s. rios (f s) = rios s) \<Longrightarrow> flags A (modify f)"
  by (auto simp: flags_def act_defs intro: flags_between_same)

lemma flags_set_wio [flags_intros]: "flags A (set_wio w f)"
  unfolding set_wio_def by (rule flags_modify) simp

lemma flags_set_rio [flags_intros]: "(\<And>r. r_isConnect (f r) = r_isConnect r) \<Longrightarrow> flags A (set_rio q f)"
  by (auto simp: flags_def set_rio_def act_defs map_change intro!: flags_between_map)

lemma flags_connect: "q \<in> A \<Longrightarrow> flags A (set_rio q (\<lambda>io. io\<lparr>r_isConnect := True\<rparr>))"
  by (auto simp: flags_def flags_between_def set_rio_def act_defs change_def nth_list_update)

section \<open>The callbacks\<close>

lemma flags_lists [flags_intros]:
  "flags A (uuidnode_delete u)" "flags A (uuidnode_put u p)" "flags A (peer_unshare shared)"
  unfolding uuidnode_delete_def uuidnode_put_def peer_unshare_def by (rule flags_modify, simp)+

lemma flags_tables [flags_intros]:
  "flags A (ping_erase p)" "flags A (ping_append p)" "flags A (ping_move2back p)"
  "flags A (peer_servers_push shared p)" "flags A (peer_servers_erase shared p)"
  unfolding ping_move2back_def ping_erase_def ping_append_def peer_servers_push_def peer_servers_erase_def
  by (intro flags_intros flags_modify; simp)+

lemma flags_pingtime_loop: "flags A (pingtime_loop t l)"
  by (induction l) (auto intro!: flags_intros flags_modify)

lemma flags_on_socket [flags_intros]: "flags A (on_socket node q m)"
  by (auto simp: flags_def on_socket_def intro: flags_between_same split: prod.split)

lemma flags_deleteReadio [flags_intros]: "flags A (deleteReadio p)"
  unfolding deleteReadio_def by (intro flags_intros)

lemma flags_connection_read: "flags A (connection_read_callback R shared p)"
  unfolding connection_read_callback_def read_message_def Let_def close_node_def push_new_buffer_def finish_message_def
    take_sessionid_def
  by (intro flags_intros flags_modify; simp)

lemma flags_before_write:
  "(type = chat_code CT_clientconnectres \<longrightarrow> p \<in> A) \<Longrightarrow> flags A (before_write p type)"
  unfolding before_write_def
  by (cases "type = chat_code CT_clientconnectres") (simp_all only: if_True if_False simp_thms, (intro flags_connect flags_intros; assumption)+)

lemma flags_start_write: "flags A start_write_callback"
  unfolding start_write_callback_def by (intro flags_intros flags_modify; simp)

text \<open>Accepting adds a connection whose flag is not set.\<close>

lemma flags_accept: "flags A (socket_accept_callback fd raw_io c)"
proof -
  have "flags A (modify (\<lambda>s. s\<lparr>rios := rios s @ [r], wios := wios s @ [w], conns := conns s @ [c]\<rparr>))" for r w
    by (auto simp: flags_def act_defs flags_between_def nth_append)
  then show ?thesis unfolding socket_accept_callback_def by (intro flags_intros)
qed

text \<open>The buffer a write event would send next is an answer to a \<open>ClientConnect\<close>.\<close>

definition sends_connectres :: "ptr \<Rightarrow> ('db, 'c) world \<Rightarrow> bool" where
  "sends_connectres p s \<longleftrightarrow> (\<exists>w < length (wios s). w_active (wios s ! w) \<and> w_readio (wios s ! w) = p
     \<and> w_buffers_p (wios s ! w) \<noteq> [] \<and> b_data_type (bufs s ! hd (w_buffers_p (wios s ! w))) = chat_code CT_clientconnectres)"

lemma flags_connection_write:
  assumes w: "w < length (wios s)" "w_active (wios s ! w)" and A: "\<And>p. sends_connectres p s \<Longrightarrow> p \<in> A"
    and run: "connection_write_callback W w s = (r, t)"
  shows "flags_between A s t"
proof (cases "w_buffers_p (wios s ! w)")
  case Nil
  then have "t = wios_update (change w (\<lambda>x. x\<lparr>w_active := False\<rparr>)) s"
    using run w(1) by (simp add: connection_write_callback_def act_defs fetch_def set_wio_def Let_def)
  then show ?thesis by (simp add: flags_between_same)
next
  case (Cons q rest)
  let ?node = "w_readio (wios s ! w)"
  let ?rest = "catch_system_error (act_bind (on_socket ?node q (socket_write W)) (\<lambda>finished.
      if finished then set_wio w (\<lambda>x. x\<lparr>w_buffers_p := tl (w_buffers_p x)\<rparr>) else ret ())) (\<lambda>e. deleteReadio ?node)"
  have f: "flags A (act_seq (before_write ?node (b_data_type (bufs s ! q))) ?rest)"
  proof (intro flags_seq flags_before_write impI)
    assume "b_data_type (bufs s ! q) = chat_code CT_clientconnectres"
    then show "?node \<in> A" using w Cons by (intro A) (auto simp: sends_connectres_def)
  qed (intro flags_intros)
  show ?thesis
  proof (cases "q < length (bufs s)")
    case True
    then have "act_seq (before_write ?node (b_data_type (bufs s ! q))) ?rest s = (r, t)"
      using run w(1) Cons by (simp add: connection_write_callback_def act_bind_def fetch_def Let_def gets_def ret_def)
    then show ?thesis by (rule flagsD [OF f])
  next
    case False
    then have "t = s"
      using run w(1) Cons by (simp add: connection_write_callback_def act_defs fetch_def Let_def)
    then show ?thesis by (simp add: flags_between_same)
  qed
qed

section \<open>The steps\<close>

lemma flags_worker:
  assumes M: "mongo_ok M" and s: "sys_ok s" and run: "worker_step K M s = (Inr (), t)"
  shows "flags_between A s t"
proof (cases "workq s")
  case Nil
  then show ?thesis using run by (simp add: worker_step_def act_defs flags_between_same)
next
  case (Cons j jobs)
  obtain node v sid where j: "j = (node, v, sid)" by (cases j)
  let ?t = "s\<lparr>workq := jobs\<rparr>"
  have "world_ok ?t" "node < length (rios ?t)" "v \<noteq> []" "\<forall>p \<in> set v. p < length (bufs ?t)"
    using s Cons j by (simp_all add: sys_ok_def world_ok_def job_ok_def)
  from dispatch_contract_lemma [OF M this refl, of K sid] have "grows (length (bufs s)) (?t\<lparr>currentNode := None\<rparr>) t"
    using run Cons j by (simp add: worker_step_def wp_def act_defs)
  then have "map io_static (rios t) = map io_static (rios s)" by (simp add: grows_def)
  then have "map (\<lambda>(a, b, c, d, e, f). f) (map io_static (rios t)) = map (\<lambda>(a, b, c, d, e, f). f) (map io_static (rios s))"
    by (rule arg_cong)
  then show ?thesis by (intro flags_between_map) (simp add: io_static_def comp_def)
qed

lemma flags_step:
  assumes M: "mongo_ok M" and s: "sys_ok s" and step: "server_step K M R W s t"
  shows "flags_between {p. sends_connectres p s} s t"
  using step
proof cases
  case (step_accept fd raw_io c)
  show ?thesis by (rule flagsD [OF flags_accept step_accept])
next
  case (step_read p shared)
  show ?thesis by (rule flagsD [OF flags_connection_read step_read(5)])
next
  case (step_write w)
  show ?thesis by (rule flags_connection_write [OF step_write(1,3) _ step_write(4)]) simp
next
  case step_timer
  have "flags A pingtime_callback" for A :: "ptr set"
    unfolding pingtime_callback_def by (intro flags_intros flags_pingtime_loop)
  then show ?thesis using step_timer by (rule flagsD)
next
  case step_async
  show ?thesis by (rule flagsD [OF flags_start_write step_async])
next
  case step_worker
  show ?thesis by (rule flags_worker [OF M s step_worker])
next
  case (step_clock t')
  then show ?thesis by (simp add: flags_between_same)
qed

text \<open>C10: From every consistent state, and so from every reachable one: a connection, once it counts as connected, counts as connected in every later state, whatever is
  received, sent or answered, \<open>Logout\<close> and \<open>ClientDisConnect\<close> included; and it begins to count as connected only
  by a write event that finds an answer to a \<open>ClientConnect\<close> at the front of its own queue.\<close>

theorem connected_forever:
  assumes M: "mongo_ok M" and s: "sys_ok s" and run: "(server_step K M R W)\<^sup>*\<^sup>* s t" and p: "p < length (rios s)"
  shows "(r_isConnect (rios s ! p) \<longrightarrow> r_isConnect (rios t ! p))
    \<and> (\<not> r_isConnect (rios s ! p) \<and> r_isConnect (rios t ! p) \<longrightarrow>
        (\<exists>u. (server_step K M R W)\<^sup>*\<^sup>* s u \<and> (server_step K M R W)\<^sup>*\<^sup>* u t \<and> sends_connectres p u))"
proof -
  have "p < length (rios t) \<and> sys_ok t \<and> (r_isConnect (rios s ! p) \<longrightarrow> r_isConnect (rios t ! p))
    \<and> (\<not> r_isConnect (rios s ! p) \<and> r_isConnect (rios t ! p) \<longrightarrow>
        (\<exists>u. (server_step K M R W)\<^sup>*\<^sup>* s u \<and> (server_step K M R W)\<^sup>*\<^sup>* u t \<and> sends_connectres p u))"
    using run
  proof (induction rule: rtranclp_induct)
    case base
    then show ?case using s p by simp
  next
    case (step t v)
    from step.IH have t: "p < length (rios t)" "sys_ok t" by simp_all
    have f: "flags_between {p. sends_connectres p t} t v" by (rule flags_step [OF M t(2) step.hyps(2)])
    have v: "p < length (rios v)" "sys_ok v"
      using f t(1) server_step_sys_ok [OF M step.hyps(2) t(2)] by (auto simp: flags_between_def)
    have c: "r_isConnect (rios t ! p) \<longrightarrow> r_isConnect (rios v ! p)"
        "r_isConnect (rios v ! p) \<longrightarrow> r_isConnect (rios t ! p) \<or> sends_connectres p t"
      using f t(1) by (simp_all add: flags_between_def)
    have tv: "(server_step K M R W)\<^sup>*\<^sup>* t v" using step.hyps(2) by (rule r_into_rtranclp)
    show ?case
    proof (intro conjI impI)
      assume n: "\<not> r_isConnect (rios s ! p) \<and> r_isConnect (rios v ! p)"
      show "\<exists>u. (server_step K M R W)\<^sup>*\<^sup>* s u \<and> (server_step K M R W)\<^sup>*\<^sup>* u v \<and> sends_connectres p u"
      proof (cases "r_isConnect (rios t ! p)")
        case True
        then show ?thesis using step.IH n tv by (meson rtranclp_trans)
      next
        case False
        then show ?thesis using c(2) n tv step.hyps(1) by blast
      qed
    qed (use step.IH c(1) v in simp_all)
  qed
  then show ?thesis by simp
qed

definition leaving :: "buffer \<Rightarrow> (store, bytes list) world" where
  "leaving b = reconnected\<lparr>bufs := [b],
     rios := [some_io\<lparr>r_iter := Some 0, r_uuid := ''phone'', r_isConnect := True\<rparr>,
              some_io\<lparr>r_iter := Some 1, r_uuid := ''phone'', r_writeio := 1, r_ping_time := 100\<rparr>],
     wios := [\<lparr>w_readio = 0, w_buffers_p = [0], w_active = True\<rparr>, \<lparr>w_readio = 1, w_buffers_p = [], w_active = False\<rparr>]\<rparr>"

lemma connected_forever_witness:
  "\<exists>b t. b_data_type b = chat_code CT_clientdisconnectres \<and> server_step plain_codec memory script_reader log_writer (leaving b) t
     \<and> w_buffers_p (wios t ! 0) = [] \<and> r_isConnect (rios t ! 0)"
proof -
  have "length [9, 10 :: u8] \<le> 1019" by simp
  from Buffer_new_ok [OF this, of undefined "chat_code CT_clientdisconnectres"] obtain b0 b where
    b: "set_sessionid 0 True b0 = (Inr (), b)" "holds_frame b 0 True (chat_code CT_clientdisconnectres) [9, 10]" by blast
  have len: "length (b_mem b) = 1024" using b(2) by (simp add: holds_frame_def)
  have s: "sys_ok (leaving b)" "pingable 0 (leaving b)"
    using len by (auto simp: leaving_def sys_ok_def world_ok_def ping_ok_def pingable_def reconnected_def initial_def some_io_def)
  obtain t where t: "connection_write_callback log_writer 0 (leaving b) = (Inr (), t)"
      "wios t = change 0 (\<lambda>x. x\<lparr>w_buffers_p := []\<rparr>) (wios (leaving b))"
    using write_callback_whole [of "leaving b" 0 0 "[]" 0 True "chat_code CT_clientdisconnectres" "[9, 10]" log_writer] b(2) s(2)
    by (auto simp: leaving_def reconnected_def initial_def log_writer_def)
  have step: "server_step plain_codec memory script_reader log_writer (leaving b) t"
    by (rule step_write [OF _ _ _ t(1)]) (simp_all add: leaving_def reconnected_def initial_def alive_def)
  have "r_isConnect (rios t ! 0)"
    using connected_forever [OF memory_ok s(1) r_into_rtranclp, OF step, of 0] by (simp add: leaving_def reconnected_def initial_def)
  then show ?thesis using step t(2) b(2)
    by (intro exI [of _ b] exI [of _ t]) (simp add: holds_frame_def leaving_def change_def)
qed

end
