(* ===== verification/FirstMessage.thy ===== *)
theory FirstMessage
  imports Cache Store
begin

text \<open>
  Server and client do not agree on the first number of a node: the server counts the messages of a node
  from 0 (\<open>insertMessage\<close> in \<open>yijian/mongo.cxx\<close>), the client with a store takes 0 for a missing number
  (\<open>putMsg\<close> and \<open>getMsg\<close> in \<open>yijian/kvdb.cxx\<close>).
\<close>

lemma nodemessage_unnumbered:
  assumes "NodeMessage_incrementID (parse_NodeMessage (kv_codec E) (buffer_data sp)) = 0"
  shows "nodemessage E stops sp s = (Inl (sys_error 50002 ''msg miss tonodeid or incrementid''), s)"
  using assms by (simp add: nodemessage_def putMsg_def Let_def act_defs)



end
