(* ===== verification/MessageLog.thy ===== *)
theory MessageLog
  imports Store "HOL-Library.Multiset"
begin

text \<open>
  The messages of a node as a log: what \<open>insertMessage\<close> writes and \<open>queryMessage\<close> reads
  (\<open>yijian/mongo.cxx\<close>) is a list that only grows, read from its new end.
\<close>

section \<open>Filters\<close>

text \<open>What the server documents of the filters the program builds: equality, \<open>$gte\<close> and \<open>$lt\<close> on an
  element, and the conjunction \<open>$and\<close>.\<close>

definition compares :: "string \<Rightarrow> bson \<Rightarrow> bson option \<Rightarrow> bool" where
  "compares opr k v = (case (k, v) of
     (BInt32 k, Some (BInt32 i)) \<Rightarrow> (if opr = ''$gte'' then k \<le> i else if opr = ''$lt'' then i < k else False)
   | _ \<Rightarrow> False)"

definition clause :: "doc \<Rightarrow> string \<times> bson \<Rightarrow> bool" where
  "clause d c = (case snd c of
     BDoc ops \<Rightarrow> list_all (\<lambda>(opr, k). compares opr k (map_of d (fst c))) ops
   | v \<Rightarrow> map_of d (fst c) = Some v)"

definition selects :: "doc \<Rightarrow> doc \<Rightarrow> bool" where
  "selects flt d = list_all (\<lambda>(key, v).
     if key = ''$and'' then (case v of
        BArr bs \<Rightarrow> list_all (\<lambda>b. case b of BDoc cs \<Rightarrow> list_all (clause d) cs | _ \<Rightarrow> False) bs | _ \<Rightarrow> False)
     else clause d (key, v)) flt"

definition known_clause :: "string \<times> bson \<Rightarrow> bool" where
  "known_clause c = (case snd c of
     BStr _ \<Rightarrow> True
   | BDoc ops \<Rightarrow> list_all (\<lambda>(opr, k). (opr = ''$gte'' \<or> opr = ''$lt'') \<and> (case k of BInt32 _ \<Rightarrow> True | _ \<Rightarrow> False)) ops
   | _ \<Rightarrow> False)"

definition known_filter :: "doc \<Rightarrow> bool" where
  "known_filter flt = list_all (\<lambda>(key, v).
     if key = ''$and'' then (case v of
        BArr bs \<Rightarrow> list_all (\<lambda>b. case b of BDoc cs \<Rightarrow> list_all known_clause cs | _ \<Rightarrow> False) bs | _ \<Rightarrow> False)
     else known_clause (key, v)) flt"

definition number :: "string \<Rightarrow> doc \<Rightarrow> int" where
  "number key d = (case map_of d key of Some (BInt32 i) \<Rightarrow> i | _ \<Rightarrow> 0)"

text \<open>
  The collection \<open>nodeMessage\<close> as a multiset of documents and the counter of a node: the counter is a 32-bit
  integer, a find by a known filter returns the matching documents in the order asked for.
\<close>

definition log_db :: "'db mongo \<Rightarrow> string \<Rightarrow> ('db \<Rightarrow> int option) \<Rightarrow> ('db \<Rightarrow> doc multiset) \<Rightarrow> bool" where
  "log_db M node cnt coll \<longleftrightarrow>
     (\<forall>s n. cnt s = Some n \<and> n < 2147483647 \<longrightarrow> (\<exists>view s'. db_find_one_and_update M ''messageNodeCount''
         [(''nodeID'', BStr node)] [(''$inc'', BDoc [(''count'', BInt32 1)])] s = (Inr (Some view), s')
        \<and> map_of view ''count'' = Some (BInt32 n) \<and> cnt s' = Some (n + 1) \<and> coll s' = coll s))
     \<and> (\<forall>d s. \<exists>key s'. db_insert_one M ''nodeMessage'' d s = (Inr key, s') \<and> cnt s' = cnt s
        \<and> coll s' = add_mset ((''_id'', BOid key) # d) (coll s))
     \<and> (\<forall>flt key s. known_filter flt \<longrightarrow> (\<exists>docs. db_find M ''nodeMessage'' flt [(key, BInt32 (- 1))] s = (Inr (docs, None), s)
        \<and> mset docs = filter_mset (selects flt) (coll s) \<and> sorted_wrt (\<ge>) (map (number key) docs)))"

lemma log_dbD:
  assumes "log_db M node cnt coll"
  shows "cnt s = Some n \<Longrightarrow> n < 2147483647 \<Longrightarrow> \<exists>view s'. db_find_one_and_update M ''messageNodeCount''
         [(''nodeID'', BStr node)] [(''$inc'', BDoc [(''count'', BInt32 1)])] s = (Inr (Some view), s')
        \<and> map_of view ''count'' = Some (BInt32 n) \<and> cnt s' = Some (n + 1) \<and> coll s' = coll s"
    and "\<exists>key s'. db_insert_one M ''nodeMessage'' d s = (Inr key, s') \<and> cnt s' = cnt s
        \<and> coll s' = add_mset ((''_id'', BOid key) # d) (coll s)"
    and "known_filter flt \<Longrightarrow> \<exists>docs. db_find M ''nodeMessage'' flt [(key, BInt32 (- 1))] s = (Inr (docs, None), s)
        \<and> mset docs = filter_mset (selects flt) (coll s) \<and> sorted_wrt (\<ge>) (map (number key) docs)"
  using assms unfolding log_db_def by blast+

section \<open>The log\<close>

definition entry :: "NodeMessage \<Rightarrow> NodeMessageRes \<Rightarrow> doc" where
  "entry m r = (''_id'', BOid (NodeMessageRes_id r)) # message_document m (NodeMessageRes_incrementID r)"

definition of_node :: "string \<Rightarrow> doc \<Rightarrow> bool" where
  "of_node node d \<longleftrightarrow> map_of d ''toNodeID'' = Some (BStr node)"

text \<open>\<open>ms\<close> are the messages the database holds of \<open>node\<close>, in the order they came, \<open>rs\<close> the answers they got.\<close>

definition logged ::
  "'db mongo \<Rightarrow> string \<Rightarrow> ('db \<Rightarrow> int option) \<Rightarrow> ('db \<Rightarrow> doc multiset) \<Rightarrow> 'db \<Rightarrow> NodeMessage list \<Rightarrow> NodeMessageRes list \<Rightarrow> bool" where
  "logged M node cnt coll s ms rs \<longleftrightarrow> cnt s = Some (int (length ms)) \<and> length rs = length ms
     \<and> (\<forall>m \<in> set ms. NodeMessage_toNodeID m = node)
     \<and> (\<forall>i < length rs. NodeMessageRes_incrementID (rs ! i) = int i \<and> NodeMessageRes_timestamp (rs ! i) = oid_time M (NodeMessageRes_id (rs ! i)))
     \<and> filter_mset (of_node node) (coll s) = mset (map2 entry ms rs)"

lemma entry_fields [simp]:
  "map_of (entry m r) ''toNodeID'' = Some (BStr (NodeMessage_toNodeID m))"
  "map_of (entry m r) ''incrementID'' = Some (BInt32 (NodeMessageRes_incrementID r))"
  "number ''incrementID'' (entry m r) = NodeMessageRes_incrementID r"
  "of_node node (entry m r) \<longleftrightarrow> NodeMessage_toNodeID m = node"
  by (simp_all add: entry_def message_document_def number_def of_node_def)

lemma insert_logged:
  assumes D: "log_db M node cnt coll" and l: "logged M node cnt coll s ms rs"
    and m: "NodeMessage_toNodeID m = node" and n: "length ms < 2147483647"
  obtains r s' where "insertMessage M m s = (Inr r, s')" and "logged M node cnt coll s' (ms @ [m]) (rs @ [r])"
proof -
  have "cnt s = Some (int (length ms))" using l by (simp add: logged_def)
  from log_dbD(1) [OF D this] n obtain view t where t: "db_find_one_and_update M ''messageNodeCount''
      [(''nodeID'', BStr node)] [(''$inc'', BDoc [(''count'', BInt32 1)])] s = (Inr (Some view), t)"
      "map_of view ''count'' = Some (BInt32 (int (length ms)))" "cnt t = Some (int (length ms) + 1)" "coll t = coll s"
    by auto
  obtain key s' where k: "db_insert_one M ''nodeMessage'' (message_document m (int (length ms))) t = (Inr key, s')" "cnt s' = cnt t"
      "coll s' = add_mset ((''_id'', BOid key) # message_document m (int (length ms))) (coll t)"
    using log_dbD(2) [OF D] by blast
  let ?r = "NodeMessageRes_new\<lparr>NodeMessageRes_id := key, NodeMessageRes_incrementID := int (length ms), NodeMessageRes_timestamp := oid_time M key\<rparr>"
  have i: "insertMessage M m s = (Inr ?r, s')"
    using t(1,2) k(1) unfolding m [symmetric]
    by (simp add: insertMessage_def rethrow_def catch_system_error_def act_defs field_defs get_int32_def)
  have "coll s' = add_mset (entry m ?r) (coll s)" using k(3) t(4) by (simp add: entry_def)
  then have "logged M node cnt coll s' (ms @ [m]) (rs @ [?r])"
    using l m k(2) t(3) by (auto simp: logged_def nth_append less_Suc_eq)
  with i show thesis by (rule that)
qed

lemma inserts_logged:
  assumes D: "log_db M node cnt coll" and "logged M node cnt coll s ms rs"
    and "\<forall>m \<in> set new. NodeMessage_toNodeID m = node" and "length ms + length new \<le> 2147483647"
  shows "\<exists>new_rs s'. insertMessages M new s = (Inr new_rs, s') \<and> logged M node cnt coll s' (ms @ new) (rs @ new_rs)"
  using assms(2-4)
proof (induction new arbitrary: s ms rs)
  case Nil
  then show ?case by (auto simp: act_defs)
next
  case (Cons m new)
  obtain r t where t: "insertMessage M m s = (Inr r, t)" "logged M node cnt coll t (ms @ [m]) (rs @ [r])"
    using insert_logged [OF D Cons.prems(1), of m] Cons.prems(2,3) by auto
  obtain new_rs s' where "insertMessages M new t = (Inr new_rs, s')" "logged M node cnt coll s' ((ms @ [m]) @ new) ((rs @ [r]) @ new_rs)"
    using Cons.IH [OF t(2)] Cons.prems(2,3) by auto
  then show ?case using t(1) by (auto simp: act_defs)
qed

section \<open>Reading it\<close>

lemma descending_unique:
  fixes f :: "'a \<Rightarrow> int"
  assumes m: "mset xs = mset ys" and x: "sorted_wrt (\<ge>) (map f xs)" and y: "sorted_wrt (>) (map f ys)"
  shows "xs = ys"
proof -
  have "sorted_wrt (<) (rev (map f ys))" using y by (simp add: sorted_wrt_rev)
  then have d: "distinct (map f ys)" "sorted (rev (map f ys))" unfolding strict_sorted_iff by simp_all
  have s: "set xs = set ys" using m by (rule mset_eq_setD)
  have i: "inj_on f (set ys)" using d(1) by (simp add: distinct_map)
  have "mset (map f xs) = mset (map f ys)" using m by simp
  then have dx: "distinct (map f xs)" using mset_eq_imp_distinct_iff d(1) by blast
  have "sorted (rev (map f xs))" using x by (simp add: sorted_wrt_rev)
  then have "rev (map f xs) = rev (map f ys)"
    using d dx s by (intro sorted_distinct_set_unique) simp_all
  then have "map f xs = map f ys" by simp
  then show ?thesis using i s by (simp add: inj_on_map_eq_map)
qed

definition in_range :: "QueryMessage \<Rightarrow> nat \<Rightarrow> bool" where
  "in_range query i \<longleftrightarrow> QueryMessage_fromIncrementID query \<le> int i
     \<and> (QueryMessage_toIncrementID query = 0 \<or> int i < QueryMessage_toIncrementID query)"

text \<open>A message as it is read back: the receiver is not stored.\<close>

definition read_back :: "NodeMessage \<Rightarrow> NodeMessageRes \<Rightarrow> NodeMessage" where
  "read_back m r = m\<lparr>NodeMessage_id := NodeMessageRes_id r, NodeMessage_toUserID_outer := [],
     NodeMessage_incrementID := NodeMessageRes_incrementID r, NodeMessage_timestamp := NodeMessageRes_timestamp r\<rparr>"

lemma entry_read:
  assumes "NodeMessageRes_timestamp r = oid_time M (NodeMessageRes_id r)"
  shows "nodemessageDocument M (entry m r) = Inr (read_back m r)"
  using assms by (cases m) (simp add: entry_def message_document_read read_back_def NodeMessage_new_def)

lemma map_res_map: "(\<And>x. x \<in> set xs \<Longrightarrow> f (e x) = Inr (g x)) \<Longrightarrow> map_res f (map e xs) = Inr (map g xs)"
  by (induction xs) simp_all

lemma query_logged:
  assumes D: "log_db M node cnt coll" and l: "logged M node cnt coll s ms rs" and q: "QueryMessage_toNodeID query = node"
  shows "queryMessage M query s
    = (Inr (rev (map (\<lambda>i. read_back (ms ! i) (rs ! i)) (filter (in_range query) [0 ..< length ms]))), s)"
proof -
  let ?from = "QueryMessage_fromIncrementID query" and ?to = "QueryMessage_toIncrementID query"
  define flt where "flt = (''toNodeID'', BStr node) # (if ?to = 0 then [(''incrementID'', BDoc [(''$gte'', BInt32 ?from)])]
      else [(''$and'', BArr [BDoc [(''incrementID'', BDoc [(''$gte'', BInt32 ?from)])], BDoc [(''incrementID'', BDoc [(''$lt'', BInt32 ?to)])]])])"
  let ?is = "filter (in_range query) [0 ..< length ms]"
  let ?e = "\<lambda>i. entry (ms ! i) (rs ! i)"
  have rs: "length rs = length ms" "\<And>i. i < length ms \<Longrightarrow> NodeMessageRes_incrementID (rs ! i) = int i"
      "\<And>i. i < length ms \<Longrightarrow> NodeMessageRes_timestamp (rs ! i) = oid_time M (NodeMessageRes_id (rs ! i))"
    and of: "filter_mset (of_node node) (coll s) = mset (map2 entry ms rs)" using l by (simp_all add: logged_def)
  have "known_filter flt" by (simp add: flt_def known_filter_def known_clause_def)
  from log_dbD(3) [OF D this] obtain docs where
    docs: "db_find M ''nodeMessage'' flt [(''incrementID'', BInt32 (- 1))] s = (Inr (docs, None), s)"
      "mset docs = filter_mset (selects flt) (coll s)" "sorted_wrt (\<ge>) (map (number ''incrementID'') docs)" by blast
  have sel: "selects flt d \<longleftrightarrow> of_node node d \<and> (\<exists>i. map_of d ''incrementID'' = Some (BInt32 i) \<and> ?from \<le> i \<and> (?to = 0 \<or> i < ?to))" for d
    by (auto simp: flt_def selects_def clause_def compares_def of_node_def split: option.splits bson.splits)
  have e: "selects flt (?e i) \<longleftrightarrow> in_range query i" if "i < length ms" for i
    using that l rs(2) [OF that] by (simp add: sel in_range_def logged_def)
  have "filter_mset (selects flt) (coll s) = filter_mset (selects flt) (filter_mset (of_node node) (coll s))"
    by (auto simp: filter_filter_mset sel intro!: filter_mset_cong)
  also have "\<dots> = mset (filter (selects flt) (map ?e [0 ..< length ms]))"
    using rs(1) by (simp add: of map2_map_map [symmetric] mset_filter) (metis (no_types, lifting) map2_map_map map_nth)
  also have "filter (selects flt) (map ?e [0 ..< length ms]) = map ?e ?is"
    by (auto simp: filter_map comp_def e intro!: arg_cong [of _ _ "map _"] filter_cong)
  finally have "mset docs = mset (rev (map ?e ?is))" using docs(2) by simp
  moreover have "map (number ''incrementID'') (map ?e ?is) = map int ?is" using rs(2) by simp
  then have "sorted_wrt (>) (map (number ''incrementID'') (rev (map ?e ?is)))"
    by (simp add: rev_map [symmetric] sorted_wrt_rev sorted_wrt_map sorted_wrt_filter del: map_map)
  ultimately have "docs = rev (map ?e ?is)" using docs(3) by (intro descending_unique)
  moreover have "map_res (nodemessageDocument M) (map ?e (rev ?is)) = Inr (map (\<lambda>i. read_back (ms ! i) (rs ! i)) (rev ?is))"
    by (rule map_res_map) (simp add: entry_read rs(3))
  ultimately show ?thesis using docs(1) q
    by (simp add: flt_def queryMessage_def cursor_collect_def act_defs rev_map)
qed

section \<open>Log and queries\<close>

text \<open>C29: The messages of a node are a log. After any messages have been stored in a new node,
  \<open>queryMessage\<close> returns exactly those whose number, which is the position in the order of arrival, lies in the range it
  names, newest first, each with its sender, type and content and with the id and the time stamp of the answer
  its sender got; the end of the range is excluded, and an end of 0 means no end.\<close>

theorem messages_are_a_log:
  assumes D: "log_db M node cnt coll" and new: "cnt s = Some 0" "\<forall>d \<in># coll s. \<not> of_node node d"
    and ms: "\<forall>m \<in> set ms. NodeMessage_toNodeID m = node" "length ms \<le> 2147483647"
  shows "\<exists>rs s'. insertMessages M ms s = (Inr rs, s') \<and> length rs = length ms
     \<and> map NodeMessageRes_incrementID rs = map int [0 ..< length ms]
     \<and> (\<forall>query. QueryMessage_toNodeID query = node \<longrightarrow> queryMessage M query s'
        = (Inr (rev (map (\<lambda>i. read_back (ms ! i) (rs ! i)) (filter (in_range query) [0 ..< length ms]))), s'))"
proof -
  have "filter_mset (of_node node) (coll s) = {#}" using new(2) by (simp add: filter_mset_eq_conv)
  then have "logged M node cnt coll s [] []" using new(1) by (simp add: logged_def)
  from inserts_logged [OF D this ms(1)] ms(2) obtain rs s' where
    i: "insertMessages M ms s = (Inr rs, s')" "logged M node cnt coll s' ms rs" by auto
  have "map NodeMessageRes_incrementID rs = map int [0 ..< length ms]" "length rs = length ms"
    using i(2) by (auto simp: logged_def intro: nth_equalityI)
  with i(1) query_logged [OF D i(2)] show ?thesis by blast
qed

definition log_memory :: "store mongo" where
  "log_memory = memory\<lparr>db_find := \<lambda>c flt srt s.
     (Inr (rev (sort_key (number (fst (hd srt))) (filter (selects flt) (find_docs c [] s))), None), s)\<rparr>"

lemma log_memory_db: "log_db log_memory node (memory_count node) (\<lambda>s. mset (find_docs ''nodeMessage'' [] s))"
proof -
  have f: "db_find_one_and_update log_memory = db_find_one_and_update memory" "db_insert_one log_memory = db_insert_one memory"
      "db_find log_memory = (\<lambda>c flt srt s. (Inr (rev (sort_key (number (fst (hd srt))) (filter (selects flt) (find_docs c [] s))), None), s))"
    by (simp_all add: log_memory_def)
  have c: "counts memory node (memory_count node)" by (rule memory_counts)
  have u: "\<exists>view s'. db_find_one_and_update memory ''messageNodeCount'' [(''nodeID'', BStr node)] [(''$inc'', BDoc [(''count'', BInt32 1)])] s
        = (Inr (Some view), s') \<and> map_of view ''count'' = Some (BInt32 n) \<and> memory_count node s' = Some (n + 1)
        \<and> mset (find_docs ''nodeMessage'' [] s') = mset (find_docs ''nodeMessage'' [] s)"
    if n: "memory_count node s = Some n" for s n
  proof -
    obtain view s' where v: "db_find_one_and_update memory ''messageNodeCount'' [(''nodeID'', BStr node)] [(''$inc'', BDoc [(''count'', BInt32 1)])] s
        = (Inr (Some view), s')" "map_of view ''count'' = Some (BInt32 n)" "memory_count node s' = Some (n + 1)"
      using c n unfolding counts_def by blast
    have "find_docs ''nodeMessage'' [] s' = find_docs ''nodeMessage'' [] s" using v(1) by (auto simp: find_docs_update_other)
    with v show ?thesis by auto
  qed
  show ?thesis
    unfolding log_db_def f
  proof (intro conjI allI impI)
    show "\<exists>key s'. db_insert_one memory ''nodeMessage'' d s = (Inr key, s') \<and> memory_count node s' = memory_count node s
        \<and> mset (find_docs ''nodeMessage'' [] s') = add_mset ((''_id'', BOid key) # d) (mset (find_docs ''nodeMessage'' [] s))" for d s
      by (simp add: memory_count_def add_doc_def find_docs_Cons matches_def)
    show "\<exists>docs. (Inr (rev (sort_key (number (fst (hd [(key, BInt32 (- 1))]))) (filter (selects flt) (find_docs ''nodeMessage'' [] s))), None), s)
          = (Inr (docs, None), s) \<and> mset docs = filter_mset (selects flt) (mset (find_docs ''nodeMessage'' [] s))
        \<and> sorted_wrt (\<ge>) (map (number key) docs)" for flt key and s :: store
      by (simp add: rev_map [symmetric] sorted_wrt_rev)
  qed (use u in blast)
qed

lemma messages_are_a_log_witness:
  "\<exists>rs s'. insertMessages log_memory [NodeMessage_new\<lparr>NodeMessage_toNodeID := ''g'', NodeMessage_content := ''a''\<rparr>,
        NodeMessage_new\<lparr>NodeMessage_toNodeID := ''g'', NodeMessage_content := ''b''\<rparr>]
       [(''messageNodeCount'', [(''nodeID'', BStr ''g''), (''count'', BInt32 0)])] = (Inr rs, s')
     \<and> map NodeMessage_content (projr (fst (queryMessage log_memory (QueryMessage_new\<lparr>QueryMessage_toNodeID := ''g''\<rparr>) s'))) = [''b'', ''a'']
     \<and> map NodeMessage_content (projr (fst (queryMessage log_memory
           (QueryMessage_new\<lparr>QueryMessage_toNodeID := ''g'', QueryMessage_toIncrementID := 1\<rparr>) s'))) = [''a'']"
proof -
  let ?ms = "[NodeMessage_new\<lparr>NodeMessage_toNodeID := ''g'', NodeMessage_content := ''a''\<rparr>,
        NodeMessage_new\<lparr>NodeMessage_toNodeID := ''g'', NodeMessage_content := ''b''\<rparr>]"
  let ?s = "[(''messageNodeCount'', [(''nodeID'', BStr ''g''), (''count'', BInt32 0)])]"
  let ?q = "QueryMessage_new\<lparr>QueryMessage_toNodeID := ''g''\<rparr>"
  have c: "memory_count ''g'' ?s = Some 0" "\<forall>d \<in># mset (find_docs ''nodeMessage'' [] ?s). \<not> of_node ''g'' d"
    by (simp_all add: memory_count_def find_docs_def matches_def)
  have m: "\<forall>m \<in> set ?ms. NodeMessage_toNodeID m = ''g''" "length ?ms \<le> 2147483647" by simp_all
  obtain rs s' where r: "insertMessages log_memory ?ms ?s = (Inr rs, s')"
    "\<And>query. QueryMessage_toNodeID query = ''g'' \<Longrightarrow> queryMessage log_memory query s'
        = (Inr (rev (map (\<lambda>i. read_back (?ms ! i) (rs ! i)) (filter (in_range query) [0 ..< length ?ms]))), s')"
  proof (rule exE [OF messages_are_a_log [where M = log_memory and node = "''g''" and cnt = "memory_count ''g''" and s = ?s and ms = ?ms
      and coll = "\<lambda>s. mset (find_docs ''nodeMessage'' [] s)", OF log_memory_db c m]])
  qed (elim exE conjE, rule that, assumption, simp only: simp_thms)
  have "map NodeMessage_content (projr (fst (queryMessage log_memory ?q s'))) = [''b'', ''a'']"
    by (simp add: r(2) in_range_def QueryMessage_new_def read_back_def)
  moreover have "map NodeMessage_content (projr (fst (queryMessage log_memory (?q\<lparr>QueryMessage_toIncrementID := 1\<rparr>) s'))) = [''a'']"
    by (simp add: r(2) in_range_def QueryMessage_new_def read_back_def)
  ultimately show ?thesis using r(1) by (intro exI conjI)
qed

end
