(* ===== verification/Spec2Isabelle.thy ===== *)
theory Spec2Isabelle
  imports Prelude ChatTypes Buffer Framing Messages Bson Mongo MongoFacts ServerState Mount Delivery Handlers Dispatch Containment Queued Session EventLoop
    Invariants Wire Memory Store Service Lifecycle Receiving Threads Startup NetClient Pairing EndToEnd Intruder Kvdb Cache MediaStore
    AnswerOnce Drivers DriverRuns RoundTrip Connected FirstMessage MessageLog
begin

text \<open>
  Yijian is a chat server: clients keep a TLS connection to it and exchange frames that carry
  protobuf messages; a MongoDB database holds users, friends, groups and messages. This development
  models the server process, from the bytes of a connection to the database and back, and the two
  client libraries of the repository, and proves what makes their parts correct and where they are
  not. Paths are relative to \<open>src/\<close>.

  \<^bold>\<open>How the program works.\<close> \<open>yijian/libev_server.cxx\<close> runs an event loop. It accepts connections,
  reads frames into \<open>buffer\<close> objects (\<open>yijian/buffer_yi.cxx\<close>) and, when the last frame of a message is
  complete, gives the buffers and the session number it expects to the worker pool
  (\<open>yijian/threads_work.cxx\<close>). The worker runs \<open>dispatch\<close> (\<open>yijian/server_msg_typemap.cxx\<close>): it checks
  the session, parses the message and runs its handler, which calls \<open>mongo_client\<close>
  (\<open>yijian/mongo.cxx\<close>), cuts the answers into frames (\<open>yijian/buffer_yi_util.hpp\<close>) and mounts them on the
  write queues of the requesting device, of the user's other devices, of the devices of a node, or of
  the peer servers. It then notifies the loop, which writes the queues out. A ping list in the order
  of activity and a map from device uuids to connections tie it together.

  \<^bold>\<open>Theories and what they model.\<close>
  \<^item> \<open>Prelude\<close>: exceptions as values, the action type \<open>act\<close> (state passing with exceptions) and its
    weakest preconditions, byte blocks, decimal printing, and the locales \<open>transition_system\<close> and
    \<open>ranked_system\<close>.
  \<^item> \<open>ChatTypes\<close> (\<open>typemap.h\<close>, \<open>typemap.cxx\<close>) and \<open>Messages\<close> (\<open>protofiles/chat_message.proto\<close>,
    \<open>typemapre.h\<close>): type codes, the table of session checks, each message as a record.
  \<^item> \<open>Buffer\<close> and \<open>Framing\<close> (\<open>buffer_yi.cxx\<close>, \<open>buffer_yi_util.hpp\<close>): one record per \<open>buffer\<close>, pointers as
    offsets, lengths and session ids at their width; building, reading and writing a frame; cutting a
    message. \<open>Framing\<close> holds the locale \<open>length_codec\<close>, interpreted on the length field. \<open>Wire\<close> has
    their properties: round trips whatever the pieces the connection delivers, memory safety, and
    what happens to empty, oversized and shared frames.
  \<^item> \<open>Bson\<close>, \<open>Mongo\<close>, \<open>MongoFacts\<close>, \<open>Store\<close> (\<open>mongo.h\<close>, \<open>mongo.cxx\<close>): every member function of
    \<open>mongo_client\<close> as an action on the database behind the driver, with the documents it builds and
    reads; what is stored is read back, messages are numbered consecutively, and what is lost.
    \<open>MessageLog\<close>: the messages of a node refine a list that only grows.
  \<^item> \<open>ServerState\<close>, \<open>Mount\<close>, \<open>Handlers\<close>, \<open>Dispatch\<close>, \<open>EventLoop\<close>: the state of the process as one
    record \<open>world\<close> (objects held by \<open>shared_ptr\<close> live in lists indexed by their address), the tables
    of \<open>libev_server.cxx\<close>, mounting, the 26 handlers, the entry point, the callbacks of the loop, and
    the relation \<open>server_step\<close> whose runs are the interleavings of loop and worker.
  \<^item> \<open>Delivery\<close>, \<open>Containment\<close>, \<open>Queued\<close>, \<open>Session\<close>, \<open>Service\<close>: the contract \<open>runs\<close> of what handlers may
    do and its proof for each of them; exactly which frames a reply leaves; who gets past the session
    gate; what single requests disclose, refuse and never achieve.
  \<^item> \<open>Invariants\<close>, \<open>Lifecycle\<close>, \<open>Receiving\<close>: the invariant \<open>sys_ok\<close> of every reachable state (the
    interpretation \<open>server\<close> of \<open>transition_system\<close>), the exact effect of the ping timer, write queues,
    session numbers, reconnects and peer servers, and the way of a request from the wire to its
    handler.
  \<^item> \<open>Threads\<close> (\<open>threads_work.h\<close>, \<open>threads_work.cxx\<close>): the pool as a transition system of critical
    sections; no job is lost, \<open>sentWork\<close> never blocks for ever (interpretation \<open>workers\<close> of
    \<open>ranked_system\<close>), and a pool of one worker is the bounded queue that \<open>world\<close> has.
  \<^item> \<open>Startup\<close> (\<open>start_server_libev\<close> in \<open>libev_server.cxx\<close>, \<open>create_client\<close> and \<open>clear_client\<close> in
    \<open>lib_client.cxx\<close>): what the server's process looks like when its loop starts, and the protocol of
    connecting and destroying a client that has defined behaviour.
  \<^item> \<open>NetClient\<close> and \<open>Pairing\<close> (\<open>lib_client.cxx\<close>, \<open>net_yi.cxx\<close>): the network client, and client and
    server together: how long their session numbers agree and which callbacks are lost.
  \<^item> \<open>EndToEnd\<close>: client and server composed: the type byte of a message selects the handler of that
    type (\<open>handler_of\<close>, the overloads of \<open>dispatch\<close>), and a request that \<open>netyi\<close> sends reaches that
    handler as the message that was sent. \<open>Intruder\<close>: how a connection that never logged in passes the
    session gate, and what
    every session can read. \<open>Connected\<close>: which steps change the flag \<open>isConnect\<close> of a connection. \<open>RoundTrip\<close>: a request
    and its answer, from the call of \<open>netyi\<close> to the call of its callback.
  \<^item> \<open>Kvdb\<close> and \<open>Cache\<close> (\<open>kvdb.cxx\<close>): the client with a local store; the locale \<open>callback_table\<close> is
    interpreted on its two tables; keys, cached users, messages and errors. \<open>MediaStore\<close> has its media
    operations and the list of friend requests, which refines a map.
    \<open>AnswerOnce\<close> shows for the whole handler table that an answer calls one callback at most and leaves the others
    alone; \<open>FirstMessage\<close> puts the numbers of the server and of this client together.
  \<^item> \<open>Drivers\<close> and \<open>DriverRuns\<close> (\<open>user.h\<close>, \<open>user1.cxx\<close> to \<open>user4.cxx\<close>): the test drivers as main thread and client
    thread over that client: requests and waits match, a session runs to its end, an early answer is lost.
  \<^item> \<open>Memory\<close>: concrete parameters on which the properties are evaluated; it models no code.

  \<^bold>\<open>Parameters.\<close> Code that is not in the repository is an argument of the definitions: OpenSSL is a
  reader and a writer function on a connection (\<open>ssl_reader_ok\<close>: \<open>SSL_read\<close> returns at most what was
  asked for), the MongoDB driver is the record \<open>mongo\<close> (\<open>mongo_ok\<close>: it fails only by
  \<open>std::system_error\<close>), the protobuf runtime is the record \<open>codec\<close>, LevelDB the record \<open>leveldb\<close>
  (\<open>leveldb_ok\<close>). Indeterminate memory (new blocks, members without initialiser, destroyed strings)
  is an argument too, so every statement holds for whatever it contains. Undefined behaviour is the
  exception \<open>Undefined\<close>.

  \<^bold>\<open>Termination and fuel.\<close> The only fuel is that of the loop of \<open>socket_read\<close>; two turns are always
  enough, which is proved. All other loops are recursive functions with a termination proof. That the
  pool's waiting ends is a rank argument over the steps of the workers.

  \<^bold>\<open>Not modelled.\<close> The shutdown in \<open>pingtime_callback\<close> and \<open>connect_peer\<close>, which no code reaches; logging,
  generated protobuf code, and the stub programs \<open>server.cxx\<close>, \<open>client.cxx\<close> and \<open>main.cxx\<close>. Of the test
  framework only what \<open>REQUIRE\<close> and sections do to the two threads. Write concerns and read preferences of the driver.
  The message classes of an older
  protocol that \<open>kvdb.cxx\<close> still uses are the parameter \<open>old_proto\<close>. Mutexes appear as the atomicity of the
  steps they protect; data races on unprotected members are outside the model.
\<close>

section \<open>Frames\<close>



text \<open>C13: \<open>socket_read\<close> is memory safe on every connection that keeps the contract of \<open>SSL_read\<close>,
  whatever bytes the peer sends: from a buffer in its invariant it never touches a byte outside the
  block, every exception it throws is a \<open>std::system_error\<close>, and the invariant holds afterwards
  unless the exception is the oversize error 20000.\<close>

theorem socket_read_safe:
  assumes "ssl_reader_ok R" and "buf_inv (fst s)"
  shows "wp (socket_read R) (\<lambda>_ s'. buf_inv (fst s'))
     (\<lambda>e s'. is_system_error e \<and> (err_code e \<noteq> 20000 \<longrightarrow> buf_inv (fst s'))) s"
  by (rule socket_read_safe_lemma [OF assms])

lemma socket_read_safe_witness:
  "wp (socket_read script_reader) (\<lambda>_ s'. buf_inv (fst s'))
     (\<lambda>e s'. is_system_error e \<and> (err_code e \<noteq> 20000 \<longrightarrow> buf_inv (fst s')))
     (buffer_ctor undefined MT_message, [[255, 255, 3, 255, 255]])"
  by (rule socket_read_safe) (simp_all add: script_reader_ok fresh_buf_inv)

end
